(* ===== verification/Sdk_Prelude.thy ===== *)
theory Sdk_Prelude
  imports Complex_Main "HOL-Library.AList" "HOL-Library.Word"
begin

text \<open>
  Shared vocabulary of the development: the error sum and its sequencing operator, values
  that may be left out of a Python call (\<open>UNSET\<close> in \<open>_generated/types.py\<close>), insertion-ordered
  dictionaries as association lists, and the lemma collections the component theories add to.

  A Python computation that returns or raises is a value of a sum type: \<open>Inl\<close> carries the
  exception, \<open>Inr\<close> the result. \<open>ebind\<close> runs a computation and continues with its result,
  stopping at the first exception, as consecutive Python statements do.
\<close>

named_theorems wire_simps \<open>evaluation rules for reading and writing wire dictionaries\<close>
named_theorems wire_rules \<open>round-trip facts of the wire models\<close>
named_theorems step_simps \<open>evaluation rules for operations that pass the client state\<close>

subsection \<open>Errors as values\<close>

definition ebind :: "'e + 'a \<Rightarrow> ('a \<Rightarrow> 'e + 'b) \<Rightarrow> 'e + 'b" where
  "ebind m f = (case m of Inl e \<Rightarrow> Inl e | Inr x \<Rightarrow> f x)"

lemma ebind_simps [simp]:
  "ebind (Inl e) f = Inl e"
  "ebind (Inr x) f = f x"
  by (simp_all add: ebind_def)

lemma ebind_eq_Inr: "ebind m f = Inr y \<longleftrightarrow> (\<exists>x. m = Inr x \<and> f x = Inr y)"
  by (cases m) auto

lemma ebind_eq_Inl: "ebind m f = Inl e \<longleftrightarrow> m = Inl e \<or> (\<exists>x. m = Inr x \<and> f x = Inl e)"
  by (cases m) auto

lemma ebind_assoc: "ebind (ebind m f) g = ebind m (\<lambda>x. ebind (f x) g)"
  by (cases m) auto

lemma ebind_cong [fundef_cong]:
  "m = m' \<Longrightarrow> (\<And>x. m' = Inr x \<Longrightarrow> f x = f' x) \<Longrightarrow> ebind m f = ebind m' f'"
  by (cases m') auto

text \<open>\<open>emap\<close> is a loop that appends one converted element after the other to a list, and
  that an exception leaves.\<close>

fun emap :: "('a \<Rightarrow> 'e + 'b) \<Rightarrow> 'a list \<Rightarrow> 'e + 'b list" where
  "emap f [] = Inr []"
| "emap f (x # xs) = ebind (f x) (\<lambda>y. ebind (emap f xs) (\<lambda>ys. Inr (y # ys)))"

lemma emap_cong [fundef_cong]:
  "xs = ys \<Longrightarrow> (\<And>x. x \<in> set ys \<Longrightarrow> f x = g x) \<Longrightarrow> emap f xs = emap g ys"
  by (induction ys arbitrary: xs) (auto intro!: ebind_cong)

lemma emap_map: "emap f (map g xs) = emap (\<lambda>x. f (g x)) xs"
  by (induction xs) auto

lemma emap_all_Inr: "(\<And>x. x \<in> set xs \<Longrightarrow> f x = Inr (g x)) \<Longrightarrow> emap f xs = Inr (map g xs)"
  by (induction xs) auto

lemma emap_length: "emap f xs = Inr ys \<Longrightarrow> length ys = length xs"
  by (induction xs arbitrary: ys) (auto simp: ebind_eq_Inr)

text \<open>\<open>ecatch f m h\<close> is \<open>try: m except: h\<close>, for handlers that look at the exception.\<close>

definition ecatch :: "'e + 'a \<Rightarrow> ('e \<Rightarrow> 'f + 'a) \<Rightarrow> 'f + 'a" where
  "ecatch m h = (case m of Inl e \<Rightarrow> h e | Inr x \<Rightarrow> Inr x)"

lemma ecatch_simps [simp]:
  "ecatch (Inl e) h = h e"
  "ecatch (Inr x) h = Inr x"
  by (simp_all add: ecatch_def)

definition map_error :: "('e \<Rightarrow> 'f) \<Rightarrow> 'e + 'a \<Rightarrow> 'f + 'a" where
  "map_error g m = (case m of Inl e \<Rightarrow> Inl (g e) | Inr x \<Rightarrow> Inr x)"

lemma map_error_simps [simp]:
  "map_error g (Inl e) = Inl (g e)"
  "map_error g (Inr x) = Inr x"
  by (simp_all add: map_error_def)

lemma map_error_eq_Inr [simp]: "map_error g m = Inr x \<longleftrightarrow> m = Inr x"
  by (cases m) auto

subsection \<open>Arguments that may be left out\<close>

datatype 'a unset = UNSET | Given 'a

definition is_unset :: "'a unset \<Rightarrow> bool" where
  "is_unset x \<longleftrightarrow> x = UNSET"

fun map_given :: "('a \<Rightarrow> 'b) \<Rightarrow> 'a unset \<Rightarrow> 'b unset" where
  "map_given f UNSET = UNSET"
| "map_given f (Given x) = Given (f x)"

lemma map_given_cong [fundef_cong]:
  "u = u' \<Longrightarrow> (\<And>x. u' = Given x \<Longrightarrow> f x = g x) \<Longrightarrow> map_given f u = map_given g u'"
  by (cases u') auto

lemma map_given_ident [simp]: "map_given (\<lambda>x. x) u = u"
  by (cases u) auto

lemma is_unset_simps [simp]: "is_unset UNSET" "\<not> is_unset (Given x)"
  by (simp_all add: is_unset_def)

subsection \<open>Insertion-ordered dictionaries\<close>

text \<open>
  A Python \<open>dict\<close> with string keys is an association list in insertion order. Assignment is
  \<open>AList.update\<close>: an existing key keeps its position, a new key goes last. \<open>pop\<close> removes the key.
\<close>

type_synonym 'v pydict = "(string \<times> 'v) list"

definition dict_keys :: "'v pydict \<Rightarrow> string set" where
  "dict_keys d = fst ` set d"

definition dict_ok :: "'v pydict \<Rightarrow> bool" where
  "dict_ok d \<longleftrightarrow> distinct (map fst d)"

definition dict_set :: "string \<Rightarrow> 'v \<Rightarrow> 'v pydict \<Rightarrow> 'v pydict" where
  "dict_set k v d = AList.update k v d"

fun dict_update :: "'v pydict \<Rightarrow> 'v pydict \<Rightarrow> 'v pydict" where
  "dict_update d [] = d"
| "dict_update d ((k, v) # kvs) = dict_update (dict_set k v d) kvs"

definition dict_pop :: "string \<Rightarrow> 'v pydict \<Rightarrow> ('v \<times> 'v pydict) option" where
  "dict_pop k d = (case map_of d k of None \<Rightarrow> None | Some v \<Rightarrow> Some (v, AList.delete k d))"

lemma dict_keys_simps [simp]:
  "dict_keys [] = {}"
  "dict_keys ((k, v) # d) = insert k (dict_keys d)"
  "dict_keys (d @ e) = dict_keys d \<union> dict_keys e"
  by (auto simp: dict_keys_def)

lemma map_of_None_iff_keys: "map_of d k = None \<longleftrightarrow> k \<notin> dict_keys d"
  by (simp add: dict_keys_def map_of_eq_None_iff)

lemma dict_set_fresh: "k \<notin> dict_keys d \<Longrightarrow> dict_set k v d = d @ [(k, v)]"
  by (induction d) (auto simp: dict_set_def)

lemma dict_keys_set [simp]: "dict_keys (dict_set k v d) = insert k (dict_keys d)"
  by (auto simp: dict_set_def dict_keys_def dom_update)

lemma dict_ok_set: "dict_ok d \<Longrightarrow> dict_ok (dict_set k v d)"
  by (simp add: dict_ok_def dict_set_def distinct_update)

lemma dict_ok_update: "dict_ok d \<Longrightarrow> dict_ok (dict_update d e)"
  by (induction d e rule: dict_update.induct) (auto simp: dict_ok_set)

lemma dict_set_map_of: "map_of (dict_set k v d) = (map_of d)(k \<mapsto> v)"
  by (simp add: dict_set_def update_conv')

lemma dict_update_map_of: "dict_ok e \<Longrightarrow> map_of (dict_update d e) = map_of d ++ map_of e"
proof (induction d e rule: dict_update.induct)
  case (2 d k v kvs)
  then have IH: "map_of (dict_update (dict_set k v d) kvs) = map_of (dict_set k v d) ++ map_of kvs"
    and k: "map_of kvs k = None"
    by (auto simp: dict_ok_def map_of_eq_None_iff)
  then show ?case
    by (auto simp: dict_set_map_of map_add_def fun_eq_iff split: option.splits)
qed simp

lemma dict_update_fresh:
  "dict_ok e \<Longrightarrow> dict_keys d \<inter> dict_keys e = {} \<Longrightarrow> dict_update d e = d @ e"
proof (induction d e rule: dict_update.induct)
  case (2 d k v kvs)
  then have "dict_set k v d = d @ [(k, v)]"
    by (auto simp: dict_set_fresh)
  with 2 show ?case by (auto simp: dict_ok_def dict_keys_def)
qed simp

lemma delete_append: "AList.delete k (d @ e) = AList.delete k d @ AList.delete k e"
  by (simp add: AList.delete_eq)

lemma delete_fresh: "k \<notin> dict_keys d \<Longrightarrow> AList.delete k d = d"
  by (simp add: dict_keys_def)

lemma dict_pop_shrinks: "dict_pop k d = Some (v, d') \<Longrightarrow> length d' < length d"
proof -
  assume "dict_pop k d = Some (v, d')"
  then have m: "map_of d k = Some v" and d': "d' = AList.delete k d"
    by (auto simp: dict_pop_def split: option.splits)
  from m have "(k, v) \<in> set d" by (rule map_of_SomeD)
  then show ?thesis
    unfolding d' AList.delete_eq by (intro length_filter_less [where x = "(k, v)"]) auto
qed

text \<open>An entry that may be absent: \<open>if value is not UNSET: field_dict[key] = value\<close>.\<close>

definition put_given :: "string \<Rightarrow> 'v unset \<Rightarrow> 'v pydict \<Rightarrow> 'v pydict" where
  "put_given k u d = (case u of UNSET \<Rightarrow> d | Given v \<Rightarrow> dict_set k v d)"

definition entry :: "string \<Rightarrow> 'v unset \<Rightarrow> 'v pydict" where
  "entry k u = (case u of UNSET \<Rightarrow> [] | Given v \<Rightarrow> [(k, v)])"

lemma entry_simps: "entry k UNSET = []" "entry k (Given v) = [(k, v)]"
  by (simp_all add: entry_def)

lemma entry_keys: "k \<noteq> k' \<Longrightarrow> k \<notin> dict_keys (entry k' u)"
  by (cases u) (auto simp: entry_def)

lemma entry_keys_subset: "dict_keys (entry k u) \<subseteq> {k}"
  by (cases u) (auto simp: entry_def)

lemma put_given_fresh: "k \<notin> dict_keys d \<Longrightarrow> put_given k u d = d @ entry k u"
  by (cases u) (auto simp: put_given_def entry_def dict_set_fresh)

end
