(* ===== verification/Py_Value.thy ===== *)
theory Py_Value
  imports Sdk_Prelude
begin

text \<open>
  The Python values a JSON document decodes to, the built-in exceptions, and the built-in
  operations the client applies to values it did not check: truth, equality, ordering,
  iteration, \<open>dict()\<close>, \<open>int()\<close>, and the string methods it calls.

  Strings and byte strings are both \<^typ>\<open>string\<close>. A \<open>str\<close> is represented by its UTF-8 encoding,
  which is injective and commutes with every string operation the client uses (prefix tests,
  splitting at an ASCII character, stripping ASCII characters, comparison): a byte below 128
  never occurs inside the encoding of another character.
\<close>

subsection \<open>Exceptions\<close>

datatype py_exc =
    KeyErr
  | ValueErr string
  | TypeErr
  | AttributeErr
  | AssertErr
  | OtherErr string

text \<open>The clause \<open>except (ValueError, TypeError, KeyError, AttributeError)\<close>.\<close>

fun decode_failure :: "py_exc \<Rightarrow> bool" where
  "decode_failure KeyErr = True"
| "decode_failure (ValueErr _) = True"
| "decode_failure TypeErr = True"
| "decode_failure AttributeErr = True"
| "decode_failure AssertErr = False"
| "decode_failure (OtherErr _) = False"

subsection \<open>Values\<close>

text \<open>A finite float is its exact value; the sign of zero is not kept.\<close>

datatype py_float = Finite rat | Infinite bool | NaN

datatype json =
    JNull
  | JBool bool
  | JInt int
  | JFloat py_float
  | JStr string
  | JArr "json list"
  | JObj "(string \<times> json) list"

type_synonym jdict = "json pydict"

fun json_truth :: "json \<Rightarrow> bool" where
  "json_truth JNull = False"
| "json_truth (JBool b) = b"
| "json_truth (JInt i) = (i \<noteq> 0)"
| "json_truth (JFloat f) = (f \<noteq> Finite 0)"
| "json_truth (JStr s) = (s \<noteq> [])"
| "json_truth (JArr xs) = (xs \<noteq> [])"
| "json_truth (JObj d) = (d \<noteq> [])"

text \<open>Numbers compare across \<open>bool\<close>, \<open>int\<close> and \<open>float\<close> by value.\<close>

fun number_of :: "json \<Rightarrow> py_float option" where
  "number_of (JBool b) = Some (Finite (if b then 1 else 0))"
| "number_of (JInt i) = Some (Finite (of_int i))"
| "number_of (JFloat f) = Some f"
| "number_of _ = None"

fun float_eq :: "py_float \<Rightarrow> py_float \<Rightarrow> bool" where
  "float_eq (Finite a) (Finite b) = (a = b)"
| "float_eq (Infinite a) (Infinite b) = (a = b)"
| "float_eq _ _ = False"

text \<open>\<open>Infinite True\<close> is \<open>-inf\<close>, \<open>Infinite False\<close> is \<open>inf\<close>; no comparison with NaN holds.\<close>

fun float_less :: "py_float \<Rightarrow> py_float \<Rightarrow> bool" where
  "float_less (Finite a) (Finite b) = (a < b)"
| "float_less (Finite _) (Infinite n) = (\<not> n)"
| "float_less (Infinite n) (Finite _) = n"
| "float_less (Infinite m) (Infinite n) = (m \<and> \<not> n)"
| "float_less _ _ = False"

fun json_eq :: "json \<Rightarrow> json \<Rightarrow> bool"
  and json_eq_list :: "json list \<Rightarrow> json list \<Rightarrow> bool"
  and json_eq_dict :: "(string \<times> json) list \<Rightarrow> (string \<times> json) list \<Rightarrow> bool" where
  "json_eq JNull y = (y = JNull)"
| "json_eq (JBool b) y =
     (case number_of y of None \<Rightarrow> False | Some g \<Rightarrow> float_eq (Finite (if b then 1 else 0)) g)"
| "json_eq (JInt i) y =
     (case number_of y of None \<Rightarrow> False | Some g \<Rightarrow> float_eq (Finite (of_int i)) g)"
| "json_eq (JFloat f) y = (case number_of y of None \<Rightarrow> False | Some g \<Rightarrow> float_eq f g)"
| "json_eq (JStr s) y = (y = JStr s)"
| "json_eq (JArr xs) y = (case y of JArr ys \<Rightarrow> json_eq_list xs ys | _ \<Rightarrow> False)"
| "json_eq (JObj d) y =
     (case y of JObj e \<Rightarrow> length d = length e \<and> json_eq_dict d e | _ \<Rightarrow> False)"
| "json_eq_list [] ys = (ys = [])"
| "json_eq_list (x # xs) ys =
     (case ys of [] \<Rightarrow> False | y # ys' \<Rightarrow> json_eq x y \<and> json_eq_list xs ys')"
| "json_eq_dict [] e = True"
| "json_eq_dict ((k, v) # d) e =
     (case map_of e k of None \<Rightarrow> False | Some w \<Rightarrow> json_eq v w \<and> json_eq_dict d e)"

lemma json_eq_int [simp]: "json_eq (JInt i) (JInt j) \<longleftrightarrow> i = j"
  by simp

lemma json_eq_str [simp]: "json_eq x (JStr s) \<longleftrightarrow> x = JStr s"
  by (cases x) auto

text \<open>Code points of UTF-8 encoded strings compare as their bytes do.\<close>

fun str_less :: "string \<Rightarrow> string \<Rightarrow> bool" where
  "str_less [] t = (t \<noteq> [])"
| "str_less (c # s) [] = False"
| "str_less (c # s) (d # t) =
     ((of_char c :: int) < of_char d \<or> c = d \<and> str_less s t)"

text \<open>\<open>a < b\<close>: numbers, strings and lists are ordered among themselves, anything else raises.\<close>

fun json_less :: "json \<Rightarrow> json \<Rightarrow> py_exc + bool"
  and json_less_list :: "json list \<Rightarrow> json list \<Rightarrow> py_exc + bool" where
  "json_less x y =
     (case number_of x of
        Some f \<Rightarrow> (case number_of y of Some g \<Rightarrow> Inr (float_less f g) | None \<Rightarrow> Inl TypeErr)
      | None \<Rightarrow>
        (case x of
           JStr s \<Rightarrow> (case y of JStr t \<Rightarrow> Inr (str_less s t) | _ \<Rightarrow> Inl TypeErr)
         | JArr xs \<Rightarrow> (case y of JArr ys \<Rightarrow> json_less_list xs ys | _ \<Rightarrow> Inl TypeErr)
         | _ \<Rightarrow> Inl TypeErr))"
| "json_less_list [] ys = Inr (ys \<noteq> [])"
| "json_less_list (x # xs) [] = Inr False"
| "json_less_list (x # xs) (y # ys) =
     (if json_eq x y then json_less_list xs ys else json_less x y)"

declare json_less.simps [simp del]

lemma json_less_int [simp]: "json_less (JInt i) (JInt j) = Inr (i < j)"
  by (simp add: json_less.simps)

text \<open>\<open>max(a, b)\<close> keeps \<open>a\<close> unless \<open>b\<close> is greater; \<open>a or b\<close> is \<open>a\<close> if it is true.\<close>

definition py_max :: "json \<Rightarrow> json \<Rightarrow> py_exc + json" where
  "py_max a b = ebind (json_less a b) (\<lambda>lt. Inr (if lt then b else a))"

definition py_or :: "json \<Rightarrow> json \<Rightarrow> json" where
  "py_or a b = (if json_truth a then a else b)"

lemma py_max_int [simp]: "py_max (JInt i) (JInt j) = Inr (JInt (max i j))"
  by (auto simp: py_max_def max_def)

lemma py_or_int [simp]: "py_or (JInt i) (JInt 0) = JInt i"
  by (simp add: py_or_def)

lemma py_or_null [simp]: "py_or JNull b = b"
  by (simp add: py_or_def)

text \<open>Membership in a \<open>set\<close> hashes its argument: lists and dicts raise \<open>TypeError\<close>.\<close>

fun hashable :: "json \<Rightarrow> bool" where
  "hashable (JArr _) = False"
| "hashable (JObj _) = False"
| "hashable _ = True"

definition py_in :: "json \<Rightarrow> json list \<Rightarrow> py_exc + bool" where
  "py_in x seen = (if hashable x then Inr (list_ex (json_eq x) seen) else Inl TypeErr)"

subsection \<open>Iteration and dictionaries\<close>

text \<open>
  \<open>for x in value\<close>. The elements of a string are given byte by byte: every consumer below
  rejects one-character strings and pieces of them alike.
\<close>

fun py_iter :: "json \<Rightarrow> py_exc + json list" where
  "py_iter (JArr xs) = Inr xs"
| "py_iter (JStr s) = Inr (map (\<lambda>c. JStr [c]) s)"
| "py_iter (JObj d) = Inr (map (\<lambda>(k, v). JStr k) d)"
| "py_iter _ = Inl TypeErr"

text \<open>
  \<open>dict(value)\<close> copies a dictionary and also accepts an iterable of pairs. A pair whose key is
  not a string cannot be a JSON dictionary and is refused here with \<open>TypeError\<close>.
\<close>

fun pair_of :: "json \<Rightarrow> py_exc + string \<times> json" where
  "pair_of x = ebind (py_iter x) (\<lambda>ys.
     case ys of [JStr k, v] \<Rightarrow> Inr (k, v) | [_, _] \<Rightarrow> Inl TypeErr | _ \<Rightarrow> Inl (ValueErr ''''))"

fun py_dict :: "json \<Rightarrow> py_exc + jdict" where
  "py_dict (JObj d) = Inr d"
| "py_dict x = ebind (py_iter x) (\<lambda>ys. ebind (emap pair_of ys) (\<lambda>kvs. Inr (dict_update [] kvs)))"

subsection \<open>Strings\<close>

definition is_ascii_digit :: "char \<Rightarrow> bool" where
  "is_ascii_digit c \<longleftrightarrow> 48 \<le> (of_char c :: int) \<and> (of_char c :: int) \<le> 57"

definition digit_val :: "char \<Rightarrow> int" where
  "digit_val c = of_char c - 48"

definition is_ascii :: "string \<Rightarrow> bool" where
  "is_ascii s \<longleftrightarrow> list_all (\<lambda>c. (of_char c :: int) < 128) s"

definition lstrip :: "char list \<Rightarrow> string \<Rightarrow> string" where
  "lstrip cs s = dropWhile (\<lambda>c. c \<in> set cs) s"

definition rstrip :: "char list \<Rightarrow> string \<Rightarrow> string" where
  "rstrip cs s = rev (dropWhile (\<lambda>c. c \<in> set cs) (rev s))"

definition strip :: "char list \<Rightarrow> string \<Rightarrow> string" where
  "strip cs s = rstrip cs (lstrip cs s)"

fun starts_with :: "string \<Rightarrow> string \<Rightarrow> bool" where
  "starts_with [] s = True"
| "starts_with (c # p) [] = False"
| "starts_with (c # p) (d # s) = (c = d \<and> starts_with p s)"

definition remove_prefix :: "string \<Rightarrow> string \<Rightarrow> string" where
  "remove_prefix p s = (if starts_with p s then drop (length p) s else s)"

text \<open>\<open>s.partition(c)\<close>: the part before the first \<open>c\<close>, whether there is one, the part after.\<close>

fun partition_at :: "char \<Rightarrow> string \<Rightarrow> string \<times> bool \<times> string" where
  "partition_at c [] = ([], False, [])"
| "partition_at c (d # s) =
     (if c = d then ([], True, s)
      else (case partition_at c s of (a, sep, b) \<Rightarrow> (d # a, sep, b)))"

text \<open>\<open>sep.join(parts)\<close>.\<close>

fun join_with :: "string \<Rightarrow> string list \<Rightarrow> string" where
  "join_with sep [] = []"
| "join_with sep [s] = s"
| "join_with sep (s # t # ss) = s @ sep @ join_with sep (t # ss)"

definition lower_char :: "char \<Rightarrow> char" where
  "lower_char c =
     (let n = of_char c :: int in if 65 \<le> n \<and> n \<le> 90 then char_of (n + 32) else c)"

definition lower_ascii :: "string \<Rightarrow> string" where
  "lower_ascii s = map lower_char s"

lemma partition_at_spec:
  "partition_at c s = (a, sep, b) \<Longrightarrow>
     c \<notin> set a \<and> (if sep then s = a @ c # b else s = a \<and> b = [])"
  by (induction s arbitrary: a) (auto split: if_splits prod.splits)

lemma partition_at_append: "c \<notin> set a \<Longrightarrow> partition_at c (a @ c # b) = (a, True, b)"
  by (induction a) auto

lemma starts_with_iff: "starts_with p s \<longleftrightarrow> (\<exists>t. s = p @ t)"
  by (induction p s rule: starts_with.induct) auto

subsection \<open>Integers written in decimal\<close>

fun digits_value :: "int \<Rightarrow> string \<Rightarrow> int" where
  "digits_value acc [] = acc"
| "digits_value acc (c # s) = digits_value (10 * acc + digit_val c) s"

text \<open>\<open>int()\<close> refuses more than 4300 digits (\<open>sys.int_info.default_max_str_digits\<close>).\<close>

definition max_str_digits :: nat where
  "max_str_digits = 4300"

definition is_decimal :: "string \<Rightarrow> bool" where
  "is_decimal s \<longleftrightarrow> s \<noteq> [] \<and> list_all is_ascii_digit s"

definition int_of_digits :: "string \<Rightarrow> py_exc + int" where
  "int_of_digits s =
     (if is_decimal s \<and> length s \<le> max_str_digits then Inr (digits_value 0 s)
      else Inl (ValueErr ''''))"

definition ascii_space :: "char list" where
  "ascii_space = [CHR '' '', CHR 0x09, CHR 0x0A, CHR 0x0B, CHR 0x0C, CHR 0x0D]"

text \<open>Single underscores may separate digits.\<close>

fun drop_underscores :: "string \<Rightarrow> string option" where
  "drop_underscores [] = Some []"
| "drop_underscores [c] = (if c = CHR ''_'' then None else Some [c])"
| "drop_underscores (c # d # s) =
     (if c = CHR ''_'' then None
      else if d = CHR ''_'' then (if s = [] then None else map_option (Cons c) (drop_underscores s))
      else map_option (Cons c) (drop_underscores (d # s)))"

text \<open>
  \<open>int(s)\<close> for a string: white space around, a sign, digits. Digits and white space outside
  ASCII, which \<open>int\<close> also reads, are refused here.
\<close>

definition int_of_str :: "string \<Rightarrow> py_exc + int" where
  "int_of_str s =
     (let t = strip (ascii_space @ [CHR 0x1C, CHR 0x1D, CHR 0x1E, CHR 0x1F]) s;
          (neg, u) = (case t of
             [] \<Rightarrow> (False, [])
           | c # r \<Rightarrow> if c = CHR ''-'' then (True, r)
                      else if c = CHR ''+'' then (False, r) else (False, t))
      in case drop_underscores u of
           None \<Rightarrow> Inl (ValueErr '''')
         | Some ds \<Rightarrow> ebind (int_of_digits ds) (\<lambda>n. Inr (if neg then - n else n)))"

text \<open>\<open>str(n)\<close> for a natural number.\<close>

definition digit_char :: "nat \<Rightarrow> char" where
  "digit_char n = ''0123456789'' ! n"

fun nat_str :: "nat \<Rightarrow> string" where
  "nat_str n = (if n < 10 then [digit_char n] else nat_str (n div 10) @ [digit_char (n mod 10)])"

declare nat_str.simps [simp del]

text \<open>\<open>int(s)\<close> accepts leading and trailing white space, so the inverse direction is exact
  only on canonical decimals.\<close>

lemma digit_char_simps:
  assumes "n < 10"
  shows "digit_val (digit_char n) = int n" "is_ascii_digit (digit_char n)"
    "(of_char (digit_char n) :: int) < 128"
  proof -
  from assms have "n \<in> {0, 1, 2, 3, 4, 5, 6, 7, 8, 9}"
    unfolding insert_iff empty_iff by presburger
  then show "digit_val (digit_char n) = int n" "is_ascii_digit (digit_char n)"
    "(of_char (digit_char n) :: int) < 128"
    by (auto simp: digit_char_def digit_val_def is_ascii_digit_def)
qed

lemma digits_value_append: "digits_value acc (s @ t) = digits_value (digits_value acc s) t"
  by (induction s arbitrary: acc) auto

lemma nat_str_digits: "nat_str n \<noteq> [] \<and> list_all is_ascii_digit (nat_str n)"
proof (induction n rule: nat_str.induct)
  case (1 n)
  then show ?case
    by (subst (1 2) nat_str.simps) (auto simp: digit_char_simps)
qed

lemma nat_str_value: "digits_value 0 (nat_str n) = int n"
proof (induction n rule: nat_str.induct)
  case (1 n)
  have "10 * int (n div 10) + int (n mod 10) = int n"
    by (metis mult_div_mod_eq of_nat_add of_nat_mult of_nat_numeral)
  with 1 show ?case
    by (subst nat_str.simps) (auto simp: digits_value_append digit_char_simps)
qed

lemma nat_str_decimal [simp]: "is_decimal (nat_str n)"
  using nat_str_digits by (simp add: is_decimal_def)

end
