(* ===== verification/Py_Uuid.thy ===== *)
theory Py_Uuid
  imports Py_Value
begin

text \<open>
  The standard library's \<open>uuid.UUID\<close>: a 128-bit value, read from the many spellings the
  constructor accepts and printed in the canonical one. The main fact is that reading what
  was printed gives the value back.
\<close>

type_synonym uuid = "128 word"

subsection \<open>Hexadecimal digits\<close>

definition hex_alphabet :: "char list" where
  "hex_alphabet = ''0123456789abcdef''"

definition hex_char :: "int \<Rightarrow> char" where
  "hex_char n = hex_alphabet ! nat n"

definition hex_val :: "char \<Rightarrow> int option" where
  "hex_val c =
     (let n = of_char c :: int in
      if 48 \<le> n \<and> n \<le> 57 then Some (n - 48)
      else if 97 \<le> n \<and> n \<le> 102 then Some (n - 87)
      else if 65 \<le> n \<and> n \<le> 70 then Some (n - 55)
      else None)"

fun hex_value :: "int \<Rightarrow> string \<Rightarrow> int option" where
  "hex_value acc [] = Some acc"
| "hex_value acc (c # s) =
     (case hex_val c of None \<Rightarrow> None | Some d \<Rightarrow> hex_value (16 * acc + d) s)"

fun hex_pad :: "nat \<Rightarrow> int \<Rightarrow> string" where
  "hex_pad 0 n = []"
| "hex_pad (Suc k) n = hex_pad k (n div 16) @ [hex_char (n mod 16)]"

lemma hex_char_cases:
  assumes "0 \<le> n" "n < 16"
  shows "hex_val (hex_char n) = Some n \<and> hex_char n \<in> set hex_alphabet"
proof -
  from assms have "n \<in> {0, 1, 2, 3, 4, 5, 6, 7, 8, 9, 10, 11, 12, 13, 14, 15}"
    unfolding insert_iff empty_iff by presburger
  then show ?thesis
    by (auto simp: hex_char_def hex_alphabet_def hex_val_def)
qed

lemma hex_value_append:
  "hex_value acc s = Some m \<Longrightarrow> hex_value acc (s @ t) = hex_value m t"
  by (induction s arbitrary: acc) (auto split: option.splits)

lemma hex_pad_value:
  "0 \<le> n \<Longrightarrow> n < 16 ^ k \<Longrightarrow> hex_value acc (hex_pad k n) = Some (16 ^ k * acc + n)"
proof (induction k arbitrary: n)
  case (Suc k)
  then have "0 \<le> n div 16" "n div 16 < 16 ^ k"
    by auto
  then have "hex_value acc (hex_pad k (n div 16)) = Some (16 ^ k * acc + n div 16)"
    by (rule Suc.IH)
  then show ?case
    by (simp add: hex_value_append hex_char_cases algebra_simps)
qed simp

lemma hex_pad_length [simp]: "length (hex_pad k n) = k"
  by (induction k arbitrary: n) auto

lemma hex_pad_alphabet: "set (hex_pad k n) \<subseteq> set hex_alphabet"
  by (induction k arbitrary: n) (auto simp: hex_char_cases)

subsection \<open>The constructor\<close>

text \<open>\<open>s.replace(p, '')\<close> for a nonempty \<open>p\<close>.\<close>

function remove_all :: "string \<Rightarrow> string \<Rightarrow> string" where
  "remove_all p [] = []"
| "remove_all p (c # s) =
     (if p \<noteq> [] \<and> starts_with p (c # s) then remove_all p (drop (length p) (c # s))
      else c # remove_all p s)"
  by pat_completeness auto
termination
  by (relation "measure (\<lambda>(p, s). length s)") (auto simp: neq_Nil_conv)

text \<open>\<open>int(s, 16)\<close>: as in base ten, with an optional \<open>0x\<close> that an underscore may follow.\<close>

definition int16_of_str :: "string \<Rightarrow> py_exc + int" where
  "int16_of_str s =
     (let t = strip (ascii_space @ [CHR 0x1C, CHR 0x1D, CHR 0x1E, CHR 0x1F]) s;
          (neg, u) = (case t of
             [] \<Rightarrow> (False, [])
           | c # r \<Rightarrow> if c = CHR ''-'' then (True, r)
                      else if c = CHR ''+'' then (False, r) else (False, t));
          v = (if starts_with ''0x'' u \<or> starts_with ''0X'' u
               then remove_prefix ''_'' (drop 2 u) else u)
      in case drop_underscores v of
           None \<Rightarrow> Inl (ValueErr '''')
         | Some ds \<Rightarrow>
             (if ds = [] then Inl (ValueErr '''')
              else case hex_value 0 ds of
                     None \<Rightarrow> Inl (ValueErr '''')
                   | Some n \<Rightarrow> Inr (if neg then - n else n)))"

definition uuid_of_str :: "string \<Rightarrow> py_exc + uuid" where
  "uuid_of_str s =
     (let h = remove_all ''-'' (strip ''{}'' (remove_all ''uuid:'' (remove_all ''urn:'' s)))
      in if length h \<noteq> 32 then Inl (ValueErr ''badly formed hexadecimal UUID string'')
         else ebind (int16_of_str h) (\<lambda>n.
           if 0 \<le> n \<and> n < 2 ^ 128 then Inr (word_of_int n) else Inl (ValueErr '''')))"

text \<open>\<open>UUID(value)\<close>: \<open>None\<close> raises \<open>TypeError\<close>, any other non-string has no \<open>replace\<close>.\<close>

fun uuid_new :: "json \<Rightarrow> py_exc + uuid" where
  "uuid_new (JStr s) = uuid_of_str s"
| "uuid_new JNull = Inl TypeErr"
| "uuid_new _ = Inl AttributeErr"

text \<open>\<open>str(uuid)\<close>.\<close>

definition uuid_str :: "uuid \<Rightarrow> string" where
  "uuid_str u =
     (let h = hex_pad 32 (uint u) in
      take 8 h @ ''-'' @ take 4 (drop 8 h) @ ''-'' @ take 4 (drop 12 h) @ ''-''
      @ take 4 (drop 16 h) @ ''-'' @ drop 20 h)"

subsection \<open>Reading what was printed\<close>

lemma remove_all_absent:
  "p \<noteq> [] \<Longrightarrow> hd p \<notin> set s \<Longrightarrow> remove_all p s = s"
proof (induction s)
  case (Cons c s)
  then have "\<not> starts_with p (c # s)"
    by (cases p) auto
  with Cons show ?case by simp
qed simp

lemma remove_all_char: "remove_all [c] s = filter (\<lambda>d. d \<noteq> c) s"
  by (induction s) auto

lemma dropWhile_first_keep: "s = [] \<or> \<not> P (hd s) \<Longrightarrow> dropWhile P s = s"
  by (cases s) auto

lemma strip_absent:
  assumes "set cs \<inter> set s = {}"
  shows "strip cs s = s"
proof -
  have "dropWhile (\<lambda>c. c \<in> set cs) t = t" if "set t = set s" for t
    using assms that by (intro dropWhile_first_keep) (cases t; auto)
  then show ?thesis by (simp add: strip_def lstrip_def rstrip_def)
qed

lemma drop_underscores_absent:
  "CHR ''_'' \<notin> set s \<Longrightarrow> drop_underscores s = Some s"
  by (induction s rule: drop_underscores.induct) auto

lemma int16_of_hex:
  assumes s: "set s \<subseteq> set hex_alphabet" and ne: "s \<noteq> []" and v: "hex_value 0 s = Some n"
  shows "int16_of_str s = Inr n"
proof -
  let ?ws = "ascii_space @ [CHR 0x1C, CHR 0x1D, CHR 0x1E, CHR 0x1F]"
  have disj: "set ?ws \<inter> set hex_alphabet = {}" "CHR ''_'' \<notin> set hex_alphabet"
    "CHR ''-'' \<notin> set hex_alphabet" "CHR ''+'' \<notin> set hex_alphabet"
    "CHR ''x'' \<notin> set hex_alphabet" "CHR ''X'' \<notin> set hex_alphabet"
    by (simp_all add: ascii_space_def hex_alphabet_def)
  from disj(1) s have ws: "strip ?ws s = s" by (intro strip_absent) blast
  from disj(2) s have us: "drop_underscores s = Some s" by (intro drop_underscores_absent) blast
  obtain c r where cr: "s = c # r" using ne by (cases s) auto
  have c: "c \<noteq> CHR ''-''" "c \<noteq> CHR ''+''" using disj s cr by auto
  have nx: "\<not> starts_with ''0x'' s" "\<not> starts_with ''0X'' s"
    using disj s by (auto simp: starts_with_iff)
  have "(case s of [] \<Rightarrow> (False, []) | c # r \<Rightarrow>
      if c = CHR ''-'' then (True, r) else if c = CHR ''+'' then (False, r) else (False, s))
    = (False, s)"
    using c by (simp add: cr)
  then show ?thesis
    using ne nx v us by (simp add: int16_of_str_def ws Let_def)
qed

lemma take_drop_glue: "take m (drop n s) @ drop (n + m) s = drop n s"
  by (metis add.commute append_take_drop_id drop_drop)

theorem uuid_str_of_str: "uuid_of_str (uuid_str u) = Inr u"
proof -
  let ?h = "hex_pad 32 (uint u)"
  have bound: "0 \<le> uint u" "uint u < 16 ^ 32"
    using uint_bounded [of u] by simp_all
  have alpha: "set ?h \<subseteq> set hex_alphabet" by (rule hex_pad_alphabet)
  have sub: "set (uuid_str u) \<subseteq> insert CHR ''-'' (set hex_alphabet)"
    using alpha set_take_subset set_drop_subset
    unfolding uuid_str_def Let_def set_append by fastforce
  have u: "CHR ''u'' \<notin> insert CHR ''-'' (set hex_alphabet)"
    and br: "set ''{}'' \<inter> insert CHR ''-'' (set hex_alphabet) = {}"
    and dash: "CHR ''-'' \<notin> set hex_alphabet"
    by (simp_all add: hex_alphabet_def)
  have nu: "CHR ''u'' \<notin> set (uuid_str u)" using sub u by blast
  have r1: "remove_all ''urn:'' (uuid_str u) = uuid_str u"
    using nu by (intro remove_all_absent) auto
  have r2: "remove_all ''uuid:'' (uuid_str u) = uuid_str u"
    using nu by (intro remove_all_absent) auto
  have r3: "strip ''{}'' (uuid_str u) = uuid_str u"
    using sub br by (intro strip_absent) blast
  have keep: "filter (\<lambda>d. d \<noteq> CHR ''-'') t = t" if "set t \<subseteq> set ?h" for t
    using alpha dash that by (intro filter_True) auto
  have "take 8 ?h @ take 4 (drop 8 ?h) @ take 4 (drop 12 ?h) @ take 4 (drop 16 ?h) @ drop 20 ?h = ?h"
    using take_drop_glue [of 4 16 ?h] take_drop_glue [of 4 12 ?h] take_drop_glue [of 4 8 ?h]
    by simp
  moreover have "filter (\<lambda>d. d \<noteq> CHR ''-'') (uuid_str u) =
     take 8 ?h @ take 4 (drop 8 ?h) @ take 4 (drop 12 ?h) @ take 4 (drop 16 ?h) @ drop 20 ?h"
    unfolding uuid_str_def Let_def filter_append
    by (simp add: keep set_take_subset set_drop_subset order_trans [OF set_take_subset])
  ultimately have r4: "remove_all ''-'' (uuid_str u) = ?h"
    by (simp add: remove_all_char)
  have "int16_of_str ?h = Inr (uint u)"
    using alpha bound hex_pad_value [of "uint u" 32 0]
    by (intro int16_of_hex) (auto simp flip: length_0_conv)
  moreover have "uint u < 2 ^ 128"
    using uint_bounded [of u] by simp
  ultimately show ?thesis
    by (simp add: uuid_of_str_def Let_def r1 r2 r3 r4)
qed

lemma uuid_new_str [wire_simps]: "uuid_new (JStr (uuid_str u)) = Inr u"
  by (simp add: uuid_str_of_str)

lemma uuid_str_inject [simp]: "uuid_str u = uuid_str v \<longleftrightarrow> u = v"
  by (metis sum.inject(2) uuid_str_of_str)

end
