(* ===== verification/Py_Time.thy ===== *)
theory Py_Time
  imports Py_Value
begin

text \<open>
  The standard library's \<open>datetime\<close>: the fields of a date and time with an optional UTC offset,
  \<open>fromisoformat\<close> as CPython 3.11 and later read it (the parser works on the UTF-8 bytes and sees
  a NUL after the last one, which is \<open>None\<close> in \<open>peek\<close>), and \<open>isoformat\<close>.
\<close>

record datetime =
  dt_year :: int
  dt_month :: int
  dt_day :: int
  dt_hour :: int
  dt_minute :: int
  dt_second :: int
  dt_micro :: int
  dt_offset :: "int option"  \<comment> \<open>microseconds east of UTC\<close>

subsection \<open>Calendar\<close>

definition is_leap :: "int \<Rightarrow> bool" where
  "is_leap y \<longleftrightarrow> y mod 4 = 0 \<and> (y mod 100 \<noteq> 0 \<or> y mod 400 = 0)"

definition month_lengths :: "int list" where
  "month_lengths = [31, 28, 31, 30, 31, 30, 31, 31, 30, 31, 30, 31]"

definition days_in_month :: "int \<Rightarrow> int \<Rightarrow> int" where
  "days_in_month y m = (if m = 2 \<and> is_leap y then 29 else month_lengths ! nat (m - 1))"

definition days_before_year :: "int \<Rightarrow> int" where
  "days_before_year y = (let p = y - 1 in p * 365 + p div 4 - p div 100 + p div 400)"

definition days_before_month :: "int \<Rightarrow> bool \<Rightarrow> int" where
  "days_before_month m leap =
     sum_list (take (nat (m - 1)) month_lengths) + (if 2 < m \<and> leap then 1 else 0)"

definition ord_to_ymd :: "int \<Rightarrow> int \<times> int \<times> int" where
  "ord_to_ymd ordinal =
     (let n = ordinal - 1;
          n400 = n div 146097; n = n mod 146097;
          n100 = n div 36524; n = n mod 36524;
          n4 = n div 1461; n = n mod 1461;
          n1 = n div 365; n = n mod 365;
          year = n400 * 400 + 1 + n100 * 100 + n4 * 4 + n1
      in if n1 = 4 \<or> n100 = 4 then (year - 1, 12, 31)
         else
           let leap = (n1 = 3 \<and> (n4 \<noteq> 24 \<or> n100 = 3));
               guess = (n + 50) div 32;
               month = (if n < days_before_month guess leap then guess - 1 else guess)
           in (year, month, n - days_before_month month leap + 1))"

definition iso_to_ymd :: "int \<Rightarrow> int \<Rightarrow> int \<Rightarrow> (int \<times> int \<times> int) option" where
  "iso_to_ymd y w d =
     (let first = days_before_year y + 1;
          weekday = (first + 6) mod 7;
          week53 = (first mod 7 = 4 \<or> first mod 7 = 3 \<and> is_leap y)
      in if y < 1 \<or> 9999 < y \<or> w < 1 \<or> 53 < w \<or> w = 53 \<and> \<not> week53 \<or> d < 1 \<or> 7 < d then None
         else
           let monday = first - weekday + (if 3 < weekday then 7 else 0);
               ordinal = monday + (w - 1) * 7 + d - 1
           in if ordinal < 1 \<or> 3652059 < ordinal then None
              else Some (ord_to_ymd ordinal))"

subsection \<open>fromisoformat\<close>

fun peek :: "string \<Rightarrow> char option" where
  "peek [] = None"
| "peek (c # s) = Some c"

fun take_digits :: "nat \<Rightarrow> int \<Rightarrow> string \<Rightarrow> (int \<times> string) option" where
  "take_digits 0 acc s = Some (acc, s)"
| "take_digits (Suc k) acc [] = None"
| "take_digits (Suc k) acc (c # s) =
     (if is_ascii_digit c then take_digits k (10 * acc + digit_val c) s else None)"

text \<open>
  Hours, minutes and seconds: \<open>p\<close> is the rest of the text, \<open>n\<close> how much of it belongs to this
  component. The result is the values read, the rest, what is left of \<open>n\<close> and, when the component
  ended here, whether text follows it.
\<close>

fun read_fields ::
  "nat \<Rightarrow> bool \<Rightarrow> int list \<Rightarrow> string \<Rightarrow> int \<Rightarrow> (int list \<times> string \<times> int \<times> bool option) option" where
  "read_fields 0 sep vals p n = Some (vals, p, n, None)"
| "read_fields (Suc k) sep vals p n =
     (case take_digits 2 0 p of
        None \<Rightarrow> None
      | Some (v, q) \<Rightarrow>
          let vals' = vals @ [v];
              c = peek q;
              sep' = (if vals = [] then c = Some (CHR '':'') else sep)
          in if n - 3 \<le> 0 then Some (vals', drop 1 q, n - 3, Some (c \<noteq> None))
             else if sep' \<and> c = Some (CHR '':'') then read_fields k sep' vals' (drop 1 q) (n - 3)
             else if c = Some (CHR ''.'') \<or> c = Some (CHR '','')
               then Some (vals', drop 1 q, n - 3, None)
             else if \<not> sep' then read_fields k sep' vals' q (n - 2)
             else None)"

definition read_time :: "string \<Rightarrow> int \<Rightarrow> (int list \<times> int \<times> bool) option" where
  "read_time p n =
     (case read_fields 3 True [] p n of
        None \<Rightarrow> None
      | Some (vals, q, m, Some trail) \<Rightarrow> Some (take 3 (vals @ [0, 0, 0]), 0, trail)
      | Some (vals, q, m, None) \<Rightarrow>
          let k = min (nat m) 6 in
          (case take_digits k 0 q of
             None \<Rightarrow> None
           | Some (us, r) \<Rightarrow>
               Some (take 3 (vals @ [0, 0, 0]), us * 10 ^ (6 - k), dropWhile is_ascii_digit r \<noteq> [])))"

definition zone_mark :: "char \<Rightarrow> bool" where
  "zone_mark c \<longleftrightarrow> c = CHR ''+'' \<or> c = CHR ''-'' \<or> c = CHR ''Z''"

definition read_zoned_time :: "string \<Rightarrow> (int list \<times> int \<times> int option) option" where
  "read_zoned_time s =
     (let t = length (takeWhile (\<lambda>c. \<not> zone_mark c) s) in
      case read_time s (int t) of
        None \<Rightarrow> None
      | Some (vals, us, trail) \<Rightarrow>
          (case drop t s of
             [] \<Rightarrow> if trail then None else Some (vals, us, None)
           | c # z \<Rightarrow>
               if c = CHR ''Z'' then (if z = [] then Some (vals, us, Some 0) else None)
               else
                 (case read_time z (int (length z)) of
                    None \<Rightarrow> None
                  | Some (zv, zus, ztrail) \<Rightarrow>
                      if ztrail then None
                      else
                        let sign = (if c = CHR ''-'' then -1 else 1);
                            secs = zv ! 0 * 3600 + zv ! 1 * 60 + zv ! 2
                        in Some (vals, us, Some (if secs = 0 then 0
                             else sign * (secs * 1000000 + zus))))))"

definition read_date :: "string \<Rightarrow> nat \<Rightarrow> (int \<times> int \<times> int) option" where
  "read_date s len =
     (case take_digits 4 0 s of
        None \<Rightarrow> None
      | Some (y, p) \<Rightarrow>
          let dash = (peek p = Some (CHR ''-'')); p = (if dash then drop 1 p else p) in
          if peek p = Some (CHR ''W'') then
            (case take_digits 2 0 (drop 1 p) of
               None \<Rightarrow> None
             | Some (w, q) \<Rightarrow>
                 if length s - length q < len then
                   (if dash \<and> peek q \<noteq> Some (CHR ''-'') then None
                    else case take_digits 1 0 (if dash then drop 1 q else q) of
                           None \<Rightarrow> None
                         | Some (d, _) \<Rightarrow> iso_to_ymd y w d)
                 else iso_to_ymd y w 1)
          else
            (case take_digits 2 0 p of
               None \<Rightarrow> None
             | Some (m, q) \<Rightarrow>
                 if dash \<and> peek q \<noteq> Some (CHR ''-'') then None
                 else case take_digits 2 0 (if dash then drop 1 q else q) of
                        None \<Rightarrow> None
                      | Some (d, _) \<Rightarrow> Some (y, m, d)))"

definition separator_location :: "string \<Rightarrow> nat option" where
  "separator_location s =
     (let n = length s in
      if n = 7 then Some 7
      else if s ! 4 = CHR ''-'' then
        (if s ! 5 = CHR ''W'' then
           (if 8 < n \<and> s ! 8 = CHR ''-'' then
              (if n = 9 then None
               else if 10 < n \<and> is_ascii_digit (s ! 10) then Some 8 else Some 10)
            else Some 8)
         else Some 10)
      else if s ! 4 = CHR ''W'' then
        (let i = 7 + length (takeWhile is_ascii_digit (drop 7 s)) in
         Some (if i < 9 then i else if even i then 7 else 8))
      else Some 8)"

text \<open>The separator is one character, of one to four bytes.\<close>

definition char_width :: "char \<Rightarrow> nat" where
  "char_width c =
     (let b = of_char c :: int in
      if b < 128 then 1 else if b div 16 = 14 then 3 else if b div 16 = 15 then 4 else 2)"

definition valid_datetime :: "datetime \<Rightarrow> bool" where
  "valid_datetime t \<longleftrightarrow>
     1 \<le> dt_year t \<and> dt_year t \<le> 9999 \<and> 1 \<le> dt_month t \<and> dt_month t \<le> 12
     \<and> 1 \<le> dt_day t \<and> dt_day t \<le> days_in_month (dt_year t) (dt_month t)
     \<and> dt_hour t < 24 \<and> dt_minute t < 60 \<and> dt_second t < 60 \<and> dt_micro t < 1000000
     \<and> (case dt_offset t of None \<Rightarrow> True | Some z \<Rightarrow> \<bar>z\<bar> < 86400 * 1000000)"

definition datetime_of_str :: "string \<Rightarrow> py_exc + datetime" where
  "datetime_of_str s =
     (let fail = Inl (ValueErr '''') in
      if length s < 7 then fail
      else case separator_location s of
             None \<Rightarrow> fail
           | Some k \<Rightarrow>
               (case read_date s k of
                  None \<Rightarrow> fail
                | Some (y, m, d) \<Rightarrow>
                    (case (if k < length s then read_zoned_time (drop (k + char_width (s ! k)) s)
                           else Some ([0, 0, 0], 0, None)) of
                       None \<Rightarrow> fail
                     | Some (v, us, off) \<Rightarrow>
                         let t = \<lparr>dt_year = y, dt_month = m, dt_day = d, dt_hour = v ! 0,
                                  dt_minute = v ! 1, dt_second = v ! 2, dt_micro = us,
                                  dt_offset = off\<rparr>
                         in if valid_datetime t then Inr t else fail)))"

fun from_isoformat :: "json \<Rightarrow> py_exc + datetime" where
  "from_isoformat (JStr s) = datetime_of_str s"
| "from_isoformat _ = Inl TypeErr"

subsection \<open>isoformat\<close>

fun pad_digits :: "nat \<Rightarrow> int \<Rightarrow> string" where
  "pad_digits 0 n = []"
| "pad_digits (Suc k) n = pad_digits k (n div 10) @ [digit_char (nat (n mod 10))]"

definition format_offset :: "int option \<Rightarrow> string" where
  "format_offset off =
     (case off of
        None \<Rightarrow> []
      | Some z \<Rightarrow>
          let a = \<bar>z\<bar>; us = a mod 1000000; s = a div 1000000 in
          (if z < 0 then ''-'' else ''+'') @ pad_digits 2 (s div 3600) @ '':''
          @ pad_digits 2 (s div 60 mod 60)
          @ (if s mod 60 \<noteq> 0 \<or> us \<noteq> 0 then '':'' @ pad_digits 2 (s mod 60)
               @ (if us \<noteq> 0 then ''.'' @ pad_digits 6 us else [])
             else []))"

definition isoformat :: "datetime \<Rightarrow> string" where
  "isoformat t =
     pad_digits 4 (dt_year t) @ ''-'' @ pad_digits 2 (dt_month t) @ ''-'' @ pad_digits 2 (dt_day t)
     @ ''T'' @ pad_digits 2 (dt_hour t) @ '':'' @ pad_digits 2 (dt_minute t) @ '':''
     @ pad_digits 2 (dt_second t)
     @ (if dt_micro t \<noteq> 0 then ''.'' @ pad_digits 6 (dt_micro t) else [])
     @ format_offset (dt_offset t)"

text \<open>
  A time survives printing and reading. The one kind that does not is an offset of less than a
  second, which \<open>fromisoformat\<close> reads as UTC.
\<close>

definition iso_stable :: "datetime \<Rightarrow> bool" where
  "iso_stable t \<longleftrightarrow> from_isoformat (JStr (isoformat t)) = Inr t"

lemma iso_stableD [wire_simps]: "iso_stable t \<Longrightarrow> from_isoformat (JStr (isoformat t)) = Inr t"
  by (simp add: iso_stable_def)

end
