(* ===== verification/Wire_Codec.thy ===== *)
theory Wire_Codec
  imports Py_Uuid Py_Time
begin

text \<open>
  How the generated models (\<open>_generated/models/*.py\<close>) read and write dictionaries, as combinators
  the model theories are written with, and the interface every model meets: a printer into JSON,
  a reader that may raise, and a well-formedness predicate on which reading inverts printing.
\<close>

subsection \<open>Reading: from_dict\<close>

text \<open>\<open>d = dict(src_dict)\<close> and then the rest of the method.\<close>

definition reading :: "json \<Rightarrow> (jdict \<Rightarrow> py_exc + 'a) \<Rightarrow> py_exc + 'a" where
  "reading src f = ebind (py_dict src) f"

text \<open>\<open>x = conv(d.pop(key))\<close>, and \<open>d.pop(key, UNSET)\<close> converted when it is set.\<close>

definition popping ::
  "string \<Rightarrow> (json \<Rightarrow> py_exc + 'a) \<Rightarrow> ('a \<Rightarrow> jdict \<Rightarrow> py_exc + 'b) \<Rightarrow> jdict \<Rightarrow> py_exc + 'b" where
  "popping k conv cont d =
     (case dict_pop k d of None \<Rightarrow> Inl KeyErr | Some (v, r) \<Rightarrow> ebind (conv v) (\<lambda>x. cont x r))"

definition popping_opt ::
  "string \<Rightarrow> (json \<Rightarrow> py_exc + 'a) \<Rightarrow> ('a unset \<Rightarrow> jdict \<Rightarrow> py_exc + 'b) \<Rightarrow> jdict \<Rightarrow> py_exc + 'b" where
  "popping_opt k conv cont d =
     (case dict_pop k d of
        None \<Rightarrow> cont UNSET d
      | Some (v, r) \<Rightarrow> ebind (conv v) (\<lambda>x. cont (Given x) r))"

text \<open>\<open>if value != constant: raise ValueError(...)\<close>.\<close>

definition literal :: "json \<Rightarrow> json \<Rightarrow> py_exc + json" where
  "literal c v = (if json_eq v c then Inr v else Inl (ValueErr ''const''))"

text \<open>\<open>for item in value: items.append(conv(item))\<close>.\<close>

definition list_of :: "(json \<Rightarrow> py_exc + 'a) \<Rightarrow> json \<Rightarrow> py_exc + 'a list" where
  "list_of conv v = ebind (py_iter v) (emap conv)"

text \<open>\<open>SomeEnum(value)\<close>: the member with that value.\<close>

definition enum_of :: "'a list \<Rightarrow> ('a \<Rightarrow> string) \<Rightarrow> json \<Rightarrow> py_exc + 'a" where
  "enum_of members val v =
     (case find (\<lambda>m. v = JStr (val m)) members of
        None \<Rightarrow> Inl (ValueErr ''enum'')
      | Some m \<Rightarrow> Inr m)"

text \<open>
  A union with \<open>None\<close>: the alternatives are tried in order, each guarded by a type test and with
  its decoding failures swallowed; when none fits, the raw value is kept (\<open>cast\<close>).
\<close>

datatype 'a lenient = Typed 'a | Untyped json

fun parse_union :: "(json \<Rightarrow> bool) \<Rightarrow> (json \<Rightarrow> py_exc + 'a) list \<Rightarrow> json \<Rightarrow> py_exc + 'a lenient" where
  "parse_union guard [] v = Inr (Untyped v)"
| "parse_union guard (conv # convs) v =
     (if v = JNull then Inr (Untyped v)
      else ecatch (ebind (if guard v then conv v else Inl TypeErr) (\<lambda>x. Inr (Typed x)))
             (\<lambda>e. if decode_failure e then parse_union guard convs v else Inl e))"

fun is_str :: "json \<Rightarrow> bool" where
  "is_str (JStr _) = True"
| "is_str _ = False"

fun is_dict :: "json \<Rightarrow> bool" where
  "is_dict (JObj _) = True"
| "is_dict _ = False"

fun lenient_json :: "('a \<Rightarrow> json) \<Rightarrow> 'a lenient \<Rightarrow> json" where
  "lenient_json enc (Typed x) = enc x"
| "lenient_json enc (Untyped v) = v"

text \<open>A field kept raw is well formed when reading it again keeps it raw.\<close>

fun lenient_ok ::
  "(json \<Rightarrow> bool) \<Rightarrow> (json \<Rightarrow> py_exc + 'a) list \<Rightarrow> ('a \<Rightarrow> bool) \<Rightarrow> 'a lenient \<Rightarrow> bool" where
  "lenient_ok guard convs ok (Typed x) = ok x"
| "lenient_ok guard convs ok (Untyped v) =
     (case parse_union guard convs v of Inr (Untyped w) \<Rightarrow> v = w | _ \<Rightarrow> False)"

fun given_all :: "('a \<Rightarrow> bool) \<Rightarrow> 'a unset \<Rightarrow> bool" where
  "given_all P UNSET = True"
| "given_all P (Given x) = P x"

text \<open>Dictionaries kept apart from the named fields (\<open>additional_properties\<close>).\<close>

definition extra_ok :: "string set \<Rightarrow> jdict \<Rightarrow> bool" where
  "extra_ok ks d \<longleftrightarrow> dict_ok d \<and> dict_keys d \<inter> ks = {}"

lemma extra_ok_simps [wire_simps]:
  "extra_ok (insert k ks) d \<longleftrightarrow> k \<notin> dict_keys d \<and> extra_ok ks d"
  "extra_ok {} d \<longleftrightarrow> dict_ok d"
  by (auto simp: extra_ok_def)

lemma extra_ok_copy [wire_simps]: "dict_ok d \<Longrightarrow> dict_update [] d = d"
  using dict_update_fresh [of d "[]"] by simp

lemma extra_ok_update [wire_simps]:
  "dict_ok d \<Longrightarrow> dict_ok ((k, v) # e) \<Longrightarrow> dict_keys d \<inter> dict_keys ((k, v) # e) = {} \<Longrightarrow>
     dict_update d ((k, v) # e) = d @ (k, v) # e"
  by (rule dict_update_fresh)

lemma dict_ok_simps [wire_simps]:
  "dict_ok [] \<longleftrightarrow> True"
  "dict_ok ((k, v) # d) \<longleftrightarrow> k \<notin> dict_keys d \<and> dict_ok d"
  by (auto simp: dict_ok_def dict_keys_def)

declare dict_update.simps(2) [simp del]

lemmas [wire_simps] = Int_insert_right put_given_fresh entry_keys dict_keys_simps

subsection \<open>Evaluating a reader on a printed dictionary\<close>

lemma reading_obj [wire_simps]: "reading (JObj d) f = f d"
  by (simp add: reading_def)

lemma dict_pop_absent: "k \<notin> dict_keys d \<Longrightarrow> dict_pop k d = None"
  by (simp add: dict_pop_def flip: map_of_None_iff_keys)

lemma dict_pop_middle:
  assumes "k \<notin> dict_keys d" "k \<notin> dict_keys e"
  shows "dict_pop k (d @ (k, v) # e) = Some (v, d @ e)"
proof -
  from assms(1) have "map_of (d @ (k, v) # e) k = Some v"
    by (simp add: map_add_def flip: map_of_None_iff_keys)
  then show ?thesis
    using assms by (simp add: dict_pop_def delete_append delete_fresh)
qed

lemma popping_field [wire_simps]:
  "k \<notin> dict_keys d \<Longrightarrow> k \<notin> dict_keys e \<Longrightarrow>
     popping k conv cont (d @ (k, v) # e) = ebind (conv v) (\<lambda>x. cont x (d @ e))"
  "k \<notin> dict_keys e \<Longrightarrow> popping k conv cont ((k, v) # e) = ebind (conv v) (\<lambda>x. cont x e)"
  using dict_pop_middle [of k d e v] dict_pop_middle [of k "[]" e v]
  by (simp_all add: popping_def)

lemma popping_opt_entry:
  "k \<notin> dict_keys d \<Longrightarrow> k \<notin> dict_keys e \<Longrightarrow>
     popping_opt k conv cont (d @ entry k u @ e) =
       (case u of UNSET \<Rightarrow> cont UNSET (d @ e) | Given v \<Rightarrow> ebind (conv v) (\<lambda>x. cont (Given x) (d @ e)))"
  by (cases u) (simp_all add: popping_opt_def entry_def dict_pop_middle dict_pop_absent)

lemma popping_opt_absent: "k \<notin> dict_keys d \<Longrightarrow> popping_opt k conv cont d = cont UNSET d"
  by (simp add: popping_opt_def dict_pop_absent)

lemma popping_opt_field:
  "k \<notin> dict_keys d \<Longrightarrow> k \<notin> dict_keys e \<Longrightarrow>
     popping_opt k conv cont (d @ (k, v) # e) = ebind (conv v) (\<lambda>x. cont (Given x) (d @ e))"
  by (simp add: popping_opt_def dict_pop_middle)

text \<open>The four places an optional field can have in a printed dictionary.\<close>

lemma popping_opt_raw [wire_simps]:
  "k \<notin> dict_keys d \<Longrightarrow> k \<notin> dict_keys e \<Longrightarrow>
     popping_opt k Inr cont (d @ entry k u @ e) = cont u (d @ e)"
  "k \<notin> dict_keys d \<Longrightarrow> popping_opt k Inr cont (d @ entry k u) = cont u d"
  "k \<notin> dict_keys e \<Longrightarrow> popping_opt k Inr cont (entry k u @ e) = cont u e"
  "popping_opt k Inr cont (entry k u) = cont u []"
  using popping_opt_entry [of k d e Inr cont u] popping_opt_entry [of k d "[]" Inr cont u]
    popping_opt_entry [of k "[]" e Inr cont u] popping_opt_entry [of k "[]" "[]" Inr cont u]
  by (cases u; simp)+

lemma literal_same [wire_simps]: "json_eq v c \<Longrightarrow> literal c v = Inr v"
  by (simp add: literal_def)

lemma enum_of_value:
  "m \<in> set ms \<Longrightarrow> inj_on val (set ms) \<Longrightarrow> enum_of ms val (JStr (val m)) = Inr m"
  by (induction ms) (auto simp: enum_of_def inj_on_def split: option.splits)

lemma enum_of_Inr: "enum_of ms val v = Inr m \<Longrightarrow> v = JStr (val m) \<and> m \<in> set ms"
  by (induction ms) (auto simp: enum_of_def split: option.splits if_splits)

lemma enum_of_error: "enum_of ms val v = Inl e \<Longrightarrow> e = ValueErr ''enum''"
  by (auto simp: enum_of_def split: option.splits)

lemma given_all_True [wire_simps]: "given_all (\<lambda>_. True) u = True"
  by (cases u) auto

lemma list_all_True [wire_simps]: "list_all (\<lambda>_. True) xs = True"
  by (simp add: list_all_iff)

lemma given_all_list_True [wire_simps]: "given_all (list_all (\<lambda>_. True)) u = True"
  by (cases u) (auto simp: list_all_iff)

declare uuid_new.simps [simp del] from_isoformat.simps [simp del] parse_union.simps [simp del]

text \<open>Evaluation looks at the dictionary first and leaves the rest of the reader alone.\<close>

lemma popping_weak: "d = d' \<Longrightarrow> popping k conv cont d = popping k conv cont d'"
  by simp

lemma popping_opt_weak: "d = d' \<Longrightarrow> popping_opt k conv cont d = popping_opt k conv cont d'"
  by simp

lemma ebind_weak: "m = m' \<Longrightarrow> ebind m f = ebind m' f"
  by simp

lemmas wire_cong = popping_weak popping_opt_weak ebind_weak

subsection \<open>Reading nested models\<close>

text \<open>
  Congruence rules that let a recursive reader use the combinators, and the weight that
  decreases from a dictionary to what is stored in it.
\<close>

lemma reading_cong [fundef_cong]:
  "src = src' \<Longrightarrow> (\<And>d. py_dict src' = Inr d \<Longrightarrow> f d = g d) \<Longrightarrow> reading src f = reading src' g"
  by (auto simp: reading_def intro: ebind_cong)

lemma popping_cong [fundef_cong]:
  "d = d' \<Longrightarrow> (\<And>v r. dict_pop k d' = Some (v, r) \<Longrightarrow> conv v = conv' v) \<Longrightarrow>
     (\<And>v r x. dict_pop k d' = Some (v, r) \<Longrightarrow> cont x r = cont' x r) \<Longrightarrow>
     popping k conv cont d = popping k conv' cont' d'"
  by (auto simp: popping_def split: option.splits intro!: ebind_cong)

lemma popping_opt_cong [fundef_cong]:
  "d = d' \<Longrightarrow> (\<And>v r. dict_pop k d' = Some (v, r) \<Longrightarrow> conv v = conv' v) \<Longrightarrow>
     (dict_pop k d' = None \<Longrightarrow> cont UNSET d' = cont' UNSET d') \<Longrightarrow>
     (\<And>v r x. dict_pop k d' = Some (v, r) \<Longrightarrow> cont (Given x) r = cont' (Given x) r) \<Longrightarrow>
     popping_opt k conv cont d = popping_opt k conv' cont' d'"
  by (auto simp: popping_opt_def split: option.splits intro!: ebind_cong)

lemma list_of_cong [fundef_cong]:
  "v = v' \<Longrightarrow> (\<And>ys y. py_iter v' = Inr ys \<Longrightarrow> y \<in> set ys \<Longrightarrow> conv y = conv' y) \<Longrightarrow>
     list_of conv v = list_of conv' v'"
  by (auto simp: list_of_def intro!: ebind_cong emap_cong)

lemma given_all_cong [fundef_cong]:
  "u = u' \<Longrightarrow> (\<And>x. u' = Given x \<Longrightarrow> P x = Q x) \<Longrightarrow> given_all P u = given_all Q u'"
  by (cases u') auto

fun json_weight :: "json \<Rightarrow> nat" and weight_list :: "json list \<Rightarrow> nat" and weight_dict :: "jdict \<Rightarrow> nat" where
  "json_weight (JArr xs) = Suc (weight_list xs)"
| "json_weight (JObj d) = Suc (weight_dict d)"
| "json_weight (JStr s) = 1"
| "json_weight _ = 0"
| "weight_list [] = 0"
| "weight_list (x # xs) = json_weight x + weight_list xs"
| "weight_dict [] = 0"
| "weight_dict ((k, v) # d) = json_weight v + weight_dict d"

lemma weight_list_mem: "x \<in> set xs \<Longrightarrow> json_weight x \<le> weight_list xs"
  by (induction xs) auto

lemma weight_dict_key: "(k, v) \<in> set d \<Longrightarrow> Suc 0 \<le> json_weight (JObj d)"
  by simp

lemma py_iter_weight: "py_iter v = Inr ys \<Longrightarrow> y \<in> set ys \<Longrightarrow> json_weight y \<le> json_weight v"
  by (cases v) (auto dest: weight_list_mem)

lemma pair_of_weight: "pair_of x = Inr (k, v) \<Longrightarrow> json_weight v \<le> json_weight x"
proof -
  assume "pair_of x = Inr (k, v)"
  then obtain ys where "py_iter x = Inr ys"
    and "(case ys of [JStr k, v] \<Rightarrow> Inr (k, v) | [_, _] \<Rightarrow> Inl TypeErr | _ \<Rightarrow> Inl (ValueErr '''')) = Inr (k, v)"
    unfolding pair_of.simps ebind_eq_Inr by blast
  then have "py_iter x = Inr [JStr k, v]"
    by (simp split: list.splits json.splits)
  then show ?thesis by (rule py_iter_weight) simp
qed

lemma weight_dict_set: "weight_dict (dict_set k v d) \<le> json_weight v + weight_dict d"
  by (induction d) (auto simp: dict_set_def)

lemma weight_dict_update: "weight_dict (dict_update d e) \<le> weight_dict d + weight_dict e"
proof (induction d e rule: dict_update.induct)
  case (2 d k v kvs)
  with weight_dict_set [of k v d] show ?case by (simp add: dict_update.simps)
qed simp

lemma emap_pair_weight: "emap pair_of xs = Inr kvs \<Longrightarrow> weight_dict kvs \<le> weight_list xs"
  by (induction xs arbitrary: kvs)
    (auto simp: ebind_eq_Inr simp del: pair_of.simps intro: add_mono dest: pair_of_weight)

lemma py_dict_weight: "py_dict src = Inr d \<Longrightarrow> weight_dict d < json_weight src"
proof (cases src)
  case (JArr xs)
  assume "py_dict src = Inr d"
  with JArr obtain kvs where "emap pair_of xs = Inr kvs" "d = dict_update [] kvs"
    by (auto simp: ebind_eq_Inr simp del: pair_of.simps)
  then show ?thesis
    using JArr weight_dict_update [of "[]" kvs] emap_pair_weight [of xs kvs] by simp
next
  case (JStr s)
  assume "py_dict src = Inr d"
  with JStr show ?thesis by (cases s) auto
qed auto

lemma weight_dict_delete: "weight_dict (AList.delete k d) \<le> weight_dict d"
  by (induction d) (auto simp: AList.delete_eq)

lemma dict_pop_weight: "dict_pop k d = Some (v, r) \<Longrightarrow> json_weight v + weight_dict r \<le> weight_dict d"
proof -
  assume "dict_pop k d = Some (v, r)"
  then have "map_of d k = Some v" and r: "r = AList.delete k d"
    by (auto simp: dict_pop_def split: option.splits)
  then show ?thesis
    using weight_dict_delete by (induction d arbitrary: r) (auto split: if_splits)
qed

subsection \<open>What a reader may raise\<close>

text \<open>
  The client catches \<open>ValueError\<close>, \<open>TypeError\<close>, \<open>KeyError\<close> and \<open>AttributeError\<close> around every reader. A
  reader that raises nothing else is safe; the rules below derive it from the reader's shape.
\<close>

definition safe_result :: "py_exc + 'a \<Rightarrow> bool" where
  "safe_result m \<longleftrightarrow> (\<forall>e. m = Inl e \<longrightarrow> decode_failure e)"

definition safe_reader :: "('v \<Rightarrow> py_exc + 'a) \<Rightarrow> bool" where
  "safe_reader f \<longleftrightarrow> (\<forall>v. safe_result (f v))"

lemma safe_readerI: "(\<And>v. safe_result (f v)) \<Longrightarrow> safe_reader f"
  by (simp add: safe_reader_def)

lemma safe_readerD: "safe_reader f \<Longrightarrow> f v = Inl e \<Longrightarrow> decode_failure e"
  by (simp add: safe_reader_def safe_result_def)

lemma safe_Inr [wire_rules]: "safe_reader (\<lambda>d. Inr (f d))" "safe_result (Inr x)"
  by (simp_all add: safe_reader_def safe_result_def)

lemma safe_ebind: "safe_result m \<Longrightarrow> (\<And>x. safe_result (f x)) \<Longrightarrow> safe_result (ebind m f)"
  by (cases m) (auto simp: safe_result_def)

lemma safe_emap: "safe_reader f \<Longrightarrow> safe_result (emap f xs)"
  by (induction xs) (auto simp: safe_reader_def intro!: safe_ebind safe_Inr)

lemma safe_py_iter: "safe_result (py_iter v)"
  by (cases v) (simp_all add: safe_result_def)

lemma safe_pair_of: "safe_reader pair_of"
  by (rule safe_readerI, unfold pair_of.simps, rule safe_ebind [OF safe_py_iter])
    (auto simp: safe_result_def split: list.splits json.splits)

lemma safe_py_dict: "safe_result (py_dict v)"
  by (cases v) (auto simp del: pair_of.simps py_iter.simps
      intro!: safe_ebind safe_py_iter safe_emap safe_pair_of wire_rules)

lemma safe_reading [wire_rules]: "safe_reader f \<Longrightarrow> safe_result (reading src f)"
  unfolding reading_def by (rule safe_ebind [OF safe_py_dict]) (simp add: safe_reader_def)

lemma safe_popping [wire_rules]:
  "safe_reader conv \<Longrightarrow> (\<And>x. safe_reader (cont x)) \<Longrightarrow> safe_reader (popping k conv cont)"
  by (rule safe_readerI)
    (auto simp: popping_def safe_reader_def safe_result_def ebind_eq_Inl split: option.splits)

lemma safe_popping_opt [wire_rules]:
  "safe_reader conv \<Longrightarrow> (\<And>x. safe_reader (cont x)) \<Longrightarrow> safe_reader (popping_opt k conv cont)"
  by (rule safe_readerI)
    (auto simp: popping_opt_def safe_reader_def safe_result_def ebind_eq_Inl split: option.splits)

lemma safe_literal [wire_rules]: "safe_reader (literal c)"
  by (simp add: safe_reader_def safe_result_def literal_def)

lemma safe_list_of [wire_rules]: "safe_reader conv \<Longrightarrow> safe_reader (list_of conv)"
  unfolding list_of_def by (rule safe_readerI, rule safe_ebind [OF safe_py_iter], rule safe_emap)

lemma safe_enum_of [wire_rules]: "safe_reader (enum_of ms val)"
  by (auto simp: safe_reader_def safe_result_def dest!: enum_of_error)

text \<open>A union that is not \<open>None\<close> swallows what its alternatives raise, so it raises nothing at all.\<close>

lemma parse_union_total: "list_all safe_reader convs \<Longrightarrow> \<exists>u. parse_union guard convs v = Inr u"
proof (induction convs)
  case (Cons conv convs)
  then have "conv v = Inl e \<Longrightarrow> decode_failure e" for e
    using safe_readerD [of conv v] by simp
  with Cons show ?case
    by (cases "conv v") (auto simp: parse_union.simps)
qed (simp add: parse_union.simps)

lemma safe_parse_union [wire_rules]:
  "list_all safe_reader convs \<Longrightarrow> safe_reader (parse_union guard convs)"
  by (rule safe_readerI) (metis parse_union_total safe_Inr(2))

lemma list_allI [wire_rules]: "list_all P []" "P x \<Longrightarrow> list_all P xs \<Longrightarrow> list_all P (x # xs)"
  by simp_all

text \<open>The same for a recursive reader: its own calls are on lighter values.\<close>

definition safe_below :: "nat \<Rightarrow> (json \<Rightarrow> py_exc + 'a) \<Rightarrow> bool" where
  "safe_below n f \<longleftrightarrow> (\<forall>v. json_weight v < n \<longrightarrow> safe_result (f v))"

definition safe_dict_below :: "nat \<Rightarrow> (jdict \<Rightarrow> py_exc + 'a) \<Rightarrow> bool" where
  "safe_dict_below n f \<longleftrightarrow> (\<forall>d. weight_dict d < n \<longrightarrow> safe_result (f d))"

lemma safe_below_reading:
  "safe_dict_below (json_weight src) f \<Longrightarrow> safe_result (reading src f)"
  using safe_py_dict [of src] py_dict_weight [of src]
  by (cases "py_dict src") (auto simp: reading_def safe_dict_below_def safe_result_def)

lemma safe_below_reader: "safe_reader conv \<Longrightarrow> safe_below n conv"
  by (simp add: safe_below_def safe_reader_def)

lemma safe_below_list:
  assumes "safe_below n conv"
  shows "safe_below n (list_of conv)"
  unfolding safe_below_def
proof (intro allI impI)
  fix v
  assume v: "json_weight v < n"
  have "safe_result (emap conv ys)" if "\<And>y. y \<in> set ys \<Longrightarrow> json_weight y < n" for ys
    using that assms by (induction ys) (auto simp: safe_below_def intro!: safe_ebind safe_Inr)
  with v show "safe_result (list_of conv v)"
    using safe_py_iter [of v] py_iter_weight [of v]
    by (cases "py_iter v") (auto simp: list_of_def safe_result_def intro: le_less_trans)
qed

lemma safe_below_Inr: "safe_dict_below n (\<lambda>d. Inr (g d))"
  by (simp add: safe_dict_below_def safe_result_def)

lemma safe_below_popping:
  assumes "safe_below n conv" "\<And>x. safe_dict_below n (cont x)"
  shows "safe_dict_below n (popping k conv cont)"
  unfolding safe_dict_below_def popping_def
proof (intro allI impI)
  fix d :: jdict
  assume d: "weight_dict d < n"
  show "safe_result (case dict_pop k d of None \<Rightarrow> Inl KeyErr | Some (v, r) \<Rightarrow> ebind (conv v) (\<lambda>x. cont x r))"
  proof (cases "dict_pop k d")
    case None
    then show ?thesis by (simp add: safe_result_def)
  next
    case (Some p)
    with d dict_pop_weight [of k d "fst p" "snd p"] assms show ?thesis
      by (cases p) (auto simp: safe_below_def safe_dict_below_def intro!: safe_ebind)
  qed
qed

lemma safe_below_popping_opt:
  assumes "safe_below n conv" "\<And>x. safe_dict_below n (cont x)"
  shows "safe_dict_below n (popping_opt k conv cont)"
  unfolding safe_dict_below_def popping_opt_def
proof (intro allI impI)
  fix d :: jdict
  assume d: "weight_dict d < n"
  show "safe_result (case dict_pop k d of None \<Rightarrow> cont UNSET d | Some (v, r) \<Rightarrow> ebind (conv v) (\<lambda>x. cont (Given x) r))"
  proof (cases "dict_pop k d")
    case None
    with d assms show ?thesis by (simp add: safe_dict_below_def)
  next
    case (Some p)
    with d dict_pop_weight [of k d "fst p" "snd p"] assms show ?thesis
      by (cases p) (auto simp: safe_below_def safe_dict_below_def intro!: safe_ebind)
  qed
qed

lemma safe_int16_of_str: "safe_result (int16_of_str s)"
proof -
  have "safe_result (case w of None \<Rightarrow> Inl (ValueErr m)
      | Some ds \<Rightarrow> (if ds = [] then Inl (ValueErr m)
         else case hex_value 0 ds of None \<Rightarrow> Inl (ValueErr m) | Some n \<Rightarrow> Inr (h n)))"
    for w :: "string option" and m and h :: "int \<Rightarrow> int"
    by (auto simp: safe_result_def split: option.splits)
  then show ?thesis
    unfolding int16_of_str_def Let_def case_prod_beta .
qed

lemma safe_uuid_of_str: "safe_result (uuid_of_str s)"
proof -
  have "safe_result (if length h \<noteq> 32 then Inl (ValueErr m)
      else ebind (int16_of_str h) (\<lambda>n. if P n then Inr (f n) else Inl (ValueErr k)))"
    for h m k P and f :: "int \<Rightarrow> uuid"
    by (cases "int16_of_str h")
      (use safe_int16_of_str [of h] in \<open>auto simp: safe_result_def\<close>)
  then show ?thesis
    unfolding uuid_of_str_def Let_def .
qed

lemma safe_uuid_new: "safe_reader uuid_new"
proof (rule safe_readerI)
  show "safe_result (uuid_new v)" for v
    by (cases v) (simp_all add: uuid_new.simps safe_uuid_of_str, simp_all add: safe_result_def)
qed

lemma safe_from_isoformat: "safe_reader from_isoformat"
  by (rule safe_readerI, case_tac v)
    (auto simp: from_isoformat.simps safe_result_def datetime_of_str_def Let_def
      split: if_splits option.splits prod.splits)

subsection \<open>The interface of a wire model\<close>

locale codec =
  fixes enc :: "'a \<Rightarrow> json"
    and dec :: "json \<Rightarrow> py_exc + 'a"
    and ok :: "'a \<Rightarrow> bool"
  assumes dec_enc [wire_simps]: "ok x \<Longrightarrow> dec (enc x) = Inr x"
    and dec_safe [wire_rules]: "safe_reader dec"
begin

lemma enc_inject: "ok x \<Longrightarrow> ok y \<Longrightarrow> enc x = enc y \<longleftrightarrow> x = y"
  by (metis dec_enc sum.inject(2))

lemma dec_list [wire_simps]: "list_all ok xs \<Longrightarrow> list_of dec (JArr (map enc xs)) = Inr xs"
  by (simp add: list_of_def emap_map)
    (metis (mono_tags, lifting) dec_enc emap_all_Inr list.map_ident list_all_iff)

lemma pop_given [wire_simps]:
  "given_all ok u \<Longrightarrow> k \<notin> dict_keys d \<Longrightarrow> k \<notin> dict_keys e \<Longrightarrow>
     popping_opt k dec cont (d @ entry k (map_given enc u) @ e) = cont u (d @ e)"
  "given_all ok u \<Longrightarrow> k \<notin> dict_keys d \<Longrightarrow>
     popping_opt k dec cont (d @ entry k (map_given enc u)) = cont u d"
  "given_all ok u \<Longrightarrow> k \<notin> dict_keys e \<Longrightarrow>
     popping_opt k dec cont (entry k (map_given enc u) @ e) = cont u e"
  "given_all ok u \<Longrightarrow> popping_opt k dec cont (entry k (map_given enc u)) = cont u []"
  using popping_opt_entry [of k d e dec cont "map_given enc u"]
    popping_opt_entry [of k d "[]" dec cont "map_given enc u"]
    popping_opt_entry [of k "[]" e dec cont "map_given enc u"]
    popping_opt_entry [of k "[]" "[]" dec cont "map_given enc u"]
  by (cases u; simp add: dec_enc)+

lemma lenient_enc [wire_simps]:
  "(\<And>x. ok x \<Longrightarrow> guard (enc x) \<and> enc x \<noteq> JNull) \<Longrightarrow> lenient_ok guard (dec # ds) ok u \<Longrightarrow>
     parse_union guard (dec # ds) (lenient_json enc u) = Inr u"
  by (cases u) (auto simp: dec_enc parse_union.simps split: sum.splits lenient.splits)

end

text \<open>A list of wire models, and a union of one with raw values, are wire models again.\<close>

locale list_codec = codec enc dec ok
  for enc :: "'a \<Rightarrow> json" and dec :: "json \<Rightarrow> py_exc + 'a" and ok :: "'a \<Rightarrow> bool"
begin

sublocale items: codec "\<lambda>xs. JArr (map enc xs)" "list_of dec" "list_all ok"
  by unfold_locales (rule dec_list, assumption, intro wire_rules)

end

locale union_codec = codec enc dec ok
  for enc :: "'a \<Rightarrow> json" and dec :: "json \<Rightarrow> py_exc + 'a" and ok :: "'a \<Rightarrow> bool" +
  fixes guard :: "json \<Rightarrow> bool" and alternatives :: "(json \<Rightarrow> py_exc + 'a) list"
  assumes guarded: "ok x \<Longrightarrow> guard (enc x) \<and> enc x \<noteq> JNull"
    and alternatives_safe: "list_all safe_reader alternatives"
begin

sublocale raw: codec "lenient_json enc" "parse_union guard (dec # alternatives)"
    "lenient_ok guard (dec # alternatives) ok"
  by unfold_locales
    (rule lenient_enc [OF guarded], assumption+, intro wire_rules alternatives_safe)

end

text \<open>A field kept as it came needs no check.\<close>

interpretation uuid_wire: codec "\<lambda>u. JStr (uuid_str u)" uuid_new "\<lambda>_. True"
  by unfold_locales (rule uuid_new_str safe_uuid_new)+

interpretation datetime_wire: union_codec "\<lambda>t. JStr (isoformat t)" from_isoformat iso_stable is_str "[]"
  by unfold_locales (simp_all add: iso_stable_def safe_from_isoformat)

end
