(* ===== verification/Wire_Service.thy ===== *)
theory Wire_Service
  imports Wire_Codec
begin

text \<open>
  The models of errors, jobs and the service life cycle (\<open>api_error.py\<close>, \<open>job.py\<close>, \<open>job_event.py\<close>, \<open>service_status.py\<close> and their parts).
\<close>

record api_error_details_type_0 =
  api_error_details_type_0_extra :: jdict

definition api_error_details_type_0_to_dict :: "api_error_details_type_0 \<Rightarrow> jdict" where
  "api_error_details_type_0_to_dict x =
     dict_update [] (api_error_details_type_0_extra x)"

definition api_error_details_type_0_from_dict :: "json \<Rightarrow> py_exc + api_error_details_type_0" where
  "api_error_details_type_0_from_dict src = reading src (
     (\<lambda>d. Inr \<lparr>api_error_details_type_0_extra = d\<rparr>))"

definition api_error_details_type_0_ok :: "api_error_details_type_0 \<Rightarrow> bool" where
  "api_error_details_type_0_ok x \<longleftrightarrow> extra_ok {} (api_error_details_type_0_extra x)"

interpretation api_error_details_type_0_wire: codec "\<lambda>x. JObj (api_error_details_type_0_to_dict x)" api_error_details_type_0_from_dict api_error_details_type_0_ok
  by unfold_locales
    (simp add: api_error_details_type_0_to_dict_def api_error_details_type_0_from_dict_def api_error_details_type_0_ok_def wire_simps cong: wire_cong,
     rule safe_readerI, unfold api_error_details_type_0_from_dict_def, intro wire_rules)

interpretation api_error_details_type_0_union: union_codec "\<lambda>x. JObj (api_error_details_type_0_to_dict x)" api_error_details_type_0_from_dict api_error_details_type_0_ok is_dict "[]"
  by unfold_locales (simp_all add: wire_rules)

record item_error_details_type_0 =
  item_error_details_type_0_extra :: jdict

definition item_error_details_type_0_to_dict :: "item_error_details_type_0 \<Rightarrow> jdict" where
  "item_error_details_type_0_to_dict x =
     dict_update [] (item_error_details_type_0_extra x)"

definition item_error_details_type_0_from_dict :: "json \<Rightarrow> py_exc + item_error_details_type_0" where
  "item_error_details_type_0_from_dict src = reading src (
     (\<lambda>d. Inr \<lparr>item_error_details_type_0_extra = d\<rparr>))"

definition item_error_details_type_0_ok :: "item_error_details_type_0 \<Rightarrow> bool" where
  "item_error_details_type_0_ok x \<longleftrightarrow> extra_ok {} (item_error_details_type_0_extra x)"

interpretation item_error_details_type_0_wire: codec "\<lambda>x. JObj (item_error_details_type_0_to_dict x)" item_error_details_type_0_from_dict item_error_details_type_0_ok
  by unfold_locales
    (simp add: item_error_details_type_0_to_dict_def item_error_details_type_0_from_dict_def item_error_details_type_0_ok_def wire_simps cong: wire_cong,
     rule safe_readerI, unfold item_error_details_type_0_from_dict_def, intro wire_rules)

interpretation item_error_details_type_0_union: union_codec "\<lambda>x. JObj (item_error_details_type_0_to_dict x)" item_error_details_type_0_from_dict item_error_details_type_0_ok is_dict "[]"
  by unfold_locales (simp_all add: wire_rules)

record item_error =
  item_error_index :: json
  item_error_code :: json
  item_error_message :: json
  item_error_details :: "item_error_details_type_0 lenient unset"
  item_error_extra :: jdict

definition item_error_to_dict :: "item_error \<Rightarrow> jdict" where
  "item_error_to_dict x =
     put_given ''details'' (map_given (lenient_json (\<lambda>x. JObj (item_error_details_type_0_to_dict x))) (item_error_details x)) (
     dict_update (dict_update [] (item_error_extra x))
       [(''index'', item_error_index x),
        (''code'', item_error_code x),
        (''message'', item_error_message x)])"

definition item_error_from_dict :: "json \<Rightarrow> py_exc + item_error" where
  "item_error_from_dict src = reading src (
     popping ''index'' Inr (\<lambda>index.
     popping ''code'' Inr (\<lambda>code.
     popping ''message'' Inr (\<lambda>message.
     popping_opt ''details'' (parse_union is_dict [item_error_details_type_0_from_dict]) (\<lambda>details.
     (\<lambda>d. Inr \<lparr>item_error_index = index,
        item_error_code = code,
        item_error_message = message,
        item_error_details = details,
        item_error_extra = d\<rparr>))))))"

definition item_error_ok :: "item_error \<Rightarrow> bool" where
  "item_error_ok x \<longleftrightarrow> extra_ok {''index'', ''code'', ''message'', ''details''} (item_error_extra x)
     \<and> given_all (lenient_ok is_dict [item_error_details_type_0_from_dict] item_error_details_type_0_ok) (item_error_details x)"

interpretation item_error_wire: codec "\<lambda>x. JObj (item_error_to_dict x)" item_error_from_dict item_error_ok
  by unfold_locales
    (simp add: item_error_to_dict_def item_error_from_dict_def item_error_ok_def wire_simps cong: wire_cong,
     rule safe_readerI, unfold item_error_from_dict_def, intro wire_rules)

interpretation item_error_list: list_codec "\<lambda>x. JObj (item_error_to_dict x)" item_error_from_dict item_error_ok
  by unfold_locales

datatype api_error_code = ApiErrorCode_CANCELLATION_PENDING | ApiErrorCode_EVENT_HISTORY_EXPIRED | ApiErrorCode_EXTERNAL_MODIFICATION_CONFLICT | ApiErrorCode_INCOMPLETE_ANALYSIS | ApiErrorCode_INPUT_SECURITY_REJECTION | ApiErrorCode_INTERNAL_ERROR | ApiErrorCode_INVALID_ENTITY_ID | ApiErrorCode_INVALID_REQUEST | ApiErrorCode_MAPPING_MERGE_CONFLICT | ApiErrorCode_METHOD_NOT_ALLOWED | ApiErrorCode_NOT_FOUND | ApiErrorCode_OPERATION_NOT_IMPLEMENTED | ApiErrorCode_PROJECT_BUSY | ApiErrorCode_PROJECT_LOAD_FAILED | ApiErrorCode_PROJECT_NOT_READY | ApiErrorCode_RESOURCE_LIMIT | ApiErrorCode_SERVICE_SHUTTING_DOWN | ApiErrorCode_STALE_REVISION | ApiErrorCode_UNSUPPORTED_CAPABILITY

fun api_error_code_value :: "api_error_code \<Rightarrow> string" where
  "api_error_code_value ApiErrorCode_CANCELLATION_PENDING = ''CANCELLATION_PENDING''"
| "api_error_code_value ApiErrorCode_EVENT_HISTORY_EXPIRED = ''EVENT_HISTORY_EXPIRED''"
| "api_error_code_value ApiErrorCode_EXTERNAL_MODIFICATION_CONFLICT = ''EXTERNAL_MODIFICATION_CONFLICT''"
| "api_error_code_value ApiErrorCode_INCOMPLETE_ANALYSIS = ''INCOMPLETE_ANALYSIS''"
| "api_error_code_value ApiErrorCode_INPUT_SECURITY_REJECTION = ''INPUT_SECURITY_REJECTION''"
| "api_error_code_value ApiErrorCode_INTERNAL_ERROR = ''INTERNAL_ERROR''"
| "api_error_code_value ApiErrorCode_INVALID_ENTITY_ID = ''INVALID_ENTITY_ID''"
| "api_error_code_value ApiErrorCode_INVALID_REQUEST = ''INVALID_REQUEST''"
| "api_error_code_value ApiErrorCode_MAPPING_MERGE_CONFLICT = ''MAPPING_MERGE_CONFLICT''"
| "api_error_code_value ApiErrorCode_METHOD_NOT_ALLOWED = ''METHOD_NOT_ALLOWED''"
| "api_error_code_value ApiErrorCode_NOT_FOUND = ''NOT_FOUND''"
| "api_error_code_value ApiErrorCode_OPERATION_NOT_IMPLEMENTED = ''OPERATION_NOT_IMPLEMENTED''"
| "api_error_code_value ApiErrorCode_PROJECT_BUSY = ''PROJECT_BUSY''"
| "api_error_code_value ApiErrorCode_PROJECT_LOAD_FAILED = ''PROJECT_LOAD_FAILED''"
| "api_error_code_value ApiErrorCode_PROJECT_NOT_READY = ''PROJECT_NOT_READY''"
| "api_error_code_value ApiErrorCode_RESOURCE_LIMIT = ''RESOURCE_LIMIT''"
| "api_error_code_value ApiErrorCode_SERVICE_SHUTTING_DOWN = ''SERVICE_SHUTTING_DOWN''"
| "api_error_code_value ApiErrorCode_STALE_REVISION = ''STALE_REVISION''"
| "api_error_code_value ApiErrorCode_UNSUPPORTED_CAPABILITY = ''UNSUPPORTED_CAPABILITY''"

definition api_error_code_of :: "json \<Rightarrow> py_exc + api_error_code" where
  "api_error_code_of = enum_of [ApiErrorCode_CANCELLATION_PENDING, ApiErrorCode_EVENT_HISTORY_EXPIRED, ApiErrorCode_EXTERNAL_MODIFICATION_CONFLICT, ApiErrorCode_INCOMPLETE_ANALYSIS, ApiErrorCode_INPUT_SECURITY_REJECTION, ApiErrorCode_INTERNAL_ERROR, ApiErrorCode_INVALID_ENTITY_ID, ApiErrorCode_INVALID_REQUEST, ApiErrorCode_MAPPING_MERGE_CONFLICT, ApiErrorCode_METHOD_NOT_ALLOWED, ApiErrorCode_NOT_FOUND, ApiErrorCode_OPERATION_NOT_IMPLEMENTED, ApiErrorCode_PROJECT_BUSY, ApiErrorCode_PROJECT_LOAD_FAILED, ApiErrorCode_PROJECT_NOT_READY, ApiErrorCode_RESOURCE_LIMIT, ApiErrorCode_SERVICE_SHUTTING_DOWN, ApiErrorCode_STALE_REVISION, ApiErrorCode_UNSUPPORTED_CAPABILITY] api_error_code_value"

interpretation api_error_code_wire: codec "\<lambda>m. JStr (api_error_code_value m)" api_error_code_of "\<lambda>_. True"
proof unfold_locales
  fix m
  show "api_error_code_of (JStr (api_error_code_value m)) = Inr m"
    by (cases m) (simp_all add: api_error_code_of_def enum_of_def)
qed (simp add: api_error_code_of_def safe_enum_of)

text \<open>
  \<open>api_error.py\<close>. An error holds its causes, which are errors again; the record is a datatype
  because Isabelle records cannot be recursive.
\<close>

datatype api_error = Api_Error
  (api_error_code: api_error_code)
  (api_error_message: json)
  (api_error_retryable: "json unset")
  (api_error_request_id: "json unset")
  (api_error_details: "api_error_details_type_0 lenient unset")
  (api_error_causes: "api_error list unset")
  (api_error_item_errors: "item_error list unset")
  (api_error_extra: jdict)

fun api_error_to_dict :: "api_error \<Rightarrow> jdict" where
  "api_error_to_dict (Api_Error code message retryable request_id details causes item_errors extra) =
     put_given ''itemErrors'' (map_given (\<lambda>ys. JArr (map (\<lambda>x. JObj (item_error_to_dict x)) ys)) item_errors) (
     put_given ''causes'' (map_given (\<lambda>ys. JArr (map (\<lambda>x. JObj (api_error_to_dict x)) ys)) causes) (
     put_given ''details'' (map_given (lenient_json (\<lambda>x. JObj (api_error_details_type_0_to_dict x))) details) (
     put_given ''requestId'' request_id (
     put_given ''retryable'' retryable (
     dict_update (dict_update [] extra)
       [(''code'', JStr (api_error_code_value code)),
        (''message'', message)])))))"

function api_error_from_dict :: "json \<Rightarrow> py_exc + api_error" where
  "api_error_from_dict src = reading src (
     popping ''code'' api_error_code_of (\<lambda>code.
     popping ''message'' Inr (\<lambda>message.
     popping_opt ''retryable'' Inr (\<lambda>retryable.
     popping_opt ''requestId'' Inr (\<lambda>request_id.
     popping_opt ''details'' (parse_union is_dict [api_error_details_type_0_from_dict]) (\<lambda>details.
     popping_opt ''causes'' (list_of api_error_from_dict) (\<lambda>causes.
     popping_opt ''itemErrors'' (list_of item_error_from_dict) (\<lambda>item_errors.
     (\<lambda>d. Inr (Api_Error code message retryable request_id details causes item_errors d))))))))))"
  by pat_completeness auto

termination
  by (relation "measure json_weight")
    (auto dest!: dict_pop_weight py_dict_weight py_iter_weight)

declare api_error_from_dict.simps [simp del]

fun api_error_ok :: "api_error \<Rightarrow> bool" where
  "api_error_ok (Api_Error code message retryable request_id details causes item_errors extra) \<longleftrightarrow>
     extra_ok {''code'', ''message'', ''retryable'', ''requestId'', ''details'', ''causes'',
       ''itemErrors''} extra
     \<and> given_all (lenient_ok is_dict [api_error_details_type_0_from_dict] api_error_details_type_0_ok) details
     \<and> given_all (list_all api_error_ok) causes
     \<and> given_all (list_all item_error_ok) item_errors"

interpretation api_error_wire: codec "\<lambda>x. JObj (api_error_to_dict x)" api_error_from_dict api_error_ok
proof unfold_locales
  fix x
  show "api_error_ok x \<Longrightarrow> api_error_from_dict (JObj (api_error_to_dict x)) = Inr x"
  proof (induction x rule: api_error_ok.induct)
    case (1 code message retryable request_id details causes item_errors extra)
    have causes: "map_given (\<lambda>ys. list_of api_error_from_dict (JArr (map (\<lambda>x. JObj (api_error_to_dict x)) ys))) causes
        = map_given Inr causes"
      using 1 by (cases causes) (auto simp: list_of_def emap_map list_all_iff intro: emap_all_Inr [where g = "\<lambda>x. x", simplified])
    show ?case
      using 1(2) causes
      by (cases causes) (simp_all add: api_error_from_dict.simps wire_simps entry_simps
          popping_opt_absent popping_opt_field)
  qed
next
  have "safe_result (api_error_from_dict src)" for src
  proof (induction src rule: measure_induct_rule [where f = json_weight])
    case (less src)
    then have rec: "safe_below (json_weight src) api_error_from_dict"
      by (simp add: safe_below_def)
    show ?case
      unfolding api_error_from_dict.simps [of src]
      by (intro safe_below_reading safe_below_popping safe_below_popping_opt safe_below_Inr
          safe_below_list rec safe_below_reader wire_rules)
  qed
  then show "safe_reader api_error_from_dict"
    by (rule safe_readerI)
qed

interpretation api_error_union: union_codec "\<lambda>x. JObj (api_error_to_dict x)" api_error_from_dict api_error_ok is_dict "[]"
  by unfold_locales (simp_all add: wire_rules)

record error_envelope =
  error_envelope_error :: api_error
  error_envelope_extra :: jdict

definition error_envelope_to_dict :: "error_envelope \<Rightarrow> jdict" where
  "error_envelope_to_dict x =
     dict_update (dict_update [] (error_envelope_extra x))
       [(''error'', JObj (api_error_to_dict (error_envelope_error x)))]"

definition error_envelope_from_dict :: "json \<Rightarrow> py_exc + error_envelope" where
  "error_envelope_from_dict src = reading src (
     popping ''error'' api_error_from_dict (\<lambda>error.
     (\<lambda>d. Inr \<lparr>error_envelope_error = error,
        error_envelope_extra = d\<rparr>)))"

definition error_envelope_ok :: "error_envelope \<Rightarrow> bool" where
  "error_envelope_ok x \<longleftrightarrow> extra_ok {''error''} (error_envelope_extra x)
     \<and> api_error_ok (error_envelope_error x)"

interpretation error_envelope_wire: codec "\<lambda>x. JObj (error_envelope_to_dict x)" error_envelope_from_dict error_envelope_ok
  by unfold_locales
    (simp add: error_envelope_to_dict_def error_envelope_from_dict_def error_envelope_ok_def wire_simps cong: wire_cong,
     rule safe_readerI, unfold error_envelope_from_dict_def, intro wire_rules)

record job_progress =
  job_progress_completed :: json
  job_progress_total :: json
  job_progress_stage :: json
  job_progress_extra :: jdict

definition job_progress_to_dict :: "job_progress \<Rightarrow> jdict" where
  "job_progress_to_dict x =
     dict_update (dict_update [] (job_progress_extra x))
       [(''completed'', job_progress_completed x),
        (''total'', job_progress_total x),
        (''stage'', job_progress_stage x)]"

definition job_progress_from_dict :: "json \<Rightarrow> py_exc + job_progress" where
  "job_progress_from_dict src = reading src (
     popping ''completed'' Inr (\<lambda>completed.
     popping ''total'' Inr (\<lambda>total.
     popping ''stage'' Inr (\<lambda>stage.
     (\<lambda>d. Inr \<lparr>job_progress_completed = completed,
        job_progress_total = total,
        job_progress_stage = stage,
        job_progress_extra = d\<rparr>)))))"

definition job_progress_ok :: "job_progress \<Rightarrow> bool" where
  "job_progress_ok x \<longleftrightarrow> extra_ok {''completed'', ''total'', ''stage''} (job_progress_extra x)"

interpretation job_progress_wire: codec "\<lambda>x. JObj (job_progress_to_dict x)" job_progress_from_dict job_progress_ok
  by unfold_locales
    (simp add: job_progress_to_dict_def job_progress_from_dict_def job_progress_ok_def wire_simps cong: wire_cong,
     rule safe_readerI, unfold job_progress_from_dict_def, intro wire_rules)

datatype job_state = JobState_CANCELLED | JobState_CANCELLING | JobState_FAILED | JobState_QUEUED | JobState_RUNNING | JobState_SUCCEEDED

fun job_state_value :: "job_state \<Rightarrow> string" where
  "job_state_value JobState_CANCELLED = ''CANCELLED''"
| "job_state_value JobState_CANCELLING = ''CANCELLING''"
| "job_state_value JobState_FAILED = ''FAILED''"
| "job_state_value JobState_QUEUED = ''QUEUED''"
| "job_state_value JobState_RUNNING = ''RUNNING''"
| "job_state_value JobState_SUCCEEDED = ''SUCCEEDED''"

definition job_state_of :: "json \<Rightarrow> py_exc + job_state" where
  "job_state_of = enum_of [JobState_CANCELLED, JobState_CANCELLING, JobState_FAILED, JobState_QUEUED, JobState_RUNNING, JobState_SUCCEEDED] job_state_value"

interpretation job_state_wire: codec "\<lambda>m. JStr (job_state_value m)" job_state_of "\<lambda>_. True"
proof unfold_locales
  fix m
  show "job_state_of (JStr (job_state_value m)) = Inr m"
    by (cases m) (simp_all add: job_state_of_def enum_of_def)
qed (simp add: job_state_of_def safe_enum_of)

record job_result_type_0 =
  job_result_type_0_extra :: jdict

definition job_result_type_0_to_dict :: "job_result_type_0 \<Rightarrow> jdict" where
  "job_result_type_0_to_dict x =
     dict_update [] (job_result_type_0_extra x)"

definition job_result_type_0_from_dict :: "json \<Rightarrow> py_exc + job_result_type_0" where
  "job_result_type_0_from_dict src = reading src (
     (\<lambda>d. Inr \<lparr>job_result_type_0_extra = d\<rparr>))"

definition job_result_type_0_ok :: "job_result_type_0 \<Rightarrow> bool" where
  "job_result_type_0_ok x \<longleftrightarrow> extra_ok {} (job_result_type_0_extra x)"

interpretation job_result_type_0_wire: codec "\<lambda>x. JObj (job_result_type_0_to_dict x)" job_result_type_0_from_dict job_result_type_0_ok
  by unfold_locales
    (simp add: job_result_type_0_to_dict_def job_result_type_0_from_dict_def job_result_type_0_ok_def wire_simps cong: wire_cong,
     rule safe_readerI, unfold job_result_type_0_from_dict_def, intro wire_rules)

datatype job_completeness_type_1 = JobCompletenessType1_COMPLETE | JobCompletenessType1_PARTIAL

fun job_completeness_type_1_value :: "job_completeness_type_1 \<Rightarrow> string" where
  "job_completeness_type_1_value JobCompletenessType1_COMPLETE = ''COMPLETE''"
| "job_completeness_type_1_value JobCompletenessType1_PARTIAL = ''PARTIAL''"

definition job_completeness_type_1_of :: "json \<Rightarrow> py_exc + job_completeness_type_1" where
  "job_completeness_type_1_of = enum_of [JobCompletenessType1_COMPLETE, JobCompletenessType1_PARTIAL] job_completeness_type_1_value"

interpretation job_completeness_type_1_wire: codec "\<lambda>m. JStr (job_completeness_type_1_value m)" job_completeness_type_1_of "\<lambda>_. True"
proof unfold_locales
  fix m
  show "job_completeness_type_1_of (JStr (job_completeness_type_1_value m)) = Inr m"
    by (cases m) (simp_all add: job_completeness_type_1_of_def enum_of_def)
qed (simp add: job_completeness_type_1_of_def safe_enum_of)

datatype job_cancellation_reason_type_1 = JobCancellationReasonType1_DEADLINE | JobCancellationReasonType1_SHUTDOWN | JobCancellationReasonType1_USER

fun job_cancellation_reason_type_1_value :: "job_cancellation_reason_type_1 \<Rightarrow> string" where
  "job_cancellation_reason_type_1_value JobCancellationReasonType1_DEADLINE = ''DEADLINE''"
| "job_cancellation_reason_type_1_value JobCancellationReasonType1_SHUTDOWN = ''SHUTDOWN''"
| "job_cancellation_reason_type_1_value JobCancellationReasonType1_USER = ''USER''"

definition job_cancellation_reason_type_1_of :: "json \<Rightarrow> py_exc + job_cancellation_reason_type_1" where
  "job_cancellation_reason_type_1_of = enum_of [JobCancellationReasonType1_DEADLINE, JobCancellationReasonType1_SHUTDOWN, JobCancellationReasonType1_USER] job_cancellation_reason_type_1_value"

interpretation job_cancellation_reason_type_1_wire: codec "\<lambda>m. JStr (job_cancellation_reason_type_1_value m)" job_cancellation_reason_type_1_of "\<lambda>_. True"
proof unfold_locales
  fix m
  show "job_cancellation_reason_type_1_of (JStr (job_cancellation_reason_type_1_value m)) = Inr m"
    by (cases m) (simp_all add: job_cancellation_reason_type_1_of_def enum_of_def)
qed (simp add: job_cancellation_reason_type_1_of_def safe_enum_of)

record job =
  job_job_id :: uuid
  job_type :: json
  job_state :: job_state
  job_created_at :: datetime
  job_started_at :: "datetime lenient"
  job_completed_at :: "datetime lenient"
  job_deadline_at :: "datetime lenient"
  job_session_id :: json
  job_logical_revision :: json
  job_source_snapshot_id :: json
  job_progress :: job_progress
  job_result :: "job_result_type_0 lenient"
  job_completeness :: "job_completeness_type_1 lenient"
  job_error :: "api_error lenient"
  job_diagnostics :: json
  job_cancellation_reason :: "job_cancellation_reason_type_1 lenient"
  job_extra :: jdict

definition job_to_dict :: "job \<Rightarrow> jdict" where
  "job_to_dict x =
     dict_update (dict_update [] (job_extra x))
       [(''jobId'', JStr (uuid_str (job_job_id x))),
        (''type'', job_type x),
        (''state'', JStr (job_state_value (job_state x))),
        (''createdAt'', JStr (isoformat (job_created_at x))),
        (''startedAt'', lenient_json (\<lambda>t. JStr (isoformat t)) (job_started_at x)),
        (''completedAt'', lenient_json (\<lambda>t. JStr (isoformat t)) (job_completed_at x)),
        (''deadlineAt'', lenient_json (\<lambda>t. JStr (isoformat t)) (job_deadline_at x)),
        (''sessionId'', job_session_id x),
        (''logicalRevision'', job_logical_revision x),
        (''sourceSnapshotId'', job_source_snapshot_id x),
        (''progress'', JObj (job_progress_to_dict (job_progress x))),
        (''result'', lenient_json (\<lambda>x. JObj (job_result_type_0_to_dict x)) (job_result x)),
        (''completeness'', lenient_json (\<lambda>m. JStr (job_completeness_type_1_value m)) (job_completeness x)),
        (''error'', lenient_json (\<lambda>x. JObj (api_error_to_dict x)) (job_error x)),
        (''diagnostics'', job_diagnostics x),
        (''cancellationReason'', lenient_json (\<lambda>m. JStr (job_cancellation_reason_type_1_value m)) (job_cancellation_reason x))]"

definition job_from_dict :: "json \<Rightarrow> py_exc + job" where
  "job_from_dict src = reading src (
     popping ''jobId'' uuid_new (\<lambda>job_id.
     popping ''type'' Inr (\<lambda>type.
     popping ''state'' job_state_of (\<lambda>state.
     popping ''createdAt'' from_isoformat (\<lambda>created_at.
     popping ''startedAt'' (parse_union is_str [from_isoformat]) (\<lambda>started_at.
     popping ''completedAt'' (parse_union is_str [from_isoformat]) (\<lambda>completed_at.
     popping ''deadlineAt'' (parse_union is_str [from_isoformat]) (\<lambda>deadline_at.
     popping ''sessionId'' Inr (\<lambda>session_id.
     popping ''logicalRevision'' Inr (\<lambda>logical_revision.
     popping ''sourceSnapshotId'' Inr (\<lambda>source_snapshot_id.
     popping ''progress'' job_progress_from_dict (\<lambda>progress.
     popping ''result'' (parse_union is_dict [job_result_type_0_from_dict]) (\<lambda>result.
     popping ''completeness'' (parse_union is_str [job_completeness_type_1_of, job_completeness_type_1_of, job_completeness_type_1_of]) (\<lambda>completeness.
     popping ''error'' (parse_union is_dict [api_error_from_dict]) (\<lambda>error.
     popping ''diagnostics'' Inr (\<lambda>diagnostics.
     popping ''cancellationReason'' (parse_union is_str [job_cancellation_reason_type_1_of, job_cancellation_reason_type_1_of, job_cancellation_reason_type_1_of]) (\<lambda>cancellation_reason.
     (\<lambda>d. Inr \<lparr>job_job_id = job_id,
        job_type = type,
        job_state = state,
        job_created_at = created_at,
        job_started_at = started_at,
        job_completed_at = completed_at,
        job_deadline_at = deadline_at,
        job_session_id = session_id,
        job_logical_revision = logical_revision,
        job_source_snapshot_id = source_snapshot_id,
        job_progress = progress,
        job_result = result,
        job_completeness = completeness,
        job_error = error,
        job_diagnostics = diagnostics,
        job_cancellation_reason = cancellation_reason,
        job_extra = d\<rparr>))))))))))))))))))"

definition job_ok :: "job \<Rightarrow> bool" where
  "job_ok x \<longleftrightarrow> extra_ok {''jobId'', ''type'', ''state'', ''createdAt'', ''startedAt'', ''completedAt'', ''deadlineAt'', ''sessionId'', ''logicalRevision'', ''sourceSnapshotId'', ''progress'', ''result'', ''completeness'', ''error'', ''diagnostics'', ''cancellationReason''} (job_extra x)
     \<and> iso_stable (job_created_at x)
     \<and> lenient_ok is_str [from_isoformat] iso_stable (job_started_at x)
     \<and> lenient_ok is_str [from_isoformat] iso_stable (job_completed_at x)
     \<and> lenient_ok is_str [from_isoformat] iso_stable (job_deadline_at x)
     \<and> job_progress_ok (job_progress x)
     \<and> lenient_ok is_dict [job_result_type_0_from_dict] job_result_type_0_ok (job_result x)
     \<and> lenient_ok is_str [job_completeness_type_1_of, job_completeness_type_1_of, job_completeness_type_1_of] (\<lambda>_. True) (job_completeness x)
     \<and> lenient_ok is_dict [api_error_from_dict] api_error_ok (job_error x)
     \<and> lenient_ok is_str [job_cancellation_reason_type_1_of, job_cancellation_reason_type_1_of, job_cancellation_reason_type_1_of] (\<lambda>_. True) (job_cancellation_reason x)"

interpretation job_wire: codec "\<lambda>x. JObj (job_to_dict x)" job_from_dict job_ok
  by unfold_locales
    (simp add: job_to_dict_def job_from_dict_def job_ok_def wire_simps cong: wire_cong,
     rule safe_readerI, unfold job_from_dict_def, intro wire_rules)

datatype job_event_type = JobEventType_JOB_CANCELLED | JobEventType_JOB_CANCEL_REQUESTED | JobEventType_JOB_COMPLETED | JobEventType_JOB_FAILED | JobEventType_JOB_PROGRESS | JobEventType_JOB_QUEUED | JobEventType_JOB_STARTED

fun job_event_type_value :: "job_event_type \<Rightarrow> string" where
  "job_event_type_value JobEventType_JOB_CANCELLED = ''job.cancelled''"
| "job_event_type_value JobEventType_JOB_CANCEL_REQUESTED = ''job.cancel_requested''"
| "job_event_type_value JobEventType_JOB_COMPLETED = ''job.completed''"
| "job_event_type_value JobEventType_JOB_FAILED = ''job.failed''"
| "job_event_type_value JobEventType_JOB_PROGRESS = ''job.progress''"
| "job_event_type_value JobEventType_JOB_QUEUED = ''job.queued''"
| "job_event_type_value JobEventType_JOB_STARTED = ''job.started''"

definition job_event_type_of :: "json \<Rightarrow> py_exc + job_event_type" where
  "job_event_type_of = enum_of [JobEventType_JOB_CANCELLED, JobEventType_JOB_CANCEL_REQUESTED, JobEventType_JOB_COMPLETED, JobEventType_JOB_FAILED, JobEventType_JOB_PROGRESS, JobEventType_JOB_QUEUED, JobEventType_JOB_STARTED] job_event_type_value"

interpretation job_event_type_wire: codec "\<lambda>m. JStr (job_event_type_value m)" job_event_type_of "\<lambda>_. True"
proof unfold_locales
  fix m
  show "job_event_type_of (JStr (job_event_type_value m)) = Inr m"
    by (cases m) (simp_all add: job_event_type_of_def enum_of_def)
qed (simp add: job_event_type_of_def safe_enum_of)

datatype job_event_state = JobEventState_CANCELLED | JobEventState_CANCELLING | JobEventState_FAILED | JobEventState_QUEUED | JobEventState_RUNNING | JobEventState_SUCCEEDED

fun job_event_state_value :: "job_event_state \<Rightarrow> string" where
  "job_event_state_value JobEventState_CANCELLED = ''CANCELLED''"
| "job_event_state_value JobEventState_CANCELLING = ''CANCELLING''"
| "job_event_state_value JobEventState_FAILED = ''FAILED''"
| "job_event_state_value JobEventState_QUEUED = ''QUEUED''"
| "job_event_state_value JobEventState_RUNNING = ''RUNNING''"
| "job_event_state_value JobEventState_SUCCEEDED = ''SUCCEEDED''"

definition job_event_state_of :: "json \<Rightarrow> py_exc + job_event_state" where
  "job_event_state_of = enum_of [JobEventState_CANCELLED, JobEventState_CANCELLING, JobEventState_FAILED, JobEventState_QUEUED, JobEventState_RUNNING, JobEventState_SUCCEEDED] job_event_state_value"

interpretation job_event_state_wire: codec "\<lambda>m. JStr (job_event_state_value m)" job_event_state_of "\<lambda>_. True"
proof unfold_locales
  fix m
  show "job_event_state_of (JStr (job_event_state_value m)) = Inr m"
    by (cases m) (simp_all add: job_event_state_of_def enum_of_def)
qed (simp add: job_event_state_of_def safe_enum_of)

record job_event =
  job_event_job_id :: uuid
  job_event_sequence :: json
  job_event_type :: job_event_type
  job_event_at :: datetime
  job_event_state :: job_event_state
  job_event_progress :: job_progress
  job_event_result_url :: json
  job_event_extra :: jdict

definition job_event_to_dict :: "job_event \<Rightarrow> jdict" where
  "job_event_to_dict x =
     dict_update (dict_update [] (job_event_extra x))
       [(''jobId'', JStr (uuid_str (job_event_job_id x))),
        (''sequence'', job_event_sequence x),
        (''type'', JStr (job_event_type_value (job_event_type x))),
        (''at'', JStr (isoformat (job_event_at x))),
        (''state'', JStr (job_event_state_value (job_event_state x))),
        (''progress'', JObj (job_progress_to_dict (job_event_progress x))),
        (''resultUrl'', job_event_result_url x)]"

definition job_event_from_dict :: "json \<Rightarrow> py_exc + job_event" where
  "job_event_from_dict src = reading src (
     popping ''jobId'' uuid_new (\<lambda>job_id.
     popping ''sequence'' Inr (\<lambda>sequence.
     popping ''type'' job_event_type_of (\<lambda>type.
     popping ''at'' from_isoformat (\<lambda>at_time.
     popping ''state'' job_event_state_of (\<lambda>state.
     popping ''progress'' job_progress_from_dict (\<lambda>progress.
     popping ''resultUrl'' Inr (\<lambda>result_url.
     (\<lambda>d. Inr \<lparr>job_event_job_id = job_id,
        job_event_sequence = sequence,
        job_event_type = type,
        job_event_at = at_time,
        job_event_state = state,
        job_event_progress = progress,
        job_event_result_url = result_url,
        job_event_extra = d\<rparr>)))))))))"

definition job_event_ok :: "job_event \<Rightarrow> bool" where
  "job_event_ok x \<longleftrightarrow> extra_ok {''jobId'', ''sequence'', ''type'', ''at'', ''state'', ''progress'', ''resultUrl''} (job_event_extra x)
     \<and> iso_stable (job_event_at x)
     \<and> job_progress_ok (job_event_progress x)"

interpretation job_event_wire: codec "\<lambda>x. JObj (job_event_to_dict x)" job_event_from_dict job_event_ok
  by unfold_locales
    (simp add: job_event_to_dict_def job_event_from_dict_def job_event_ok_def wire_simps cong: wire_cong,
     rule safe_readerI, unfold job_event_from_dict_def, intro wire_rules)

datatype service_status_state = ServiceStatusState_FAILED | ServiceStatusState_LOADING | ServiceStatusState_READY | ServiceStatusState_RELOADING | ServiceStatusState_SHUTTING_DOWN | ServiceStatusState_STARTING | ServiceStatusState_STOPPED

fun service_status_state_value :: "service_status_state \<Rightarrow> string" where
  "service_status_state_value ServiceStatusState_FAILED = ''FAILED''"
| "service_status_state_value ServiceStatusState_LOADING = ''LOADING''"
| "service_status_state_value ServiceStatusState_READY = ''READY''"
| "service_status_state_value ServiceStatusState_RELOADING = ''RELOADING''"
| "service_status_state_value ServiceStatusState_SHUTTING_DOWN = ''SHUTTING_DOWN''"
| "service_status_state_value ServiceStatusState_STARTING = ''STARTING''"
| "service_status_state_value ServiceStatusState_STOPPED = ''STOPPED''"

definition service_status_state_of :: "json \<Rightarrow> py_exc + service_status_state" where
  "service_status_state_of = enum_of [ServiceStatusState_FAILED, ServiceStatusState_LOADING, ServiceStatusState_READY, ServiceStatusState_RELOADING, ServiceStatusState_SHUTTING_DOWN, ServiceStatusState_STARTING, ServiceStatusState_STOPPED] service_status_state_value"

interpretation service_status_state_wire: codec "\<lambda>m. JStr (service_status_state_value m)" service_status_state_of "\<lambda>_. True"
proof unfold_locales
  fix m
  show "service_status_state_of (JStr (service_status_state_value m)) = Inr m"
    by (cases m) (simp_all add: service_status_state_of_def enum_of_def)
qed (simp add: service_status_state_of_def safe_enum_of)

record progress =
  progress_completed :: json
  progress_total :: json
  progress_unit :: json
  progress_extra :: jdict

definition progress_to_dict :: "progress \<Rightarrow> jdict" where
  "progress_to_dict x =
     dict_update (dict_update [] (progress_extra x))
       [(''completed'', progress_completed x),
        (''total'', progress_total x),
        (''unit'', progress_unit x)]"

definition progress_from_dict :: "json \<Rightarrow> py_exc + progress" where
  "progress_from_dict src = reading src (
     popping ''completed'' Inr (\<lambda>completed.
     popping ''total'' Inr (\<lambda>total.
     popping ''unit'' Inr (\<lambda>unit.
     (\<lambda>d. Inr \<lparr>progress_completed = completed,
        progress_total = total,
        progress_unit = unit,
        progress_extra = d\<rparr>)))))"

definition progress_ok :: "progress \<Rightarrow> bool" where
  "progress_ok x \<longleftrightarrow> extra_ok {''completed'', ''total'', ''unit''} (progress_extra x)"

interpretation progress_wire: codec "\<lambda>x. JObj (progress_to_dict x)" progress_from_dict progress_ok
  by unfold_locales
    (simp add: progress_to_dict_def progress_from_dict_def progress_ok_def wire_simps cong: wire_cong,
     rule safe_readerI, unfold progress_from_dict_def, intro wire_rules)

record service_status =
  service_status_state :: service_status_state
  service_status_stage :: json
  service_status_progress :: progress
  service_status_inputs :: json
  service_status_project_path :: "json unset"
  service_status_error :: "api_error lenient unset"
  service_status_extra :: jdict

definition service_status_to_dict :: "service_status \<Rightarrow> jdict" where
  "service_status_to_dict x =
     put_given ''error'' (map_given (lenient_json (\<lambda>x. JObj (api_error_to_dict x))) (service_status_error x)) (
     put_given ''projectPath'' (service_status_project_path x) (
     dict_update (dict_update [] (service_status_extra x))
       [(''state'', JStr (service_status_state_value (service_status_state x))),
        (''stage'', service_status_stage x),
        (''progress'', JObj (progress_to_dict (service_status_progress x))),
        (''inputs'', service_status_inputs x)]))"

definition service_status_from_dict :: "json \<Rightarrow> py_exc + service_status" where
  "service_status_from_dict src = reading src (
     popping ''state'' service_status_state_of (\<lambda>state.
     popping ''stage'' Inr (\<lambda>stage.
     popping ''progress'' progress_from_dict (\<lambda>progress.
     popping ''inputs'' Inr (\<lambda>inputs.
     popping_opt ''projectPath'' Inr (\<lambda>project_path.
     popping_opt ''error'' (parse_union is_dict [api_error_from_dict]) (\<lambda>error.
     (\<lambda>d. Inr \<lparr>service_status_state = state,
        service_status_stage = stage,
        service_status_progress = progress,
        service_status_inputs = inputs,
        service_status_project_path = project_path,
        service_status_error = error,
        service_status_extra = d\<rparr>))))))))"

definition service_status_ok :: "service_status \<Rightarrow> bool" where
  "service_status_ok x \<longleftrightarrow> extra_ok {''state'', ''stage'', ''progress'', ''inputs'', ''projectPath'', ''error''} (service_status_extra x)
     \<and> progress_ok (service_status_progress x)
     \<and> given_all (lenient_ok is_dict [api_error_from_dict] api_error_ok) (service_status_error x)"

interpretation service_status_wire: codec "\<lambda>x. JObj (service_status_to_dict x)" service_status_from_dict service_status_ok
  by unfold_locales
    (simp add: service_status_to_dict_def service_status_from_dict_def service_status_ok_def wire_simps cong: wire_cong,
     rule safe_readerI, unfold service_status_from_dict_def, intro wire_rules)

record liveness =
  liveness_status :: json
  liveness_extra :: jdict

definition liveness_to_dict :: "liveness \<Rightarrow> jdict" where
  "liveness_to_dict x =
     dict_update (dict_update [] (liveness_extra x))
       [(''status'', liveness_status x)]"

definition liveness_from_dict :: "json \<Rightarrow> py_exc + liveness" where
  "liveness_from_dict src = reading src (
     popping ''status'' (literal (JStr ''ALIVE'')) (\<lambda>status.
     (\<lambda>d. Inr \<lparr>liveness_status = status,
        liveness_extra = d\<rparr>)))"

definition liveness_ok :: "liveness \<Rightarrow> bool" where
  "liveness_ok x \<longleftrightarrow> extra_ok {''status''} (liveness_extra x)
     \<and> json_eq (liveness_status x) (JStr ''ALIVE'')"

interpretation liveness_wire: codec "\<lambda>x. JObj (liveness_to_dict x)" liveness_from_dict liveness_ok
  by unfold_locales
    (simp add: liveness_to_dict_def liveness_from_dict_def liveness_ok_def wire_simps cong: wire_cong,
     rule safe_readerI, unfold liveness_from_dict_def, intro wire_rules)

datatype shutdown_request_policy = ShutdownRequestPolicy_DISCARD | ShutdownRequestPolicy_REFUSE_IF_DIRTY | ShutdownRequestPolicy_SAVE

fun shutdown_request_policy_value :: "shutdown_request_policy \<Rightarrow> string" where
  "shutdown_request_policy_value ShutdownRequestPolicy_DISCARD = ''discard''"
| "shutdown_request_policy_value ShutdownRequestPolicy_REFUSE_IF_DIRTY = ''refuse_if_dirty''"
| "shutdown_request_policy_value ShutdownRequestPolicy_SAVE = ''save''"

definition shutdown_request_policy_of :: "json \<Rightarrow> py_exc + shutdown_request_policy" where
  "shutdown_request_policy_of = enum_of [ShutdownRequestPolicy_DISCARD, ShutdownRequestPolicy_REFUSE_IF_DIRTY, ShutdownRequestPolicy_SAVE] shutdown_request_policy_value"

interpretation shutdown_request_policy_wire: codec "\<lambda>m. JStr (shutdown_request_policy_value m)" shutdown_request_policy_of "\<lambda>_. True"
proof unfold_locales
  fix m
  show "shutdown_request_policy_of (JStr (shutdown_request_policy_value m)) = Inr m"
    by (cases m) (simp_all add: shutdown_request_policy_of_def enum_of_def)
qed (simp add: shutdown_request_policy_of_def safe_enum_of)

record shutdown_request =
  shutdown_request_policy :: "shutdown_request_policy unset"

definition shutdown_request_to_dict :: "shutdown_request \<Rightarrow> jdict" where
  "shutdown_request_to_dict x =
     put_given ''policy'' (map_given (\<lambda>m. JStr (shutdown_request_policy_value m)) (shutdown_request_policy x)) (
     [])"

definition shutdown_request_from_dict :: "json \<Rightarrow> py_exc + shutdown_request" where
  "shutdown_request_from_dict src = reading src (
     popping_opt ''policy'' shutdown_request_policy_of (\<lambda>policy.
     (\<lambda>d. Inr \<lparr>shutdown_request_policy = policy\<rparr>)))"

interpretation shutdown_request_wire: codec "\<lambda>x. JObj (shutdown_request_to_dict x)" shutdown_request_from_dict "\<lambda>_. True"
  by unfold_locales
    (simp add: shutdown_request_to_dict_def shutdown_request_from_dict_def wire_simps cong: wire_cong,
     rule safe_readerI, unfold shutdown_request_from_dict_def, intro wire_rules)

datatype shutdown_accepted_policy = ShutdownAcceptedPolicy_DISCARD | ShutdownAcceptedPolicy_REFUSE_IF_DIRTY | ShutdownAcceptedPolicy_SAVE

fun shutdown_accepted_policy_value :: "shutdown_accepted_policy \<Rightarrow> string" where
  "shutdown_accepted_policy_value ShutdownAcceptedPolicy_DISCARD = ''discard''"
| "shutdown_accepted_policy_value ShutdownAcceptedPolicy_REFUSE_IF_DIRTY = ''refuse_if_dirty''"
| "shutdown_accepted_policy_value ShutdownAcceptedPolicy_SAVE = ''save''"

definition shutdown_accepted_policy_of :: "json \<Rightarrow> py_exc + shutdown_accepted_policy" where
  "shutdown_accepted_policy_of = enum_of [ShutdownAcceptedPolicy_DISCARD, ShutdownAcceptedPolicy_REFUSE_IF_DIRTY, ShutdownAcceptedPolicy_SAVE] shutdown_accepted_policy_value"

interpretation shutdown_accepted_policy_wire: codec "\<lambda>m. JStr (shutdown_accepted_policy_value m)" shutdown_accepted_policy_of "\<lambda>_. True"
proof unfold_locales
  fix m
  show "shutdown_accepted_policy_of (JStr (shutdown_accepted_policy_value m)) = Inr m"
    by (cases m) (simp_all add: shutdown_accepted_policy_of_def enum_of_def)
qed (simp add: shutdown_accepted_policy_of_def safe_enum_of)

record shutdown_accepted =
  shutdown_accepted_state :: json
  shutdown_accepted_policy :: shutdown_accepted_policy

definition shutdown_accepted_to_dict :: "shutdown_accepted \<Rightarrow> jdict" where
  "shutdown_accepted_to_dict x =
     dict_update []
       [(''state'', shutdown_accepted_state x),
        (''policy'', JStr (shutdown_accepted_policy_value (shutdown_accepted_policy x)))]"

definition shutdown_accepted_from_dict :: "json \<Rightarrow> py_exc + shutdown_accepted" where
  "shutdown_accepted_from_dict src = reading src (
     popping ''state'' (literal (JStr ''SHUTTING_DOWN'')) (\<lambda>state.
     popping ''policy'' shutdown_accepted_policy_of (\<lambda>policy.
     (\<lambda>d. Inr \<lparr>shutdown_accepted_state = state,
        shutdown_accepted_policy = policy\<rparr>))))"

definition shutdown_accepted_ok :: "shutdown_accepted \<Rightarrow> bool" where
  "shutdown_accepted_ok x \<longleftrightarrow> json_eq (shutdown_accepted_state x) (JStr ''SHUTTING_DOWN'')"

interpretation shutdown_accepted_wire: codec "\<lambda>x. JObj (shutdown_accepted_to_dict x)" shutdown_accepted_from_dict shutdown_accepted_ok
  by unfold_locales
    (simp add: shutdown_accepted_to_dict_def shutdown_accepted_from_dict_def shutdown_accepted_ok_def wire_simps cong: wire_cong,
     rule safe_readerI, unfold shutdown_accepted_from_dict_def, intro wire_rules)

end
