(* ===== verification/Sdk_Errors.thy ===== *)
theory Sdk_Errors
  imports Wire_Service
begin

text \<open>
  The exceptions of the SDK (\<open>errors.py\<close>): the classes, the object \<open>ApiError\<close> builds from a wire
  error, and the table that picks the class by the error code.
\<close>

subsection \<open>Error classes\<close>

datatype error_class =
    ApiError
  | ProjectNotReadyError | ServiceShuttingDownError | ProjectLoadFailedError
  | MethodNotAllowedError | ProjectBusyError | EventHistoryExpiredError
  | InvalidRequestError | InvalidEntityIdError | NotFoundError
  | UnsupportedCapabilityError | IncompleteAnalysisError | StaleRevisionError
  | ExternalModificationConflictError | MappingMergeConflictError | ResourceLimitError
  | CancellationPendingError | InputSecurityRejectionError | InternalServerError
  | OperationNotImplementedError

definition error_types :: "(string \<times> error_class) list" where
  "error_types = zip
     [''PROJECT_NOT_READY'', ''SERVICE_SHUTTING_DOWN'', ''PROJECT_LOAD_FAILED'',
      ''METHOD_NOT_ALLOWED'', ''PROJECT_BUSY'', ''EVENT_HISTORY_EXPIRED'', ''INVALID_REQUEST'',
      ''INVALID_ENTITY_ID'', ''NOT_FOUND'', ''UNSUPPORTED_CAPABILITY'', ''INCOMPLETE_ANALYSIS'',
      ''STALE_REVISION'', ''EXTERNAL_MODIFICATION_CONFLICT'', ''MAPPING_MERGE_CONFLICT'',
      ''RESOURCE_LIMIT'', ''CANCELLATION_PENDING'', ''INPUT_SECURITY_REJECTION'',
      ''INTERNAL_ERROR'', ''OPERATION_NOT_IMPLEMENTED'']
     [ProjectNotReadyError, ServiceShuttingDownError, ProjectLoadFailedError,
      MethodNotAllowedError, ProjectBusyError, EventHistoryExpiredError, InvalidRequestError,
      InvalidEntityIdError, NotFoundError, UnsupportedCapabilityError, IncompleteAnalysisError,
      StaleRevisionError, ExternalModificationConflictError, MappingMergeConflictError,
      ResourceLimitError, CancellationPendingError, InputSecurityRejectionError,
      InternalServerError, OperationNotImplementedError]"

subsection \<open>The exception objects\<close>

text \<open>
  \<open>ApiError.__init__\<close>. The attributes that come from \<open>raw.to_dict()\<close> are looked up in the printed
  dictionary, with the defaults of \<open>body.get\<close>. \<open>headers\<close> is the response's header mapping.
\<close>

record sdk_api_error =
  error_class :: error_class
  error_raw :: api_error
  http_status :: "int option"
  error_code :: string
  error_message :: json
  error_retryable :: json
  error_request_id :: json
  error_headers :: "string pydict"
  header_request_id :: "string option"
  error_details :: json
  error_causes :: json
  error_item_errors :: json

definition dict_get :: "string \<Rightarrow> json \<Rightarrow> jdict \<Rightarrow> json" where
  "dict_get k v0 d = (case map_of d k of None \<Rightarrow> v0 | Some v \<Rightarrow> v)"

definition request_id_header :: "string pydict \<Rightarrow> string option" where
  "request_id_header headers =
     map_option snd (find (\<lambda>(k, v). lower_ascii k = ''x-request-id'') headers)"

definition new_api_error ::
  "error_class \<Rightarrow> api_error \<Rightarrow> int option \<Rightarrow> string pydict option \<Rightarrow> sdk_api_error" where
  "new_api_error cls raw status headers =
     (let body = api_error_to_dict raw;
          hs = dict_update [] (case headers of None \<Rightarrow> [] | Some h \<Rightarrow> h)
      in \<lparr>error_class = cls,
          error_raw = raw,
          http_status = status,
          error_code = api_error_code_value (api_error_code raw),
          error_message = api_error_message raw,
          error_retryable = dict_get ''retryable'' (JBool False) body,
          error_request_id = dict_get ''requestId'' JNull body,
          error_headers = hs,
          header_request_id = request_id_header hs,
          error_details = dict_get ''details'' JNull body,
          error_causes = dict_get ''causes'' (JArr []) body,
          error_item_errors = dict_get ''itemErrors'' (JArr []) body\<rparr>)"

definition api_error_class :: "string \<Rightarrow> error_class" where
  "api_error_class code = (case map_of error_types code of None \<Rightarrow> ApiError | Some cls \<Rightarrow> cls)"

definition sdk_error_of ::
  "api_error \<Rightarrow> int option \<Rightarrow> string pydict option \<Rightarrow> sdk_api_error" where
  "sdk_error_of raw status headers =
     new_api_error (api_error_class (api_error_code_value (api_error_code raw))) raw status headers"

text \<open>
  Everything an SDK call can raise: a built-in exception that escapes, or one of the classes
  below \<open>LibJadxError\<close>. \<open>RequestTimeoutError\<close> is a \<open>TransportError\<close>.
\<close>

datatype sdk_error =
    Py_Error py_exc
  | Transport_Error string
  | Request_Timeout_Error string
  | Unexpected_Response_Error string
  | Api_Error_Raised sdk_api_error
  | Service_Load_Failed service_status "sdk_api_error option"
  | Wait_Ready_Timeout
  | Job_Wait_Timeout
  | Job_Failed job "sdk_api_error option"
  | Job_Cancelled job

fun is_lib_error :: "sdk_error \<Rightarrow> bool" where
  "is_lib_error (Py_Error _) = False"
| "is_lib_error _ = True"

fun is_transport_error :: "sdk_error \<Rightarrow> bool" where
  "is_transport_error (Transport_Error _) = True"
| "is_transport_error (Request_Timeout_Error _) = True"
| "is_transport_error _ = False"

subsection \<open>Lemmas\<close>

text \<open>The table is a bijection between the codes of the contract and the proper subclasses.\<close>

definition all_codes :: "api_error_code list" where
  "all_codes =
    [ApiErrorCode_CANCELLATION_PENDING, ApiErrorCode_EVENT_HISTORY_EXPIRED,
     ApiErrorCode_EXTERNAL_MODIFICATION_CONFLICT, ApiErrorCode_INCOMPLETE_ANALYSIS,
     ApiErrorCode_INPUT_SECURITY_REJECTION, ApiErrorCode_INTERNAL_ERROR,
     ApiErrorCode_INVALID_ENTITY_ID, ApiErrorCode_INVALID_REQUEST,
     ApiErrorCode_MAPPING_MERGE_CONFLICT, ApiErrorCode_METHOD_NOT_ALLOWED, ApiErrorCode_NOT_FOUND,
     ApiErrorCode_OPERATION_NOT_IMPLEMENTED, ApiErrorCode_PROJECT_BUSY,
     ApiErrorCode_PROJECT_LOAD_FAILED, ApiErrorCode_PROJECT_NOT_READY, ApiErrorCode_RESOURCE_LIMIT,
     ApiErrorCode_SERVICE_SHUTTING_DOWN, ApiErrorCode_STALE_REVISION,
     ApiErrorCode_UNSUPPORTED_CAPABILITY]"

lemma all_codes_complete: "c \<in> set all_codes"
  by (cases c) (simp_all add: all_codes_def)

lemma error_class_table:
  "map (\<lambda>c. api_error_class (api_error_code_value c)) all_codes =
    [CancellationPendingError, EventHistoryExpiredError, ExternalModificationConflictError,
     IncompleteAnalysisError, InputSecurityRejectionError, InternalServerError,
     InvalidEntityIdError, InvalidRequestError, MappingMergeConflictError, MethodNotAllowedError,
     NotFoundError, OperationNotImplementedError, ProjectBusyError, ProjectLoadFailedError,
     ProjectNotReadyError, ResourceLimitError, ServiceShuttingDownError, StaleRevisionError,
     UnsupportedCapabilityError]"
  by code_simp

lemma map_distinct_inj: "distinct (map f xs) \<Longrightarrow> a \<in> set xs \<Longrightarrow> b \<in> set xs \<Longrightarrow> f a = f b \<Longrightarrow> a = b"
  by (simp add: distinct_map inj_on_def)

lemma error_class_inj:
  "api_error_class (api_error_code_value a) = api_error_class (api_error_code_value b) \<Longrightarrow> a = b"
proof (rule map_distinct_inj [OF _ all_codes_complete all_codes_complete])
  show "distinct (map (\<lambda>c. api_error_class (api_error_code_value c)) all_codes)"
    unfolding error_class_table by simp
qed

lemma error_class_range:
  "(\<exists>c. api_error_class (api_error_code_value c) = cls) \<longleftrightarrow> cls \<noteq> ApiError"
proof -
  have "(\<exists>c. api_error_class (api_error_code_value c) = cls) \<longleftrightarrow>
      cls \<in> set (map (\<lambda>c. api_error_class (api_error_code_value c)) all_codes)"
    using all_codes_complete by auto
  also have "\<dots> \<longleftrightarrow> cls \<noteq> ApiError"
    unfolding error_class_table by (cases cls) simp_all
  finally show ?thesis .
qed

lemma request_id_header_Some:
  "request_id_header hs = Some v \<Longrightarrow> \<exists>k. (k, v) \<in> set hs \<and> lower_ascii k = ''x-request-id''"
  by (auto simp: request_id_header_def dest!: find_Some_iff [THEN iffD1]) (metis nth_mem)

end
