(* ===== verification/Py_Json.thy ===== *)
theory Py_Json
  imports Py_Uuid "HOL-Library.Log_Nat"
begin

text \<open>
  The standard library's strict UTF-8 decoder and \<open>json.loads\<close>. The decoder rejects overlong
  forms, surrogates and values above U+10FFFF. The JSON reader follows CPython's C scanner:
  \<open>NaN\<close> and \<open>Infinity\<close> are numbers, a repeated key keeps its first position and its last value,
  control characters in strings and trailing commas are errors, an integer of more than 4300
  digits is a \<open>ValueError\<close>. The interpreter's recursion limit is not modelled.

  The reader takes fuel; twice the length of the text is enough (\<open>json_loads_fuel\<close>).
\<close>

subsection \<open>UTF-8\<close>

definition byte_in :: "int \<Rightarrow> int \<Rightarrow> char \<Rightarrow> bool" where
  "byte_in lo hi c \<longleftrightarrow> lo \<le> of_char c \<and> of_char c \<le> hi"

fun utf8_ok :: "string \<Rightarrow> bool" where
  "utf8_ok [] = True"
| "utf8_ok (a # s) =
     (if byte_in 0 0x7F a then utf8_ok s
      else case s of
        [] \<Rightarrow> False
      | b # s1 \<Rightarrow>
          if byte_in 0xC2 0xDF a then byte_in 0x80 0xBF b \<and> utf8_ok s1
          else case s1 of
            [] \<Rightarrow> False
          | c # s2 \<Rightarrow>
              if byte_in 0xE0 0xEF a then
                byte_in (if a = CHR 0xE0 then 0xA0 else 0x80) (if a = CHR 0xED then 0x9F else 0xBF) b
                \<and> byte_in 0x80 0xBF c \<and> utf8_ok s2
              else case s2 of
                [] \<Rightarrow> False
              | d # s3 \<Rightarrow>
                  byte_in 0xF0 0xF4 a
                  \<and> byte_in (if a = CHR 0xF0 then 0x90 else 0x80) (if a = CHR 0xF4 then 0x8F else 0xBF) b
                  \<and> byte_in 0x80 0xBF c \<and> byte_in 0x80 0xBF d \<and> utf8_ok s3)"

text \<open>\<open>bytes.decode("utf-8")\<close>: the representation of the text is the bytes themselves.\<close>

definition utf8_decode :: "string \<Rightarrow> py_exc + string" where
  "utf8_decode bs = (if utf8_ok bs then Inr bs else Inl (ValueErr ''''))"

definition utf8_encode :: "int \<Rightarrow> string" where
  "utf8_encode n =
     (if n < 0x80 then [char_of n]
      else if n < 0x800 then [char_of (0xC0 + n div 64), char_of (0x80 + n mod 64)]
      else if n < 0x10000 then
        [char_of (0xE0 + n div 4096), char_of (0x80 + n div 64 mod 64), char_of (0x80 + n mod 64)]
      else
        [char_of (0xF0 + n div 262144), char_of (0x80 + n div 4096 mod 64),
         char_of (0x80 + n div 64 mod 64), char_of (0x80 + n mod 64)])"

subsection \<open>Numbers\<close>

definition pow2 :: "int \<Rightarrow> rat" where
  "pow2 q = (if 0 \<le> q then 2 ^ nat q else 1 / 2 ^ nat (- q))"

definition round_half_even :: "rat \<Rightarrow> int" where
  "round_half_even x =
     (let f = floor x; d = x - of_int f in
      if d < 1 / 2 then f else if 1 / 2 < d then f + 1 else if even f then f else f + 1)"

text \<open>The binary64 number nearest to a nonnegative rational, ties to even.\<close>

definition nearest_double :: "rat \<Rightarrow> py_float" where
  "nearest_double x =
     (if x = 0 then Finite 0
      else
        let (n, d) = quotient_of x;
            e0 = bitlen n - bitlen d;
            e = (if pow2 e0 \<le> x then e0 else e0 - 1);
            q = max e (-1022) - 52;
            r = of_int (round_half_even (x / pow2 q)) * pow2 q
        in if pow2 1024 \<le> r then Infinite False else Finite r)"

fun negate_float :: "py_float \<Rightarrow> py_float" where
  "negate_float (Finite x) = Finite (- x)"
| "negate_float (Infinite n) = Infinite (\<not> n)"
| "negate_float NaN = NaN"

definition span_digits :: "string \<Rightarrow> string \<times> string" where
  "span_digits s = (takeWhile is_ascii_digit s, dropWhile is_ascii_digit s)"

text \<open>The fraction and the exponent are taken only when they have digits.\<close>

definition scan_fraction :: "string \<Rightarrow> string \<times> string" where
  "scan_fraction s =
     (case s of
        [] \<Rightarrow> ([], s)
      | c # t \<Rightarrow>
          let (ds, r) = span_digits t in
          if c = CHR ''.'' \<and> ds \<noteq> [] then (ds, r) else ([], s))"

definition scan_exponent :: "string \<Rightarrow> int option \<times> string" where
  "scan_exponent s =
     (case s of
        [] \<Rightarrow> (None, s)
      | c # t \<Rightarrow>
          let neg = (t \<noteq> [] \<and> hd t = CHR ''-'');
              u = (if t \<noteq> [] \<and> (hd t = CHR ''-'' \<or> hd t = CHR ''+'') then tl t else t);
              (ds, r) = span_digits u
          in if (c = CHR ''e'' \<or> c = CHR ''E'') \<and> ds \<noteq> []
             then (Some (if neg then - digits_value 0 ds else digits_value 0 ds), r)
             else (None, s))"

definition scan_number :: "string \<Rightarrow> py_exc + json \<times> string" where
  "scan_number s =
     (let neg = (s \<noteq> [] \<and> hd s = CHR ''-'');
          t = (if neg then tl s else s);
          (ip, r) = (if t \<noteq> [] \<and> hd t = CHR ''0'' then (''0'', tl t) else span_digits t);
          (fp, r2) = scan_fraction r;
          (ex, r3) = scan_exponent r2
      in if ip = [] then Inl (ValueErr '''')
         else if fp = [] \<and> ex = None then
           ebind (int_of_digits ip) (\<lambda>n. Inr (JInt (if neg then - n else n), r3))
         else
           let e = (case ex of None \<Rightarrow> 0 | Some k \<Rightarrow> k) - int (length fp);
               m = of_int (digits_value 0 (ip @ fp)) :: rat;
               v = nearest_double (if 0 \<le> e then m * 10 ^ nat e else m / 10 ^ nat (- e))
           in Inr (JFloat (if neg then negate_float v else v), r3))"

subsection \<open>Strings\<close>

fun hex4 :: "string \<Rightarrow> (int \<times> string) option" where
  "hex4 (a # b # c # d # r) =
     (case hex_value 0 [a, b, c, d] of None \<Rightarrow> None | Some n \<Rightarrow> Some (n, r))"
| "hex4 _ = None"

lemma hex4_shrinks: "hex4 s = Some (n, r) \<Longrightarrow> length r + 4 = length s"
  by (cases s rule: hex4.cases) (auto split: option.splits)

definition simple_escape :: "char \<Rightarrow> char option" where
  "simple_escape c =
     map_of [(CHR 0x22, CHR 0x22), (CHR 0x5C, CHR 0x5C), (CHR ''/'', CHR ''/''), (CHR ''b'', CHR 0x08),
             (CHR ''f'', CHR 0x0C), (CHR ''n'', CHR 0x0A), (CHR ''r'', CHR 0x0D), (CHR ''t'', CHR 0x09)] c"

text \<open>One escape after its backslash: the text it stands for and the rest. A high surrogate
  takes a following escaped low one with it.\<close>

definition scan_escape :: "string \<Rightarrow> (string \<times> string) option" where
  "scan_escape s =
     (case s of
        [] \<Rightarrow> None
      | e # t \<Rightarrow>
          (case simple_escape e of
             Some c \<Rightarrow> Some ([c], t)
           | None \<Rightarrow>
               if e \<noteq> CHR ''u'' then None
               else (case hex4 t of
                 None \<Rightarrow> None
               | Some (n, r) \<Rightarrow>
                   if 0xD800 \<le> n \<and> n \<le> 0xDBFF \<and> take 2 r = [CHR 0x5C, CHR ''u''] then
                     (case hex4 (drop 2 r) of
                        None \<Rightarrow> None
                      | Some (m, r2) \<Rightarrow>
                          if 0xDC00 \<le> m \<and> m \<le> 0xDFFF
                          then Some (utf8_encode (0x10000 + (n - 0xD800) * 0x400 + (m - 0xDC00)), r2)
                          else Some (utf8_encode n, r))
                   else Some (utf8_encode n, r))))"

lemma scan_escape_shrinks: "scan_escape s = Some (c, r) \<Longrightarrow> length r < length s"
  by (auto simp: scan_escape_def split: list.splits option.splits if_splits dest!: hex4_shrinks)

text \<open>The text of a string after its opening quote, up to the closing one.\<close>

function scan_string :: "string \<Rightarrow> py_exc + string \<times> string" where
  "scan_string [] = Inl (ValueErr '''')"
| "scan_string (c # s) =
     (if c = CHR 0x22 then Inr ([], s)
      else if c = CHR 0x5C then
        (case scan_escape s of
           None \<Rightarrow> Inl (ValueErr '''')
         | Some (t, r) \<Rightarrow> ebind (scan_string r) (\<lambda>(u, z). Inr (t @ u, z)))
      else if byte_in 0 0x1F c then Inl (ValueErr '''')
      else ebind (scan_string s) (\<lambda>(u, z). Inr (c # u, z)))"
  by pat_completeness auto
termination
  by (relation "measure length") (auto dest: scan_escape_shrinks)

lemma scan_string_shrinks: "scan_string s = Inr (t, r) \<Longrightarrow> length r < length s"
  by (induction s arbitrary: t r rule: scan_string.induct)
    (fastforce simp: ebind_eq_Inr split: if_splits option.splits dest!: scan_escape_shrinks)+

subsection \<open>Values\<close>

definition skip_ws :: "string \<Rightarrow> string" where
  "skip_ws s = dropWhile (\<lambda>c. c \<in> {CHR '' '', CHR 0x09, CHR 0x0A, CHR 0x0D}) s"

definition json_words :: "(string \<times> json) list" where
  "json_words = [(''null'', JNull), (''true'', JBool True), (''false'', JBool False),
     (''NaN'', JFloat NaN), (''Infinity'', JFloat (Infinite False)),
     (''-Infinity'', JFloat (Infinite True))]"

definition scan_atom :: "string \<Rightarrow> py_exc + json \<times> string" where
  "scan_atom s =
     (case find (\<lambda>(w, v). starts_with w s) json_words of
        Some (w, v) \<Rightarrow> Inr (v, drop (length w) s)
      | None \<Rightarrow> scan_number s)"

fun scan_value :: "nat \<Rightarrow> string \<Rightarrow> (py_exc + json \<times> string) option"
  and scan_items :: "nat \<Rightarrow> json list \<Rightarrow> string \<Rightarrow> (py_exc + json \<times> string) option"
  and scan_pairs :: "nat \<Rightarrow> jdict \<Rightarrow> string \<Rightarrow> (py_exc + json \<times> string) option" where
  "scan_value 0 s = None"
| "scan_value (Suc n) s =
     (case s of
        [] \<Rightarrow> Some (Inl (ValueErr ''''))
      | c # t \<Rightarrow>
          if c = CHR 0x22 then Some (ebind (scan_string t) (\<lambda>(u, r). Inr (JStr u, r)))
          else if c = CHR ''{'' then
            (if starts_with ''}'' (skip_ws t) then Some (Inr (JObj [], drop 1 (skip_ws t)))
             else scan_pairs n [] (skip_ws t))
          else if c = CHR ''['' then
            (if starts_with '']'' (skip_ws t) then Some (Inr (JArr [], drop 1 (skip_ws t)))
             else scan_items n [] (skip_ws t))
          else Some (scan_atom (c # t)))"
| "scan_items 0 acc s = None"
| "scan_items (Suc n) acc s =
     (case scan_value n s of
        None \<Rightarrow> None
      | Some (Inl e) \<Rightarrow> Some (Inl e)
      | Some (Inr (v, r)) \<Rightarrow>
          (case skip_ws r of
             [] \<Rightarrow> Some (Inl (ValueErr ''''))
           | c # t \<Rightarrow>
               if c = CHR '']'' then Some (Inr (JArr (acc @ [v]), t))
               else if c = CHR '','' then scan_items n (acc @ [v]) (skip_ws t)
               else Some (Inl (ValueErr ''''))))"
| "scan_pairs 0 acc s = None"
| "scan_pairs (Suc n) acc s =
     (case s of
        [] \<Rightarrow> Some (Inl (ValueErr ''''))
      | q # s1 \<Rightarrow>
          if q \<noteq> CHR 0x22 then Some (Inl (ValueErr ''''))
          else (case scan_string s1 of
            Inl e \<Rightarrow> Some (Inl e)
          | Inr (k, r) \<Rightarrow>
              if \<not> starts_with '':'' (skip_ws r) then Some (Inl (ValueErr ''''))
              else (case scan_value n (skip_ws (drop 1 (skip_ws r))) of
                None \<Rightarrow> None
              | Some (Inl e) \<Rightarrow> Some (Inl e)
              | Some (Inr (v, r2)) \<Rightarrow>
                  (case skip_ws r2 of
                     [] \<Rightarrow> Some (Inl (ValueErr ''''))
                   | c # t \<Rightarrow>
                       if c = CHR ''}'' then Some (Inr (JObj (dict_set k v acc), t))
                       else if c = CHR '','' then scan_pairs n (dict_set k v acc) (skip_ws t)
                       else Some (Inl (ValueErr ''''))))))"

definition byte_order_mark :: string where
  "byte_order_mark = [CHR 0xEF, CHR 0xBB, CHR 0xBF]"

definition json_scan :: "string \<Rightarrow> (py_exc + json \<times> string) option" where
  "json_scan s = scan_value (2 * length (skip_ws s) + 1) (skip_ws s)"

definition json_loads :: "string \<Rightarrow> py_exc + json" where
  "json_loads s =
     (if starts_with byte_order_mark s then Inl (ValueErr '''')
      else case json_scan s of
             None \<Rightarrow> Inl (OtherErr ''fuel'')
           | Some (Inl e) \<Rightarrow> Inl e
           | Some (Inr (v, r)) \<Rightarrow> if skip_ws r = [] then Inr v else Inl (ValueErr ''''))"

subsection \<open>The fuel is enough\<close>

lemma skip_ws_length: "length (skip_ws s) \<le> length s"
  by (simp add: skip_ws_def length_dropWhile_le)

lemma span_digits_split: "span_digits s = (a, r) \<Longrightarrow> s = a @ r"
  by (auto simp: span_digits_def)

lemma span_digits_length: "span_digits s = (a, r) \<Longrightarrow> length s = length a + length r"
  by (auto dest!: span_digits_split)

lemma scan_fraction_length: "scan_fraction s = (f, r) \<Longrightarrow> length r \<le> length s"
  by (auto simp: scan_fraction_def split: list.splits if_splits prod.splits dest!: span_digits_split)

lemma scan_exponent_length: "scan_exponent s = (e, r) \<Longrightarrow> length r \<le> length s"
proof (cases s)
  case (Cons c t)
  assume sc: "scan_exponent s = (e, r)"
  let ?u = "if t \<noteq> [] \<and> (hd t = CHR ''-'' \<or> hd t = CHR ''+'') then tl t else t"
  obtain ds r' where sp: "span_digits ?u = (ds, r')" by fastforce
  from sc Cons sp have "r = s \<or> r = r'"
    by (auto simp: scan_exponent_def Let_def split: if_splits)
  moreover have "length r' \<le> length ?u"
    using span_digits_split [OF sp] by simp
  moreover have "length ?u \<le> length s"
    using Cons by (cases t) auto
  ultimately show ?thesis by auto
qed (simp add: scan_exponent_def)

lemma scan_number_shrinks: "scan_number s = Inr (v, r) \<Longrightarrow> length r < length s"
proof -
  assume sc: "scan_number s = Inr (v, r)"
  let ?t = "if s \<noteq> [] \<and> hd s = CHR ''-'' then tl s else s"
  obtain ip r1 where ip: "(if ?t \<noteq> [] \<and> hd ?t = CHR ''0'' then (''0'', tl ?t) else span_digits ?t) = (ip, r1)"
    by fastforce
  obtain fp r2 where fp: "scan_fraction r1 = (fp, r2)" by fastforce
  obtain ex r3 where ex: "scan_exponent r2 = (ex, r3)" by fastforce
  have "r = r3" "ip \<noteq> []"
    using sc ip fp ex by (auto simp: scan_number_def Let_def ebind_eq_Inr split: if_splits)
  moreover have "length r3 \<le> length r1"
    using scan_fraction_length [OF fp] scan_exponent_length [OF ex] by simp
  moreover have "length r1 < length ?t"
    using ip \<open>ip \<noteq> []\<close> by (cases "?t") (auto split: if_splits dest!: span_digits_length)
  moreover have "length ?t \<le> length s" by (cases s) auto
  ultimately show ?thesis by (metis order.strict_trans1 order.strict_trans2)
qed

lemma scan_atom_shrinks: "scan_atom s = Inr (v, r) \<Longrightarrow> length r < length s"
  by (auto simp: scan_atom_def json_words_def starts_with_iff split: if_splits
      dest!: scan_number_shrinks)

lemma skip_ws_Cons: "skip_ws s = c # t \<Longrightarrow> length t < length s"
  using skip_ws_length [of s] by simp

lemma scan_shrinks:
  shows scan_value_shrinks: "scan_value n s = Some (Inr (v, r)) \<Longrightarrow> length r < length s"
    and scan_items_shrinks: "scan_items n acc s = Some (Inr (v, r)) \<Longrightarrow> length r < length s"
    and scan_pairs_shrinks: "scan_pairs n d s = Some (Inr (v, r)) \<Longrightarrow> length r < length s"
proof (induction n arbitrary: s v r acc d)
  case (Suc n)
  {
    case 1
    show ?case
    proof (cases s)
      case (Cons c t)
      have len: "length (skip_ws t) \<le> length t" by (rule skip_ws_length)
      show ?thesis
        using 1 Cons len
        by (auto split: if_splits simp: ebind_eq_Inr simp del: scan_items.simps scan_pairs.simps
            dest!: scan_string_shrinks Suc.IH(2,3) scan_atom_shrinks)
    qed (use 1 in simp)
  next
    case 2
    then obtain w q c t where v: "scan_value n s = Some (Inr (w, q))" and q: "skip_ws q = c # t"
      and res: "c = CHR '']'' \<and> r = t \<or>
        scan_items n (acc @ [w]) (skip_ws t) = Some (Inr (v, r))"
      by (auto split: option.splits sum.splits list.splits if_splits)
    from Suc.IH(1) [OF v] skip_ws_Cons [OF q] have "length t < length s" by simp
    with res skip_ws_length [of t] show ?case by (auto dest!: Suc.IH(2))
  next
    case 3
    then obtain s1 k q w q2 c t where s: "s = CHR 0x22 # s1" and k: "scan_string s1 = Inr (k, q)"
      and v: "scan_value n (skip_ws (drop 1 (skip_ws q))) = Some (Inr (w, q2))"
      and q2: "skip_ws q2 = c # t"
      and res: "c = CHR ''}'' \<and> r = t \<or>
        scan_pairs n (dict_set k w d) (skip_ws t) = Some (Inr (v, r))"
      by (auto split: option.splits sum.splits list.splits if_splits)
    have "length (skip_ws (drop 1 (skip_ws q))) \<le> length q"
      using skip_ws_length [of q] skip_ws_length [of "drop 1 (skip_ws q)"] by simp
    with s scan_string_shrinks [OF k] Suc.IH(1) [OF v] skip_ws_Cons [OF q2]
    have "length t < length s" by simp
    with res skip_ws_length [of t] show ?case by (auto dest!: Suc.IH(3))
  }
qed simp_all

lemma scan_fuel:
  shows scan_value_fuel: "2 * length s + 1 \<le> n \<Longrightarrow> scan_value n s \<noteq> None"
    and scan_items_fuel: "2 * length s + 2 \<le> n \<Longrightarrow> scan_items n acc s \<noteq> None"
    and scan_pairs_fuel: "2 * length s + 2 \<le> n \<Longrightarrow> scan_pairs n d s \<noteq> None"
proof (induction n arbitrary: s acc d)
  case (Suc n)
  {
    case 1
    show ?case
    proof (cases s)
      case (Cons c t)
      have "2 * length (skip_ws t) + 2 \<le> n"
        using 1 Cons skip_ws_length [of t] by simp
      from Suc.IH(2) [OF this] Suc.IH(3) [OF this] show ?thesis
        by (simp add: Cons del: scan_items.simps scan_pairs.simps)
    qed simp
  next
    case 2
    then have "scan_value n s \<noteq> None" by (intro Suc.IH(1)) simp
    moreover have "scan_items n a (skip_ws t) \<noteq> None"
      if "scan_value n s = Some (Inr (w, q))" "skip_ws q = c # t" for a w q c t
      using 2 scan_value_shrinks [OF that(1)] skip_ws_Cons [OF that(2)] skip_ws_length [of t]
      by (intro Suc.IH(2)) simp
    ultimately show ?case
      by (auto split: option.splits sum.splits list.splits)
  next
    case 3
    show ?case
    proof (cases s)
      case (Cons q s1)
      have len: "length (skip_ws (drop 1 (skip_ws z))) < length s"
        if "scan_string s1 = Inr (k, z)" for k z
        using Cons scan_string_shrinks [OF that] skip_ws_length [of z]
          skip_ws_length [of "drop 1 (skip_ws z)"] by simp
      have v: "scan_value n (skip_ws (drop 1 (skip_ws z))) \<noteq> None"
        if "scan_string s1 = Inr (k, z)" for k z
        using 3 len [OF that] by (intro Suc.IH(1)) simp
      have p: "scan_pairs n a (skip_ws t) \<noteq> None"
        if "scan_string s1 = Inr (k, z)"
          "scan_value n (skip_ws (drop 1 (skip_ws z))) = Some (Inr (w, z2))"
          "skip_ws z2 = c # t" for a k z w z2 c t
        using 3 len [OF that(1)] scan_value_shrinks [OF that(2)] skip_ws_Cons [OF that(3)]
          skip_ws_length [of t]
        by (intro Suc.IH(3)) simp
      show ?thesis
        using v p by (auto simp: Cons split: option.splits sum.splits list.splits)
    qed simp
  }
qed simp_all

theorem json_loads_fuel: "json_scan s \<noteq> None"
  unfolding json_scan_def by (rule scan_value_fuel) simp

text \<open>What \<open>json.loads\<close> raises is a \<open>ValueError\<close>.\<close>

lemma int_of_digits_error: "int_of_digits s = Inl e \<Longrightarrow> e = ValueErr ''''"
  by (auto simp: int_of_digits_def split: if_splits)

lemma scan_string_error: "scan_string s = Inl e \<Longrightarrow> e = ValueErr ''''"
  by (induction s rule: scan_string.induct)
    (auto simp: ebind_eq_Inl split: if_splits option.splits)

lemma scan_atom_error: "scan_atom s = Inl e \<Longrightarrow> e = ValueErr ''''"
  by (auto simp: scan_atom_def scan_number_def Let_def ebind_eq_Inl dest!: int_of_digits_error
      split: option.splits if_splits prod.splits)

lemma scan_error:
  shows "scan_value n s = Some (Inl e) \<Longrightarrow> e = ValueErr ''''"
    and "scan_items n acc s = Some (Inl e) \<Longrightarrow> e = ValueErr ''''"
    and "scan_pairs n d s = Some (Inl e) \<Longrightarrow> e = ValueErr ''''"
proof (induction n arbitrary: s acc d)
  case (Suc n)
  {
    case 1
    then show ?case
      by (auto simp del: scan_items.simps scan_pairs.simps simp: ebind_eq_Inl
          split: list.splits if_splits dest!: scan_string_error scan_atom_error Suc.IH(2,3))
  next
    case 2
    then show ?case
      by (auto split: option.splits sum.splits list.splits if_splits dest!: Suc.IH(1,2))
  next
    case 3
    then show ?case
      by (auto split: option.splits sum.splits list.splits if_splits
          dest!: Suc.IH(1,3) scan_string_error)
  }
qed simp_all

lemma json_loads_error: "json_loads s = Inl e \<Longrightarrow> e = ValueErr ''''"
  using json_loads_fuel [of s]
  by (auto simp: json_loads_def json_scan_def simp del: scan_value.simps
      split: if_splits option.splits sum.splits dest: scan_error(1))

end
