(* ===== verification/Sdk_Sse.thy ===== *)
theory Sdk_Sse
  imports Sdk_Errors Py_Json
begin

text \<open>
  The incremental parser of the job event stream (\<open>_sse.py\<close>). \<open>feed\<close> takes the bytes of one chunk;
  complete lines are collected until a blank line ends the frame, which \<open>sse_event\<close> turns into a
  job event. The theory shows that the buffers stay bounded, that it does not matter how the
  transport cuts the stream into chunks, that the events are those of the frames of the stream
  read as a whole, in strictly increasing order, and that nothing but \<open>UnexpectedResponseError\<close>
  is ever raised.
\<close>

subsection \<open>The parser\<close>

definition max_frame :: nat where
  "max_frame = 1024 * 1024"

definition max_line :: nat where
  "max_line = 1024 * 1024"

definition terminal_states :: "string list" where
  "terminal_states = [''SUCCEEDED'', ''FAILED'', ''CANCELLED'']"

record parser =
  parser_job_id :: uuid
  parser_last_id :: int
  parser_pending :: string
  parser_lines :: "string list"
  parser_frame_bytes :: nat
  parser_terminal :: bool

definition new_parser :: "uuid \<Rightarrow> string option \<Rightarrow> py_exc + parser" where
  "new_parser job_id last_event_id =
     ebind (case last_event_id of Some s \<Rightarrow> int_of_str s | None \<Rightarrow> Inr 0) (\<lambda>last_id.
       Inr \<lparr>parser_job_id = job_id, parser_last_id = last_id, parser_pending = [],
            parser_lines = [], parser_frame_bytes = 0, parser_terminal = False\<rparr>)"

text \<open>The loop over the lines of a frame: the data lines so far, the id and the event type.\<close>

fun scan_fields ::
  "string list \<Rightarrow> string list \<times> string option \<times> string option
    \<Rightarrow> sdk_error + string list \<times> string option \<times> string option" where
  "scan_fields [] acc = Inr acc"
| "scan_fields (line # ls) (data, event_id, event_type) =
     (if starts_with '':'' line then scan_fields ls (data, event_id, event_type)
      else case partition_at (CHR '':'') line of (key, sep, v) \<Rightarrow>
        if \<not> sep then Inl (Unexpected_Response_Error ''Malformed SSE field'')
        else let val = remove_prefix '' '' v in
          if key = ''data'' then scan_fields ls (data @ [val], event_id, event_type)
          else if key = ''id'' then scan_fields ls (data, Some val, event_type)
          else if key = ''event'' then scan_fields ls (data, event_id, Some val)
          else Inl (Unexpected_Response_Error ''Unknown SSE field''))"

text \<open>The \<open>try\<close> block of \<open>_event\<close>.\<close>

definition identified_event ::
  "uuid \<Rightarrow> int \<Rightarrow> string list \<Rightarrow> string option \<Rightarrow> string option \<Rightarrow> py_exc + int \<times> job_event" where
  "identified_event job_id last_id data event_id event_type =
     (case event_id of
        None \<Rightarrow> Inl (ValueErr ''Missing numeric event ID'')
      | Some i \<Rightarrow>
          if \<not> is_ascii i \<or> \<not> is_decimal i then Inl (ValueErr ''Missing numeric event ID'')
          else
            ebind (int_of_digits i) (\<lambda>number.
            ebind (ebind (json_loads (join_with [CHR 0x0A] data)) job_event_from_dict) (\<lambda>event.
              if number \<le> last_id
                 \<or> \<not> json_eq (job_event_sequence event) (JInt number)
                 \<or> Some (job_event_type_value (job_event_type event)) \<noteq> event_type
                 \<or> job_event_job_id event \<noteq> job_id
              then Inl (ValueErr ''Inconsistent event identity/type/sequence'')
              else Inr (number, event))))"

definition sse_event :: "parser \<Rightarrow> sdk_error + job_event option \<times> parser" where
  "sse_event p =
     ebind (scan_fields (parser_lines p) ([], None, None)) (\<lambda>(data, event_id, event_type).
       if data = [] then
         (if event_id \<noteq> None \<or> event_type \<noteq> None
          then Inl (Unexpected_Response_Error ''SSE frame lacks data'')
          else Inr (None, p))
       else
         (case identified_event (parser_job_id p) (parser_last_id p) data event_id event_type of
            Inl e \<Rightarrow>
              Inl (if decode_failure e then Unexpected_Response_Error ''Malformed job SSE event''
                   else Py_Error e)
          | Inr (number, event) \<Rightarrow> Inr (Some event, p\<lparr>parser_last_id := number\<rparr>)))"

lemma sse_event_frame:
  assumes "sse_event p = Inr (ev, q)"
  shows "q = p\<lparr>parser_last_id := parser_last_id q\<rparr>"
  using assms by (auto simp: sse_event_def ebind_eq_Inr split: if_splits sum.splits)

definition is_terminal :: "job_event \<Rightarrow> bool" where
  "is_terminal e \<longleftrightarrow> job_event_state_value (job_event_state e) \<in> set terminal_states"

text \<open>The body of the \<open>while\<close> loop of \<open>feed\<close>, for the line \<open>raw\<close> taken off the pending bytes.\<close>

definition accept_line :: "parser \<Rightarrow> string \<Rightarrow> sdk_error + job_event option \<times> parser" where
  "accept_line p raw =
     (if max_line < length raw then Inl (Unexpected_Response_Error ''Oversized SSE line'')
      else if \<not> utf8_ok raw then Inl (Unexpected_Response_Error ''Invalid SSE UTF-8'')
      else
        let line = rstrip [CHR 0x0D] raw;
            q = p\<lparr>parser_frame_bytes := parser_frame_bytes p + length raw + 1\<rparr>
        in if max_frame < parser_frame_bytes q
           then Inl (Unexpected_Response_Error ''Oversized SSE frame'')
           else if line \<noteq> [] then Inr (None, q\<lparr>parser_lines := parser_lines q @ [line]\<rparr>)
           else ebind (sse_event q) (\<lambda>(event, r).
             let s = r\<lparr>parser_lines := [], parser_frame_bytes := 0\<rparr> in
             case event of
               None \<Rightarrow> Inr (None, s)
             | Some e \<Rightarrow> Inr (Some e, if is_terminal e then s\<lparr>parser_terminal := True\<rparr> else s)))"

lemma partition_at_shrinks: "(a, True, b) = partition_at c s \<Longrightarrow> length b < length s"
  using partition_at_spec [of c s a True b] by auto

text \<open>What an accepted line does: it is kept, or it ends the frame.\<close>

lemma accept_line_cases:
  assumes "accept_line p raw = Inr (ev, q)"
  obtains (kept) "length raw \<le> max_line" "utf8_ok raw"
      "parser_frame_bytes p + length raw + 1 \<le> max_frame" "rstrip [CHR 0x0D] raw \<noteq> []"
      "ev = None"
      "q = p\<lparr>parser_frame_bytes := parser_frame_bytes p + length raw + 1,
              parser_lines := parser_lines p @ [rstrip [CHR 0x0D] raw]\<rparr>"
    | (frame) r where "length raw \<le> max_line" "utf8_ok raw"
      "parser_frame_bytes p + length raw + 1 \<le> max_frame" "rstrip [CHR 0x0D] raw = []"
      "sse_event (p\<lparr>parser_frame_bytes := parser_frame_bytes p + length raw + 1\<rparr>) = Inr (ev, r)"
      "q = p\<lparr>parser_last_id := parser_last_id r, parser_lines := [], parser_frame_bytes := 0,
              parser_terminal := parser_terminal p \<or> (\<exists>e. ev = Some e \<and> is_terminal e)\<rparr>"
proof (cases "rstrip [CHR 0x0D] raw = []")
  case False
  with assms show ?thesis
    by (intro kept) (auto simp: accept_line_def Let_def split: if_splits)
next
  case True
  let ?p = "p\<lparr>parser_frame_bytes := parser_frame_bytes p + length raw + 1\<rparr>"
  from assms True obtain ev' r where r: "sse_event ?p = Inr (ev', r)"
    and q: "(case ev' of None \<Rightarrow> Inr (None, r\<lparr>parser_lines := [], parser_frame_bytes := 0\<rparr>)
       | Some e \<Rightarrow> Inr (Some e, if is_terminal e
             then r\<lparr>parser_lines := [], parser_frame_bytes := 0, parser_terminal := True\<rparr>
             else r\<lparr>parser_lines := [], parser_frame_bytes := 0\<rparr>)) = (Inr (ev, q) :: sdk_error + _)"
    by (auto simp: accept_line_def Let_def ebind_eq_Inr split: if_splits)
  from r have r': "r = ?p\<lparr>parser_last_id := parser_last_id r\<rparr>"
    by (rule sse_event_frame)
  from q have "ev' = ev" by (auto split: option.splits)
  moreover from q have "q = p\<lparr>parser_last_id := parser_last_id r, parser_lines := [],
      parser_frame_bytes := 0,
      parser_terminal := parser_terminal p \<or> (\<exists>e. ev = Some e \<and> is_terminal e)\<rparr>"
    by (subst (asm) (1 2 3) r') (auto split: option.splits if_splits)
  moreover have "length raw \<le> max_line" "utf8_ok raw"
    "parser_frame_bytes p + length raw + 1 \<le> max_frame"
    using assms by (auto simp: accept_line_def Let_def split: if_splits)
  ultimately show ?thesis
    using frame r True by blast
qed

lemma accept_line_pending: "accept_line p raw = Inr (ev, q) \<Longrightarrow> parser_pending q = parser_pending p"
  by (erule accept_line_cases) auto

text \<open>The loop; \<open>evs\<close> is the list of events it has collected.\<close>

function drain :: "parser \<Rightarrow> job_event list \<Rightarrow> sdk_error + job_event list \<times> parser" where
  "drain p evs =
     (case partition_at (CHR 0x0A) (parser_pending p) of
        (raw, False, rest) \<Rightarrow> Inr (evs, p)
      | (raw, True, rest) \<Rightarrow>
          ebind (accept_line (p\<lparr>parser_pending := rest\<rparr>) raw) (\<lambda>(event, q).
            case event of
              None \<Rightarrow> drain q evs
            | Some e \<Rightarrow> if is_terminal e then Inr (evs @ [e], q) else drain q (evs @ [e])))"
  by pat_completeness auto
termination
  by (relation "measure (\<lambda>(p, evs). length (parser_pending p))")
    (auto dest!: partition_at_shrinks accept_line_pending)

declare drain.simps [simp del]

definition feed :: "parser \<Rightarrow> string \<Rightarrow> sdk_error + job_event list \<times> parser" where
  "feed p chunk =
     ebind (drain (p\<lparr>parser_pending := parser_pending p @ chunk\<rparr>) []) (\<lambda>(evs, q).
       if max_line < length (parser_pending q)
       then Inl (Unexpected_Response_Error ''Oversized SSE line'')
       else if max_frame < parser_frame_bytes q + length (parser_pending q)
       then Inl (Unexpected_Response_Error ''Oversized SSE frame'')
       else Inr (evs, q))"

subsection \<open>The loop, line by line\<close>

lemma sse_event_pending:
  "sse_event (p\<lparr>parser_pending := x\<rparr>) = ebind (sse_event p) (\<lambda>(e, q). Inr (e, q\<lparr>parser_pending := x\<rparr>))"
  by (auto simp: sse_event_def ebind_assoc intro!: ebind_cong split: sum.splits)

lemma accept_line_frame:
  "accept_line (p\<lparr>parser_pending := x\<rparr>) raw
     = ebind (accept_line p raw) (\<lambda>(e, q). Inr (e, q\<lparr>parser_pending := x\<rparr>))"
proof -
  let ?n = "parser_frame_bytes p + length raw + 1"
  have "p\<lparr>parser_pending := x, parser_frame_bytes := ?n\<rparr> = p\<lparr>parser_frame_bytes := ?n, parser_pending := x\<rparr>"
    by simp
  then have "sse_event (p\<lparr>parser_pending := x, parser_frame_bytes := ?n\<rparr>)
      = ebind (sse_event (p\<lparr>parser_frame_bytes := ?n\<rparr>)) (\<lambda>(e, q). Inr (e, q\<lparr>parser_pending := x\<rparr>))"
    by (simp only: sse_event_pending)
  then show ?thesis
    by (cases "sse_event (p\<lparr>parser_frame_bytes := ?n\<rparr>)")
      (auto simp: accept_line_def Let_def split: option.splits)
qed

lemma accept_line_terminal:
  "accept_line p raw = Inr (ev, q) \<Longrightarrow>
     parser_terminal q \<longleftrightarrow> parser_terminal p \<or> (\<exists>e. ev = Some e \<and> is_terminal e)"
  by (erule accept_line_cases) auto

lemma drain_stop:
  "CHR 0x0A \<notin> set s \<Longrightarrow> drain (p\<lparr>parser_pending := s\<rparr>) evs = Inr (evs, p\<lparr>parser_pending := s\<rparr>)"
  using partition_at_spec [of "CHR 0x0A" s]
  by (subst drain.simps) (auto split: prod.splits bool.splits)

lemma drain_line:
  "CHR 0x0A \<notin> set raw \<Longrightarrow> drain (p\<lparr>parser_pending := raw @ CHR 0x0A # rest\<rparr>) evs =
     ebind (accept_line p raw) (\<lambda>(event, q).
       case event of
         None \<Rightarrow> drain (q\<lparr>parser_pending := rest\<rparr>) evs
       | Some e \<Rightarrow> if is_terminal e then Inr (evs @ [e], q\<lparr>parser_pending := rest\<rparr>)
                   else drain (q\<lparr>parser_pending := rest\<rparr>) (evs @ [e]))"
  by (subst drain.simps, cases "accept_line p raw")
    (auto simp: partition_at_append accept_line_frame split: option.splits)

lemma lines_induct [case_names stop line]:
  assumes "\<And>s. CHR 0x0A \<notin> set s \<Longrightarrow> P s"
    and "\<And>raw rest. CHR 0x0A \<notin> set raw \<Longrightarrow> P rest \<Longrightarrow> P (raw @ CHR 0x0A # rest)"
  shows "P s"
proof (induction s rule: length_induct)
  case (1 s)
  show ?case
  proof (cases "CHR 0x0A \<in> set s")
    case True
    then obtain raw rest where "s = raw @ CHR 0x0A # rest" "CHR 0x0A \<notin> set raw"
      by (meson split_list_first)
    with 1 assms(2) show ?thesis by simp
  qed (rule assms(1))
qed

subsection \<open>Chunks\<close>

lemma drain_append:
  "\<not> parser_terminal p \<Longrightarrow>
     drain (p\<lparr>parser_pending := s @ c\<rparr>) evs =
       ebind (drain (p\<lparr>parser_pending := s\<rparr>) evs) (\<lambda>(es, q).
         if parser_terminal q then Inr (es, q\<lparr>parser_pending := parser_pending q @ c\<rparr>)
         else drain (q\<lparr>parser_pending := parser_pending q @ c\<rparr>) es)"
proof (induction s arbitrary: p evs rule: lines_induct)
  case (stop s)
  then show ?case by (simp add: drain_stop)
next
  case (line raw rest)
  show ?case
  proof (cases "accept_line p raw")
    case (Inr r)
    then obtain ev q where acc: "accept_line p raw = Inr (ev, q)" by (cases r) auto
    from accept_line_terminal [OF acc] line.prems
    have "parser_terminal q \<longleftrightarrow> (\<exists>e. ev = Some e \<and> is_terminal e)" by simp
    with line acc show ?thesis
      by (auto simp: drain_line split: option.splits)
  qed (use line in \<open>simp add: drain_line\<close>)
qed

lemma drain_pending:
  "drain (p\<lparr>parser_pending := s\<rparr>) evs = Inr (es, q) \<Longrightarrow> \<not> parser_terminal q \<Longrightarrow>
     CHR 0x0A \<notin> set (parser_pending q)"
proof (induction s arbitrary: p evs rule: lines_induct)
  case (line raw rest)
  then obtain ev r where acc: "accept_line p raw = Inr (ev, r)"
    by (auto simp: drain_line ebind_eq_Inr)
  with line show ?case
    by (auto simp: drain_line accept_line_terminal [OF acc] split: option.splits if_splits)
qed (auto simp: drain_stop)

lemma drain_keeps:
  "drain (p\<lparr>parser_pending := s\<rparr>) evs = Inr (es, q) \<Longrightarrow> parser_job_id q = parser_job_id p"
proof (induction s arbitrary: p evs rule: lines_induct)
  case (line raw rest)
  then obtain ev r where acc: "accept_line p raw = Inr (ev, r)"
    by (auto simp: drain_line ebind_eq_Inr)
  then have "parser_job_id r = parser_job_id p"
    by (cases rule: accept_line_cases) auto
  with line acc show ?case
    by (fastforce simp: drain_line split: option.splits if_splits)
qed (auto simp: drain_stop)

definition within_bounds :: "parser \<Rightarrow> bool" where
  "within_bounds q \<longleftrightarrow> length (parser_pending q) \<le> max_line
     \<and> parser_frame_bytes q + length (parser_pending q) \<le> max_frame"

lemma feed_Inr:
  "feed p chunk = Inr (evs, q) \<longleftrightarrow>
     drain (p\<lparr>parser_pending := parser_pending p @ chunk\<rparr>) [] = Inr (evs, q) \<and> within_bounds q"
  by (auto simp: feed_def within_bounds_def ebind_eq_Inr not_less)

text \<open>The events collected so far are only ever extended.\<close>

lemma drain_collects:
  "drain (p\<lparr>parser_pending := s\<rparr>) (evs @ es) =
     ebind (drain (p\<lparr>parser_pending := s\<rparr>) es) (\<lambda>(es', q). Inr (evs @ es', q))"
proof (induction s arbitrary: p es rule: lines_induct)
  case (line raw rest)
  then show ?case
    by (cases "accept_line p raw") (auto simp: drain_line split: option.splits)
qed (simp add: drain_stop)

lemma drain_from:
  "drain (p\<lparr>parser_pending := s\<rparr>) evs =
     ebind (drain (p\<lparr>parser_pending := s\<rparr>) []) (\<lambda>(es', q). Inr (evs @ es', q))"
  by (rule drain_collects [where es = "[]", unfolded append_Nil2])

text \<open>
  A line, or a frame, that is too long when a chunk ends is still too long when the rest of the
  line has come in.
\<close>

lemma drain_too_long:
  assumes "drain (p\<lparr>parser_pending := s @ c\<rparr>) es = Inr (es', q)" "CHR 0x0A \<notin> set s"
    "parser_terminal q \<and> \<not> parser_terminal p \<or> within_bounds q"
  shows "within_bounds (p\<lparr>parser_pending := s\<rparr>)"
proof (cases "CHR 0x0A \<in> set c")
  case False
  with assms show ?thesis by (auto simp: drain_stop within_bounds_def)
next
  case True
  then obtain a b where c: "c = a @ CHR 0x0A # b" "CHR 0x0A \<notin> set a"
    by (meson split_list_first)
  with assms have "drain (p\<lparr>parser_pending := (s @ a) @ CHR 0x0A # b\<rparr>) es = Inr (es', q)"
    by simp
  with c assms(2) obtain ev r where "accept_line p (s @ a) = Inr (ev, r)"
    by (subst (asm) drain_line) (auto simp: ebind_eq_Inr)
  then show ?thesis by (cases rule: accept_line_cases) (auto simp: within_bounds_def)
qed

text \<open>When a terminal event ends the loop, what is left over came with the last chunk.\<close>

lemma drain_terminal:
  assumes "drain (p\<lparr>parser_pending := s @ c\<rparr>) evs = Inr (es, q)" "CHR 0x0A \<notin> set s"
    "\<not> parser_terminal p" "parser_terminal q"
  shows "parser_frame_bytes q = 0 \<and> length (parser_pending q) \<le> length c"
  using assms
proof (induction c arbitrary: p s evs rule: lines_induct)
  case (stop c)
  then show ?case by (auto simp: drain_stop)
next
  case (line raw rest)
  then have nl: "CHR 0x0A \<notin> set (s @ raw)"
    and dr: "drain (p\<lparr>parser_pending := (s @ raw) @ CHR 0x0A # rest\<rparr>) evs = Inr (es, q)"
    by auto
  from dr obtain ev r where acc: "accept_line p (s @ raw) = Inr (ev, r)"
    and d: "(case ev of
         None \<Rightarrow> drain (r\<lparr>parser_pending := rest\<rparr>) evs
       | Some e \<Rightarrow> if is_terminal e then Inr (evs @ [e], r\<lparr>parser_pending := rest\<rparr>)
                   else drain (r\<lparr>parser_pending := rest\<rparr>) (evs @ [e])) = Inr (es, q)"
    unfolding drain_line [OF nl] ebind_eq_Inr by auto
  from accept_line_terminal [OF acc] line.prems(3)
  have t: "parser_terminal r \<longleftrightarrow> (\<exists>e. ev = Some e \<and> is_terminal e)" by simp
  show ?case
  proof (cases "parser_terminal r")
    case True
    with t d have "q = r\<lparr>parser_pending := rest\<rparr>" by auto
    moreover from acc True line.prems(3) have "parser_frame_bytes r = 0"
      by (cases rule: accept_line_cases) auto
    ultimately show ?thesis by simp
  next
    case False
    with d t obtain evs' where "drain (r\<lparr>parser_pending := [] @ rest\<rparr>) evs' = Inr (es, q)"
      by (auto split: option.splits if_splits)
    from line.IH [OF this] False line.prems show ?thesis by simp
  qed
qed

subsection \<open>A stream of chunks\<close>

text \<open>The chunks of a stream are fed one after the other until a terminal event has come.\<close>

fun feed_all :: "parser \<Rightarrow> string list \<Rightarrow> sdk_error + job_event list \<times> parser" where
  "feed_all p [] = Inr ([], p)"
| "feed_all p (c # cs) =
     ebind (feed p c) (\<lambda>(es, q).
       if parser_terminal q then Inr (es, q)
       else ebind (feed_all q cs) (\<lambda>(es', r). Inr (es @ es', r)))"

definition parser_ready :: "parser \<Rightarrow> bool" where
  "parser_ready p \<longleftrightarrow> \<not> parser_terminal p \<and> CHR 0x0A \<notin> set (parser_pending p) \<and> within_bounds p"

lemma feed_ready:
  "feed p c = Inr (es, q) \<Longrightarrow> \<not> parser_terminal q \<Longrightarrow> parser_ready q"
  by (auto simp: feed_Inr parser_ready_def dest: drain_pending)

lemma drain_pending_id: "drain (p\<lparr>parser_pending := parser_pending p\<rparr>) evs = drain p evs"
  by simp

text \<open>Feeding the chunks is reading their concatenation.\<close>

lemma feed_all_drain:
  assumes "parser_ready p" "feed_all p cs = Inr (evs, q)"
  shows "\<exists>r. drain (p\<lparr>parser_pending := parser_pending p @ concat cs\<rparr>) [] = Inr (evs, r)
    \<and> parser_terminal r = parser_terminal q \<and> (parser_terminal q \<or> r = q)"
  using assms
proof (induction cs arbitrary: p evs)
  case Nil
  then show ?case
    using drain_stop [where s = "parser_pending p" and p = p and evs = "[]"] by (auto simp: parser_ready_def)
next
  case (Cons c cs)
  then obtain es r where fd: "feed p c = Inr (es, r)"
    and rest: "(if parser_terminal r then Inr (es, r)
       else ebind (feed_all r cs) (\<lambda>(es', r). Inr (es @ es', r))) = Inr (evs, q)"
    by (auto simp: ebind_eq_Inr)
  have dr: "drain (p\<lparr>parser_pending := parser_pending p @ concat (c # cs)\<rparr>) [] =
      (if parser_terminal r then Inr (es, r\<lparr>parser_pending := parser_pending r @ concat cs\<rparr>)
       else drain (r\<lparr>parser_pending := parser_pending r @ concat cs\<rparr>) es)"
    using drain_append [where p = p and s = "parser_pending p @ c" and c = "concat cs" and evs = "[]"] fd Cons.prems(1)
    by (simp add: feed_Inr parser_ready_def)
  show ?case
  proof (cases "parser_terminal r")
    case True
    with dr rest show ?thesis by auto
  next
    case False
    with rest obtain es' where all: "feed_all r cs = Inr (es', q)" and evs: "evs = es @ es'"
      by (auto simp: ebind_eq_Inr)
    from Cons.IH [OF feed_ready [OF fd False] all] dr False evs show ?thesis
      using drain_from [where p = r and s = "parser_pending r @ concat cs" and evs = es] by auto
  qed
qed

lemma drain_feed_all:
  assumes "parser_ready p" "\<forall>c \<in> set cs. length c \<le> max_line"
    "drain (p\<lparr>parser_pending := parser_pending p @ concat cs\<rparr>) [] = Inr (evs, r)"
    "parser_terminal r \<or> within_bounds r"
  shows "\<exists>q. feed_all p cs = Inr (evs, q) \<and> parser_terminal q = parser_terminal r
    \<and> (parser_terminal q \<or> r = q)"
  using assms
proof (induction cs arbitrary: p evs)
  case Nil
  then show ?case
    using drain_stop [where s = "parser_pending p" and p = p and evs = "[]"] by (auto simp: parser_ready_def)
next
  case (Cons c cs)
  have p: "\<not> parser_terminal p" "CHR 0x0A \<notin> set (parser_pending p)"
    using Cons.prems(1) by (auto simp: parser_ready_def)
  have dr: "drain (p\<lparr>parser_pending := (parser_pending p @ c) @ concat cs\<rparr>) [] = Inr (evs, r)"
    using Cons.prems(3) by simp
  from dr obtain es q where one: "drain (p\<lparr>parser_pending := parser_pending p @ c\<rparr>) [] = Inr (es, q)"
    and rest: "(if parser_terminal q then Inr (es, q\<lparr>parser_pending := parser_pending q @ concat cs\<rparr>)
         else drain (q\<lparr>parser_pending := parser_pending q @ concat cs\<rparr>) es) = Inr (evs, r)"
    unfolding drain_append [OF p(1)] ebind_eq_Inr by auto
  show ?case
  proof (cases "parser_terminal q")
    case True
    from drain_terminal [OF one p(2) p(1) True] Cons.prems(2) have "within_bounds q"
      by (auto simp: within_bounds_def max_line_def max_frame_def)
    with one have "feed p c = Inr (es, q)" by (simp add: feed_Inr)
    with True rest show ?thesis by auto
  next
    case False
    from rest False have more: "drain (q\<lparr>parser_pending := parser_pending q @ concat cs\<rparr>) es = Inr (evs, r)"
      by simp
    from drain_too_long [OF more drain_pending [OF one False]] False Cons.prems(4)
    have "within_bounds q" by auto
    with one have fd: "feed p c = Inr (es, q)" by (simp add: feed_Inr)
    from more obtain es' where "drain (q\<lparr>parser_pending := parser_pending q @ concat cs\<rparr>) [] = Inr (es', r)"
      and "evs = es @ es'"
      using drain_from [where p = q and s = "parser_pending q @ concat cs" and evs = es] by (auto simp: ebind_eq_Inr)
    with Cons.IH [OF feed_ready [OF fd False]] Cons.prems(2,4) fd False show ?thesis
      by fastforce
  qed
qed

text \<open>It does not matter how the stream was cut.\<close>

lemma feed_all_recut:
  assumes "parser_ready p" "concat cs = concat ds" "\<forall>d \<in> set ds. length d \<le> max_line"
    "feed_all p cs = Inr (evs, q)" "parser_terminal q \<or> within_bounds q"
  shows "\<exists>r. feed_all p ds = Inr (evs, r) \<and> parser_terminal r = parser_terminal q
    \<and> (parser_terminal r \<or> r = q)"
proof -
  from feed_all_drain [OF assms(1,4)] obtain r
    where "drain (p\<lparr>parser_pending := parser_pending p @ concat ds\<rparr>) [] = Inr (evs, r)"
      "parser_terminal r = parser_terminal q" "parser_terminal q \<or> r = q"
    using assms(2) by auto
  with drain_feed_all [OF assms(1,3)] assms(5) show ?thesis by metis
qed

lemma feed_all_bounds:
  "parser_ready p \<Longrightarrow> feed_all p cs = Inr (evs, q) \<Longrightarrow> within_bounds q"
proof (induction cs arbitrary: p evs)
  case (Cons c cs)
  then obtain es r where fd: "feed p c = Inr (es, r)"
    by (auto simp: ebind_eq_Inr)
  with Cons feed_ready [OF fd] show ?case
    by (auto simp: feed_Inr ebind_eq_Inr split: if_splits)
qed (simp add: parser_ready_def)

text \<open>The parser is terminal when the last event is, and no event before it was.\<close>

definition ends_terminal :: "job_event list \<Rightarrow> bool \<Rightarrow> bool" where
  "ends_terminal es t \<longleftrightarrow>
     (if t then es \<noteq> [] \<and> is_terminal (last es) \<and> list_all (\<lambda>e. \<not> is_terminal e) (butlast es)
      else list_all (\<lambda>e. \<not> is_terminal e) es)"

lemma drain_ends_terminal:
  "drain (p\<lparr>parser_pending := s\<rparr>) evs = Inr (es, q) \<Longrightarrow> \<not> parser_terminal p \<Longrightarrow>
     list_all (\<lambda>e. \<not> is_terminal e) evs \<Longrightarrow> ends_terminal es (parser_terminal q)"
proof (induction s arbitrary: p evs rule: lines_induct)
  case (line raw rest)
  then obtain ev r where acc: "accept_line p raw = Inr (ev, r)"
    by (auto simp: drain_line ebind_eq_Inr)
  from accept_line_terminal [OF acc] line.prems(2)
  have t: "parser_terminal r \<longleftrightarrow> (\<exists>e. ev = Some e \<and> is_terminal e)" by simp
  show ?case
  proof (cases "parser_terminal r")
    case True
    with t obtain e where "ev = Some e" "is_terminal e" by auto
    with line acc True show ?thesis
      by (auto simp: drain_line ends_terminal_def)
  next
    case False
    then have e: "\<not> is_terminal e" if "ev = Some e" for e
      using t that by auto
    let ?evs = "case ev of None \<Rightarrow> evs | Some e \<Rightarrow> evs @ [e]"
    from line.prems(1) acc e have "drain (r\<lparr>parser_pending := rest\<rparr>) ?evs = Inr (es, q)"
      by (cases ev) (simp_all add: drain_line [OF line.hyps(1)])
    moreover have "list_all (\<lambda>e. \<not> is_terminal e) ?evs"
      using line.prems(3) e by (cases ev) auto
    ultimately show ?thesis
      using line.IH False by blast
  qed
qed (auto simp: drain_stop ends_terminal_def)

lemma feed_terminal:
  "feed p c = Inr (es, q) \<Longrightarrow> parser_ready p \<Longrightarrow> ends_terminal es (parser_terminal q)"
  using drain_ends_terminal [where evs = "[]"]
  by (auto simp: feed_Inr parser_ready_def)

lemma feed_all_terminal:
  "parser_ready p \<Longrightarrow> feed_all p cs = Inr (evs, q) \<Longrightarrow> ends_terminal evs (parser_terminal q)"
proof (induction cs arbitrary: p evs)
  case (Cons c cs)
  then obtain es r where fd: "feed p c = Inr (es, r)"
    by (auto simp: ebind_eq_Inr)
  note te = feed_terminal [OF fd Cons.prems(1)]
  show ?case
  proof (cases "parser_terminal r")
    case True
    with Cons.prems fd te show ?thesis by auto
  next
    case False
    with Cons.prems fd obtain es' where es': "feed_all r cs = Inr (es', q)" "evs = es @ es'"
      by (auto simp: ebind_eq_Inr)
    from Cons.IH [OF feed_ready [OF fd False] es'(1)] te False es'(2) show ?thesis
      by (auto simp: ends_terminal_def butlast_append list_all_iff split: if_splits)
  qed
qed (simp add: parser_ready_def ends_terminal_def)

subsection \<open>What is buffered\<close>

text \<open>\<open>frame_bytes\<close> accounts for every line kept, so the three size checks bound the memory in use.\<close>

definition lines_accounted :: "parser \<Rightarrow> bool" where
  "lines_accounted p \<longleftrightarrow> sum_list (map length (parser_lines p)) \<le> parser_frame_bytes p"

definition buffered :: "parser \<Rightarrow> nat" where
  "buffered p = sum_list (map length (parser_lines p)) + length (parser_pending p)"

lemma rstrip_length: "length (rstrip cs s) \<le> length s"
  unfolding rstrip_def by (metis length_dropWhile_le length_rev)

lemma accept_line_accounted:
  assumes "accept_line p raw = Inr (ev, q)" "lines_accounted p"
  shows "lines_accounted q"
  using assms rstrip_length [of "[CHR 0x0D]" raw]
  by (cases rule: accept_line_cases) (auto simp: lines_accounted_def)

lemma drain_accounted:
  "drain (p\<lparr>parser_pending := s\<rparr>) evs = Inr (es, q) \<Longrightarrow> lines_accounted p \<Longrightarrow> lines_accounted q"
proof (induction s arbitrary: p evs rule: lines_induct)
  case (line raw rest)
  then obtain ev r where acc: "accept_line p raw = Inr (ev, r)"
    by (auto simp: drain_line ebind_eq_Inr)
  then have "lines_accounted r"
    using line.prems(2) by (rule accept_line_accounted)
  moreover from this have "lines_accounted (r\<lparr>parser_pending := rest\<rparr>)"
    by (simp add: lines_accounted_def)
  ultimately show ?case
    using line acc by (auto simp: drain_line split: option.splits if_splits)
qed (auto simp: drain_stop lines_accounted_def)

lemma feed_accounted:
  assumes "feed p chunk = Inr (evs, q)" "lines_accounted p"
  shows "lines_accounted q" "buffered q \<le> max_frame"
  using assms drain_accounted [of "parser_pending p @ chunk" p "[]" evs q]
  by (auto simp: feed_Inr within_bounds_def buffered_def lines_accounted_def)

subsection \<open>The identity and order of the events\<close>

definition numbered :: "uuid \<Rightarrow> job_event \<Rightarrow> int \<Rightarrow> bool" where
  "numbered job e n \<longleftrightarrow> json_eq (job_event_sequence e) (JInt n) \<and> job_event_job_id e = job"

text \<open>\<open>event_chain job l es l'\<close>: the events belong to the job and are numbered upwards from \<open>l\<close> to \<open>l'\<close>.\<close>

fun event_chain :: "uuid \<Rightarrow> int \<Rightarrow> job_event list \<Rightarrow> int \<Rightarrow> bool" where
  "event_chain job l [] l' = (l' = l)"
| "event_chain job l (e # es) l' = (\<exists>n. l < n \<and> numbered job e n \<and> event_chain job n es l')"

lemma event_chain_sorted:
  "event_chain job l es l' \<Longrightarrow>
     \<exists>ns. list_all2 (numbered job) es ns \<and> sorted_wrt (<) (l # ns) \<and> last (l # ns) = l'"
proof (induction es arbitrary: l)
  case (Cons e es)
  then obtain n where n: "l < n" "numbered job e n" and "event_chain job n es l'"
    by auto
  from Cons.IH [OF this(3)] obtain ns where "list_all2 (numbered job) es ns"
    "sorted_wrt (<) (n # ns)" "last (n # ns) = l'"
    by blast
  with n have "list_all2 (numbered job) (e # es) (n # ns)" "sorted_wrt (<) (l # n # ns)"
    "last (l # n # ns) = l'"
    by (auto dest: order.strict_trans)
  then show ?case by blast
qed simp

lemma sse_event_numbered:
  "sse_event p = Inr (Some e, q) \<Longrightarrow>
     parser_last_id p < parser_last_id q \<and> numbered (parser_job_id p) e (parser_last_id q)"
  by (auto simp: sse_event_def identified_event_def numbered_def ebind_eq_Inr
      split: if_splits option.splits sum.splits)

lemma sse_event_none: "sse_event p = Inr (None, q) \<Longrightarrow> q = p"
  by (auto simp: sse_event_def ebind_eq_Inr split: if_splits sum.splits)

lemma accept_line_chain:
  assumes "accept_line p raw = Inr (ev, q)"
  shows "event_chain (parser_job_id p) (parser_last_id p) (case ev of None \<Rightarrow> [] | Some e \<Rightarrow> [e])
      (parser_last_id q)" and "parser_job_id q = parser_job_id p"
  using assms
  by (cases rule: accept_line_cases; auto simp: split: option.splits
      dest: sse_event_none sse_event_numbered)+

lemma event_chain_append:
  "event_chain job l (es @ fs) l' \<longleftrightarrow> (\<exists>m. event_chain job l es m \<and> event_chain job m fs l')"
  by (induction es arbitrary: l) (auto simp:)

lemma drain_chain:
  "drain (p\<lparr>parser_pending := s\<rparr>) evs = Inr (evs', q) \<Longrightarrow>
     \<exists>es. evs' = evs @ es \<and> event_chain (parser_job_id p) (parser_last_id p) es (parser_last_id q)"
proof (induction s arbitrary: p evs rule: lines_induct)
  case (line raw rest)
  then obtain ev r where acc: "accept_line p raw = Inr (ev, r)"
    by (auto simp: drain_line ebind_eq_Inr)
  note chain = accept_line_chain [OF acc]
  show ?case
  proof (cases ev)
    case None
    with line acc have "drain (r\<lparr>parser_pending := rest\<rparr>) evs = Inr (evs', q)"
      by (simp add: drain_line)
    from line.IH [OF this] None chain show ?thesis by simp
  next
    case (Some e)
    show ?thesis
    proof (cases "is_terminal e")
      case True
      with Some line acc chain show ?thesis by (auto simp: drain_line)
    next
      case False
      with Some line acc have "drain (r\<lparr>parser_pending := rest\<rparr>) (evs @ [e]) = Inr (evs', q)"
        by (simp add: drain_line)
      from line.IH [OF this] obtain es where "evs' = (evs @ [e]) @ es"
        "event_chain (parser_job_id p) (parser_last_id r) es (parser_last_id q)"
        using chain(2) by auto
      with Some chain(1) have "evs' = evs @ (e # es)"
        "event_chain (parser_job_id p) (parser_last_id p) (e # es) (parser_last_id q)"
        by auto
      then show ?thesis by blast
    qed
  qed
qed (auto simp: drain_stop)

lemma feed_chain:
  assumes "feed p chunk = Inr (evs, q)"
  shows "event_chain (parser_job_id p) (parser_last_id p) evs (parser_last_id q)"
    and "parser_job_id q = parser_job_id p"
  using assms drain_chain [where evs = "[]"] drain_keeps [where evs = "[]"]
  by (fastforce simp: feed_Inr)+

lemma feed_all_chain:
  "feed_all p cs = Inr (evs, q) \<Longrightarrow>
     event_chain (parser_job_id p) (parser_last_id p) evs (parser_last_id q)"
proof (induction cs arbitrary: p evs)
  case (Cons c cs)
  then obtain es r where fd: "feed p c = Inr (es, r)"
    by (auto simp: ebind_eq_Inr)
  note chain = feed_chain [OF fd]
  show ?case
  proof (cases "parser_terminal r")
    case True
    with Cons.prems fd chain show ?thesis by auto
  next
    case False
    with Cons.prems fd obtain es' where "feed_all r cs = Inr (es', q)" "evs = es @ es'"
      by (auto simp: ebind_eq_Inr)
    with Cons.IH [of r es'] chain show ?thesis by (auto simp: event_chain_append)
  qed
qed simp

subsection \<open>Errors\<close>

lemma scan_fields_error: "scan_fields ls acc = Inl e \<Longrightarrow> \<exists>m. e = Unexpected_Response_Error m"
  by (induction ls acc rule: scan_fields.induct) (auto simp: Let_def split: if_splits prod.splits)

lemma identified_event_error:
  "identified_event job l data i t = Inl e \<Longrightarrow> decode_failure e"
  by (auto simp: identified_event_def ebind_eq_Inl split: option.splits if_splits
      dest: int_of_digits_error json_loads_error safe_readerD [OF job_event_wire.dec_safe])

lemma sse_event_error: "sse_event p = Inl e \<Longrightarrow> \<exists>m. e = Unexpected_Response_Error m"
  by (auto simp: sse_event_def ebind_eq_Inl dest: scan_fields_error identified_event_error
      split: if_splits sum.splits)

lemma accept_line_error: "accept_line p raw = Inl e \<Longrightarrow> \<exists>m. e = Unexpected_Response_Error m"
  by (auto simp: accept_line_def Let_def ebind_eq_Inl dest: sse_event_error
      split: if_splits option.splits)

lemma drain_error:
  "drain (p\<lparr>parser_pending := s\<rparr>) evs = Inl e \<Longrightarrow> \<exists>m. e = Unexpected_Response_Error m"
proof (induction s arbitrary: p evs rule: lines_induct)
  case (line raw rest)
  then show ?case
    by (cases "accept_line p raw")
      (auto simp: drain_line dest: accept_line_error split: option.splits if_splits)
qed (simp add: drain_stop)

lemma feed_error: "feed p chunk = Inl e \<Longrightarrow> \<exists>m. e = Unexpected_Response_Error m"
  by (auto simp: feed_def ebind_eq_Inl dest: drain_error split: if_splits)

subsection \<open>The stream read as a whole\<close>

text \<open>
  An independent reading of a stream: its complete lines, the frames they form, and the events of
  the frames up to the first terminal one.
\<close>

function complete_lines :: "string \<Rightarrow> string list" where
  "complete_lines s =
     (case partition_at (CHR 0x0A) s of
        (raw, True, rest) \<Rightarrow> raw # complete_lines rest
      | (raw, False, rest) \<Rightarrow> [])"
  by pat_completeness auto
termination
  by (relation "measure length") (auto dest!: partition_at_shrinks)

declare complete_lines.simps [simp del]

fun frames_of :: "string list \<Rightarrow> string list \<Rightarrow> string list list" where
  "frames_of open_frame [] = []"
| "frames_of open_frame (l # ls) =
     (if l = [] then open_frame # frames_of [] ls else frames_of (open_frame @ [l]) ls)"

definition frame_event :: "uuid \<Rightarrow> int \<Rightarrow> string list \<Rightarrow> sdk_error + job_event option \<times> int" where
  "frame_event job last_id ls =
     ebind (sse_event \<lparr>parser_job_id = job, parser_last_id = last_id, parser_pending = [],
        parser_lines = ls, parser_frame_bytes = 0, parser_terminal = False\<rparr>)
       (\<lambda>(ev, q). Inr (ev, parser_last_id q))"

fun read_frames :: "uuid \<Rightarrow> int \<Rightarrow> string list list \<Rightarrow> sdk_error + job_event list" where
  "read_frames job last_id [] = Inr []"
| "read_frames job last_id (f # fs) =
     ebind (frame_event job last_id f) (\<lambda>(ev, n).
       case ev of
         None \<Rightarrow> read_frames job n fs
       | Some e \<Rightarrow> if is_terminal e then Inr [e]
                   else ebind (read_frames job n fs) (\<lambda>es. Inr (e # es)))"

definition read_stream :: "uuid \<Rightarrow> int \<Rightarrow> string \<Rightarrow> sdk_error + job_event list" where
  "read_stream job last_id s =
     read_frames job last_id (frames_of [] (map (rstrip [CHR 0x0D]) (complete_lines s)))"

lemma complete_lines_stop: "CHR 0x0A \<notin> set s \<Longrightarrow> complete_lines s = []"
  using partition_at_spec [of "CHR 0x0A" s]
  by (subst complete_lines.simps) (auto split: prod.splits bool.splits)

lemma complete_lines_line:
  "CHR 0x0A \<notin> set raw \<Longrightarrow> complete_lines (raw @ CHR 0x0A # rest) = raw # complete_lines rest"
  by (subst complete_lines.simps) (simp add: partition_at_append)

lemma sse_event_eq:
  "sse_event p = ebind (frame_event (parser_job_id p) (parser_last_id p) (parser_lines p))
     (\<lambda>(ev, n). Inr (ev, p\<lparr>parser_last_id := n\<rparr>))"
  by (cases "scan_fields (parser_lines p) ([], None, None)")
    (auto simp: frame_event_def sse_event_def split: sum.splits)

text \<open>Within the limits, a line only changes the frame, and a blank line reads it.\<close>

lemma accept_line_eq:
  assumes "utf8_ok raw" "parser_frame_bytes p + length raw < max_frame"
  shows "accept_line p raw =
     (if rstrip [CHR 0x0D] raw \<noteq> []
      then Inr (None, p\<lparr>parser_frame_bytes := parser_frame_bytes p + length raw + 1,
        parser_lines := parser_lines p @ [rstrip [CHR 0x0D] raw]\<rparr>)
      else ebind (frame_event (parser_job_id p) (parser_last_id p) (parser_lines p)) (\<lambda>(ev, n).
        Inr (ev, p\<lparr>parser_last_id := n, parser_lines := [], parser_frame_bytes := 0,
          parser_terminal := parser_terminal p \<or> (\<exists>e. ev = Some e \<and> is_terminal e)\<rparr>)))"
proof -
  have "length raw \<le> max_line" using assms(2) by (simp add: max_frame_def max_line_def)
  with assms show ?thesis
    by (cases "frame_event (parser_job_id p) (parser_last_id p) (parser_lines p)")
      (auto simp: accept_line_def Let_def sse_event_eq split: option.splits)
qed

lemma drain_frames:
  assumes "parser_frame_bytes p + length s \<le> max_frame" "list_all utf8_ok (complete_lines s)"
  shows "ebind (drain (p\<lparr>parser_pending := s\<rparr>) evs) (\<lambda>(es, q). Inr es) =
     ebind (read_frames (parser_job_id p) (parser_last_id p)
       (frames_of (parser_lines p) (map (rstrip [CHR 0x0D]) (complete_lines s)))) (\<lambda>es. Inr (evs @ es))"
  using assms
proof (induction s arbitrary: p evs rule: lines_induct)
  case (stop s)
  then show ?case by (simp add: drain_stop complete_lines_stop)
next
  case (line raw rest)
  then have raw: "utf8_ok raw" "parser_frame_bytes p + length raw < max_frame"
    and rest: "list_all utf8_ok (complete_lines rest)"
    by (auto simp: complete_lines_line)
  show ?case
  proof (cases "rstrip [CHR 0x0D] raw = []")
    case False
    with line rest show ?thesis
      by (simp add: drain_line complete_lines_line accept_line_eq [OF raw])
  next
    case True
    with line rest show ?thesis
      by (cases "frame_event (parser_job_id p) (parser_last_id p) (parser_lines p)")
        (auto simp: drain_line complete_lines_line accept_line_eq [OF raw] ebind_assoc split: option.splits)
  qed
qed

lemma drain_shrinks:
  "drain (p\<lparr>parser_pending := s\<rparr>) evs = Inr (es, q) \<Longrightarrow>
     parser_frame_bytes q + length (parser_pending q) \<le> parser_frame_bytes p + length s"
proof (induction s arbitrary: p evs rule: lines_induct)
  case (line raw rest)
  then obtain ev r where acc: "accept_line p raw = Inr (ev, r)"
    by (auto simp: drain_line ebind_eq_Inr)
  then have "parser_frame_bytes r \<le> parser_frame_bytes p + length raw + 1"
    by (cases rule: accept_line_cases) auto
  with line acc show ?case
    by (fastforce simp: drain_line split: option.splits if_splits)
qed (auto simp: drain_stop)

lemma feed_frames:
  assumes "parser_pending p = []" "parser_lines p = []" "parser_frame_bytes p = 0"
    "length s \<le> max_frame" "list_all utf8_ok (complete_lines s)"
  shows "ebind (feed p s) (\<lambda>(es, q). Inr es) = read_stream (parser_job_id p) (parser_last_id p) s"
proof -
  have "feed p s = drain (p\<lparr>parser_pending := s\<rparr>) []"
    using drain_shrinks [where p = p and s = s and evs = "[]"] assms
    by (cases "drain (p\<lparr>parser_pending := s\<rparr>) []")
      (auto simp: feed_def max_line_def max_frame_def)
  then show ?thesis
    using drain_frames [where p = p and s = s and evs = "[]"] assms
    by (cases "read_stream (parser_job_id p) (parser_last_id p) s") (simp_all add: read_stream_def)
qed

text \<open>In whatever chunks a stream within the limits comes, its events are those of its frames.\<close>

lemma feed_all_frames:
  assumes fresh: "parser_pending p = []" "parser_lines p = []" "parser_frame_bytes p = 0" "\<not> parser_terminal p"
    and small: "length (concat cs) \<le> max_frame"
    and utf8: "list_all utf8_ok (complete_lines (concat cs))"
  shows "(\<exists>q. feed_all p cs = Inr (evs, q))
    \<longleftrightarrow> read_stream (parser_job_id p) (parser_last_id p) (concat cs) = Inr evs"
proof -
  have ready: "parser_ready p"
    using fresh by (simp add: parser_ready_def within_bounds_def)
  have short: "\<forall>c \<in> set cs. length c \<le> max_line"
  proof
    fix c assume "c \<in> set cs"
    then have "length c \<le> length (concat cs)"
      by (induction cs) auto
    with small show "length c \<le> max_line" by (simp add: max_frame_def max_line_def)
  qed
  have frames: "(\<exists>r. drain (p\<lparr>parser_pending := concat cs\<rparr>) [] = Inr (evs, r)) \<longleftrightarrow>
      read_stream (parser_job_id p) (parser_last_id p) (concat cs) = Inr evs"
    using drain_frames [where p = p and s = "concat cs" and evs = "[]"] fresh small utf8
    by (cases "drain (p\<lparr>parser_pending := concat cs\<rparr>) []";
        cases "read_stream (parser_job_id p) (parser_last_id p) (concat cs)")
      (auto simp: read_stream_def)
  have bounds: "within_bounds r" if "drain (p\<lparr>parser_pending := concat cs\<rparr>) [] = Inr (evs, r)" for r
    using drain_shrinks [OF that] fresh small by (simp add: within_bounds_def max_line_def max_frame_def)
  show ?thesis
    unfolding frames [symmetric]
    using feed_all_drain [OF ready, of cs evs] drain_feed_all [OF ready short, of evs] bounds fresh
    by fastforce
qed

end
