(* ===== verification/Sdk_Common.thy ===== *)
theory Sdk_Common
  imports Sdk_Errors
begin

text \<open>
  The helpers every part of the client uses (\<open>_common.py\<close>): normalising the service URL, the
  check of polling arguments, and the cache of the project's revisions. The cache is shown to
  implement an abstract reading of the whole history of observations.
\<close>

subsection \<open>The service URL\<close>

text \<open>
  \<open>urllib.parse.urlsplit\<close>. Two checks it makes on the network location need tables that are not
  reproduced here and are parameters: \<open>ip_literal\<close>, which says whether the text between brackets
  is an IPv6 or future address (module \<open>ipaddress\<close>), and \<open>nfkc\<close>, Unicode normalisation.
\<close>

record url_parts =
  url_scheme :: string
  url_netloc :: string
  url_path :: string
  url_query :: string
  url_fragment :: string

definition is_ascii_letter :: "char \<Rightarrow> bool" where
  "is_ascii_letter c \<longleftrightarrow>
     (let n = of_char c :: int in 65 \<le> n \<and> n \<le> 90 \<or> 97 \<le> n \<and> n \<le> 122)"

definition scheme_char :: "char \<Rightarrow> bool" where
  "scheme_char c \<longleftrightarrow> is_ascii_letter c \<or> is_ascii_digit c \<or> c \<in> {CHR ''+'', CHR ''-'', CHR ''.''}"

definition c0_or_space :: "char \<Rightarrow> bool" where
  "c0_or_space c \<longleftrightarrow> (of_char c :: int) \<le> 32"

definition clean_url :: "string \<Rightarrow> string" where
  "clean_url url =
     filter (\<lambda>c. c \<notin> {CHR 0x09, CHR 0x0A, CHR 0x0D}) (dropWhile c0_or_space url)"

text \<open>The scheme, lower-cased, and the rest of the URL.\<close>

definition split_scheme :: "string \<Rightarrow> string \<times> string" where
  "split_scheme url =
     (case partition_at (CHR '':'') url of (a, sep, b) \<Rightarrow>
        if sep \<and> a \<noteq> [] \<and> is_ascii_letter (hd a) \<and> list_all scheme_char a
        then (lower_ascii a, b) else ([], url))"

definition is_delimiter :: "char \<Rightarrow> bool" where
  "is_delimiter c \<longleftrightarrow> c \<in> {CHR ''/'', CHR ''?'', CHR ''#''}"

definition check_brackets :: "(string \<Rightarrow> bool) \<Rightarrow> string \<Rightarrow> bool" where
  "check_brackets ip_literal netloc \<longleftrightarrow>
     (CHR ''['' \<in> set netloc \<longleftrightarrow> CHR '']'' \<in> set netloc)
     \<and> (CHR ''['' \<in> set netloc \<longrightarrow>
          ip_literal (fst (partition_at (CHR '']'') (snd (snd (partition_at (CHR ''['') netloc))))))"

definition check_netloc :: "(string \<Rightarrow> string) \<Rightarrow> string \<Rightarrow> bool" where
  "check_netloc nfkc netloc \<longleftrightarrow>
     is_ascii netloc
     \<or> (let n = filter (\<lambda>c. c \<notin> {CHR ''@'', CHR '':'', CHR ''#'', CHR ''?''}) netloc in
          nfkc n = n
          \<or> list_all (\<lambda>c. c \<notin> {CHR ''/'', CHR ''?'', CHR ''#'', CHR ''@'', CHR '':''}) (nfkc n))"

definition urlsplit ::
  "(string \<Rightarrow> bool) \<Rightarrow> (string \<Rightarrow> string) \<Rightarrow> string \<Rightarrow> py_exc + url_parts" where
  "urlsplit ip_literal nfkc url =
     (let (scheme, rest) = split_scheme (clean_url url);
          (netloc, rest) = (if starts_with ''//'' rest
             then (takeWhile (Not \<circ> is_delimiter) (drop 2 rest), dropWhile (Not \<circ> is_delimiter) (drop 2 rest))
             else ([], rest));
          (rest, _, fragment) = partition_at (CHR ''#'') rest;
          (path, _, query) = partition_at (CHR ''?'') rest
      in if \<not> check_brackets ip_literal netloc \<or> \<not> check_netloc nfkc netloc then Inl (ValueErr '''')
         else Inr \<lparr>url_scheme = scheme, url_netloc = netloc, url_path = path,
                   url_query = query, url_fragment = fragment\<rparr>)"

definition base_url :: "(string \<Rightarrow> bool) \<Rightarrow> (string \<Rightarrow> string) \<Rightarrow> string \<Rightarrow> py_exc + string" where
  "base_url ip_literal nfkc url =
     ebind (urlsplit ip_literal nfkc url) (\<lambda>parsed.
       if url_scheme parsed \<notin> {''http'', ''https''} \<or> url_netloc parsed = []
          \<or> url_query parsed \<noteq> [] \<or> url_fragment parsed \<noteq> []
       then Inl (ValueErr ''Expected HTTP service origin or /api/v1 URL'')
       else if rstrip ''/'' (url_path parsed) \<notin> {[], ''/api/v1''}
       then Inl (ValueErr ''Expected service origin or /api/v1 URL'')
       else Inr (url_scheme parsed @ ''://'' @ url_netloc parsed @ ''/api/v1''))"

subsection \<open>Polling arguments\<close>

text \<open>Times are exact rationals; \<open>None\<close> is no limit.\<close>

definition polling :: "rat option \<Rightarrow> rat \<Rightarrow> py_exc + unit" where
  "polling timeout interval =
     (if interval \<le> 0 \<or> (case timeout of None \<Rightarrow> False | Some t \<Rightarrow> t < 0)
      then Inl (ValueErr ''poll_interval must be positive and timeout nonnegative'')
      else Inr ())"

subsection \<open>The revision cache\<close>

text \<open>
  \<open>JNull\<close> stands for the attributes that are \<open>None\<close>. The revisions come from unchecked JSON, so
  they may be any value; comparing two that have no order raises \<open>TypeError\<close>.
\<close>

record revision_cache =
  retired :: "string set"
  session_id :: "string option"
  logical_revision :: json
  index_revision :: json

definition new_cache :: revision_cache where
  "new_cache = \<lparr>retired = {}, session_id = None, logical_revision = JNull, index_revision = JNull\<rparr>"

type_synonym attrs = "(string \<times> json) list"

definition getattr :: "attrs \<Rightarrow> string \<Rightarrow> json" where
  "getattr a name = (case map_of a name of None \<Rightarrow> JNull | Some v \<Rightarrow> v)"

text \<open>The first of the named attributes that is there and not \<open>None\<close>.\<close>

fun first_attr :: "attrs \<Rightarrow> string list \<Rightarrow> json" where
  "first_attr a [] = JNull"
| "first_attr a (name # names) = (if getattr a name = JNull then first_attr a names else getattr a name)"

text \<open>
  \<open>observe\<close>, on the attributes of the object that \<open>getattr(result, "revisions", result)\<close> is.
  A comparison that raises leaves the assignments made before it. \<open>str()\<close> of the session is exact
  for strings, numbers without a point, booleans and \<open>None\<close>; \<open>repr\<close> is how Python prints floats,
  lists and dictionaries.
\<close>

fun py_str :: "(json \<Rightarrow> string) \<Rightarrow> json \<Rightarrow> string" where
  "py_str repr (JStr s) = s"
| "py_str repr JNull = ''None''"
| "py_str repr (JBool b) = (if b then ''True'' else ''False'')"
| "py_str repr (JInt i) = (if i < 0 then ''-'' @ nat_str (nat (- i)) else nat_str (nat i))"
| "py_str repr v = repr v"

definition raise_to :: "json \<Rightarrow> json \<Rightarrow> py_exc + json" where
  "raise_to old new = py_max (py_or old (JInt 0)) new"

definition observe_values ::
  "(json \<Rightarrow> string) \<Rightarrow> json \<Rightarrow> json \<Rightarrow> json \<Rightarrow> revision_cache \<Rightarrow> (py_exc + unit) \<times> revision_cache" where
  "observe_values repr session logical index c =
     (if session = JNull \<or> logical = JNull then (Inr (), c)
      else let s = py_str repr session in
        if s \<in> retired c then (Inr (), c)
        else if session_id c \<noteq> Some s then
          (Inr (), c\<lparr>retired := (case session_id c of None \<Rightarrow> retired c | Some old \<Rightarrow> insert old (retired c)),
                     session_id := Some s, logical_revision := logical, index_revision := index\<rparr>)
        else
          (case raise_to (logical_revision c) logical of
             Inl e \<Rightarrow> (Inl e, c)
           | Inr l \<Rightarrow>
               let c = c\<lparr>logical_revision := l\<rparr> in
               if index = JNull then (Inr (), c)
               else (case raise_to (index_revision c) index of
                       Inl e \<Rightarrow> (Inl e, c)
                     | Inr i \<Rightarrow> (Inr (), c\<lparr>index_revision := i\<rparr>))))"

definition observe ::
  "(json \<Rightarrow> string) \<Rightarrow> attrs \<Rightarrow> revision_cache \<Rightarrow> (py_exc + unit) \<times> revision_cache" where
  "observe repr a c =
     observe_values repr (getattr a ''session_id'')
       (first_attr a [''logical_revision'', ''logical_revision_after'', ''after_logical_revision''])
       (first_attr a [''index_revision'', ''index_revision_after'', ''after_index_revision'']) c"

text \<open>
  \<open>expected\<close>: the preconditions of a request. What the caller leaves out is taken from the cache;
  an explicit \<open>None\<close> is \<open>Given None\<close>.
\<close>

definition expected ::
  "revision_cache \<Rightarrow> string option unset \<Rightarrow> json unset \<Rightarrow> bool \<Rightarrow> py_exc + uuid unset \<times> json unset" where
  "expected c session revision required =
     (let s = (case session of UNSET \<Rightarrow> session_id c | Given x \<Rightarrow> x);
          r = (case revision of UNSET \<Rightarrow> logical_revision c | Given x \<Rightarrow> x)
      in if (s = None) \<noteq> (r = JNull)
         then Inl (ValueErr ''Session and logical revision must be provided together'')
         else case s of
             None \<Rightarrow>
               if required
               then Inl (ValueErr ''Observe project.snapshot() or supply session/revision explicitly'')
               else Inr (UNSET, UNSET)
           | Some s \<Rightarrow> ebind (uuid_of_str s) (\<lambda>u. Inr (Given u, Given r)))"

text \<open>\<open>_ProjectBase._required\<close>: a required precondition must be a UUID and an integer.\<close>

fun is_int :: "json \<Rightarrow> bool" where
  "is_int (JInt _) = True"
| "is_int (JBool _) = True"
| "is_int _ = False"

definition required_expected ::
  "revision_cache \<Rightarrow> string option unset \<Rightarrow> json unset \<Rightarrow> py_exc + uuid \<times> json" where
  "required_expected c session revision =
     ebind (expected c session revision True) (\<lambda>p.
       case p of
         (Given u, Given r) \<Rightarrow> if is_int r then Inr (u, r) else Inl AssertErr
       | _ \<Rightarrow> Inl AssertErr)"

subsection \<open>Normalising a URL\<close>

lemma partition_at_subset:
  "partition_at c s = (a, sep, b) \<Longrightarrow> set a \<subseteq> set s \<and> set b \<subseteq> set s"
  by (induction s arbitrary: a) (auto split: if_splits prod.splits)

lemma urlsplit_netloc:
  assumes "urlsplit ip_literal nfkc url = Inr p"
  shows "list_all (Not \<circ> is_delimiter) (url_netloc p)"
    and "CHR 0x09 \<notin> set (url_netloc p)" "CHR 0x0A \<notin> set (url_netloc p)" "CHR 0x0D \<notin> set (url_netloc p)"
    and "check_brackets ip_literal (url_netloc p)" and "check_netloc nfkc (url_netloc p)"
proof -
  obtain scheme rest where sp: "split_scheme (clean_url url) = (scheme, rest)" by fastforce
  have clean: "CHR 0x09 \<notin> set (clean_url url)" "CHR 0x0A \<notin> set (clean_url url)" "CHR 0x0D \<notin> set (clean_url url)"
    by (auto simp: clean_url_def)
  from sp have "set rest \<subseteq> set (clean_url url)"
    by (auto simp: split_scheme_def split: prod.splits if_splits dest: partition_at_subset)
  with clean have rest: "CHR 0x09 \<notin> set rest" "CHR 0x0A \<notin> set rest" "CHR 0x0D \<notin> set rest"
    by auto
  let ?n = "if starts_with ''//'' rest then takeWhile (Not \<circ> is_delimiter) (drop 2 rest) else []"
  from assms sp have n: "url_netloc p = ?n" "check_brackets ip_literal ?n" "check_netloc nfkc ?n"
    by (auto simp: urlsplit_def split: prod.splits if_splits)
  have "set ?n \<subseteq> set rest"
    by (auto dest: set_takeWhileD in_set_dropD)
  with rest n show "CHR 0x09 \<notin> set (url_netloc p)" "CHR 0x0A \<notin> set (url_netloc p)" "CHR 0x0D \<notin> set (url_netloc p)"
    by auto
  show "list_all (Not \<circ> is_delimiter) (url_netloc p)"
    unfolding n(1) list_all_iff using set_takeWhileD by fastforce
  show "check_brackets ip_literal (url_netloc p)" "check_netloc nfkc (url_netloc p)"
    using n by simp_all
qed

lemma filter_all: "list_all P s \<Longrightarrow> filter P s = s"
  by (induction s) auto

lemma takeWhile_delimiter:
  "list_all (Not \<circ> is_delimiter) n \<Longrightarrow> is_delimiter d \<Longrightarrow>
     takeWhile (Not \<circ> is_delimiter) (n @ d # r) = n \<and> dropWhile (Not \<circ> is_delimiter) (n @ d # r) = d # r"
  by (induction n) auto

lemma clean_prefix: "scheme = ''http'' \<or> scheme = ''https'' \<Longrightarrow>
   clean_url (scheme @ ''://'' @ n @ ''/api/v1'') =
     scheme @ ''://'' @ filter (\<lambda>c. c \<notin> {CHR 0x09, CHR 0x0A, CHR 0x0D}) n @ ''/api/v1''"
  by (auto simp: clean_url_def c0_or_space_def)

lemma split_http: "scheme = ''http'' \<or> scheme = ''https'' \<Longrightarrow>
   split_scheme (scheme @ '':'' @ r) = (scheme, r)"
  by (auto simp: split_scheme_def lower_ascii_def lower_char_def scheme_char_def is_ascii_letter_def Let_def)

lemma urlsplit_normal:
  assumes scheme: "scheme = ''http'' \<or> scheme = ''https''"
    and n: "list_all (Not \<circ> is_delimiter) n" "CHR 0x09 \<notin> set n" "CHR 0x0A \<notin> set n" "CHR 0x0D \<notin> set n"
      "check_brackets ip_literal n" "check_netloc nfkc n"
  shows "urlsplit ip_literal nfkc (scheme @ ''://'' @ n @ ''/api/v1'') =
    Inr \<lparr>url_scheme = scheme, url_netloc = n, url_path = ''/api/v1'', url_query = [], url_fragment = []\<rparr>"
proof -
  have "filter (\<lambda>c. c \<notin> {CHR 0x09, CHR 0x0A, CHR 0x0D}) n = n"
    using n(2-4) by (intro filter_all) (auto simp: list_all_iff)
  then have "split_scheme (clean_url (scheme @ ''://'' @ n @ ''/api/v1'')) = (scheme, ''//'' @ n @ ''/api/v1'')"
    using clean_prefix [OF scheme, of n] split_http [OF scheme, of "''//'' @ n @ ''/api/v1''"] by simp
  moreover have "takeWhile (Not \<circ> is_delimiter) (n @ ''/api/v1'') = n \<and>
      dropWhile (Not \<circ> is_delimiter) (n @ ''/api/v1'') = ''/api/v1''"
    using takeWhile_delimiter [OF n(1), of "CHR ''/''" "''api/v1''"] by (simp add: is_delimiter_def)
  ultimately show ?thesis
    using n by (simp add: urlsplit_def)
qed

lemma base_url_cases:
  assumes "base_url ip_literal nfkc url = Inr b"
  obtains p where "urlsplit ip_literal nfkc url = Inr p" "url_scheme p = ''http'' \<or> url_scheme p = ''https''"
    "url_netloc p \<noteq> []" "url_query p = []" "url_fragment p = []"
    "rstrip ''/'' (url_path p) \<in> {[], ''/api/v1''}"
    "b = url_scheme p @ ''://'' @ url_netloc p @ ''/api/v1''"
  using assms by (auto simp: base_url_def ebind_eq_Inr split: if_splits)

lemma base_url_normal:
  assumes "base_url ip_literal nfkc url = Inr b"
  shows "base_url ip_literal nfkc b = Inr b"
  using assms
proof (cases rule: base_url_cases)
  case (1 p)
  note sp = urlsplit_normal [OF 1(2) urlsplit_netloc [OF 1(1)]]
  from 1 show ?thesis
    unfolding 1(7) base_url_def sp by (auto simp: rstrip_def)
qed

subsection \<open>The cache implements a reading of the history\<close>

text \<open>
  What an observed object reports, when the service keeps to its schema: a session, a logical
  revision, and an index revision unless it has none.
\<close>

type_synonym report = "string \<times> int \<times> int option"

definition reports :: "(json \<Rightarrow> string) \<Rightarrow> attrs \<Rightarrow> report \<Rightarrow> bool" where
  "reports repr a r \<longleftrightarrow>
     (case r of (s, l, i) \<Rightarrow>
        getattr a ''session_id'' \<noteq> JNull \<and> py_str repr (getattr a ''session_id'') = s
        \<and> first_attr a [''logical_revision'', ''logical_revision_after'', ''after_logical_revision''] = JInt l
        \<and> first_attr a [''index_revision'', ''index_revision_after'', ''after_index_revision'']
            = (case i of None \<Rightarrow> JNull | Some n \<Rightarrow> JInt n))"

text \<open>
  The abstract cache is a function of the whole history: the current session is the one that
  appeared last for the first time, all earlier ones are retired, and the revisions are the
  greatest ever reported for the current session, in whatever order they came.
\<close>

definition first_seen :: "'a list \<Rightarrow> 'a list" where
  "first_seen xs = rev (remdups (rev xs))"

definition logicals :: "string \<Rightarrow> report list \<Rightarrow> int set" where
  "logicals s h = {l. \<exists>i. (s, l, i) \<in> set h}"

definition indexes :: "string \<Rightarrow> report list \<Rightarrow> int set" where
  "indexes s h = {i. \<exists>l. (s, l, Some i) \<in> set h}"

definition cache_of :: "report list \<Rightarrow> revision_cache" where
  "cache_of h =
     (if h = [] then new_cache
      else let ss = first_seen (map fst h); s = last ss in
        \<lparr>retired = set (butlast ss), session_id = Some s,
         logical_revision = JInt (Max (logicals s h)),
         index_revision = (if indexes s h = {} then JNull else JInt (Max (indexes s h)))\<rparr>)"

lemma first_seen_append:
  "first_seen (xs @ [x]) = (if x \<in> set xs then first_seen xs else first_seen xs @ [x])"
  by (simp add: first_seen_def)

lemma first_seen_set [simp]: "set (first_seen xs) = set xs"
  by (simp add: first_seen_def)

lemma first_seen_distinct: "distinct (first_seen xs)"
  by (simp add: first_seen_def)

lemma first_seen_Nil [simp]: "first_seen xs = [] \<longleftrightarrow> xs = []"
  by (simp add: first_seen_def)

lemma logicals_append:
  "logicals s (h @ [(t, l, i)]) = (if s = t then insert l (logicals s h) else logicals s h)"
  by (auto simp: logicals_def)

lemma indexes_append:
  "indexes s (h @ [(t, l, i)]) =
     (case i of Some n \<Rightarrow> if s = t then insert n (indexes s h) else indexes s h | None \<Rightarrow> indexes s h)"
  by (auto simp: indexes_def split: option.splits)

lemma logicals_finite [simp]: "finite (logicals s h)"
proof (rule finite_subset)
  show "logicals s h \<subseteq> (\<lambda>(s, l, i). l) ` set h"
    by (auto simp: logicals_def intro: rev_image_eqI)
qed simp

lemma indexes_finite [simp]: "finite (indexes s h)"
proof (rule finite_subset)
  show "indexes s h \<subseteq> (\<lambda>(s, l, i). the i) ` set h"
    by (auto simp: indexes_def intro: rev_image_eqI)
qed simp

lemma logicals_nonempty: "s \<in> set (map fst h) \<Longrightarrow> logicals s h \<noteq> {}"
  by (force simp: logicals_def)

lemma fresh_empty:
  "s \<notin> set (map fst h) \<Longrightarrow> logicals s h = {} \<and> indexes s h = {}"
  by (force simp: logicals_def indexes_def)

lemma py_or_zero: "py_or (JInt n) (JInt 0) = JInt n"
  by (simp add: py_or_def)

lemma raise_to_int: "raise_to (JInt m) (JInt n) = Inr (JInt (max m n))"
  by (simp add: raise_to_def py_or_zero)

lemma raise_to_null: "0 \<le> n \<Longrightarrow> raise_to JNull (JInt n) = Inr (JInt n)"
  by (simp add: raise_to_def)

definition proper_index :: "report \<Rightarrow> bool" where
  "proper_index r \<longleftrightarrow> (case snd (snd r) of None \<Rightarrow> True | Some n \<Rightarrow> 0 \<le> n)"

lemma observe_history:
  assumes "reports repr a r" "proper_index r"
  shows "observe repr a (cache_of h) = (Inr (), cache_of (h @ [r]))"
proof -
  obtain s l i where r: "r = (s, l, i)" by (cases r)
  from assms(1) r have a: "getattr a ''session_id'' \<noteq> JNull" "py_str repr (getattr a ''session_id'') = s"
    "first_attr a [''logical_revision'', ''logical_revision_after'', ''after_logical_revision''] = JInt l"
    "first_attr a [''index_revision'', ''index_revision_after'', ''after_index_revision'']
       = (case i of None \<Rightarrow> JNull | Some n \<Rightarrow> JInt n)"
    by (auto simp: reports_def)
  let ?session = "getattr a ''session_id''"
  have eq: "observe repr a c = observe_values repr ?session (JInt l) (case i of None \<Rightarrow> JNull | Some n \<Rightarrow> JInt n) c" for c
    using a by (simp only: observe_def)
  note a = a(1,2)
  show ?thesis
  proof (cases "h = []")
    case True
    then show ?thesis
      using r a fresh_empty [of s "[]"]
      by (auto simp: eq observe_values_def cache_of_def new_cache_def first_seen_def logicals_def indexes_def
          split: option.splits)
  next
    case False
    then obtain bs z where ss: "first_seen (map fst h) = bs @ [z]"
      by (metis append_butlast_last_id first_seen_Nil list.map_disc_iff)
    then have z: "z \<notin> set bs" and sessions: "set (map fst h) = insert z (set bs)"
      using first_seen_distinct [of "map fst h"] first_seen_set [of "map fst h"] by auto
    from False ss have c: "cache_of h = \<lparr>retired = set bs, session_id = Some z,
        logical_revision = JInt (Max (logicals z h)),
        index_revision = (if indexes z h = {} then JNull else JInt (Max (indexes z h)))\<rparr>"
      by (simp add: cache_of_def Let_def)
    show ?thesis
    proof (cases "s \<in> set (map fst h)")
      case new: False
      then have "first_seen (map fst (h @ [r])) = (bs @ [z]) @ [s]"
        using ss by (simp add: r first_seen_append)
      then have "cache_of (h @ [r]) = \<lparr>retired = insert z (set bs), session_id = Some s,
          logical_revision = JInt (Max (logicals s (h @ [r]))),
          index_revision = (if indexes s (h @ [r]) = {} then JNull else JInt (Max (indexes s (h @ [r]))))\<rparr>"
        by (auto simp: cache_of_def Let_def butlast_append)
      with new a r c sessions fresh_empty [OF new] show ?thesis
        by (auto simp: eq observe_values_def Let_def logicals_append indexes_append split: option.splits)
    next
      case known: True
      then have "first_seen (map fst (h @ [r])) = bs @ [z]"
        using ss by (simp add: r first_seen_append)
      then have c': "cache_of (h @ [r]) = \<lparr>retired = set bs, session_id = Some z,
          logical_revision = JInt (Max (logicals z (h @ [r]))),
          index_revision = (if indexes z (h @ [r]) = {} then JNull else JInt (Max (indexes z (h @ [r]))))\<rparr>"
        by (simp add: cache_of_def Let_def)
      show ?thesis
      proof (cases "s = z")
        case False
        with known sessions have "s \<in> set bs" by auto
        with False a c c' r show ?thesis
          by (auto simp: eq observe_values_def Let_def logicals_append indexes_append split: option.splits)
      next
        case True
        with known a c c' r z logicals_nonempty [of z h] assms(2) show ?thesis
          by (cases i)
            (auto simp: eq observe_values_def Let_def logicals_append indexes_append raise_to_int
              raise_to_null proper_index_def max.commute)
      qed
    qed
  qed
qed

text \<open>A whole sequence of observations.\<close>

fun observe_all :: "(json \<Rightarrow> string) \<Rightarrow> attrs list \<Rightarrow> revision_cache \<Rightarrow> (py_exc + unit) \<times> revision_cache" where
  "observe_all repr [] c = (Inr (), c)"
| "observe_all repr (a # as) c =
     (case observe repr a c of
        (Inl e, c') \<Rightarrow> (Inl e, c')
      | (Inr _, c') \<Rightarrow> observe_all repr as c')"

lemma observe_all_from:
  "list_all2 (reports repr) as rs \<Longrightarrow> list_all proper_index rs \<Longrightarrow>
     observe_all repr as (cache_of h) = (Inr (), cache_of (h @ rs))"
  by (induction as rs arbitrary: h rule: list_all2_induct) (auto simp: observe_history)

lemma observe_all_history:
  "list_all2 (reports repr) as rs \<Longrightarrow> list_all proper_index rs \<Longrightarrow>
     observe_all repr as new_cache = (Inr (), cache_of rs)"
  using observe_all_from [of repr as rs "[]"] by (simp add: cache_of_def)

text \<open>What holds for any values at all: a retired session never comes back.\<close>

lemma observe_retired:
  assumes "observe repr a c = (res, c')"
  shows "retired c \<subseteq> retired c'"
    and "(\<forall>s. session_id c = Some s \<longrightarrow> s \<notin> retired c) \<Longrightarrow> session_id c' = Some s \<Longrightarrow> s \<notin> retired c'"
  using assms
  by (auto simp: observe_def observe_values_def Let_def split: if_splits sum.splits option.splits)

subsection \<open>Preconditions\<close>

lemma expected_cases:
  assumes "expected c session revision required = Inr (u, r)"
  shows "u = UNSET \<and> r = UNSET \<and> \<not> required \<or> (\<exists>x v. u = Given x \<and> r = Given v \<and> v \<noteq> JNull)"
  using assms by (auto simp: expected_def Let_def ebind_eq_Inr split: if_splits option.splits)

lemma expected_error:
  assumes "expected c session revision required = Inl e"
  shows "\<exists>m. e = ValueErr m"
proof -
  have "uuid_of_str s = Inl e \<Longrightarrow> \<exists>m. e = ValueErr m" for s
    by (auto simp: uuid_of_str_def int16_of_str_def Let_def ebind_eq_Inl case_prod_beta
        split: if_splits option.splits)
  with assms show ?thesis
    by (auto simp: expected_def Let_def ebind_eq_Inl split: if_splits option.splits)
qed

end
