(* ===== verification/Wire_Symbols.thy ===== *)
theory Wire_Symbols
  imports Wire_Codec
begin

text \<open>
  The models of symbols, classes and their resolution.
\<close>

datatype symbol_ref_kind = SymbolRefKind_CLASS | SymbolRefKind_FIELD | SymbolRefKind_METHOD

fun symbol_ref_kind_value :: "symbol_ref_kind \<Rightarrow> string" where
  "symbol_ref_kind_value SymbolRefKind_CLASS = ''CLASS''"
| "symbol_ref_kind_value SymbolRefKind_FIELD = ''FIELD''"
| "symbol_ref_kind_value SymbolRefKind_METHOD = ''METHOD''"

definition symbol_ref_kind_of :: "json \<Rightarrow> py_exc + symbol_ref_kind" where
  "symbol_ref_kind_of = enum_of [SymbolRefKind_CLASS, SymbolRefKind_FIELD, SymbolRefKind_METHOD] symbol_ref_kind_value"

interpretation symbol_ref_kind_wire: codec "\<lambda>m. JStr (symbol_ref_kind_value m)" symbol_ref_kind_of "\<lambda>_. True"
proof unfold_locales
  fix m
  show "symbol_ref_kind_of (JStr (symbol_ref_kind_value m)) = Inr m"
    by (cases m) (simp_all add: symbol_ref_kind_of_def enum_of_def)
qed (simp add: symbol_ref_kind_of_def safe_enum_of)

record symbol_ref =
  symbol_ref_kind :: symbol_ref_kind
  symbol_ref_original_class_descriptor :: json
  symbol_ref_input_identity :: "json unset"
  symbol_ref_original_name :: "json unset"
  symbol_ref_original_descriptor :: "json unset"

definition symbol_ref_to_dict :: "symbol_ref \<Rightarrow> jdict" where
  "symbol_ref_to_dict x =
     put_given ''originalDescriptor'' (symbol_ref_original_descriptor x) (
     put_given ''originalName'' (symbol_ref_original_name x) (
     put_given ''inputIdentity'' (symbol_ref_input_identity x) (
     dict_update []
       [(''kind'', JStr (symbol_ref_kind_value (symbol_ref_kind x))),
        (''originalClassDescriptor'', symbol_ref_original_class_descriptor x)])))"

definition symbol_ref_from_dict :: "json \<Rightarrow> py_exc + symbol_ref" where
  "symbol_ref_from_dict src = reading src (
     popping ''kind'' symbol_ref_kind_of (\<lambda>kind.
     popping ''originalClassDescriptor'' Inr (\<lambda>original_class_descriptor.
     popping_opt ''inputIdentity'' Inr (\<lambda>input_identity.
     popping_opt ''originalName'' Inr (\<lambda>original_name.
     popping_opt ''originalDescriptor'' Inr (\<lambda>original_descriptor.
     (\<lambda>d. Inr \<lparr>symbol_ref_kind = kind,
        symbol_ref_original_class_descriptor = original_class_descriptor,
        symbol_ref_input_identity = input_identity,
        symbol_ref_original_name = original_name,
        symbol_ref_original_descriptor = original_descriptor\<rparr>)))))))"

interpretation symbol_ref_wire: codec "\<lambda>x. JObj (symbol_ref_to_dict x)" symbol_ref_from_dict "\<lambda>_. True"
  by unfold_locales
    (simp add: symbol_ref_to_dict_def symbol_ref_from_dict_def wire_simps cong: wire_cong,
     rule safe_readerI, unfold symbol_ref_from_dict_def, intro wire_rules)

interpretation symbol_ref_union: union_codec "\<lambda>x. JObj (symbol_ref_to_dict x)" symbol_ref_from_dict "\<lambda>_. True" is_dict "[]"
  by unfold_locales (simp_all add: wire_rules)

record method_symbol_ref =
  method_symbol_ref_kind :: json
  method_symbol_ref_original_class_descriptor :: json
  method_symbol_ref_original_name :: json
  method_symbol_ref_original_descriptor :: json
  method_symbol_ref_input_identity :: "json unset"

definition method_symbol_ref_to_dict :: "method_symbol_ref \<Rightarrow> jdict" where
  "method_symbol_ref_to_dict x =
     put_given ''inputIdentity'' (method_symbol_ref_input_identity x) (
     dict_update []
       [(''kind'', method_symbol_ref_kind x),
        (''originalClassDescriptor'', method_symbol_ref_original_class_descriptor x),
        (''originalName'', method_symbol_ref_original_name x),
        (''originalDescriptor'', method_symbol_ref_original_descriptor x)])"

definition method_symbol_ref_from_dict :: "json \<Rightarrow> py_exc + method_symbol_ref" where
  "method_symbol_ref_from_dict src = reading src (
     popping ''kind'' (literal (JStr ''METHOD'')) (\<lambda>kind.
     popping ''originalClassDescriptor'' Inr (\<lambda>original_class_descriptor.
     popping ''originalName'' Inr (\<lambda>original_name.
     popping ''originalDescriptor'' Inr (\<lambda>original_descriptor.
     popping_opt ''inputIdentity'' Inr (\<lambda>input_identity.
     (\<lambda>d. Inr \<lparr>method_symbol_ref_kind = kind,
        method_symbol_ref_original_class_descriptor = original_class_descriptor,
        method_symbol_ref_original_name = original_name,
        method_symbol_ref_original_descriptor = original_descriptor,
        method_symbol_ref_input_identity = input_identity\<rparr>)))))))"

definition method_symbol_ref_ok :: "method_symbol_ref \<Rightarrow> bool" where
  "method_symbol_ref_ok x \<longleftrightarrow> json_eq (method_symbol_ref_kind x) (JStr ''METHOD'')"

interpretation method_symbol_ref_wire: codec "\<lambda>x. JObj (method_symbol_ref_to_dict x)" method_symbol_ref_from_dict method_symbol_ref_ok
  by unfold_locales
    (simp add: method_symbol_ref_to_dict_def method_symbol_ref_from_dict_def method_symbol_ref_ok_def wire_simps cong: wire_cong,
     rule safe_readerI, unfold method_symbol_ref_from_dict_def, intro wire_rules)

datatype class_info_provenance = ClassInfoProvenance_AMBIGUOUS | ClassInfoProvenance_EXACT | ClassInfoProvenance_UNAVAILABLE

fun class_info_provenance_value :: "class_info_provenance \<Rightarrow> string" where
  "class_info_provenance_value ClassInfoProvenance_AMBIGUOUS = ''AMBIGUOUS''"
| "class_info_provenance_value ClassInfoProvenance_EXACT = ''EXACT''"
| "class_info_provenance_value ClassInfoProvenance_UNAVAILABLE = ''UNAVAILABLE''"

definition class_info_provenance_of :: "json \<Rightarrow> py_exc + class_info_provenance" where
  "class_info_provenance_of = enum_of [ClassInfoProvenance_AMBIGUOUS, ClassInfoProvenance_EXACT, ClassInfoProvenance_UNAVAILABLE] class_info_provenance_value"

interpretation class_info_provenance_wire: codec "\<lambda>m. JStr (class_info_provenance_value m)" class_info_provenance_of "\<lambda>_. True"
proof unfold_locales
  fix m
  show "class_info_provenance_of (JStr (class_info_provenance_value m)) = Inr m"
    by (cases m) (simp_all add: class_info_provenance_of_def enum_of_def)
qed (simp add: class_info_provenance_of_def safe_enum_of)

record class_info =
  class_info_ref :: symbol_ref
  class_info_original_dotted_name :: json
  class_info_display_name :: json
  class_info_display_qualified_name :: json
  class_info_is_inner :: json
  class_info_code_available :: json
  class_info_provenance :: class_info_provenance
  class_info_original_parent :: "symbol_ref lenient unset"

definition class_info_to_dict :: "class_info \<Rightarrow> jdict" where
  "class_info_to_dict x =
     put_given ''originalParent'' (map_given (lenient_json (\<lambda>x. JObj (symbol_ref_to_dict x))) (class_info_original_parent x)) (
     dict_update []
       [(''ref'', JObj (symbol_ref_to_dict (class_info_ref x))),
        (''originalDottedName'', class_info_original_dotted_name x),
        (''displayName'', class_info_display_name x),
        (''displayQualifiedName'', class_info_display_qualified_name x),
        (''isInner'', class_info_is_inner x),
        (''codeAvailable'', class_info_code_available x),
        (''provenance'', JStr (class_info_provenance_value (class_info_provenance x)))])"

definition class_info_from_dict :: "json \<Rightarrow> py_exc + class_info" where
  "class_info_from_dict src = reading src (
     popping ''ref'' symbol_ref_from_dict (\<lambda>ref.
     popping ''originalDottedName'' Inr (\<lambda>original_dotted_name.
     popping ''displayName'' Inr (\<lambda>display_name.
     popping ''displayQualifiedName'' Inr (\<lambda>display_qualified_name.
     popping ''isInner'' Inr (\<lambda>is_inner.
     popping ''codeAvailable'' Inr (\<lambda>code_available.
     popping ''provenance'' class_info_provenance_of (\<lambda>provenance.
     popping_opt ''originalParent'' (parse_union is_dict [symbol_ref_from_dict]) (\<lambda>original_parent.
     (\<lambda>d. Inr \<lparr>class_info_ref = ref,
        class_info_original_dotted_name = original_dotted_name,
        class_info_display_name = display_name,
        class_info_display_qualified_name = display_qualified_name,
        class_info_is_inner = is_inner,
        class_info_code_available = code_available,
        class_info_provenance = provenance,
        class_info_original_parent = original_parent\<rparr>))))))))))"

definition class_info_ok :: "class_info \<Rightarrow> bool" where
  "class_info_ok x \<longleftrightarrow> given_all (lenient_ok is_dict [symbol_ref_from_dict] (\<lambda>_. True)) (class_info_original_parent x)"

interpretation class_info_wire: codec "\<lambda>x. JObj (class_info_to_dict x)" class_info_from_dict class_info_ok
  by unfold_locales
    (simp add: class_info_to_dict_def class_info_from_dict_def class_info_ok_def wire_simps cong: wire_cong,
     rule safe_readerI, unfold class_info_from_dict_def, intro wire_rules)

record class_page =
  class_page_session_id :: uuid
  class_page_logical_revision :: json
  class_page_snapshot_id :: json
  class_page_scope :: json
  class_page_source_coverage :: json
  class_page_items :: "class_info list"
  class_page_next_cursor :: json
  class_page_complete :: json

definition class_page_to_dict :: "class_page \<Rightarrow> jdict" where
  "class_page_to_dict x =
     dict_update []
       [(''sessionId'', JStr (uuid_str (class_page_session_id x))),
        (''logicalRevision'', class_page_logical_revision x),
        (''snapshotId'', class_page_snapshot_id x),
        (''scope'', class_page_scope x),
        (''sourceCoverage'', class_page_source_coverage x),
        (''items'', JArr (map (\<lambda>x. JObj (class_info_to_dict x)) (class_page_items x))),
        (''nextCursor'', class_page_next_cursor x),
        (''complete'', class_page_complete x)]"

definition class_page_from_dict :: "json \<Rightarrow> py_exc + class_page" where
  "class_page_from_dict src = reading src (
     popping ''sessionId'' uuid_new (\<lambda>session_id.
     popping ''logicalRevision'' Inr (\<lambda>logical_revision.
     popping ''snapshotId'' Inr (\<lambda>snapshot_id.
     popping ''scope'' (literal (JStr ''JADX_VISIBLE'')) (\<lambda>scope.
     popping ''sourceCoverage'' (literal (JStr ''UNVERIFIED'')) (\<lambda>source_coverage.
     popping ''items'' (list_of class_info_from_dict) (\<lambda>items.
     popping ''nextCursor'' Inr (\<lambda>next_cursor.
     popping ''complete'' Inr (\<lambda>complete.
     (\<lambda>d. Inr \<lparr>class_page_session_id = session_id,
        class_page_logical_revision = logical_revision,
        class_page_snapshot_id = snapshot_id,
        class_page_scope = scope,
        class_page_source_coverage = source_coverage,
        class_page_items = items,
        class_page_next_cursor = next_cursor,
        class_page_complete = complete\<rparr>))))))))))"

definition class_page_ok :: "class_page \<Rightarrow> bool" where
  "class_page_ok x \<longleftrightarrow> json_eq (class_page_scope x) (JStr ''JADX_VISIBLE'')
     \<and> json_eq (class_page_source_coverage x) (JStr ''UNVERIFIED'')
     \<and> list_all class_info_ok (class_page_items x)"

interpretation class_page_wire: codec "\<lambda>x. JObj (class_page_to_dict x)" class_page_from_dict class_page_ok
  by unfold_locales
    (simp add: class_page_to_dict_def class_page_from_dict_def class_page_ok_def wire_simps cong: wire_cong,
     rule safe_readerI, unfold class_page_from_dict_def, intro wire_rules)

datatype list_classes_name_domain = ListClassesNameDomain_ALIAS | ListClassesNameDomain_ORIGINAL

fun list_classes_name_domain_value :: "list_classes_name_domain \<Rightarrow> string" where
  "list_classes_name_domain_value ListClassesNameDomain_ALIAS = ''alias''"
| "list_classes_name_domain_value ListClassesNameDomain_ORIGINAL = ''original''"

definition list_classes_name_domain_of :: "json \<Rightarrow> py_exc + list_classes_name_domain" where
  "list_classes_name_domain_of = enum_of [ListClassesNameDomain_ALIAS, ListClassesNameDomain_ORIGINAL] list_classes_name_domain_value"

interpretation list_classes_name_domain_wire: codec "\<lambda>m. JStr (list_classes_name_domain_value m)" list_classes_name_domain_of "\<lambda>_. True"
proof unfold_locales
  fix m
  show "list_classes_name_domain_of (JStr (list_classes_name_domain_value m)) = Inr m"
    by (cases m) (simp_all add: list_classes_name_domain_of_def enum_of_def)
qed (simp add: list_classes_name_domain_of_def safe_enum_of)

datatype symbol_info_provenance = SymbolInfoProvenance_AMBIGUOUS | SymbolInfoProvenance_EXACT | SymbolInfoProvenance_UNAVAILABLE

fun symbol_info_provenance_value :: "symbol_info_provenance \<Rightarrow> string" where
  "symbol_info_provenance_value SymbolInfoProvenance_AMBIGUOUS = ''AMBIGUOUS''"
| "symbol_info_provenance_value SymbolInfoProvenance_EXACT = ''EXACT''"
| "symbol_info_provenance_value SymbolInfoProvenance_UNAVAILABLE = ''UNAVAILABLE''"

definition symbol_info_provenance_of :: "json \<Rightarrow> py_exc + symbol_info_provenance" where
  "symbol_info_provenance_of = enum_of [SymbolInfoProvenance_AMBIGUOUS, SymbolInfoProvenance_EXACT, SymbolInfoProvenance_UNAVAILABLE] symbol_info_provenance_value"

interpretation symbol_info_provenance_wire: codec "\<lambda>m. JStr (symbol_info_provenance_value m)" symbol_info_provenance_of "\<lambda>_. True"
proof unfold_locales
  fix m
  show "symbol_info_provenance_of (JStr (symbol_info_provenance_value m)) = Inr m"
    by (cases m) (simp_all add: symbol_info_provenance_of_def enum_of_def)
qed (simp add: symbol_info_provenance_of_def safe_enum_of)

record symbol_info =
  symbol_info_ref :: symbol_ref
  symbol_info_original_name :: json
  symbol_info_original_descriptor :: json
  symbol_info_display_name :: json
  symbol_info_display_qualified_name :: json
  symbol_info_provenance :: symbol_info_provenance
  symbol_info_containing_class :: "symbol_ref lenient unset"

definition symbol_info_to_dict :: "symbol_info \<Rightarrow> jdict" where
  "symbol_info_to_dict x =
     put_given ''containingClass'' (map_given (lenient_json (\<lambda>x. JObj (symbol_ref_to_dict x))) (symbol_info_containing_class x)) (
     dict_update []
       [(''ref'', JObj (symbol_ref_to_dict (symbol_info_ref x))),
        (''originalName'', symbol_info_original_name x),
        (''originalDescriptor'', symbol_info_original_descriptor x),
        (''displayName'', symbol_info_display_name x),
        (''displayQualifiedName'', symbol_info_display_qualified_name x),
        (''provenance'', JStr (symbol_info_provenance_value (symbol_info_provenance x)))])"

definition symbol_info_from_dict :: "json \<Rightarrow> py_exc + symbol_info" where
  "symbol_info_from_dict src = reading src (
     popping ''ref'' symbol_ref_from_dict (\<lambda>ref.
     popping ''originalName'' Inr (\<lambda>original_name.
     popping ''originalDescriptor'' Inr (\<lambda>original_descriptor.
     popping ''displayName'' Inr (\<lambda>display_name.
     popping ''displayQualifiedName'' Inr (\<lambda>display_qualified_name.
     popping ''provenance'' symbol_info_provenance_of (\<lambda>provenance.
     popping_opt ''containingClass'' (parse_union is_dict [symbol_ref_from_dict]) (\<lambda>containing_class.
     (\<lambda>d. Inr \<lparr>symbol_info_ref = ref,
        symbol_info_original_name = original_name,
        symbol_info_original_descriptor = original_descriptor,
        symbol_info_display_name = display_name,
        symbol_info_display_qualified_name = display_qualified_name,
        symbol_info_provenance = provenance,
        symbol_info_containing_class = containing_class\<rparr>)))))))))"

definition symbol_info_ok :: "symbol_info \<Rightarrow> bool" where
  "symbol_info_ok x \<longleftrightarrow> given_all (lenient_ok is_dict [symbol_ref_from_dict] (\<lambda>_. True)) (symbol_info_containing_class x)"

interpretation symbol_info_wire: codec "\<lambda>x. JObj (symbol_info_to_dict x)" symbol_info_from_dict symbol_info_ok
  by unfold_locales
    (simp add: symbol_info_to_dict_def symbol_info_from_dict_def symbol_info_ok_def wire_simps cong: wire_cong,
     rule safe_readerI, unfold symbol_info_from_dict_def, intro wire_rules)

interpretation symbol_info_union: union_codec "\<lambda>x. JObj (symbol_info_to_dict x)" symbol_info_from_dict symbol_info_ok is_dict "[]"
  by unfold_locales (simp_all add: wire_rules)

datatype symbol_resolution_outcome = SymbolResolutionOutcome_AMBIGUOUS | SymbolResolutionOutcome_NOT_FOUND | SymbolResolutionOutcome_PROVENANCE_UNAVAILABLE | SymbolResolutionOutcome_RESOLVED

fun symbol_resolution_outcome_value :: "symbol_resolution_outcome \<Rightarrow> string" where
  "symbol_resolution_outcome_value SymbolResolutionOutcome_AMBIGUOUS = ''AMBIGUOUS''"
| "symbol_resolution_outcome_value SymbolResolutionOutcome_NOT_FOUND = ''NOT_FOUND''"
| "symbol_resolution_outcome_value SymbolResolutionOutcome_PROVENANCE_UNAVAILABLE = ''PROVENANCE_UNAVAILABLE''"
| "symbol_resolution_outcome_value SymbolResolutionOutcome_RESOLVED = ''RESOLVED''"

definition symbol_resolution_outcome_of :: "json \<Rightarrow> py_exc + symbol_resolution_outcome" where
  "symbol_resolution_outcome_of = enum_of [SymbolResolutionOutcome_AMBIGUOUS, SymbolResolutionOutcome_NOT_FOUND, SymbolResolutionOutcome_PROVENANCE_UNAVAILABLE, SymbolResolutionOutcome_RESOLVED] symbol_resolution_outcome_value"

interpretation symbol_resolution_outcome_wire: codec "\<lambda>m. JStr (symbol_resolution_outcome_value m)" symbol_resolution_outcome_of "\<lambda>_. True"
proof unfold_locales
  fix m
  show "symbol_resolution_outcome_of (JStr (symbol_resolution_outcome_value m)) = Inr m"
    by (cases m) (simp_all add: symbol_resolution_outcome_of_def enum_of_def)
qed (simp add: symbol_resolution_outcome_of_def safe_enum_of)

record symbol_resolution =
  symbol_resolution_outcome :: symbol_resolution_outcome
  symbol_resolution_queried_ref :: symbol_ref
  symbol_resolution_session_id :: uuid
  symbol_resolution_logical_revision :: json
  symbol_resolution_snapshot_id :: json
  symbol_resolution_candidates :: "symbol_info list"
  symbol_resolution_diagnostics :: json
  symbol_resolution_symbol :: "symbol_info lenient unset"

definition symbol_resolution_to_dict :: "symbol_resolution \<Rightarrow> jdict" where
  "symbol_resolution_to_dict x =
     put_given ''symbol'' (map_given (lenient_json (\<lambda>x. JObj (symbol_info_to_dict x))) (symbol_resolution_symbol x)) (
     dict_update []
       [(''outcome'', JStr (symbol_resolution_outcome_value (symbol_resolution_outcome x))),
        (''queriedRef'', JObj (symbol_ref_to_dict (symbol_resolution_queried_ref x))),
        (''sessionId'', JStr (uuid_str (symbol_resolution_session_id x))),
        (''logicalRevision'', symbol_resolution_logical_revision x),
        (''snapshotId'', symbol_resolution_snapshot_id x),
        (''candidates'', JArr (map (\<lambda>x. JObj (symbol_info_to_dict x)) (symbol_resolution_candidates x))),
        (''diagnostics'', symbol_resolution_diagnostics x)])"

definition symbol_resolution_from_dict :: "json \<Rightarrow> py_exc + symbol_resolution" where
  "symbol_resolution_from_dict src = reading src (
     popping ''outcome'' symbol_resolution_outcome_of (\<lambda>outcome.
     popping ''queriedRef'' symbol_ref_from_dict (\<lambda>queried_ref.
     popping ''sessionId'' uuid_new (\<lambda>session_id.
     popping ''logicalRevision'' Inr (\<lambda>logical_revision.
     popping ''snapshotId'' Inr (\<lambda>snapshot_id.
     popping ''candidates'' (list_of symbol_info_from_dict) (\<lambda>candidates.
     popping ''diagnostics'' Inr (\<lambda>diagnostics.
     popping_opt ''symbol'' (parse_union is_dict [symbol_info_from_dict]) (\<lambda>symbol.
     (\<lambda>d. Inr \<lparr>symbol_resolution_outcome = outcome,
        symbol_resolution_queried_ref = queried_ref,
        symbol_resolution_session_id = session_id,
        symbol_resolution_logical_revision = logical_revision,
        symbol_resolution_snapshot_id = snapshot_id,
        symbol_resolution_candidates = candidates,
        symbol_resolution_diagnostics = diagnostics,
        symbol_resolution_symbol = symbol\<rparr>))))))))))"

definition symbol_resolution_ok :: "symbol_resolution \<Rightarrow> bool" where
  "symbol_resolution_ok x \<longleftrightarrow> list_all symbol_info_ok (symbol_resolution_candidates x)
     \<and> given_all (lenient_ok is_dict [symbol_info_from_dict] symbol_info_ok) (symbol_resolution_symbol x)"

interpretation symbol_resolution_wire: codec "\<lambda>x. JObj (symbol_resolution_to_dict x)" symbol_resolution_from_dict symbol_resolution_ok
  by unfold_locales
    (simp add: symbol_resolution_to_dict_def symbol_resolution_from_dict_def symbol_resolution_ok_def wire_simps cong: wire_cong,
     rule safe_readerI, unfold symbol_resolution_from_dict_def, intro wire_rules)

record symbol_resolve_request =
  symbol_resolve_request_ref :: symbol_ref
  symbol_resolve_request_expected_session_id :: "uuid unset"
  symbol_resolve_request_expected_logical_revision :: "json unset"

definition symbol_resolve_request_to_dict :: "symbol_resolve_request \<Rightarrow> jdict" where
  "symbol_resolve_request_to_dict x =
     put_given ''expectedLogicalRevision'' (symbol_resolve_request_expected_logical_revision x) (
     put_given ''expectedSessionId'' (map_given (\<lambda>u. JStr (uuid_str u)) (symbol_resolve_request_expected_session_id x)) (
     dict_update []
       [(''ref'', JObj (symbol_ref_to_dict (symbol_resolve_request_ref x)))]))"

definition symbol_resolve_request_from_dict :: "json \<Rightarrow> py_exc + symbol_resolve_request" where
  "symbol_resolve_request_from_dict src = reading src (
     popping ''ref'' symbol_ref_from_dict (\<lambda>ref.
     popping_opt ''expectedSessionId'' uuid_new (\<lambda>expected_session_id.
     popping_opt ''expectedLogicalRevision'' Inr (\<lambda>expected_logical_revision.
     (\<lambda>d. Inr \<lparr>symbol_resolve_request_ref = ref,
        symbol_resolve_request_expected_session_id = expected_session_id,
        symbol_resolve_request_expected_logical_revision = expected_logical_revision\<rparr>)))))"

interpretation symbol_resolve_request_wire: codec "\<lambda>x. JObj (symbol_resolve_request_to_dict x)" symbol_resolve_request_from_dict "\<lambda>_. True"
  by unfold_locales
    (simp add: symbol_resolve_request_to_dict_def symbol_resolve_request_from_dict_def wire_simps cong: wire_cong,
     rule safe_readerI, unfold symbol_resolve_request_from_dict_def, intro wire_rules)

end
