(* ===== verification/Wire_Edits.thy ===== *)
theory Wire_Edits
  imports Wire_Symbols
begin

text \<open>
  The edit operations, batches of them and their results.
\<close>

record rename_operation =
  rename_operation_kind :: json
  rename_operation_target :: symbol_ref
  rename_operation_new_name :: json
  rename_operation_propagate_related :: "json unset"

definition rename_operation_to_dict :: "rename_operation \<Rightarrow> jdict" where
  "rename_operation_to_dict x =
     put_given ''propagateRelated'' (rename_operation_propagate_related x) (
     dict_update []
       [(''kind'', rename_operation_kind x),
        (''target'', JObj (symbol_ref_to_dict (rename_operation_target x))),
        (''newName'', rename_operation_new_name x)])"

definition rename_operation_from_dict :: "json \<Rightarrow> py_exc + rename_operation" where
  "rename_operation_from_dict src = reading src (
     popping ''kind'' (literal (JStr ''RENAME'')) (\<lambda>kind.
     popping ''target'' symbol_ref_from_dict (\<lambda>target.
     popping ''newName'' Inr (\<lambda>new_name.
     popping_opt ''propagateRelated'' Inr (\<lambda>propagate_related.
     (\<lambda>d. Inr \<lparr>rename_operation_kind = kind,
        rename_operation_target = target,
        rename_operation_new_name = new_name,
        rename_operation_propagate_related = propagate_related\<rparr>))))))"

definition rename_operation_ok :: "rename_operation \<Rightarrow> bool" where
  "rename_operation_ok x \<longleftrightarrow> json_eq (rename_operation_kind x) (JStr ''RENAME'')"

interpretation rename_operation_wire: codec "\<lambda>x. JObj (rename_operation_to_dict x)" rename_operation_from_dict rename_operation_ok
  by unfold_locales
    (simp add: rename_operation_to_dict_def rename_operation_from_dict_def rename_operation_ok_def wire_simps cong: wire_cong,
     rule safe_readerI, unfold rename_operation_from_dict_def, intro wire_rules)

record set_comment_operation =
  set_comment_operation_kind :: json
  set_comment_operation_target :: symbol_ref
  set_comment_operation_comment :: json
  set_comment_operation_style :: json

definition set_comment_operation_to_dict :: "set_comment_operation \<Rightarrow> jdict" where
  "set_comment_operation_to_dict x =
     dict_update []
       [(''kind'', set_comment_operation_kind x),
        (''target'', JObj (symbol_ref_to_dict (set_comment_operation_target x))),
        (''comment'', set_comment_operation_comment x),
        (''style'', set_comment_operation_style x)]"

definition set_comment_operation_from_dict :: "json \<Rightarrow> py_exc + set_comment_operation" where
  "set_comment_operation_from_dict src = reading src (
     popping ''kind'' (literal (JStr ''SET_COMMENT'')) (\<lambda>kind.
     popping ''target'' symbol_ref_from_dict (\<lambda>target.
     popping ''comment'' Inr (\<lambda>comment.
     popping ''style'' (literal (JStr ''LINE'')) (\<lambda>style.
     (\<lambda>d. Inr \<lparr>set_comment_operation_kind = kind,
        set_comment_operation_target = target,
        set_comment_operation_comment = comment,
        set_comment_operation_style = style\<rparr>))))))"

definition set_comment_operation_ok :: "set_comment_operation \<Rightarrow> bool" where
  "set_comment_operation_ok x \<longleftrightarrow> json_eq (set_comment_operation_kind x) (JStr ''SET_COMMENT'')
     \<and> json_eq (set_comment_operation_style x) (JStr ''LINE'')"

interpretation set_comment_operation_wire: codec "\<lambda>x. JObj (set_comment_operation_to_dict x)" set_comment_operation_from_dict set_comment_operation_ok
  by unfold_locales
    (simp add: set_comment_operation_to_dict_def set_comment_operation_from_dict_def set_comment_operation_ok_def wire_simps cong: wire_cong,
     rule safe_readerI, unfold set_comment_operation_from_dict_def, intro wire_rules)

record rename_parameter_operation =
  rename_parameter_operation_kind :: json
  rename_parameter_operation_method :: method_symbol_ref
  rename_parameter_operation_parameter_index :: json
  rename_parameter_operation_source_snapshot_id :: json
  rename_parameter_operation_new_name :: json

definition rename_parameter_operation_to_dict :: "rename_parameter_operation \<Rightarrow> jdict" where
  "rename_parameter_operation_to_dict x =
     dict_update []
       [(''kind'', rename_parameter_operation_kind x),
        (''method'', JObj (method_symbol_ref_to_dict (rename_parameter_operation_method x))),
        (''parameterIndex'', rename_parameter_operation_parameter_index x),
        (''sourceSnapshotId'', rename_parameter_operation_source_snapshot_id x),
        (''newName'', rename_parameter_operation_new_name x)]"

definition rename_parameter_operation_from_dict :: "json \<Rightarrow> py_exc + rename_parameter_operation" where
  "rename_parameter_operation_from_dict src = reading src (
     popping ''kind'' (literal (JStr ''RENAME_PARAMETER'')) (\<lambda>kind.
     popping ''method'' method_symbol_ref_from_dict (\<lambda>method.
     popping ''parameterIndex'' Inr (\<lambda>parameter_index.
     popping ''sourceSnapshotId'' Inr (\<lambda>source_snapshot_id.
     popping ''newName'' Inr (\<lambda>new_name.
     (\<lambda>d. Inr \<lparr>rename_parameter_operation_kind = kind,
        rename_parameter_operation_method = method,
        rename_parameter_operation_parameter_index = parameter_index,
        rename_parameter_operation_source_snapshot_id = source_snapshot_id,
        rename_parameter_operation_new_name = new_name\<rparr>)))))))"

definition rename_parameter_operation_ok :: "rename_parameter_operation \<Rightarrow> bool" where
  "rename_parameter_operation_ok x \<longleftrightarrow> json_eq (rename_parameter_operation_kind x) (JStr ''RENAME_PARAMETER'')
     \<and> method_symbol_ref_ok (rename_parameter_operation_method x)"

interpretation rename_parameter_operation_wire: codec "\<lambda>x. JObj (rename_parameter_operation_to_dict x)" rename_parameter_operation_from_dict rename_parameter_operation_ok
  by unfold_locales
    (simp add: rename_parameter_operation_to_dict_def rename_parameter_operation_from_dict_def rename_parameter_operation_ok_def wire_simps cong: wire_cong,
     rule safe_readerI, unfold rename_parameter_operation_from_dict_def, intro wire_rules)

text \<open>
  \<open>edit_batch_request.py\<close>. The items of a batch are a union of three models: a dictionary is read
  as the first one that accepts it, and the last one decides the exception.
\<close>

datatype edit_operation =
    Rename rename_operation
  | Set_Comment set_comment_operation
  | Rename_Parameter rename_parameter_operation

fun edit_operation_to_dict :: "edit_operation \<Rightarrow> jdict" where
  "edit_operation_to_dict (Rename x) = rename_operation_to_dict x"
| "edit_operation_to_dict (Set_Comment x) = set_comment_operation_to_dict x"
| "edit_operation_to_dict (Rename_Parameter x) = rename_parameter_operation_to_dict x"

definition attempt_dict ::
  "(json \<Rightarrow> py_exc + 'a) \<Rightarrow> ('a \<Rightarrow> 'b) \<Rightarrow> json \<Rightarrow> py_exc + 'b \<Rightarrow> py_exc + 'b" where
  "attempt_dict conv wrap v rest =
     ecatch (ebind (if is_dict v then conv v else Inl TypeErr) (\<lambda>x. Inr (wrap x)))
       (\<lambda>e. if decode_failure e then rest else Inl e)"

definition edit_operation_from_dict :: "json \<Rightarrow> py_exc + edit_operation" where
  "edit_operation_from_dict v =
     attempt_dict rename_operation_from_dict Rename v (
     attempt_dict set_comment_operation_from_dict Set_Comment v (
     if is_dict v
     then ebind (rename_parameter_operation_from_dict v) (\<lambda>x. Inr (Rename_Parameter x))
     else Inl TypeErr))"

fun edit_operation_ok :: "edit_operation \<Rightarrow> bool" where
  "edit_operation_ok (Rename x) = rename_operation_ok x"
| "edit_operation_ok (Set_Comment x) = set_comment_operation_ok x"
| "edit_operation_ok (Rename_Parameter x) = rename_parameter_operation_ok x"

text \<open>The \<open>type\<close> tag keeps the three apart: a printed operation is refused by the readers of the others.\<close>

lemma attempt_dict_simps [wire_simps]:
  "conv (JObj d) = Inr x \<Longrightarrow> attempt_dict conv wrap (JObj d) rest = Inr (wrap x)"
  "conv (JObj d) = Inl (ValueErr m) \<Longrightarrow> attempt_dict conv wrap (JObj d) rest = rest"
  by (simp_all add: attempt_dict_def)

lemma literal_other: "\<not> json_eq v c \<Longrightarrow> literal c v = Inl (ValueErr ''const'')"
  by (simp add: literal_def)

lemma tags_disjoint:
  "set_comment_operation_ok y \<Longrightarrow>
     rename_operation_from_dict (JObj (set_comment_operation_to_dict y)) = Inl (ValueErr ''const'')"
  "rename_parameter_operation_ok z \<Longrightarrow>
     rename_operation_from_dict (JObj (rename_parameter_operation_to_dict z)) = Inl (ValueErr ''const'')"
  "rename_parameter_operation_ok z \<Longrightarrow>
     set_comment_operation_from_dict (JObj (rename_parameter_operation_to_dict z)) = Inl (ValueErr ''const'')"
  by (simp_all add: rename_operation_from_dict_def set_comment_operation_from_dict_def
      set_comment_operation_ok_def rename_parameter_operation_ok_def literal_other
      set_comment_operation_to_dict_def rename_parameter_operation_to_dict_def
      wire_simps cong: wire_cong)

interpretation edit_operation_wire: codec "\<lambda>x. JObj (edit_operation_to_dict x)"
    edit_operation_from_dict edit_operation_ok
proof unfold_locales
  fix x
  show "edit_operation_ok x \<Longrightarrow> edit_operation_from_dict (JObj (edit_operation_to_dict x)) = Inr x"
    by (cases x) (simp_all add: edit_operation_from_dict_def tags_disjoint wire_simps)
next
  have attempt: "safe_result rest \<Longrightarrow> safe_reader conv \<Longrightarrow> safe_result (attempt_dict conv wrap v rest)"
    for rest v and conv :: "json \<Rightarrow> py_exc + 'b" and wrap :: "'b \<Rightarrow> edit_operation"
    by (auto simp: attempt_dict_def ecatch_def safe_reader_def safe_result_def ebind_eq_Inl
        split: sum.splits if_splits)
  show "safe_reader edit_operation_from_dict"
    unfolding edit_operation_from_dict_def
    by (rule safe_readerI, rule attempt, rule attempt)
      (auto simp: safe_result_def ebind_eq_Inl dest: safe_readerD
        [OF rename_parameter_operation_wire.dec_safe] intro: wire_rules)
qed

record edit_batch_request =
  edit_batch_request_items :: "edit_operation list"
  edit_batch_request_expected_session_id :: "uuid unset"
  edit_batch_request_expected_logical_revision :: "json unset"

definition edit_batch_request_to_dict :: "edit_batch_request \<Rightarrow> jdict" where
  "edit_batch_request_to_dict x =
     put_given ''expectedLogicalRevision'' (edit_batch_request_expected_logical_revision x) (
     put_given ''expectedSessionId'' (map_given (\<lambda>u. JStr (uuid_str u)) (edit_batch_request_expected_session_id x)) (
     dict_update []
       [(''items'', JArr (map (\<lambda>x. JObj (edit_operation_to_dict x)) (edit_batch_request_items x)))]))"

definition edit_batch_request_from_dict :: "json \<Rightarrow> py_exc + edit_batch_request" where
  "edit_batch_request_from_dict src = reading src (
     popping ''items'' (list_of edit_operation_from_dict) (\<lambda>items.
     popping_opt ''expectedSessionId'' uuid_new (\<lambda>expected_session_id.
     popping_opt ''expectedLogicalRevision'' Inr (\<lambda>expected_logical_revision.
     (\<lambda>d. Inr \<lparr>edit_batch_request_items = items,
        edit_batch_request_expected_session_id = expected_session_id,
        edit_batch_request_expected_logical_revision = expected_logical_revision\<rparr>)))))"

definition edit_batch_request_ok :: "edit_batch_request \<Rightarrow> bool" where
  "edit_batch_request_ok x \<longleftrightarrow> list_all edit_operation_ok (edit_batch_request_items x)"

interpretation edit_batch_request_wire: codec "\<lambda>x. JObj (edit_batch_request_to_dict x)"
    edit_batch_request_from_dict edit_batch_request_ok
  by unfold_locales
    (simp add: edit_batch_request_to_dict_def edit_batch_request_from_dict_def
      edit_batch_request_ok_def wire_simps cong: wire_cong,
     rule safe_readerI, unfold edit_batch_request_from_dict_def, intro wire_rules)

datatype edit_batch_result_outcome = EditBatchResultOutcome_APPLIED | EditBatchResultOutcome_NO_CHANGE | EditBatchResultOutcome_PARTIAL

fun edit_batch_result_outcome_value :: "edit_batch_result_outcome \<Rightarrow> string" where
  "edit_batch_result_outcome_value EditBatchResultOutcome_APPLIED = ''APPLIED''"
| "edit_batch_result_outcome_value EditBatchResultOutcome_NO_CHANGE = ''NO_CHANGE''"
| "edit_batch_result_outcome_value EditBatchResultOutcome_PARTIAL = ''PARTIAL''"

definition edit_batch_result_outcome_of :: "json \<Rightarrow> py_exc + edit_batch_result_outcome" where
  "edit_batch_result_outcome_of = enum_of [EditBatchResultOutcome_APPLIED, EditBatchResultOutcome_NO_CHANGE, EditBatchResultOutcome_PARTIAL] edit_batch_result_outcome_value"

interpretation edit_batch_result_outcome_wire: codec "\<lambda>m. JStr (edit_batch_result_outcome_value m)" edit_batch_result_outcome_of "\<lambda>_. True"
proof unfold_locales
  fix m
  show "edit_batch_result_outcome_of (JStr (edit_batch_result_outcome_value m)) = Inr m"
    by (cases m) (simp_all add: edit_batch_result_outcome_of_def enum_of_def)
qed (simp add: edit_batch_result_outcome_of_def safe_enum_of)

datatype edit_item_result_status = EditItemResultStatus_APPLIED | EditItemResultStatus_FAILED | EditItemResultStatus_SKIPPED

fun edit_item_result_status_value :: "edit_item_result_status \<Rightarrow> string" where
  "edit_item_result_status_value EditItemResultStatus_APPLIED = ''APPLIED''"
| "edit_item_result_status_value EditItemResultStatus_FAILED = ''FAILED''"
| "edit_item_result_status_value EditItemResultStatus_SKIPPED = ''SKIPPED''"

definition edit_item_result_status_of :: "json \<Rightarrow> py_exc + edit_item_result_status" where
  "edit_item_result_status_of = enum_of [EditItemResultStatus_APPLIED, EditItemResultStatus_FAILED, EditItemResultStatus_SKIPPED] edit_item_result_status_value"

interpretation edit_item_result_status_wire: codec "\<lambda>m. JStr (edit_item_result_status_value m)" edit_item_result_status_of "\<lambda>_. True"
proof unfold_locales
  fix m
  show "edit_item_result_status_of (JStr (edit_item_result_status_value m)) = Inr m"
    by (cases m) (simp_all add: edit_item_result_status_of_def enum_of_def)
qed (simp add: edit_item_result_status_of_def safe_enum_of)

datatype edit_item_result_kind = EditItemResultKind_RENAME | EditItemResultKind_RENAME_PARAMETER | EditItemResultKind_SET_COMMENT

fun edit_item_result_kind_value :: "edit_item_result_kind \<Rightarrow> string" where
  "edit_item_result_kind_value EditItemResultKind_RENAME = ''RENAME''"
| "edit_item_result_kind_value EditItemResultKind_RENAME_PARAMETER = ''RENAME_PARAMETER''"
| "edit_item_result_kind_value EditItemResultKind_SET_COMMENT = ''SET_COMMENT''"

definition edit_item_result_kind_of :: "json \<Rightarrow> py_exc + edit_item_result_kind" where
  "edit_item_result_kind_of = enum_of [EditItemResultKind_RENAME, EditItemResultKind_RENAME_PARAMETER, EditItemResultKind_SET_COMMENT] edit_item_result_kind_value"

interpretation edit_item_result_kind_wire: codec "\<lambda>m. JStr (edit_item_result_kind_value m)" edit_item_result_kind_of "\<lambda>_. True"
proof unfold_locales
  fix m
  show "edit_item_result_kind_of (JStr (edit_item_result_kind_value m)) = Inr m"
    by (cases m) (simp_all add: edit_item_result_kind_of_def enum_of_def)
qed (simp add: edit_item_result_kind_of_def safe_enum_of)

record edit_item_result =
  edit_item_result_index :: json
  edit_item_result_status :: edit_item_result_status
  edit_item_result_kind :: edit_item_result_kind
  edit_item_result_target :: symbol_ref
  edit_item_result_affected_refs :: "symbol_ref list"
  edit_item_result_message :: json
  edit_item_result_parameter_index :: "json unset"
  edit_item_result_source_snapshot_id :: "json unset"

definition edit_item_result_to_dict :: "edit_item_result \<Rightarrow> jdict" where
  "edit_item_result_to_dict x =
     put_given ''sourceSnapshotId'' (edit_item_result_source_snapshot_id x) (
     put_given ''parameterIndex'' (edit_item_result_parameter_index x) (
     dict_update []
       [(''index'', edit_item_result_index x),
        (''status'', JStr (edit_item_result_status_value (edit_item_result_status x))),
        (''kind'', JStr (edit_item_result_kind_value (edit_item_result_kind x))),
        (''target'', JObj (symbol_ref_to_dict (edit_item_result_target x))),
        (''affectedRefs'', JArr (map (\<lambda>x. JObj (symbol_ref_to_dict x)) (edit_item_result_affected_refs x))),
        (''message'', edit_item_result_message x)]))"

definition edit_item_result_from_dict :: "json \<Rightarrow> py_exc + edit_item_result" where
  "edit_item_result_from_dict src = reading src (
     popping ''index'' Inr (\<lambda>index.
     popping ''status'' edit_item_result_status_of (\<lambda>status.
     popping ''kind'' edit_item_result_kind_of (\<lambda>kind.
     popping ''target'' symbol_ref_from_dict (\<lambda>target.
     popping ''affectedRefs'' (list_of symbol_ref_from_dict) (\<lambda>affected_refs.
     popping ''message'' Inr (\<lambda>message.
     popping_opt ''parameterIndex'' Inr (\<lambda>parameter_index.
     popping_opt ''sourceSnapshotId'' Inr (\<lambda>source_snapshot_id.
     (\<lambda>d. Inr \<lparr>edit_item_result_index = index,
        edit_item_result_status = status,
        edit_item_result_kind = kind,
        edit_item_result_target = target,
        edit_item_result_affected_refs = affected_refs,
        edit_item_result_message = message,
        edit_item_result_parameter_index = parameter_index,
        edit_item_result_source_snapshot_id = source_snapshot_id\<rparr>))))))))))"

interpretation edit_item_result_wire: codec "\<lambda>x. JObj (edit_item_result_to_dict x)" edit_item_result_from_dict "\<lambda>_. True"
  by unfold_locales
    (simp add: edit_item_result_to_dict_def edit_item_result_from_dict_def wire_simps cong: wire_cong,
     rule safe_readerI, unfold edit_item_result_from_dict_def, intro wire_rules)

record edit_batch_result =
  edit_batch_result_outcome :: edit_batch_result_outcome
  edit_batch_result_session_id :: json
  edit_batch_result_logical_revision_before :: json
  edit_batch_result_logical_revision_after :: json
  edit_batch_result_index_revision_after :: json
  edit_batch_result_dirty :: json
  edit_batch_result_saved :: json
  edit_batch_result_items :: "edit_item_result list"
  edit_batch_result_diagnostics :: json

definition edit_batch_result_to_dict :: "edit_batch_result \<Rightarrow> jdict" where
  "edit_batch_result_to_dict x =
     dict_update []
       [(''outcome'', JStr (edit_batch_result_outcome_value (edit_batch_result_outcome x))),
        (''sessionId'', edit_batch_result_session_id x),
        (''logicalRevisionBefore'', edit_batch_result_logical_revision_before x),
        (''logicalRevisionAfter'', edit_batch_result_logical_revision_after x),
        (''indexRevisionAfter'', edit_batch_result_index_revision_after x),
        (''dirty'', edit_batch_result_dirty x),
        (''saved'', edit_batch_result_saved x),
        (''items'', JArr (map (\<lambda>x. JObj (edit_item_result_to_dict x)) (edit_batch_result_items x))),
        (''diagnostics'', edit_batch_result_diagnostics x)]"

definition edit_batch_result_from_dict :: "json \<Rightarrow> py_exc + edit_batch_result" where
  "edit_batch_result_from_dict src = reading src (
     popping ''outcome'' edit_batch_result_outcome_of (\<lambda>outcome.
     popping ''sessionId'' Inr (\<lambda>session_id.
     popping ''logicalRevisionBefore'' Inr (\<lambda>logical_revision_before.
     popping ''logicalRevisionAfter'' Inr (\<lambda>logical_revision_after.
     popping ''indexRevisionAfter'' Inr (\<lambda>index_revision_after.
     popping ''dirty'' Inr (\<lambda>dirty.
     popping ''saved'' (literal (JBool False)) (\<lambda>saved.
     popping ''items'' (list_of edit_item_result_from_dict) (\<lambda>items.
     popping ''diagnostics'' Inr (\<lambda>diagnostics.
     (\<lambda>d. Inr \<lparr>edit_batch_result_outcome = outcome,
        edit_batch_result_session_id = session_id,
        edit_batch_result_logical_revision_before = logical_revision_before,
        edit_batch_result_logical_revision_after = logical_revision_after,
        edit_batch_result_index_revision_after = index_revision_after,
        edit_batch_result_dirty = dirty,
        edit_batch_result_saved = saved,
        edit_batch_result_items = items,
        edit_batch_result_diagnostics = diagnostics\<rparr>)))))))))))"

definition edit_batch_result_ok :: "edit_batch_result \<Rightarrow> bool" where
  "edit_batch_result_ok x \<longleftrightarrow> json_eq (edit_batch_result_saved x) (JBool False)"

interpretation edit_batch_result_wire: codec "\<lambda>x. JObj (edit_batch_result_to_dict x)" edit_batch_result_from_dict edit_batch_result_ok
  by unfold_locales
    (simp add: edit_batch_result_to_dict_def edit_batch_result_from_dict_def edit_batch_result_ok_def wire_simps cong: wire_cong,
     rule safe_readerI, unfold edit_batch_result_from_dict_def, intro wire_rules)

end
