(* ===== verification/Examples.thy ===== *)
theory Examples
  imports Sdk_Sse Sdk_Common Wire_Edits
begin

text \<open>
  Concrete inputs on which the properties of the root theory are instantiated: a job, its events
  as the service prints them, and a stream of two frames.
\<close>

definition quoted :: "string \<Rightarrow> string" where
  "quoted s = [CHR 0x22] @ s @ [CHR 0x22]"

definition sample_id :: string where
  "sample_id = ''00000000-0000-0000-0000-000000000001''"

text \<open>\<open>member k v\<close> is \<open>"k":v\<close>.\<close>

definition member_text :: "string \<Rightarrow> string \<Rightarrow> string" where
  "member_text k v = quoted k @ '':'' @ v"

definition sample_data :: "nat \<Rightarrow> string \<Rightarrow> string \<Rightarrow> string" where
  "sample_data n type state =
     ''{'' @ join_with '',''
       [member_text ''jobId'' (quoted sample_id),
        member_text ''sequence'' (nat_str n),
        member_text ''type'' (quoted type),
        member_text ''at'' (quoted ''2024-01-01T00:00:00Z''),
        member_text ''state'' (quoted state),
        member_text ''progress'' (''{'' @ join_with '',''
          [member_text ''completed'' (nat_str n), member_text ''total'' ''2'',
           member_text ''stage'' (quoted ''load'')] @ ''}''),
        member_text ''resultUrl'' ''null''] @ ''}''"

definition sample_frame :: "nat \<Rightarrow> string \<Rightarrow> string \<Rightarrow> string" where
  "sample_frame n type state =
     ''id: '' @ nat_str n @ [CHR 0x0D, CHR 0x0A] @ ''event: '' @ type @ [CHR 0x0A]
     @ ''data: '' @ sample_data n type state @ [CHR 0x0A, CHR 0x0A]"

definition sample_stream :: string where
  "sample_stream =
     sample_frame 1 ''job.started'' ''RUNNING'' @ sample_frame 2 ''job.completed'' ''SUCCEEDED''"

definition sample_parser :: parser where
  "sample_parser = \<lparr>parser_job_id = 1, parser_last_id = 0, parser_pending = [], parser_lines = [],
     parser_frame_bytes = 0, parser_terminal = False\<rparr>"

definition sample_event :: "int \<Rightarrow> job_event_type \<Rightarrow> job_event_state \<Rightarrow> job_event" where
  "sample_event n type state =
     \<lparr>job_event_job_id = 1, job_event_sequence = JInt n, job_event_type = type,
      job_event_at = \<lparr>dt_year = 2024, dt_month = 1, dt_day = 1, dt_hour = 0, dt_minute = 0,
        dt_second = 0, dt_micro = 0, dt_offset = Some 0\<rparr>,
      job_event_state = state,
      job_event_progress = \<lparr>job_progress_completed = JInt n, job_progress_total = JInt 2,
        job_progress_stage = JStr ''load'', job_progress_extra = []\<rparr>,
      job_event_result_url = JNull, job_event_extra = []\<rparr>"

definition sample_started :: job_event where
  "sample_started = sample_event 1 JobEventType_JOB_STARTED JobEventState_RUNNING"

definition sample_completed :: job_event where
  "sample_completed = sample_event 2 JobEventType_JOB_COMPLETED JobEventState_SUCCEEDED"

lemma sample_lines: "list_all utf8_ok (complete_lines sample_stream)"
  by code_simp

lemma sample_size: "length sample_stream \<le> max_frame"
proof -
  have "length sample_stream < 500" by code_simp
  then show ?thesis by (simp add: max_frame_def)
qed

lemma sample_read: "read_stream 1 0 sample_stream = Inr [sample_started, sample_completed]"
  by code_simp

lemma sample_feed: "\<exists>q. feed sample_parser sample_stream = Inr ([sample_started, sample_completed], q)"
  using feed_frames [of sample_parser sample_stream] sample_lines sample_size sample_read
  by (cases "feed sample_parser sample_stream") (auto simp: sample_parser_def)


text \<open>The stream in pieces of \<open>k\<close> bytes.\<close>

fun chop_fuel :: "nat \<Rightarrow> nat \<Rightarrow> string \<Rightarrow> string list" where
  "chop_fuel 0 k s = [s]"
| "chop_fuel (Suc n) k s = (if s = [] then [] else take k s # chop_fuel n k (drop k s))"

lemma concat_chop: "concat (chop_fuel n k s) = s"
  by (induction n arbitrary: s) auto

lemma chop_length: "c \<in> set (chop_fuel n k s) \<Longrightarrow> length c \<le> length s"
  proof (induction n arbitrary: s)
  case (Suc n)
  then show ?case using Suc.IH [of "drop k s"] by (auto split: if_splits)
qed simp

lemma sample_ready: "parser_ready sample_parser"
  by (simp add: parser_ready_def within_bounds_def sample_parser_def max_line_def max_frame_def)

lemma sample_feed_all:
  "\<exists>q. feed_all sample_parser [sample_stream] = Inr ([sample_started, sample_completed], q)
    \<and> parser_terminal q"
proof -
  obtain q where q: "feed sample_parser sample_stream = Inr ([sample_started, sample_completed], q)"
    using sample_feed by blast
  have "is_terminal sample_completed" by code_simp
  then have "parser_terminal q"
    using feed_terminal [OF q sample_ready]
    by (auto simp: ends_terminal_def split: if_splits)
  with q show ?thesis by simp
qed


lemma sample_new: "new_parser 1 None = Inr sample_parser"
  by (simp add: new_parser_def sample_parser_def)

lemma sample_short: "\<forall>c \<in> set (chop_fuel n k sample_stream). length c \<le> max_line"
  using sample_size order_trans [OF chop_length]
  by (fastforce simp: max_frame_def max_line_def)

lemma sample_bad_feed:
  "feed sample_parser (''oops: 1'' @ [CHR 0x0A, CHR 0x0A]) = Inl (Unexpected_Response_Error ''Unknown SSE field'')"
proof -
  have "read_stream 1 0 (''oops: 1'' @ [CHR 0x0A, CHR 0x0A]) = Inl (Unexpected_Response_Error ''Unknown SSE field'')"
    by code_simp
  moreover have "list_all utf8_ok (complete_lines (''oops: 1'' @ [CHR 0x0A, CHR 0x0A]))"
    by code_simp
  ultimately show ?thesis
    using feed_frames [of sample_parser "''oops: 1'' @ [CHR 0x0A, CHR 0x0A]"]
    by (cases "feed sample_parser (''oops: 1'' @ [CHR 0x0A, CHR 0x0A])")
      (auto simp: sample_parser_def max_frame_def)
qed

subsection \<open>Models\<close>

definition sample_time :: datetime where
  "sample_time = \<lparr>dt_year = 2024, dt_month = 2, dt_day = 29, dt_hour = 23, dt_minute = 5,
     dt_second = 59, dt_micro = 120, dt_offset = Some 0\<rparr>"

definition sample_error :: api_error where
  "sample_error = Api_Error ApiErrorCode_STALE_REVISION (JStr ''stale'') (Given (JBool True)) UNSET
     (Given (Untyped JNull))
     (Given [Api_Error ApiErrorCode_INTERNAL_ERROR (JStr ''inner'') UNSET (Given JNull) UNSET UNSET UNSET []])
     UNSET [(''hint'', JInt 7)]"

definition sample_job :: job where
  "sample_job = \<lparr>job_job_id = 1, job_type = JStr ''SEARCH'', job_state = JobState_RUNNING,
     job_created_at = sample_time, job_started_at = Typed sample_time, job_completed_at = Untyped JNull,
     job_deadline_at = Untyped JNull, job_session_id = JStr ''s'', job_logical_revision = JInt 4,
     job_source_snapshot_id = JNull,
     job_progress = \<lparr>job_progress_completed = JInt 1, job_progress_total = JInt 2,
       job_progress_stage = JStr ''index'', job_progress_extra = []\<rparr>,
     job_result = Untyped JNull, job_completeness = Typed JobCompletenessType1_PARTIAL,
     job_error = Typed sample_error, job_diagnostics = JArr [], job_cancellation_reason = Untyped JNull,
     job_extra = []\<rparr>"

definition sample_ref :: symbol_ref where
  "sample_ref = \<lparr>symbol_ref_kind = SymbolRefKind_METHOD, symbol_ref_original_class_descriptor = JStr ''La;'',
     symbol_ref_input_identity = UNSET, symbol_ref_original_name = Given (JStr ''m''),
     symbol_ref_original_descriptor = Given (JStr ''()V'')\<rparr>"

definition sample_batch :: edit_batch_request where
  "sample_batch = \<lparr>edit_batch_request_items =
       [Set_Comment \<lparr>set_comment_operation_kind = JStr ''SET_COMMENT'', set_comment_operation_target = sample_ref,
          set_comment_operation_comment = JStr ''why'', set_comment_operation_style = JStr ''LINE''\<rparr>,
        Rename \<lparr>rename_operation_kind = JStr ''RENAME'', rename_operation_target = sample_ref,
          rename_operation_new_name = JStr ''n'', rename_operation_propagate_related = Given (JBool True)\<rparr>],
     edit_batch_request_expected_session_id = Given 5,
     edit_batch_request_expected_logical_revision = Given (JInt 3)\<rparr>"

subsection \<open>Revisions\<close>

definition sample_str :: "json \<Rightarrow> string" where
  "sample_str v = ''value''"

definition sample_report :: "report \<Rightarrow> attrs" where
  "sample_report r = (case r of (s, l, i) \<Rightarrow>
     [(''session_id'', JStr s), (''logical_revision'', JInt l)]
     @ (case i of None \<Rightarrow> [] | Some n \<Rightarrow> [(''index_revision'', JInt n)]))"

lemma sample_report_reports: "reports sample_str (sample_report (s, l, i)) (s, l, i)"
  by (cases i) (simp_all add: reports_def sample_report_def getattr_def)

lemma sample_reports: "list_all2 (reports sample_str) (map sample_report rs) rs"
proof (induction rs)
  case (Cons r rs)
  with sample_report_reports show ?case by (cases r) simp
qed simp

lemma sample_cache_of:
  "cache_of [(''a'', 3, Some 1), (''a'', 2, Some 4), (''b'', 1, None), (''a'', 9, None)]
    = \<lparr>retired = {''a''}, session_id = Some ''b'', logical_revision = JInt 1, index_revision = JNull\<rparr>"
proof -
  have "logicals ''b'' [(''a'', 3, Some 1), (''a'', 2, Some 4), (''b'', 1, None), (''a'', 9, None)] = {1}"
    "indexes ''b'' [(''a'', 3, Some 1), (''a'', 2, Some 4), (''b'', 1, None), (''a'', 9, None)] = {}"
    by (auto simp: logicals_def indexes_def)
  then show ?thesis
    by (simp add: cache_of_def first_seen_def Let_def)
qed

end
