(* ===== verification/Wire_Search.thy ===== *)
theory Wire_Search
  imports Wire_Symbols
begin

text \<open>
  The search request, its pages of hits and the state of the search index.
\<close>

datatype search_request_domains_item = SearchRequestDomainsItem_CLASS_NAME | SearchRequestDomainsItem_MEMBER_NAME | SearchRequestDomainsItem_SOURCE_TEXT | SearchRequestDomainsItem_STRING_LITERAL

fun search_request_domains_item_value :: "search_request_domains_item \<Rightarrow> string" where
  "search_request_domains_item_value SearchRequestDomainsItem_CLASS_NAME = ''CLASS_NAME''"
| "search_request_domains_item_value SearchRequestDomainsItem_MEMBER_NAME = ''MEMBER_NAME''"
| "search_request_domains_item_value SearchRequestDomainsItem_SOURCE_TEXT = ''SOURCE_TEXT''"
| "search_request_domains_item_value SearchRequestDomainsItem_STRING_LITERAL = ''STRING_LITERAL''"

definition search_request_domains_item_of :: "json \<Rightarrow> py_exc + search_request_domains_item" where
  "search_request_domains_item_of = enum_of [SearchRequestDomainsItem_CLASS_NAME, SearchRequestDomainsItem_MEMBER_NAME, SearchRequestDomainsItem_SOURCE_TEXT, SearchRequestDomainsItem_STRING_LITERAL] search_request_domains_item_value"

interpretation search_request_domains_item_wire: codec "\<lambda>m. JStr (search_request_domains_item_value m)" search_request_domains_item_of "\<lambda>_. True"
proof unfold_locales
  fix m
  show "search_request_domains_item_of (JStr (search_request_domains_item_value m)) = Inr m"
    by (cases m) (simp_all add: search_request_domains_item_of_def enum_of_def)
qed (simp add: search_request_domains_item_of_def safe_enum_of)

interpretation search_request_domains_item_list: list_codec "\<lambda>m. JStr (search_request_domains_item_value m)" search_request_domains_item_of "\<lambda>_. True"
  by unfold_locales

datatype search_request_match_mode = SearchRequestMatchMode_CONTAINS | SearchRequestMatchMode_EXACT | SearchRequestMatchMode_REGEX

fun search_request_match_mode_value :: "search_request_match_mode \<Rightarrow> string" where
  "search_request_match_mode_value SearchRequestMatchMode_CONTAINS = ''CONTAINS''"
| "search_request_match_mode_value SearchRequestMatchMode_EXACT = ''EXACT''"
| "search_request_match_mode_value SearchRequestMatchMode_REGEX = ''REGEX''"

definition search_request_match_mode_of :: "json \<Rightarrow> py_exc + search_request_match_mode" where
  "search_request_match_mode_of = enum_of [SearchRequestMatchMode_CONTAINS, SearchRequestMatchMode_EXACT, SearchRequestMatchMode_REGEX] search_request_match_mode_value"

interpretation search_request_match_mode_wire: codec "\<lambda>m. JStr (search_request_match_mode_value m)" search_request_match_mode_of "\<lambda>_. True"
proof unfold_locales
  fix m
  show "search_request_match_mode_of (JStr (search_request_match_mode_value m)) = Inr m"
    by (cases m) (simp_all add: search_request_match_mode_of_def enum_of_def)
qed (simp add: search_request_match_mode_of_def safe_enum_of)

record search_request =
  search_request_query :: json
  search_request_domains :: "search_request_domains_item list unset"
  search_request_match_mode :: "search_request_match_mode unset"
  search_request_case_sensitive :: "json unset"
  search_request_page_size :: "json unset"
  search_request_cursor :: "json unset"
  search_request_strict :: "json unset"
  search_request_require_complete :: "json unset"
  search_request_expected_session_id :: "json unset"
  search_request_expected_logical_revision :: "json unset"

definition search_request_to_dict :: "search_request \<Rightarrow> jdict" where
  "search_request_to_dict x =
     put_given ''expectedLogicalRevision'' (search_request_expected_logical_revision x) (
     put_given ''expectedSessionId'' (search_request_expected_session_id x) (
     put_given ''requireComplete'' (search_request_require_complete x) (
     put_given ''strict'' (search_request_strict x) (
     put_given ''cursor'' (search_request_cursor x) (
     put_given ''pageSize'' (search_request_page_size x) (
     put_given ''caseSensitive'' (search_request_case_sensitive x) (
     put_given ''matchMode'' (map_given (\<lambda>m. JStr (search_request_match_mode_value m)) (search_request_match_mode x)) (
     put_given ''domains'' (map_given (\<lambda>ys. JArr (map (\<lambda>m. JStr (search_request_domains_item_value m)) ys)) (search_request_domains x)) (
     dict_update []
       [(''query'', search_request_query x)])))))))))"

definition search_request_from_dict :: "json \<Rightarrow> py_exc + search_request" where
  "search_request_from_dict src = reading src (
     popping ''query'' Inr (\<lambda>query.
     popping_opt ''domains'' (list_of search_request_domains_item_of) (\<lambda>domains.
     popping_opt ''matchMode'' search_request_match_mode_of (\<lambda>match_mode.
     popping_opt ''caseSensitive'' Inr (\<lambda>case_sensitive.
     popping_opt ''pageSize'' Inr (\<lambda>page_size.
     popping_opt ''cursor'' Inr (\<lambda>cursor.
     popping_opt ''strict'' Inr (\<lambda>strict.
     popping_opt ''requireComplete'' Inr (\<lambda>require_complete.
     popping_opt ''expectedSessionId'' Inr (\<lambda>expected_session_id.
     popping_opt ''expectedLogicalRevision'' Inr (\<lambda>expected_logical_revision.
     (\<lambda>d. Inr \<lparr>search_request_query = query,
        search_request_domains = domains,
        search_request_match_mode = match_mode,
        search_request_case_sensitive = case_sensitive,
        search_request_page_size = page_size,
        search_request_cursor = cursor,
        search_request_strict = strict,
        search_request_require_complete = require_complete,
        search_request_expected_session_id = expected_session_id,
        search_request_expected_logical_revision = expected_logical_revision\<rparr>))))))))))))"

interpretation search_request_wire: codec "\<lambda>x. JObj (search_request_to_dict x)" search_request_from_dict "\<lambda>_. True"
  by unfold_locales
    (simp add: search_request_to_dict_def search_request_from_dict_def wire_simps cong: wire_cong,
     rule safe_readerI, unfold search_request_from_dict_def, intro wire_rules)

datatype search_coverage_domain = SearchCoverageDomain_CLASS_NAME | SearchCoverageDomain_MEMBER_NAME | SearchCoverageDomain_SOURCE_TEXT | SearchCoverageDomain_STRING_LITERAL

fun search_coverage_domain_value :: "search_coverage_domain \<Rightarrow> string" where
  "search_coverage_domain_value SearchCoverageDomain_CLASS_NAME = ''CLASS_NAME''"
| "search_coverage_domain_value SearchCoverageDomain_MEMBER_NAME = ''MEMBER_NAME''"
| "search_coverage_domain_value SearchCoverageDomain_SOURCE_TEXT = ''SOURCE_TEXT''"
| "search_coverage_domain_value SearchCoverageDomain_STRING_LITERAL = ''STRING_LITERAL''"

definition search_coverage_domain_of :: "json \<Rightarrow> py_exc + search_coverage_domain" where
  "search_coverage_domain_of = enum_of [SearchCoverageDomain_CLASS_NAME, SearchCoverageDomain_MEMBER_NAME, SearchCoverageDomain_SOURCE_TEXT, SearchCoverageDomain_STRING_LITERAL] search_coverage_domain_value"

interpretation search_coverage_domain_wire: codec "\<lambda>m. JStr (search_coverage_domain_value m)" search_coverage_domain_of "\<lambda>_. True"
proof unfold_locales
  fix m
  show "search_coverage_domain_of (JStr (search_coverage_domain_value m)) = Inr m"
    by (cases m) (simp_all add: search_coverage_domain_of_def enum_of_def)
qed (simp add: search_coverage_domain_of_def safe_enum_of)

datatype search_coverage_availability = SearchCoverageAvailability_SUPPORTED | SearchCoverageAvailability_UNSUPPORTED

fun search_coverage_availability_value :: "search_coverage_availability \<Rightarrow> string" where
  "search_coverage_availability_value SearchCoverageAvailability_SUPPORTED = ''SUPPORTED''"
| "search_coverage_availability_value SearchCoverageAvailability_UNSUPPORTED = ''UNSUPPORTED''"

definition search_coverage_availability_of :: "json \<Rightarrow> py_exc + search_coverage_availability" where
  "search_coverage_availability_of = enum_of [SearchCoverageAvailability_SUPPORTED, SearchCoverageAvailability_UNSUPPORTED] search_coverage_availability_value"

interpretation search_coverage_availability_wire: codec "\<lambda>m. JStr (search_coverage_availability_value m)" search_coverage_availability_of "\<lambda>_. True"
proof unfold_locales
  fix m
  show "search_coverage_availability_of (JStr (search_coverage_availability_value m)) = Inr m"
    by (cases m) (simp_all add: search_coverage_availability_of_def enum_of_def)
qed (simp add: search_coverage_availability_of_def safe_enum_of)

datatype search_coverage_state = SearchCoverageState_COMPLETE | SearchCoverageState_PARTIAL | SearchCoverageState_UNAVAILABLE

fun search_coverage_state_value :: "search_coverage_state \<Rightarrow> string" where
  "search_coverage_state_value SearchCoverageState_COMPLETE = ''COMPLETE''"
| "search_coverage_state_value SearchCoverageState_PARTIAL = ''PARTIAL''"
| "search_coverage_state_value SearchCoverageState_UNAVAILABLE = ''UNAVAILABLE''"

definition search_coverage_state_of :: "json \<Rightarrow> py_exc + search_coverage_state" where
  "search_coverage_state_of = enum_of [SearchCoverageState_COMPLETE, SearchCoverageState_PARTIAL, SearchCoverageState_UNAVAILABLE] search_coverage_state_value"

interpretation search_coverage_state_wire: codec "\<lambda>m. JStr (search_coverage_state_value m)" search_coverage_state_of "\<lambda>_. True"
proof unfold_locales
  fix m
  show "search_coverage_state_of (JStr (search_coverage_state_value m)) = Inr m"
    by (cases m) (simp_all add: search_coverage_state_of_def enum_of_def)
qed (simp add: search_coverage_state_of_def safe_enum_of)

record search_coverage =
  search_coverage_domain :: search_coverage_domain
  search_coverage_availability :: search_coverage_availability
  search_coverage_state :: search_coverage_state
  search_coverage_scope :: json
  search_coverage_source_input_coverage :: json
  search_coverage_eligible :: json
  search_coverage_indexed :: json
  search_coverage_pending :: json
  search_coverage_skipped :: json
  search_coverage_failed :: json
  search_coverage_evicted :: json
  search_coverage_diagnostics :: json

definition search_coverage_to_dict :: "search_coverage \<Rightarrow> jdict" where
  "search_coverage_to_dict x =
     dict_update []
       [(''domain'', JStr (search_coverage_domain_value (search_coverage_domain x))),
        (''availability'', JStr (search_coverage_availability_value (search_coverage_availability x))),
        (''state'', JStr (search_coverage_state_value (search_coverage_state x))),
        (''scope'', search_coverage_scope x),
        (''sourceInputCoverage'', search_coverage_source_input_coverage x),
        (''eligible'', search_coverage_eligible x),
        (''indexed'', search_coverage_indexed x),
        (''pending'', search_coverage_pending x),
        (''skipped'', search_coverage_skipped x),
        (''failed'', search_coverage_failed x),
        (''evicted'', search_coverage_evicted x),
        (''diagnostics'', search_coverage_diagnostics x)]"

definition search_coverage_from_dict :: "json \<Rightarrow> py_exc + search_coverage" where
  "search_coverage_from_dict src = reading src (
     popping ''domain'' search_coverage_domain_of (\<lambda>domain.
     popping ''availability'' search_coverage_availability_of (\<lambda>availability.
     popping ''state'' search_coverage_state_of (\<lambda>state.
     popping ''scope'' (literal (JStr ''JADX_VISIBLE_ELIGIBLE'')) (\<lambda>scope.
     popping ''sourceInputCoverage'' (literal (JStr ''UNVERIFIED'')) (\<lambda>source_input_coverage.
     popping ''eligible'' Inr (\<lambda>eligible.
     popping ''indexed'' Inr (\<lambda>indexed.
     popping ''pending'' Inr (\<lambda>pending.
     popping ''skipped'' Inr (\<lambda>skipped.
     popping ''failed'' Inr (\<lambda>failed.
     popping ''evicted'' Inr (\<lambda>evicted.
     popping ''diagnostics'' Inr (\<lambda>diagnostics.
     (\<lambda>d. Inr \<lparr>search_coverage_domain = domain,
        search_coverage_availability = availability,
        search_coverage_state = state,
        search_coverage_scope = scope,
        search_coverage_source_input_coverage = source_input_coverage,
        search_coverage_eligible = eligible,
        search_coverage_indexed = indexed,
        search_coverage_pending = pending,
        search_coverage_skipped = skipped,
        search_coverage_failed = failed,
        search_coverage_evicted = evicted,
        search_coverage_diagnostics = diagnostics\<rparr>))))))))))))))"

definition search_coverage_ok :: "search_coverage \<Rightarrow> bool" where
  "search_coverage_ok x \<longleftrightarrow> json_eq (search_coverage_scope x) (JStr ''JADX_VISIBLE_ELIGIBLE'')
     \<and> json_eq (search_coverage_source_input_coverage x) (JStr ''UNVERIFIED'')"

interpretation search_coverage_wire: codec "\<lambda>x. JObj (search_coverage_to_dict x)" search_coverage_from_dict search_coverage_ok
  by unfold_locales
    (simp add: search_coverage_to_dict_def search_coverage_from_dict_def search_coverage_ok_def wire_simps cong: wire_cong,
     rule safe_readerI, unfold search_coverage_from_dict_def, intro wire_rules)

datatype search_hit_domain = SearchHitDomain_CLASS_NAME | SearchHitDomain_MEMBER_NAME | SearchHitDomain_SOURCE_TEXT | SearchHitDomain_STRING_LITERAL

fun search_hit_domain_value :: "search_hit_domain \<Rightarrow> string" where
  "search_hit_domain_value SearchHitDomain_CLASS_NAME = ''CLASS_NAME''"
| "search_hit_domain_value SearchHitDomain_MEMBER_NAME = ''MEMBER_NAME''"
| "search_hit_domain_value SearchHitDomain_SOURCE_TEXT = ''SOURCE_TEXT''"
| "search_hit_domain_value SearchHitDomain_STRING_LITERAL = ''STRING_LITERAL''"

definition search_hit_domain_of :: "json \<Rightarrow> py_exc + search_hit_domain" where
  "search_hit_domain_of = enum_of [SearchHitDomain_CLASS_NAME, SearchHitDomain_MEMBER_NAME, SearchHitDomain_SOURCE_TEXT, SearchHitDomain_STRING_LITERAL] search_hit_domain_value"

interpretation search_hit_domain_wire: codec "\<lambda>m. JStr (search_hit_domain_value m)" search_hit_domain_of "\<lambda>_. True"
proof unfold_locales
  fix m
  show "search_hit_domain_of (JStr (search_hit_domain_value m)) = Inr m"
    by (cases m) (simp_all add: search_hit_domain_of_def enum_of_def)
qed (simp add: search_hit_domain_of_def safe_enum_of)

datatype search_hit_match_mode = SearchHitMatchMode_CONTAINS | SearchHitMatchMode_EXACT | SearchHitMatchMode_REGEX

fun search_hit_match_mode_value :: "search_hit_match_mode \<Rightarrow> string" where
  "search_hit_match_mode_value SearchHitMatchMode_CONTAINS = ''CONTAINS''"
| "search_hit_match_mode_value SearchHitMatchMode_EXACT = ''EXACT''"
| "search_hit_match_mode_value SearchHitMatchMode_REGEX = ''REGEX''"

definition search_hit_match_mode_of :: "json \<Rightarrow> py_exc + search_hit_match_mode" where
  "search_hit_match_mode_of = enum_of [SearchHitMatchMode_CONTAINS, SearchHitMatchMode_EXACT, SearchHitMatchMode_REGEX] search_hit_match_mode_value"

interpretation search_hit_match_mode_wire: codec "\<lambda>m. JStr (search_hit_match_mode_value m)" search_hit_match_mode_of "\<lambda>_. True"
proof unfold_locales
  fix m
  show "search_hit_match_mode_of (JStr (search_hit_match_mode_value m)) = Inr m"
    by (cases m) (simp_all add: search_hit_match_mode_of_def enum_of_def)
qed (simp add: search_hit_match_mode_of_def safe_enum_of)

record source_point =
  source_point_offset_utf_16 :: json
  source_point_line :: json
  source_point_column_code_points :: json

definition source_point_to_dict :: "source_point \<Rightarrow> jdict" where
  "source_point_to_dict x =
     dict_update []
       [(''offsetUtf16'', source_point_offset_utf_16 x),
        (''line'', source_point_line x),
        (''columnCodePoints'', source_point_column_code_points x)]"

definition source_point_from_dict :: "json \<Rightarrow> py_exc + source_point" where
  "source_point_from_dict src = reading src (
     popping ''offsetUtf16'' Inr (\<lambda>offset_utf_16.
     popping ''line'' Inr (\<lambda>line.
     popping ''columnCodePoints'' Inr (\<lambda>column_code_points.
     (\<lambda>d. Inr \<lparr>source_point_offset_utf_16 = offset_utf_16,
        source_point_line = line,
        source_point_column_code_points = column_code_points\<rparr>)))))"

interpretation source_point_wire: codec "\<lambda>x. JObj (source_point_to_dict x)" source_point_from_dict "\<lambda>_. True"
  by unfold_locales
    (simp add: source_point_to_dict_def source_point_from_dict_def wire_simps cong: wire_cong,
     rule safe_readerI, unfold source_point_from_dict_def, intro wire_rules)

record source_range =
  source_range_start_offset_utf_16 :: json
  source_range_end_offset_utf_16 :: json
  source_range_start :: source_point
  source_range_end :: source_point
  source_range_source_snapshot_id :: json

definition source_range_to_dict :: "source_range \<Rightarrow> jdict" where
  "source_range_to_dict x =
     dict_update []
       [(''startOffsetUtf16'', source_range_start_offset_utf_16 x),
        (''endOffsetUtf16'', source_range_end_offset_utf_16 x),
        (''start'', JObj (source_point_to_dict (source_range_start x))),
        (''end'', JObj (source_point_to_dict (source_range_end x))),
        (''sourceSnapshotId'', source_range_source_snapshot_id x)]"

definition source_range_from_dict :: "json \<Rightarrow> py_exc + source_range" where
  "source_range_from_dict src = reading src (
     popping ''startOffsetUtf16'' Inr (\<lambda>start_offset_utf_16.
     popping ''endOffsetUtf16'' Inr (\<lambda>end_offset_utf_16.
     popping ''start'' source_point_from_dict (\<lambda>start.
     popping ''end'' source_point_from_dict (\<lambda>end.
     popping ''sourceSnapshotId'' Inr (\<lambda>source_snapshot_id.
     (\<lambda>d. Inr \<lparr>source_range_start_offset_utf_16 = start_offset_utf_16,
        source_range_end_offset_utf_16 = end_offset_utf_16,
        source_range_start = start,
        source_range_end = end,
        source_range_source_snapshot_id = source_snapshot_id\<rparr>)))))))"

interpretation source_range_wire: codec "\<lambda>x. JObj (source_range_to_dict x)" source_range_from_dict "\<lambda>_. True"
  by unfold_locales
    (simp add: source_range_to_dict_def source_range_from_dict_def wire_simps cong: wire_cong,
     rule safe_readerI, unfold source_range_from_dict_def, intro wire_rules)

record search_hit =
  search_hit_domain :: search_hit_domain
  search_hit_ref :: "symbol_ref lenient"
  search_hit_source_owner_ref :: "symbol_ref lenient"
  search_hit_display_name :: json
  search_hit_matched_text :: json
  search_hit_match_mode :: search_hit_match_mode
  search_hit_range :: "source_range lenient"
  search_hit_source_snapshot_id :: json

definition search_hit_to_dict :: "search_hit \<Rightarrow> jdict" where
  "search_hit_to_dict x =
     dict_update []
       [(''domain'', JStr (search_hit_domain_value (search_hit_domain x))),
        (''ref'', lenient_json (\<lambda>x. JObj (symbol_ref_to_dict x)) (search_hit_ref x)),
        (''sourceOwnerRef'', lenient_json (\<lambda>x. JObj (symbol_ref_to_dict x)) (search_hit_source_owner_ref x)),
        (''displayName'', search_hit_display_name x),
        (''matchedText'', search_hit_matched_text x),
        (''matchMode'', JStr (search_hit_match_mode_value (search_hit_match_mode x))),
        (''range'', lenient_json (\<lambda>x. JObj (source_range_to_dict x)) (search_hit_range x)),
        (''sourceSnapshotId'', search_hit_source_snapshot_id x)]"

definition search_hit_from_dict :: "json \<Rightarrow> py_exc + search_hit" where
  "search_hit_from_dict src = reading src (
     popping ''domain'' search_hit_domain_of (\<lambda>domain.
     popping ''ref'' (parse_union is_dict [symbol_ref_from_dict]) (\<lambda>ref.
     popping ''sourceOwnerRef'' (parse_union is_dict [symbol_ref_from_dict]) (\<lambda>source_owner_ref.
     popping ''displayName'' Inr (\<lambda>display_name.
     popping ''matchedText'' Inr (\<lambda>matched_text.
     popping ''matchMode'' search_hit_match_mode_of (\<lambda>match_mode.
     popping ''range'' (parse_union is_dict [source_range_from_dict]) (\<lambda>range.
     popping ''sourceSnapshotId'' Inr (\<lambda>source_snapshot_id.
     (\<lambda>d. Inr \<lparr>search_hit_domain = domain,
        search_hit_ref = ref,
        search_hit_source_owner_ref = source_owner_ref,
        search_hit_display_name = display_name,
        search_hit_matched_text = matched_text,
        search_hit_match_mode = match_mode,
        search_hit_range = range,
        search_hit_source_snapshot_id = source_snapshot_id\<rparr>))))))))))"

definition search_hit_ok :: "search_hit \<Rightarrow> bool" where
  "search_hit_ok x \<longleftrightarrow> lenient_ok is_dict [symbol_ref_from_dict] (\<lambda>_. True) (search_hit_ref x)
     \<and> lenient_ok is_dict [symbol_ref_from_dict] (\<lambda>_. True) (search_hit_source_owner_ref x)
     \<and> lenient_ok is_dict [source_range_from_dict] (\<lambda>_. True) (search_hit_range x)"

interpretation search_hit_wire: codec "\<lambda>x. JObj (search_hit_to_dict x)" search_hit_from_dict search_hit_ok
  by unfold_locales
    (simp add: search_hit_to_dict_def search_hit_from_dict_def search_hit_ok_def wire_simps cong: wire_cong,
     rule safe_readerI, unfold search_hit_from_dict_def, intro wire_rules)

record search_page =
  search_page_session_id :: json
  search_page_logical_revision :: json
  search_page_settings_fingerprint :: json
  search_page_index_snapshot_id :: json
  search_page_index_generation :: json
  search_page_result_snapshot_id :: json
  search_page_coverage :: "search_coverage list"
  search_page_hits :: "search_hit list"
  search_page_next_cursor :: json
  search_page_page_complete :: json
  search_page_diagnostics :: json

definition search_page_to_dict :: "search_page \<Rightarrow> jdict" where
  "search_page_to_dict x =
     dict_update []
       [(''sessionId'', search_page_session_id x),
        (''logicalRevision'', search_page_logical_revision x),
        (''settingsFingerprint'', search_page_settings_fingerprint x),
        (''indexSnapshotId'', search_page_index_snapshot_id x),
        (''indexGeneration'', search_page_index_generation x),
        (''resultSnapshotId'', search_page_result_snapshot_id x),
        (''coverage'', JArr (map (\<lambda>x. JObj (search_coverage_to_dict x)) (search_page_coverage x))),
        (''hits'', JArr (map (\<lambda>x. JObj (search_hit_to_dict x)) (search_page_hits x))),
        (''nextCursor'', search_page_next_cursor x),
        (''pageComplete'', search_page_page_complete x),
        (''diagnostics'', search_page_diagnostics x)]"

definition search_page_from_dict :: "json \<Rightarrow> py_exc + search_page" where
  "search_page_from_dict src = reading src (
     popping ''sessionId'' Inr (\<lambda>session_id.
     popping ''logicalRevision'' Inr (\<lambda>logical_revision.
     popping ''settingsFingerprint'' Inr (\<lambda>settings_fingerprint.
     popping ''indexSnapshotId'' Inr (\<lambda>index_snapshot_id.
     popping ''indexGeneration'' Inr (\<lambda>index_generation.
     popping ''resultSnapshotId'' Inr (\<lambda>result_snapshot_id.
     popping ''coverage'' (list_of search_coverage_from_dict) (\<lambda>coverage.
     popping ''hits'' (list_of search_hit_from_dict) (\<lambda>hits.
     popping ''nextCursor'' Inr (\<lambda>next_cursor.
     popping ''pageComplete'' Inr (\<lambda>page_complete.
     popping ''diagnostics'' Inr (\<lambda>diagnostics.
     (\<lambda>d. Inr \<lparr>search_page_session_id = session_id,
        search_page_logical_revision = logical_revision,
        search_page_settings_fingerprint = settings_fingerprint,
        search_page_index_snapshot_id = index_snapshot_id,
        search_page_index_generation = index_generation,
        search_page_result_snapshot_id = result_snapshot_id,
        search_page_coverage = coverage,
        search_page_hits = hits,
        search_page_next_cursor = next_cursor,
        search_page_page_complete = page_complete,
        search_page_diagnostics = diagnostics\<rparr>)))))))))))))"

definition search_page_ok :: "search_page \<Rightarrow> bool" where
  "search_page_ok x \<longleftrightarrow> list_all search_coverage_ok (search_page_coverage x)
     \<and> list_all search_hit_ok (search_page_hits x)"

interpretation search_page_wire: codec "\<lambda>x. JObj (search_page_to_dict x)" search_page_from_dict search_page_ok
  by unfold_locales
    (simp add: search_page_to_dict_def search_page_from_dict_def search_page_ok_def wire_simps cong: wire_cong,
     rule safe_readerI, unfold search_page_from_dict_def, intro wire_rules)

datatype search_build_request_domains_item = SearchBuildRequestDomainsItem_CLASS_NAME | SearchBuildRequestDomainsItem_MEMBER_NAME | SearchBuildRequestDomainsItem_SOURCE_TEXT | SearchBuildRequestDomainsItem_STRING_LITERAL

fun search_build_request_domains_item_value :: "search_build_request_domains_item \<Rightarrow> string" where
  "search_build_request_domains_item_value SearchBuildRequestDomainsItem_CLASS_NAME = ''CLASS_NAME''"
| "search_build_request_domains_item_value SearchBuildRequestDomainsItem_MEMBER_NAME = ''MEMBER_NAME''"
| "search_build_request_domains_item_value SearchBuildRequestDomainsItem_SOURCE_TEXT = ''SOURCE_TEXT''"
| "search_build_request_domains_item_value SearchBuildRequestDomainsItem_STRING_LITERAL = ''STRING_LITERAL''"

definition search_build_request_domains_item_of :: "json \<Rightarrow> py_exc + search_build_request_domains_item" where
  "search_build_request_domains_item_of = enum_of [SearchBuildRequestDomainsItem_CLASS_NAME, SearchBuildRequestDomainsItem_MEMBER_NAME, SearchBuildRequestDomainsItem_SOURCE_TEXT, SearchBuildRequestDomainsItem_STRING_LITERAL] search_build_request_domains_item_value"

interpretation search_build_request_domains_item_wire: codec "\<lambda>m. JStr (search_build_request_domains_item_value m)" search_build_request_domains_item_of "\<lambda>_. True"
proof unfold_locales
  fix m
  show "search_build_request_domains_item_of (JStr (search_build_request_domains_item_value m)) = Inr m"
    by (cases m) (simp_all add: search_build_request_domains_item_of_def enum_of_def)
qed (simp add: search_build_request_domains_item_of_def safe_enum_of)

interpretation search_build_request_domains_item_list: list_codec "\<lambda>m. JStr (search_build_request_domains_item_value m)" search_build_request_domains_item_of "\<lambda>_. True"
  by unfold_locales

record search_build_request =
  search_build_request_domains :: "search_build_request_domains_item list unset"
  search_build_request_force :: "json unset"

definition search_build_request_to_dict :: "search_build_request \<Rightarrow> jdict" where
  "search_build_request_to_dict x =
     put_given ''force'' (search_build_request_force x) (
     put_given ''domains'' (map_given (\<lambda>ys. JArr (map (\<lambda>m. JStr (search_build_request_domains_item_value m)) ys)) (search_build_request_domains x)) (
     []))"

definition search_build_request_from_dict :: "json \<Rightarrow> py_exc + search_build_request" where
  "search_build_request_from_dict src = reading src (
     popping_opt ''domains'' (list_of search_build_request_domains_item_of) (\<lambda>domains.
     popping_opt ''force'' Inr (\<lambda>force.
     (\<lambda>d. Inr \<lparr>search_build_request_domains = domains,
        search_build_request_force = force\<rparr>))))"

interpretation search_build_request_wire: codec "\<lambda>x. JObj (search_build_request_to_dict x)" search_build_request_from_dict "\<lambda>_. True"
  by unfold_locales
    (simp add: search_build_request_to_dict_def search_build_request_from_dict_def wire_simps cong: wire_cong,
     rule safe_readerI, unfold search_build_request_from_dict_def, intro wire_rules)

record search_index_status =
  search_index_status_session_id :: json
  search_index_status_logical_revision :: json
  search_index_status_settings_fingerprint :: json
  search_index_status_index_snapshot_id :: json
  search_index_status_index_generation :: json
  search_index_status_coverage :: "search_coverage list"

definition search_index_status_to_dict :: "search_index_status \<Rightarrow> jdict" where
  "search_index_status_to_dict x =
     dict_update []
       [(''sessionId'', search_index_status_session_id x),
        (''logicalRevision'', search_index_status_logical_revision x),
        (''settingsFingerprint'', search_index_status_settings_fingerprint x),
        (''indexSnapshotId'', search_index_status_index_snapshot_id x),
        (''indexGeneration'', search_index_status_index_generation x),
        (''coverage'', JArr (map (\<lambda>x. JObj (search_coverage_to_dict x)) (search_index_status_coverage x)))]"

definition search_index_status_from_dict :: "json \<Rightarrow> py_exc + search_index_status" where
  "search_index_status_from_dict src = reading src (
     popping ''sessionId'' Inr (\<lambda>session_id.
     popping ''logicalRevision'' Inr (\<lambda>logical_revision.
     popping ''settingsFingerprint'' Inr (\<lambda>settings_fingerprint.
     popping ''indexSnapshotId'' Inr (\<lambda>index_snapshot_id.
     popping ''indexGeneration'' Inr (\<lambda>index_generation.
     popping ''coverage'' (list_of search_coverage_from_dict) (\<lambda>coverage.
     (\<lambda>d. Inr \<lparr>search_index_status_session_id = session_id,
        search_index_status_logical_revision = logical_revision,
        search_index_status_settings_fingerprint = settings_fingerprint,
        search_index_status_index_snapshot_id = index_snapshot_id,
        search_index_status_index_generation = index_generation,
        search_index_status_coverage = coverage\<rparr>))))))))"

definition search_index_status_ok :: "search_index_status \<Rightarrow> bool" where
  "search_index_status_ok x \<longleftrightarrow> list_all search_coverage_ok (search_index_status_coverage x)"

interpretation search_index_status_wire: codec "\<lambda>x. JObj (search_index_status_to_dict x)" search_index_status_from_dict search_index_status_ok
  by unfold_locales
    (simp add: search_index_status_to_dict_def search_index_status_from_dict_def search_index_status_ok_def wire_simps cong: wire_cong,
     rule safe_readerI, unfold search_index_status_from_dict_def, intro wire_rules)

end
