(* ===== verification/Wire_References.thy ===== *)
theory Wire_References
  imports Wire_Search
begin

text \<open>
  The reference query and its pages.
\<close>

datatype reference_query_direction = ReferenceQueryDirection_INCOMING | ReferenceQueryDirection_OUTGOING

fun reference_query_direction_value :: "reference_query_direction \<Rightarrow> string" where
  "reference_query_direction_value ReferenceQueryDirection_INCOMING = ''INCOMING''"
| "reference_query_direction_value ReferenceQueryDirection_OUTGOING = ''OUTGOING''"

definition reference_query_direction_of :: "json \<Rightarrow> py_exc + reference_query_direction" where
  "reference_query_direction_of = enum_of [ReferenceQueryDirection_INCOMING, ReferenceQueryDirection_OUTGOING] reference_query_direction_value"

interpretation reference_query_direction_wire: codec "\<lambda>m. JStr (reference_query_direction_value m)" reference_query_direction_of "\<lambda>_. True"
proof unfold_locales
  fix m
  show "reference_query_direction_of (JStr (reference_query_direction_value m)) = Inr m"
    by (cases m) (simp_all add: reference_query_direction_of_def enum_of_def)
qed (simp add: reference_query_direction_of_def safe_enum_of)

datatype reference_query_view = ReferenceQueryView_INSTRUCTIONS | ReferenceQueryView_PAIRS

fun reference_query_view_value :: "reference_query_view \<Rightarrow> string" where
  "reference_query_view_value ReferenceQueryView_INSTRUCTIONS = ''INSTRUCTIONS''"
| "reference_query_view_value ReferenceQueryView_PAIRS = ''PAIRS''"

definition reference_query_view_of :: "json \<Rightarrow> py_exc + reference_query_view" where
  "reference_query_view_of = enum_of [ReferenceQueryView_INSTRUCTIONS, ReferenceQueryView_PAIRS] reference_query_view_value"

interpretation reference_query_view_wire: codec "\<lambda>m. JStr (reference_query_view_value m)" reference_query_view_of "\<lambda>_. True"
proof unfold_locales
  fix m
  show "reference_query_view_of (JStr (reference_query_view_value m)) = Inr m"
    by (cases m) (simp_all add: reference_query_view_of_def enum_of_def)
qed (simp add: reference_query_view_of_def safe_enum_of)

datatype reference_relation = ReferenceRelation_CALL | ReferenceRelation_CLASS_DEPENDENCY | ReferenceRelation_FIELD_READ | ReferenceRelation_FIELD_USE | ReferenceRelation_FIELD_WRITE | ReferenceRelation_UNRESOLVED_CALL

fun reference_relation_value :: "reference_relation \<Rightarrow> string" where
  "reference_relation_value ReferenceRelation_CALL = ''CALL''"
| "reference_relation_value ReferenceRelation_CLASS_DEPENDENCY = ''CLASS_DEPENDENCY''"
| "reference_relation_value ReferenceRelation_FIELD_READ = ''FIELD_READ''"
| "reference_relation_value ReferenceRelation_FIELD_USE = ''FIELD_USE''"
| "reference_relation_value ReferenceRelation_FIELD_WRITE = ''FIELD_WRITE''"
| "reference_relation_value ReferenceRelation_UNRESOLVED_CALL = ''UNRESOLVED_CALL''"

definition reference_relation_of :: "json \<Rightarrow> py_exc + reference_relation" where
  "reference_relation_of = enum_of [ReferenceRelation_CALL, ReferenceRelation_CLASS_DEPENDENCY, ReferenceRelation_FIELD_READ, ReferenceRelation_FIELD_USE, ReferenceRelation_FIELD_WRITE, ReferenceRelation_UNRESOLVED_CALL] reference_relation_value"

interpretation reference_relation_wire: codec "\<lambda>m. JStr (reference_relation_value m)" reference_relation_of "\<lambda>_. True"
proof unfold_locales
  fix m
  show "reference_relation_of (JStr (reference_relation_value m)) = Inr m"
    by (cases m) (simp_all add: reference_relation_of_def enum_of_def)
qed (simp add: reference_relation_of_def safe_enum_of)

interpretation reference_relation_list: list_codec "\<lambda>m. JStr (reference_relation_value m)" reference_relation_of "\<lambda>_. True"
  by unfold_locales

record reference_query =
  reference_query_ref :: symbol_ref
  reference_query_direction :: reference_query_direction
  reference_query_view :: "reference_query_view unset"
  reference_query_relations :: "reference_relation list unset"
  reference_query_page_size :: "json unset"
  reference_query_cursor :: "json unset"
  reference_query_include_source_sites :: "json unset"
  reference_query_strict :: "json unset"
  reference_query_expected_session_id :: "uuid unset"
  reference_query_expected_logical_revision :: "json unset"

definition reference_query_to_dict :: "reference_query \<Rightarrow> jdict" where
  "reference_query_to_dict x =
     put_given ''expectedLogicalRevision'' (reference_query_expected_logical_revision x) (
     put_given ''expectedSessionId'' (map_given (\<lambda>u. JStr (uuid_str u)) (reference_query_expected_session_id x)) (
     put_given ''strict'' (reference_query_strict x) (
     put_given ''includeSourceSites'' (reference_query_include_source_sites x) (
     put_given ''cursor'' (reference_query_cursor x) (
     put_given ''pageSize'' (reference_query_page_size x) (
     put_given ''relations'' (map_given (\<lambda>ys. JArr (map (\<lambda>m. JStr (reference_relation_value m)) ys)) (reference_query_relations x)) (
     put_given ''view'' (map_given (\<lambda>m. JStr (reference_query_view_value m)) (reference_query_view x)) (
     dict_update []
       [(''ref'', JObj (symbol_ref_to_dict (reference_query_ref x))),
        (''direction'', JStr (reference_query_direction_value (reference_query_direction x)))]))))))))"

definition reference_query_from_dict :: "json \<Rightarrow> py_exc + reference_query" where
  "reference_query_from_dict src = reading src (
     popping ''ref'' symbol_ref_from_dict (\<lambda>ref.
     popping ''direction'' reference_query_direction_of (\<lambda>direction.
     popping_opt ''view'' reference_query_view_of (\<lambda>view.
     popping_opt ''relations'' (list_of reference_relation_of) (\<lambda>relations.
     popping_opt ''pageSize'' Inr (\<lambda>page_size.
     popping_opt ''cursor'' Inr (\<lambda>cursor.
     popping_opt ''includeSourceSites'' Inr (\<lambda>include_source_sites.
     popping_opt ''strict'' Inr (\<lambda>strict.
     popping_opt ''expectedSessionId'' uuid_new (\<lambda>expected_session_id.
     popping_opt ''expectedLogicalRevision'' Inr (\<lambda>expected_logical_revision.
     (\<lambda>d. Inr \<lparr>reference_query_ref = ref,
        reference_query_direction = direction,
        reference_query_view = view,
        reference_query_relations = relations,
        reference_query_page_size = page_size,
        reference_query_cursor = cursor,
        reference_query_include_source_sites = include_source_sites,
        reference_query_strict = strict,
        reference_query_expected_session_id = expected_session_id,
        reference_query_expected_logical_revision = expected_logical_revision\<rparr>))))))))))))"

interpretation reference_query_wire: codec "\<lambda>x. JObj (reference_query_to_dict x)" reference_query_from_dict "\<lambda>_. True"
  by unfold_locales
    (simp add: reference_query_to_dict_def reference_query_from_dict_def wire_simps cong: wire_cong,
     rule safe_readerI, unfold reference_query_from_dict_def, intro wire_rules)

datatype reference_page_outcome = ReferencePageOutcome_AMBIGUOUS | ReferencePageOutcome_NOT_FOUND | ReferencePageOutcome_PROVENANCE_UNAVAILABLE | ReferencePageOutcome_RESOLVED

fun reference_page_outcome_value :: "reference_page_outcome \<Rightarrow> string" where
  "reference_page_outcome_value ReferencePageOutcome_AMBIGUOUS = ''AMBIGUOUS''"
| "reference_page_outcome_value ReferencePageOutcome_NOT_FOUND = ''NOT_FOUND''"
| "reference_page_outcome_value ReferencePageOutcome_PROVENANCE_UNAVAILABLE = ''PROVENANCE_UNAVAILABLE''"
| "reference_page_outcome_value ReferencePageOutcome_RESOLVED = ''RESOLVED''"

definition reference_page_outcome_of :: "json \<Rightarrow> py_exc + reference_page_outcome" where
  "reference_page_outcome_of = enum_of [ReferencePageOutcome_AMBIGUOUS, ReferencePageOutcome_NOT_FOUND, ReferencePageOutcome_PROVENANCE_UNAVAILABLE, ReferencePageOutcome_RESOLVED] reference_page_outcome_value"

interpretation reference_page_outcome_wire: codec "\<lambda>m. JStr (reference_page_outcome_value m)" reference_page_outcome_of "\<lambda>_. True"
proof unfold_locales
  fix m
  show "reference_page_outcome_of (JStr (reference_page_outcome_value m)) = Inr m"
    by (cases m) (simp_all add: reference_page_outcome_of_def enum_of_def)
qed (simp add: reference_page_outcome_of_def safe_enum_of)

datatype reference_page_direction = ReferencePageDirection_INCOMING | ReferencePageDirection_OUTGOING

fun reference_page_direction_value :: "reference_page_direction \<Rightarrow> string" where
  "reference_page_direction_value ReferencePageDirection_INCOMING = ''INCOMING''"
| "reference_page_direction_value ReferencePageDirection_OUTGOING = ''OUTGOING''"

definition reference_page_direction_of :: "json \<Rightarrow> py_exc + reference_page_direction" where
  "reference_page_direction_of = enum_of [ReferencePageDirection_INCOMING, ReferencePageDirection_OUTGOING] reference_page_direction_value"

interpretation reference_page_direction_wire: codec "\<lambda>m. JStr (reference_page_direction_value m)" reference_page_direction_of "\<lambda>_. True"
proof unfold_locales
  fix m
  show "reference_page_direction_of (JStr (reference_page_direction_value m)) = Inr m"
    by (cases m) (simp_all add: reference_page_direction_of_def enum_of_def)
qed (simp add: reference_page_direction_of_def safe_enum_of)

datatype reference_page_scope = ReferencePageScope_JADX_REPORTED | ReferencePageScope_LOADED_DEX_METHOD

fun reference_page_scope_value :: "reference_page_scope \<Rightarrow> string" where
  "reference_page_scope_value ReferencePageScope_JADX_REPORTED = ''JADX_REPORTED''"
| "reference_page_scope_value ReferencePageScope_LOADED_DEX_METHOD = ''LOADED_DEX_METHOD''"

definition reference_page_scope_of :: "json \<Rightarrow> py_exc + reference_page_scope" where
  "reference_page_scope_of = enum_of [ReferencePageScope_JADX_REPORTED, ReferencePageScope_LOADED_DEX_METHOD] reference_page_scope_value"

interpretation reference_page_scope_wire: codec "\<lambda>m. JStr (reference_page_scope_value m)" reference_page_scope_of "\<lambda>_. True"
proof unfold_locales
  fix m
  show "reference_page_scope_of (JStr (reference_page_scope_value m)) = Inr m"
    by (cases m) (simp_all add: reference_page_scope_of_def enum_of_def)
qed (simp add: reference_page_scope_of_def safe_enum_of)

record reference_page_coverage =
  reference_page_coverage_status :: json
  reference_page_coverage_reason :: json

definition reference_page_coverage_to_dict :: "reference_page_coverage \<Rightarrow> jdict" where
  "reference_page_coverage_to_dict x =
     dict_update []
       [(''status'', reference_page_coverage_status x),
        (''reason'', reference_page_coverage_reason x)]"

definition reference_page_coverage_from_dict :: "json \<Rightarrow> py_exc + reference_page_coverage" where
  "reference_page_coverage_from_dict src = reading src (
     popping ''status'' (literal (JStr ''PARTIAL'')) (\<lambda>status.
     popping ''reason'' Inr (\<lambda>reason.
     (\<lambda>d. Inr \<lparr>reference_page_coverage_status = status,
        reference_page_coverage_reason = reason\<rparr>))))"

definition reference_page_coverage_ok :: "reference_page_coverage \<Rightarrow> bool" where
  "reference_page_coverage_ok x \<longleftrightarrow> json_eq (reference_page_coverage_status x) (JStr ''PARTIAL'')"

interpretation reference_page_coverage_wire: codec "\<lambda>x. JObj (reference_page_coverage_to_dict x)" reference_page_coverage_from_dict reference_page_coverage_ok
  by unfold_locales
    (simp add: reference_page_coverage_to_dict_def reference_page_coverage_from_dict_def reference_page_coverage_ok_def wire_simps cong: wire_cong,
     rule safe_readerI, unfold reference_page_coverage_from_dict_def, intro wire_rules)

datatype reference_edge_resolution = ReferenceEdgeResolution_OBSERVED | ReferenceEdgeResolution_RESOLVED | ReferenceEdgeResolution_UNRESOLVED

fun reference_edge_resolution_value :: "reference_edge_resolution \<Rightarrow> string" where
  "reference_edge_resolution_value ReferenceEdgeResolution_OBSERVED = ''OBSERVED''"
| "reference_edge_resolution_value ReferenceEdgeResolution_RESOLVED = ''RESOLVED''"
| "reference_edge_resolution_value ReferenceEdgeResolution_UNRESOLVED = ''UNRESOLVED''"

definition reference_edge_resolution_of :: "json \<Rightarrow> py_exc + reference_edge_resolution" where
  "reference_edge_resolution_of = enum_of [ReferenceEdgeResolution_OBSERVED, ReferenceEdgeResolution_RESOLVED, ReferenceEdgeResolution_UNRESOLVED] reference_edge_resolution_value"

interpretation reference_edge_resolution_wire: codec "\<lambda>m. JStr (reference_edge_resolution_value m)" reference_edge_resolution_of "\<lambda>_. True"
proof unfold_locales
  fix m
  show "reference_edge_resolution_of (JStr (reference_edge_resolution_value m)) = Inr m"
    by (cases m) (simp_all add: reference_edge_resolution_of_def enum_of_def)
qed (simp add: reference_edge_resolution_of_def safe_enum_of)

datatype reference_edge_evidence = ReferenceEdgeEvidence_JADX_CLASS_DEPENDENCY | ReferenceEdgeEvidence_JADX_CLASS_USE_IN | ReferenceEdgeEvidence_JADX_FIELD_USE_IN | ReferenceEdgeEvidence_JADX_METHOD_UNRESOLVED_USED | ReferenceEdgeEvidence_JADX_METHOD_USED | ReferenceEdgeEvidence_JADX_METHOD_USE_IN | ReferenceEdgeEvidence_LOADED_DEX_INPUT_READER

fun reference_edge_evidence_value :: "reference_edge_evidence \<Rightarrow> string" where
  "reference_edge_evidence_value ReferenceEdgeEvidence_JADX_CLASS_DEPENDENCY = ''JADX_CLASS_DEPENDENCY''"
| "reference_edge_evidence_value ReferenceEdgeEvidence_JADX_CLASS_USE_IN = ''JADX_CLASS_USE_IN''"
| "reference_edge_evidence_value ReferenceEdgeEvidence_JADX_FIELD_USE_IN = ''JADX_FIELD_USE_IN''"
| "reference_edge_evidence_value ReferenceEdgeEvidence_JADX_METHOD_UNRESOLVED_USED = ''JADX_METHOD_UNRESOLVED_USED''"
| "reference_edge_evidence_value ReferenceEdgeEvidence_JADX_METHOD_USED = ''JADX_METHOD_USED''"
| "reference_edge_evidence_value ReferenceEdgeEvidence_JADX_METHOD_USE_IN = ''JADX_METHOD_USE_IN''"
| "reference_edge_evidence_value ReferenceEdgeEvidence_LOADED_DEX_INPUT_READER = ''LOADED_DEX_INPUT_READER''"

definition reference_edge_evidence_of :: "json \<Rightarrow> py_exc + reference_edge_evidence" where
  "reference_edge_evidence_of = enum_of [ReferenceEdgeEvidence_JADX_CLASS_DEPENDENCY, ReferenceEdgeEvidence_JADX_CLASS_USE_IN, ReferenceEdgeEvidence_JADX_FIELD_USE_IN, ReferenceEdgeEvidence_JADX_METHOD_UNRESOLVED_USED, ReferenceEdgeEvidence_JADX_METHOD_USED, ReferenceEdgeEvidence_JADX_METHOD_USE_IN, ReferenceEdgeEvidence_LOADED_DEX_INPUT_READER] reference_edge_evidence_value"

interpretation reference_edge_evidence_wire: codec "\<lambda>m. JStr (reference_edge_evidence_value m)" reference_edge_evidence_of "\<lambda>_. True"
proof unfold_locales
  fix m
  show "reference_edge_evidence_of (JStr (reference_edge_evidence_value m)) = Inr m"
    by (cases m) (simp_all add: reference_edge_evidence_of_def enum_of_def)
qed (simp add: reference_edge_evidence_of_def safe_enum_of)

record reference_site =
  reference_site_source_owner_ref :: symbol_ref
  reference_site_source_snapshot_id :: json
  reference_site_position :: source_point
  reference_site_precision :: json

definition reference_site_to_dict :: "reference_site \<Rightarrow> jdict" where
  "reference_site_to_dict x =
     dict_update []
       [(''sourceOwnerRef'', JObj (symbol_ref_to_dict (reference_site_source_owner_ref x))),
        (''sourceSnapshotId'', reference_site_source_snapshot_id x),
        (''position'', JObj (source_point_to_dict (reference_site_position x))),
        (''precision'', reference_site_precision x)]"

definition reference_site_from_dict :: "json \<Rightarrow> py_exc + reference_site" where
  "reference_site_from_dict src = reading src (
     popping ''sourceOwnerRef'' symbol_ref_from_dict (\<lambda>source_owner_ref.
     popping ''sourceSnapshotId'' Inr (\<lambda>source_snapshot_id.
     popping ''position'' source_point_from_dict (\<lambda>position.
     popping ''precision'' (literal (JStr ''EXACT'')) (\<lambda>precision.
     (\<lambda>d. Inr \<lparr>reference_site_source_owner_ref = source_owner_ref,
        reference_site_source_snapshot_id = source_snapshot_id,
        reference_site_position = position,
        reference_site_precision = precision\<rparr>))))))"

definition reference_site_ok :: "reference_site \<Rightarrow> bool" where
  "reference_site_ok x \<longleftrightarrow> json_eq (reference_site_precision x) (JStr ''EXACT'')"

interpretation reference_site_wire: codec "\<lambda>x. JObj (reference_site_to_dict x)" reference_site_from_dict reference_site_ok
  by unfold_locales
    (simp add: reference_site_to_dict_def reference_site_from_dict_def reference_site_ok_def wire_simps cong: wire_cong,
     rule safe_readerI, unfold reference_site_from_dict_def, intro wire_rules)

datatype reference_edge_source_site_coverage = ReferenceEdgeSourceSiteCoverage_PARTIAL | ReferenceEdgeSourceSiteCoverage_UNAVAILABLE

fun reference_edge_source_site_coverage_value :: "reference_edge_source_site_coverage \<Rightarrow> string" where
  "reference_edge_source_site_coverage_value ReferenceEdgeSourceSiteCoverage_PARTIAL = ''PARTIAL''"
| "reference_edge_source_site_coverage_value ReferenceEdgeSourceSiteCoverage_UNAVAILABLE = ''UNAVAILABLE''"

definition reference_edge_source_site_coverage_of :: "json \<Rightarrow> py_exc + reference_edge_source_site_coverage" where
  "reference_edge_source_site_coverage_of = enum_of [ReferenceEdgeSourceSiteCoverage_PARTIAL, ReferenceEdgeSourceSiteCoverage_UNAVAILABLE] reference_edge_source_site_coverage_value"

interpretation reference_edge_source_site_coverage_wire: codec "\<lambda>m. JStr (reference_edge_source_site_coverage_value m)" reference_edge_source_site_coverage_of "\<lambda>_. True"
proof unfold_locales
  fix m
  show "reference_edge_source_site_coverage_of (JStr (reference_edge_source_site_coverage_value m)) = Inr m"
    by (cases m) (simp_all add: reference_edge_source_site_coverage_of_def enum_of_def)
qed (simp add: reference_edge_source_site_coverage_of_def safe_enum_of)

record reference_instruction =
  reference_instruction_offset_code_units :: json
  reference_instruction_unit :: json
  reference_instruction_base :: json
  reference_instruction_precision :: json
  reference_instruction_opcode :: json

definition reference_instruction_to_dict :: "reference_instruction \<Rightarrow> jdict" where
  "reference_instruction_to_dict x =
     dict_update []
       [(''offsetCodeUnits'', reference_instruction_offset_code_units x),
        (''unit'', reference_instruction_unit x),
        (''base'', reference_instruction_base x),
        (''precision'', reference_instruction_precision x),
        (''opcode'', reference_instruction_opcode x)]"

definition reference_instruction_from_dict :: "json \<Rightarrow> py_exc + reference_instruction" where
  "reference_instruction_from_dict src = reading src (
     popping ''offsetCodeUnits'' Inr (\<lambda>offset_code_units.
     popping ''unit'' (literal (JStr ''DEX_CODE_UNIT_16'')) (\<lambda>unit.
     popping ''base'' (literal (JStr ''LOADED_METHOD_INSNS_START'')) (\<lambda>base.
     popping ''precision'' (literal (JStr ''EXACT'')) (\<lambda>precision.
     popping ''opcode'' Inr (\<lambda>opcode.
     (\<lambda>d. Inr \<lparr>reference_instruction_offset_code_units = offset_code_units,
        reference_instruction_unit = unit,
        reference_instruction_base = base,
        reference_instruction_precision = precision,
        reference_instruction_opcode = opcode\<rparr>)))))))"

definition reference_instruction_ok :: "reference_instruction \<Rightarrow> bool" where
  "reference_instruction_ok x \<longleftrightarrow> json_eq (reference_instruction_unit x) (JStr ''DEX_CODE_UNIT_16'')
     \<and> json_eq (reference_instruction_base x) (JStr ''LOADED_METHOD_INSNS_START'')
     \<and> json_eq (reference_instruction_precision x) (JStr ''EXACT'')"

interpretation reference_instruction_wire: codec "\<lambda>x. JObj (reference_instruction_to_dict x)" reference_instruction_from_dict reference_instruction_ok
  by unfold_locales
    (simp add: reference_instruction_to_dict_def reference_instruction_from_dict_def reference_instruction_ok_def wire_simps cong: wire_cong,
     rule safe_readerI, unfold reference_instruction_from_dict_def, intro wire_rules)

interpretation reference_instruction_union: union_codec "\<lambda>x. JObj (reference_instruction_to_dict x)" reference_instruction_from_dict reference_instruction_ok is_dict "[]"
  by unfold_locales (simp_all add: wire_rules)

record reference_edge =
  reference_edge_source_ref :: symbol_ref
  reference_edge_target_ref :: symbol_ref
  reference_edge_relation :: reference_relation
  reference_edge_resolution :: reference_edge_resolution
  reference_edge_evidence :: reference_edge_evidence
  reference_edge_source_sites :: "reference_site list"
  reference_edge_source_site_coverage :: reference_edge_source_site_coverage
  reference_edge_original_offset :: json
  reference_edge_instruction :: "reference_instruction lenient unset"

definition reference_edge_to_dict :: "reference_edge \<Rightarrow> jdict" where
  "reference_edge_to_dict x =
     put_given ''instruction'' (map_given (lenient_json (\<lambda>x. JObj (reference_instruction_to_dict x))) (reference_edge_instruction x)) (
     dict_update []
       [(''sourceRef'', JObj (symbol_ref_to_dict (reference_edge_source_ref x))),
        (''targetRef'', JObj (symbol_ref_to_dict (reference_edge_target_ref x))),
        (''relation'', JStr (reference_relation_value (reference_edge_relation x))),
        (''resolution'', JStr (reference_edge_resolution_value (reference_edge_resolution x))),
        (''evidence'', JStr (reference_edge_evidence_value (reference_edge_evidence x))),
        (''sourceSites'', JArr (map (\<lambda>x. JObj (reference_site_to_dict x)) (reference_edge_source_sites x))),
        (''sourceSiteCoverage'', JStr (reference_edge_source_site_coverage_value (reference_edge_source_site_coverage x))),
        (''originalOffset'', reference_edge_original_offset x)])"

definition reference_edge_from_dict :: "json \<Rightarrow> py_exc + reference_edge" where
  "reference_edge_from_dict src = reading src (
     popping ''sourceRef'' symbol_ref_from_dict (\<lambda>source_ref.
     popping ''targetRef'' symbol_ref_from_dict (\<lambda>target_ref.
     popping ''relation'' reference_relation_of (\<lambda>relation.
     popping ''resolution'' reference_edge_resolution_of (\<lambda>resolution.
     popping ''evidence'' reference_edge_evidence_of (\<lambda>evidence.
     popping ''sourceSites'' (list_of reference_site_from_dict) (\<lambda>source_sites.
     popping ''sourceSiteCoverage'' reference_edge_source_site_coverage_of (\<lambda>source_site_coverage.
     popping ''originalOffset'' Inr (\<lambda>original_offset.
     popping_opt ''instruction'' (parse_union is_dict [reference_instruction_from_dict]) (\<lambda>instruction.
     (\<lambda>d. Inr \<lparr>reference_edge_source_ref = source_ref,
        reference_edge_target_ref = target_ref,
        reference_edge_relation = relation,
        reference_edge_resolution = resolution,
        reference_edge_evidence = evidence,
        reference_edge_source_sites = source_sites,
        reference_edge_source_site_coverage = source_site_coverage,
        reference_edge_original_offset = original_offset,
        reference_edge_instruction = instruction\<rparr>)))))))))))"

definition reference_edge_ok :: "reference_edge \<Rightarrow> bool" where
  "reference_edge_ok x \<longleftrightarrow> list_all reference_site_ok (reference_edge_source_sites x)
     \<and> given_all (lenient_ok is_dict [reference_instruction_from_dict] reference_instruction_ok) (reference_edge_instruction x)"

interpretation reference_edge_wire: codec "\<lambda>x. JObj (reference_edge_to_dict x)" reference_edge_from_dict reference_edge_ok
  by unfold_locales
    (simp add: reference_edge_to_dict_def reference_edge_from_dict_def reference_edge_ok_def wire_simps cong: wire_cong,
     rule safe_readerI, unfold reference_edge_from_dict_def, intro wire_rules)

datatype source_availability = SourceAvailability_EXACT | SourceAvailability_PARTIAL | SourceAvailability_UNAVAILABLE | SourceAvailability_UNKNOWN

fun source_availability_value :: "source_availability \<Rightarrow> string" where
  "source_availability_value SourceAvailability_EXACT = ''EXACT''"
| "source_availability_value SourceAvailability_PARTIAL = ''PARTIAL''"
| "source_availability_value SourceAvailability_UNAVAILABLE = ''UNAVAILABLE''"
| "source_availability_value SourceAvailability_UNKNOWN = ''UNKNOWN''"

definition source_availability_of :: "json \<Rightarrow> py_exc + source_availability" where
  "source_availability_of = enum_of [SourceAvailability_EXACT, SourceAvailability_PARTIAL, SourceAvailability_UNAVAILABLE, SourceAvailability_UNKNOWN] source_availability_value"

interpretation source_availability_wire: codec "\<lambda>m. JStr (source_availability_value m)" source_availability_of "\<lambda>_. True"
proof unfold_locales
  fix m
  show "source_availability_of (JStr (source_availability_value m)) = Inr m"
    by (cases m) (simp_all add: source_availability_of_def enum_of_def)
qed (simp add: source_availability_of_def safe_enum_of)

interpretation source_availability_union: union_codec "\<lambda>m. JStr (source_availability_value m)" source_availability_of "\<lambda>_. True" is_str "[]"
  by unfold_locales (simp_all add: wire_rules)

record reference_capabilities =
  reference_capabilities_resolved_target :: source_availability
  reference_capabilities_source_location :: source_availability
  reference_capabilities_original_offset :: json
  reference_capabilities_reference_kind :: json
  reference_capabilities_global_coverage :: json
  reference_capabilities_loaded_dex_offset :: "source_availability lenient unset"

definition reference_capabilities_to_dict :: "reference_capabilities \<Rightarrow> jdict" where
  "reference_capabilities_to_dict x =
     put_given ''loadedDexOffset'' (map_given (lenient_json (\<lambda>m. JStr (source_availability_value m))) (reference_capabilities_loaded_dex_offset x)) (
     dict_update []
       [(''resolvedTarget'', JStr (source_availability_value (reference_capabilities_resolved_target x))),
        (''sourceLocation'', JStr (source_availability_value (reference_capabilities_source_location x))),
        (''originalOffset'', reference_capabilities_original_offset x),
        (''referenceKind'', reference_capabilities_reference_kind x),
        (''globalCoverage'', reference_capabilities_global_coverage x)])"

definition reference_capabilities_from_dict :: "json \<Rightarrow> py_exc + reference_capabilities" where
  "reference_capabilities_from_dict src = reading src (
     popping ''resolvedTarget'' source_availability_of (\<lambda>resolved_target.
     popping ''sourceLocation'' source_availability_of (\<lambda>source_location.
     popping ''originalOffset'' (literal (JStr ''UNAVAILABLE'')) (\<lambda>original_offset.
     popping ''referenceKind'' (literal (JStr ''PARTIAL'')) (\<lambda>reference_kind.
     popping ''globalCoverage'' (literal (JStr ''UNKNOWN'')) (\<lambda>global_coverage.
     popping_opt ''loadedDexOffset'' (parse_union is_str [source_availability_of]) (\<lambda>loaded_dex_offset.
     (\<lambda>d. Inr \<lparr>reference_capabilities_resolved_target = resolved_target,
        reference_capabilities_source_location = source_location,
        reference_capabilities_original_offset = original_offset,
        reference_capabilities_reference_kind = reference_kind,
        reference_capabilities_global_coverage = global_coverage,
        reference_capabilities_loaded_dex_offset = loaded_dex_offset\<rparr>))))))))"

definition reference_capabilities_ok :: "reference_capabilities \<Rightarrow> bool" where
  "reference_capabilities_ok x \<longleftrightarrow> json_eq (reference_capabilities_original_offset x) (JStr ''UNAVAILABLE'')
     \<and> json_eq (reference_capabilities_reference_kind x) (JStr ''PARTIAL'')
     \<and> json_eq (reference_capabilities_global_coverage x) (JStr ''UNKNOWN'')
     \<and> given_all (lenient_ok is_str [source_availability_of] (\<lambda>_. True)) (reference_capabilities_loaded_dex_offset x)"

interpretation reference_capabilities_wire: codec "\<lambda>x. JObj (reference_capabilities_to_dict x)" reference_capabilities_from_dict reference_capabilities_ok
  by unfold_locales
    (simp add: reference_capabilities_to_dict_def reference_capabilities_from_dict_def reference_capabilities_ok_def wire_simps cong: wire_cong,
     rule safe_readerI, unfold reference_capabilities_from_dict_def, intro wire_rules)

datatype reference_instruction_scan_availability = ReferenceInstructionScanAvailability_AVAILABLE | ReferenceInstructionScanAvailability_FAILED | ReferenceInstructionScanAvailability_UNAVAILABLE

fun reference_instruction_scan_availability_value :: "reference_instruction_scan_availability \<Rightarrow> string" where
  "reference_instruction_scan_availability_value ReferenceInstructionScanAvailability_AVAILABLE = ''AVAILABLE''"
| "reference_instruction_scan_availability_value ReferenceInstructionScanAvailability_FAILED = ''FAILED''"
| "reference_instruction_scan_availability_value ReferenceInstructionScanAvailability_UNAVAILABLE = ''UNAVAILABLE''"

definition reference_instruction_scan_availability_of :: "json \<Rightarrow> py_exc + reference_instruction_scan_availability" where
  "reference_instruction_scan_availability_of = enum_of [ReferenceInstructionScanAvailability_AVAILABLE, ReferenceInstructionScanAvailability_FAILED, ReferenceInstructionScanAvailability_UNAVAILABLE] reference_instruction_scan_availability_value"

interpretation reference_instruction_scan_availability_wire: codec "\<lambda>m. JStr (reference_instruction_scan_availability_value m)" reference_instruction_scan_availability_of "\<lambda>_. True"
proof unfold_locales
  fix m
  show "reference_instruction_scan_availability_of (JStr (reference_instruction_scan_availability_value m)) = Inr m"
    by (cases m) (simp_all add: reference_instruction_scan_availability_of_def enum_of_def)
qed (simp add: reference_instruction_scan_availability_of_def safe_enum_of)

record reference_instruction_scan =
  reference_instruction_scan_availability :: reference_instruction_scan_availability
  reference_instruction_scan_reason :: json
  reference_instruction_scan_excluded_opcodes :: json

definition reference_instruction_scan_to_dict :: "reference_instruction_scan \<Rightarrow> jdict" where
  "reference_instruction_scan_to_dict x =
     dict_update []
       [(''availability'', JStr (reference_instruction_scan_availability_value (reference_instruction_scan_availability x))),
        (''reason'', reference_instruction_scan_reason x),
        (''excludedOpcodes'', reference_instruction_scan_excluded_opcodes x)]"

definition reference_instruction_scan_from_dict :: "json \<Rightarrow> py_exc + reference_instruction_scan" where
  "reference_instruction_scan_from_dict src = reading src (
     popping ''availability'' reference_instruction_scan_availability_of (\<lambda>availability.
     popping ''reason'' Inr (\<lambda>reason.
     popping ''excludedOpcodes'' Inr (\<lambda>excluded_opcodes.
     (\<lambda>d. Inr \<lparr>reference_instruction_scan_availability = availability,
        reference_instruction_scan_reason = reason,
        reference_instruction_scan_excluded_opcodes = excluded_opcodes\<rparr>)))))"

interpretation reference_instruction_scan_wire: codec "\<lambda>x. JObj (reference_instruction_scan_to_dict x)" reference_instruction_scan_from_dict "\<lambda>_. True"
  by unfold_locales
    (simp add: reference_instruction_scan_to_dict_def reference_instruction_scan_from_dict_def wire_simps cong: wire_cong,
     rule safe_readerI, unfold reference_instruction_scan_from_dict_def, intro wire_rules)

interpretation reference_instruction_scan_union: union_codec "\<lambda>x. JObj (reference_instruction_scan_to_dict x)" reference_instruction_scan_from_dict "\<lambda>_. True" is_dict "[]"
  by unfold_locales (simp_all add: wire_rules)

record reference_page =
  reference_page_outcome :: reference_page_outcome
  reference_page_queried_ref :: symbol_ref
  reference_page_direction :: reference_page_direction
  reference_page_candidates :: "symbol_info list"
  reference_page_session_id :: uuid
  reference_page_logical_revision :: json
  reference_page_snapshot_id :: json
  reference_page_scope :: reference_page_scope
  reference_page_coverage :: reference_page_coverage
  reference_page_edges :: "reference_edge list"
  reference_page_next_cursor :: json
  reference_page_page_complete :: json
  reference_page_capabilities :: reference_capabilities
  reference_page_diagnostics :: json
  reference_page_instruction_scan :: "reference_instruction_scan lenient unset"

definition reference_page_to_dict :: "reference_page \<Rightarrow> jdict" where
  "reference_page_to_dict x =
     put_given ''instructionScan'' (map_given (lenient_json (\<lambda>x. JObj (reference_instruction_scan_to_dict x))) (reference_page_instruction_scan x)) (
     dict_update []
       [(''outcome'', JStr (reference_page_outcome_value (reference_page_outcome x))),
        (''queriedRef'', JObj (symbol_ref_to_dict (reference_page_queried_ref x))),
        (''direction'', JStr (reference_page_direction_value (reference_page_direction x))),
        (''candidates'', JArr (map (\<lambda>x. JObj (symbol_info_to_dict x)) (reference_page_candidates x))),
        (''sessionId'', JStr (uuid_str (reference_page_session_id x))),
        (''logicalRevision'', reference_page_logical_revision x),
        (''snapshotId'', reference_page_snapshot_id x),
        (''scope'', JStr (reference_page_scope_value (reference_page_scope x))),
        (''coverage'', JObj (reference_page_coverage_to_dict (reference_page_coverage x))),
        (''edges'', JArr (map (\<lambda>x. JObj (reference_edge_to_dict x)) (reference_page_edges x))),
        (''nextCursor'', reference_page_next_cursor x),
        (''pageComplete'', reference_page_page_complete x),
        (''capabilities'', JObj (reference_capabilities_to_dict (reference_page_capabilities x))),
        (''diagnostics'', reference_page_diagnostics x)])"

definition reference_page_from_dict :: "json \<Rightarrow> py_exc + reference_page" where
  "reference_page_from_dict src = reading src (
     popping ''outcome'' reference_page_outcome_of (\<lambda>outcome.
     popping ''queriedRef'' symbol_ref_from_dict (\<lambda>queried_ref.
     popping ''direction'' reference_page_direction_of (\<lambda>direction.
     popping ''candidates'' (list_of symbol_info_from_dict) (\<lambda>candidates.
     popping ''sessionId'' uuid_new (\<lambda>session_id.
     popping ''logicalRevision'' Inr (\<lambda>logical_revision.
     popping ''snapshotId'' Inr (\<lambda>snapshot_id.
     popping ''scope'' reference_page_scope_of (\<lambda>scope.
     popping ''coverage'' reference_page_coverage_from_dict (\<lambda>coverage.
     popping ''edges'' (list_of reference_edge_from_dict) (\<lambda>edges.
     popping ''nextCursor'' Inr (\<lambda>next_cursor.
     popping ''pageComplete'' Inr (\<lambda>page_complete.
     popping ''capabilities'' reference_capabilities_from_dict (\<lambda>capabilities.
     popping ''diagnostics'' Inr (\<lambda>diagnostics.
     popping_opt ''instructionScan'' (parse_union is_dict [reference_instruction_scan_from_dict]) (\<lambda>instruction_scan.
     (\<lambda>d. Inr \<lparr>reference_page_outcome = outcome,
        reference_page_queried_ref = queried_ref,
        reference_page_direction = direction,
        reference_page_candidates = candidates,
        reference_page_session_id = session_id,
        reference_page_logical_revision = logical_revision,
        reference_page_snapshot_id = snapshot_id,
        reference_page_scope = scope,
        reference_page_coverage = coverage,
        reference_page_edges = edges,
        reference_page_next_cursor = next_cursor,
        reference_page_page_complete = page_complete,
        reference_page_capabilities = capabilities,
        reference_page_diagnostics = diagnostics,
        reference_page_instruction_scan = instruction_scan\<rparr>)))))))))))))))))"

definition reference_page_ok :: "reference_page \<Rightarrow> bool" where
  "reference_page_ok x \<longleftrightarrow> list_all symbol_info_ok (reference_page_candidates x)
     \<and> reference_page_coverage_ok (reference_page_coverage x)
     \<and> list_all reference_edge_ok (reference_page_edges x)
     \<and> reference_capabilities_ok (reference_page_capabilities x)
     \<and> given_all (lenient_ok is_dict [reference_instruction_scan_from_dict] (\<lambda>_. True)) (reference_page_instruction_scan x)"

interpretation reference_page_wire: codec "\<lambda>x. JObj (reference_page_to_dict x)" reference_page_from_dict reference_page_ok
  by unfold_locales
    (simp add: reference_page_to_dict_def reference_page_from_dict_def reference_page_ok_def wire_simps cong: wire_cong,
     rule safe_readerI, unfold reference_page_from_dict_def, intro wire_rules)

end
