(* ===== verification/Wire_Source.thy ===== *)
theory Wire_Source
  imports Wire_References
begin

text \<open>
  Decompiled source and control-flow facts.
\<close>

datatype decompile_request_decompilation_mode = DecompileRequestDecompilationMode_AUTO | DecompileRequestDecompilationMode_FALLBACK | DecompileRequestDecompilationMode_RESTRUCTURE | DecompileRequestDecompilationMode_SIMPLE

fun decompile_request_decompilation_mode_value :: "decompile_request_decompilation_mode \<Rightarrow> string" where
  "decompile_request_decompilation_mode_value DecompileRequestDecompilationMode_AUTO = ''AUTO''"
| "decompile_request_decompilation_mode_value DecompileRequestDecompilationMode_FALLBACK = ''FALLBACK''"
| "decompile_request_decompilation_mode_value DecompileRequestDecompilationMode_RESTRUCTURE = ''RESTRUCTURE''"
| "decompile_request_decompilation_mode_value DecompileRequestDecompilationMode_SIMPLE = ''SIMPLE''"

definition decompile_request_decompilation_mode_of :: "json \<Rightarrow> py_exc + decompile_request_decompilation_mode" where
  "decompile_request_decompilation_mode_of = enum_of [DecompileRequestDecompilationMode_AUTO, DecompileRequestDecompilationMode_FALLBACK, DecompileRequestDecompilationMode_RESTRUCTURE, DecompileRequestDecompilationMode_SIMPLE] decompile_request_decompilation_mode_value"

interpretation decompile_request_decompilation_mode_wire: codec "\<lambda>m. JStr (decompile_request_decompilation_mode_value m)" decompile_request_decompilation_mode_of "\<lambda>_. True"
proof unfold_locales
  fix m
  show "decompile_request_decompilation_mode_of (JStr (decompile_request_decompilation_mode_value m)) = Inr m"
    by (cases m) (simp_all add: decompile_request_decompilation_mode_of_def enum_of_def)
qed (simp add: decompile_request_decompilation_mode_of_def safe_enum_of)

record decompile_request =
  decompile_request_ref :: symbol_ref
  decompile_request_representation :: "json unset"
  decompile_request_decompilation_mode :: "decompile_request_decompilation_mode unset"
  decompile_request_include_annotations :: "json unset"
  decompile_request_include_raw_debug_lines :: "json unset"
  decompile_request_strict :: "json unset"
  decompile_request_expected_session_id :: "uuid unset"
  decompile_request_expected_logical_revision :: "json unset"
  decompile_request_expected_source_snapshot_id :: "json unset"

definition decompile_request_to_dict :: "decompile_request \<Rightarrow> jdict" where
  "decompile_request_to_dict x =
     put_given ''expectedSourceSnapshotId'' (decompile_request_expected_source_snapshot_id x) (
     put_given ''expectedLogicalRevision'' (decompile_request_expected_logical_revision x) (
     put_given ''expectedSessionId'' (map_given (\<lambda>u. JStr (uuid_str u)) (decompile_request_expected_session_id x)) (
     put_given ''strict'' (decompile_request_strict x) (
     put_given ''includeRawDebugLines'' (decompile_request_include_raw_debug_lines x) (
     put_given ''includeAnnotations'' (decompile_request_include_annotations x) (
     put_given ''decompilationMode'' (map_given (\<lambda>m. JStr (decompile_request_decompilation_mode_value m)) (decompile_request_decompilation_mode x)) (
     put_given ''representation'' (decompile_request_representation x) (
     dict_update []
       [(''ref'', JObj (symbol_ref_to_dict (decompile_request_ref x)))]))))))))"

definition decompile_request_from_dict :: "json \<Rightarrow> py_exc + decompile_request" where
  "decompile_request_from_dict src = reading src (
     popping ''ref'' symbol_ref_from_dict (\<lambda>ref.
     popping_opt ''representation'' Inr (\<lambda>representation.
     popping_opt ''decompilationMode'' decompile_request_decompilation_mode_of (\<lambda>decompilation_mode.
     popping_opt ''includeAnnotations'' Inr (\<lambda>include_annotations.
     popping_opt ''includeRawDebugLines'' Inr (\<lambda>include_raw_debug_lines.
     popping_opt ''strict'' Inr (\<lambda>strict.
     popping_opt ''expectedSessionId'' uuid_new (\<lambda>expected_session_id.
     popping_opt ''expectedLogicalRevision'' Inr (\<lambda>expected_logical_revision.
     popping_opt ''expectedSourceSnapshotId'' Inr (\<lambda>expected_source_snapshot_id.
     (\<lambda>d. Inr \<lparr>decompile_request_ref = ref,
        decompile_request_representation = representation,
        decompile_request_decompilation_mode = decompilation_mode,
        decompile_request_include_annotations = include_annotations,
        decompile_request_include_raw_debug_lines = include_raw_debug_lines,
        decompile_request_strict = strict,
        decompile_request_expected_session_id = expected_session_id,
        decompile_request_expected_logical_revision = expected_logical_revision,
        decompile_request_expected_source_snapshot_id = expected_source_snapshot_id\<rparr>)))))))))))"

interpretation decompile_request_wire: codec "\<lambda>x. JObj (decompile_request_to_dict x)" decompile_request_from_dict "\<lambda>_. True"
  by unfold_locales
    (simp add: decompile_request_to_dict_def decompile_request_from_dict_def wire_simps cong: wire_cong,
     rule safe_readerI, unfold decompile_request_from_dict_def, intro wire_rules)

datatype decompile_result_outcome = DecompileResultOutcome_AMBIGUOUS | DecompileResultOutcome_NOT_FOUND | DecompileResultOutcome_PROVENANCE_UNAVAILABLE | DecompileResultOutcome_RESOLVED

fun decompile_result_outcome_value :: "decompile_result_outcome \<Rightarrow> string" where
  "decompile_result_outcome_value DecompileResultOutcome_AMBIGUOUS = ''AMBIGUOUS''"
| "decompile_result_outcome_value DecompileResultOutcome_NOT_FOUND = ''NOT_FOUND''"
| "decompile_result_outcome_value DecompileResultOutcome_PROVENANCE_UNAVAILABLE = ''PROVENANCE_UNAVAILABLE''"
| "decompile_result_outcome_value DecompileResultOutcome_RESOLVED = ''RESOLVED''"

definition decompile_result_outcome_of :: "json \<Rightarrow> py_exc + decompile_result_outcome" where
  "decompile_result_outcome_of = enum_of [DecompileResultOutcome_AMBIGUOUS, DecompileResultOutcome_NOT_FOUND, DecompileResultOutcome_PROVENANCE_UNAVAILABLE, DecompileResultOutcome_RESOLVED] decompile_result_outcome_value"

interpretation decompile_result_outcome_wire: codec "\<lambda>m. JStr (decompile_result_outcome_value m)" decompile_result_outcome_of "\<lambda>_. True"
proof unfold_locales
  fix m
  show "decompile_result_outcome_of (JStr (decompile_result_outcome_value m)) = Inr m"
    by (cases m) (simp_all add: decompile_result_outcome_of_def enum_of_def)
qed (simp add: decompile_result_outcome_of_def safe_enum_of)

datatype effective_source_settings_decompilation_mode = EffectiveSourceSettingsDecompilationMode_AUTO | EffectiveSourceSettingsDecompilationMode_FALLBACK | EffectiveSourceSettingsDecompilationMode_RESTRUCTURE | EffectiveSourceSettingsDecompilationMode_SIMPLE

fun effective_source_settings_decompilation_mode_value :: "effective_source_settings_decompilation_mode \<Rightarrow> string" where
  "effective_source_settings_decompilation_mode_value EffectiveSourceSettingsDecompilationMode_AUTO = ''AUTO''"
| "effective_source_settings_decompilation_mode_value EffectiveSourceSettingsDecompilationMode_FALLBACK = ''FALLBACK''"
| "effective_source_settings_decompilation_mode_value EffectiveSourceSettingsDecompilationMode_RESTRUCTURE = ''RESTRUCTURE''"
| "effective_source_settings_decompilation_mode_value EffectiveSourceSettingsDecompilationMode_SIMPLE = ''SIMPLE''"

definition effective_source_settings_decompilation_mode_of :: "json \<Rightarrow> py_exc + effective_source_settings_decompilation_mode" where
  "effective_source_settings_decompilation_mode_of = enum_of [EffectiveSourceSettingsDecompilationMode_AUTO, EffectiveSourceSettingsDecompilationMode_FALLBACK, EffectiveSourceSettingsDecompilationMode_RESTRUCTURE, EffectiveSourceSettingsDecompilationMode_SIMPLE] effective_source_settings_decompilation_mode_value"

interpretation effective_source_settings_decompilation_mode_wire: codec "\<lambda>m. JStr (effective_source_settings_decompilation_mode_value m)" effective_source_settings_decompilation_mode_of "\<lambda>_. True"
proof unfold_locales
  fix m
  show "effective_source_settings_decompilation_mode_of (JStr (effective_source_settings_decompilation_mode_value m)) = Inr m"
    by (cases m) (simp_all add: effective_source_settings_decompilation_mode_of_def enum_of_def)
qed (simp add: effective_source_settings_decompilation_mode_of_def safe_enum_of)

record effective_source_settings =
  effective_source_settings_decompilation_mode :: effective_source_settings_decompilation_mode
  effective_source_settings_fingerprint :: json

definition effective_source_settings_to_dict :: "effective_source_settings \<Rightarrow> jdict" where
  "effective_source_settings_to_dict x =
     dict_update []
       [(''decompilationMode'', JStr (effective_source_settings_decompilation_mode_value (effective_source_settings_decompilation_mode x))),
        (''fingerprint'', effective_source_settings_fingerprint x)]"

definition effective_source_settings_from_dict :: "json \<Rightarrow> py_exc + effective_source_settings" where
  "effective_source_settings_from_dict src = reading src (
     popping ''decompilationMode'' effective_source_settings_decompilation_mode_of (\<lambda>decompilation_mode.
     popping ''fingerprint'' Inr (\<lambda>fingerprint.
     (\<lambda>d. Inr \<lparr>effective_source_settings_decompilation_mode = decompilation_mode,
        effective_source_settings_fingerprint = fingerprint\<rparr>))))"

interpretation effective_source_settings_wire: codec "\<lambda>x. JObj (effective_source_settings_to_dict x)" effective_source_settings_from_dict "\<lambda>_. True"
  by unfold_locales
    (simp add: effective_source_settings_to_dict_def effective_source_settings_from_dict_def wire_simps cong: wire_cong,
     rule safe_readerI, unfold effective_source_settings_from_dict_def, intro wire_rules)

datatype decompile_result_status = DecompileResultStatus_COMPLETE | DecompileResultStatus_PARTIAL | DecompileResultStatus_UNAVAILABLE

fun decompile_result_status_value :: "decompile_result_status \<Rightarrow> string" where
  "decompile_result_status_value DecompileResultStatus_COMPLETE = ''COMPLETE''"
| "decompile_result_status_value DecompileResultStatus_PARTIAL = ''PARTIAL''"
| "decompile_result_status_value DecompileResultStatus_UNAVAILABLE = ''UNAVAILABLE''"

definition decompile_result_status_of :: "json \<Rightarrow> py_exc + decompile_result_status" where
  "decompile_result_status_of = enum_of [DecompileResultStatus_COMPLETE, DecompileResultStatus_PARTIAL, DecompileResultStatus_UNAVAILABLE] decompile_result_status_value"

interpretation decompile_result_status_wire: codec "\<lambda>m. JStr (decompile_result_status_value m)" decompile_result_status_of "\<lambda>_. True"
proof unfold_locales
  fix m
  show "decompile_result_status_of (JStr (decompile_result_status_value m)) = Inr m"
    by (cases m) (simp_all add: decompile_result_status_of_def enum_of_def)
qed (simp add: decompile_result_status_of_def safe_enum_of)

datatype decompile_result_representation = DecompileResultRepresentation_JAVA | DecompileResultRepresentation_SMALI

fun decompile_result_representation_value :: "decompile_result_representation \<Rightarrow> string" where
  "decompile_result_representation_value DecompileResultRepresentation_JAVA = ''JAVA''"
| "decompile_result_representation_value DecompileResultRepresentation_SMALI = ''SMALI''"

definition decompile_result_representation_of :: "json \<Rightarrow> py_exc + decompile_result_representation" where
  "decompile_result_representation_of = enum_of [DecompileResultRepresentation_JAVA, DecompileResultRepresentation_SMALI] decompile_result_representation_value"

interpretation decompile_result_representation_wire: codec "\<lambda>m. JStr (decompile_result_representation_value m)" decompile_result_representation_of "\<lambda>_. True"
proof unfold_locales
  fix m
  show "decompile_result_representation_of (JStr (decompile_result_representation_value m)) = Inr m"
    by (cases m) (simp_all add: decompile_result_representation_of_def enum_of_def)
qed (simp add: decompile_result_representation_of_def safe_enum_of)

datatype source_annotation_kind = SourceAnnotationKind_DECLARATION | SourceAnnotationKind_REFERENCE

fun source_annotation_kind_value :: "source_annotation_kind \<Rightarrow> string" where
  "source_annotation_kind_value SourceAnnotationKind_DECLARATION = ''DECLARATION''"
| "source_annotation_kind_value SourceAnnotationKind_REFERENCE = ''REFERENCE''"

definition source_annotation_kind_of :: "json \<Rightarrow> py_exc + source_annotation_kind" where
  "source_annotation_kind_of = enum_of [SourceAnnotationKind_DECLARATION, SourceAnnotationKind_REFERENCE] source_annotation_kind_value"

interpretation source_annotation_kind_wire: codec "\<lambda>m. JStr (source_annotation_kind_value m)" source_annotation_kind_of "\<lambda>_. True"
proof unfold_locales
  fix m
  show "source_annotation_kind_of (JStr (source_annotation_kind_value m)) = Inr m"
    by (cases m) (simp_all add: source_annotation_kind_of_def enum_of_def)
qed (simp add: source_annotation_kind_of_def safe_enum_of)

record source_annotation =
  source_annotation_kind :: source_annotation_kind
  source_annotation_position :: source_point
  source_annotation_target_ref :: symbol_ref
  source_annotation_precision :: json
  source_annotation_source_snapshot_id :: json

definition source_annotation_to_dict :: "source_annotation \<Rightarrow> jdict" where
  "source_annotation_to_dict x =
     dict_update []
       [(''kind'', JStr (source_annotation_kind_value (source_annotation_kind x))),
        (''position'', JObj (source_point_to_dict (source_annotation_position x))),
        (''targetRef'', JObj (symbol_ref_to_dict (source_annotation_target_ref x))),
        (''precision'', source_annotation_precision x),
        (''sourceSnapshotId'', source_annotation_source_snapshot_id x)]"

definition source_annotation_from_dict :: "json \<Rightarrow> py_exc + source_annotation" where
  "source_annotation_from_dict src = reading src (
     popping ''kind'' source_annotation_kind_of (\<lambda>kind.
     popping ''position'' source_point_from_dict (\<lambda>position.
     popping ''targetRef'' symbol_ref_from_dict (\<lambda>target_ref.
     popping ''precision'' (literal (JStr ''EXACT'')) (\<lambda>precision.
     popping ''sourceSnapshotId'' Inr (\<lambda>source_snapshot_id.
     (\<lambda>d. Inr \<lparr>source_annotation_kind = kind,
        source_annotation_position = position,
        source_annotation_target_ref = target_ref,
        source_annotation_precision = precision,
        source_annotation_source_snapshot_id = source_snapshot_id\<rparr>)))))))"

definition source_annotation_ok :: "source_annotation \<Rightarrow> bool" where
  "source_annotation_ok x \<longleftrightarrow> json_eq (source_annotation_precision x) (JStr ''EXACT'')"

interpretation source_annotation_wire: codec "\<lambda>x. JObj (source_annotation_to_dict x)" source_annotation_from_dict source_annotation_ok
  by unfold_locales
    (simp add: source_annotation_to_dict_def source_annotation_from_dict_def source_annotation_ok_def wire_simps cong: wire_cong,
     rule safe_readerI, unfold source_annotation_from_dict_def, intro wire_rules)

datatype source_variable_kind = SourceVariableKind_LOCAL | SourceVariableKind_PARAMETER

fun source_variable_kind_value :: "source_variable_kind \<Rightarrow> string" where
  "source_variable_kind_value SourceVariableKind_LOCAL = ''LOCAL''"
| "source_variable_kind_value SourceVariableKind_PARAMETER = ''PARAMETER''"

definition source_variable_kind_of :: "json \<Rightarrow> py_exc + source_variable_kind" where
  "source_variable_kind_of = enum_of [SourceVariableKind_LOCAL, SourceVariableKind_PARAMETER] source_variable_kind_value"

interpretation source_variable_kind_wire: codec "\<lambda>m. JStr (source_variable_kind_value m)" source_variable_kind_of "\<lambda>_. True"
proof unfold_locales
  fix m
  show "source_variable_kind_of (JStr (source_variable_kind_value m)) = Inr m"
    by (cases m) (simp_all add: source_variable_kind_of_def enum_of_def)
qed (simp add: source_variable_kind_of_def safe_enum_of)

datatype source_variable_persistability = SourceVariablePersistability_SUPPORTED | SourceVariablePersistability_UNSUPPORTED

fun source_variable_persistability_value :: "source_variable_persistability \<Rightarrow> string" where
  "source_variable_persistability_value SourceVariablePersistability_SUPPORTED = ''SUPPORTED''"
| "source_variable_persistability_value SourceVariablePersistability_UNSUPPORTED = ''UNSUPPORTED''"

definition source_variable_persistability_of :: "json \<Rightarrow> py_exc + source_variable_persistability" where
  "source_variable_persistability_of = enum_of [SourceVariablePersistability_SUPPORTED, SourceVariablePersistability_UNSUPPORTED] source_variable_persistability_value"

interpretation source_variable_persistability_wire: codec "\<lambda>m. JStr (source_variable_persistability_value m)" source_variable_persistability_of "\<lambda>_. True"
proof unfold_locales
  fix m
  show "source_variable_persistability_of (JStr (source_variable_persistability_value m)) = Inr m"
    by (cases m) (simp_all add: source_variable_persistability_of_def enum_of_def)
qed (simp add: source_variable_persistability_of_def safe_enum_of)

record source_variable =
  source_variable_kind :: source_variable_kind
  source_variable_method :: method_symbol_ref
  source_variable_parameter_index :: json
  source_variable_display_name :: json
  source_variable_range :: source_range
  source_variable_source_snapshot_id :: json
  source_variable_persistability :: source_variable_persistability

definition source_variable_to_dict :: "source_variable \<Rightarrow> jdict" where
  "source_variable_to_dict x =
     dict_update []
       [(''kind'', JStr (source_variable_kind_value (source_variable_kind x))),
        (''method'', JObj (method_symbol_ref_to_dict (source_variable_method x))),
        (''parameterIndex'', source_variable_parameter_index x),
        (''displayName'', source_variable_display_name x),
        (''range'', JObj (source_range_to_dict (source_variable_range x))),
        (''sourceSnapshotId'', source_variable_source_snapshot_id x),
        (''persistability'', JStr (source_variable_persistability_value (source_variable_persistability x)))]"

definition source_variable_from_dict :: "json \<Rightarrow> py_exc + source_variable" where
  "source_variable_from_dict src = reading src (
     popping ''kind'' source_variable_kind_of (\<lambda>kind.
     popping ''method'' method_symbol_ref_from_dict (\<lambda>method.
     popping ''parameterIndex'' Inr (\<lambda>parameter_index.
     popping ''displayName'' Inr (\<lambda>display_name.
     popping ''range'' source_range_from_dict (\<lambda>range.
     popping ''sourceSnapshotId'' Inr (\<lambda>source_snapshot_id.
     popping ''persistability'' source_variable_persistability_of (\<lambda>persistability.
     (\<lambda>d. Inr \<lparr>source_variable_kind = kind,
        source_variable_method = method,
        source_variable_parameter_index = parameter_index,
        source_variable_display_name = display_name,
        source_variable_range = range,
        source_variable_source_snapshot_id = source_snapshot_id,
        source_variable_persistability = persistability\<rparr>)))))))))"

definition source_variable_ok :: "source_variable \<Rightarrow> bool" where
  "source_variable_ok x \<longleftrightarrow> method_symbol_ref_ok (source_variable_method x)"

interpretation source_variable_wire: codec "\<lambda>x. JObj (source_variable_to_dict x)" source_variable_from_dict source_variable_ok
  by unfold_locales
    (simp add: source_variable_to_dict_def source_variable_from_dict_def source_variable_ok_def wire_simps cong: wire_cong,
     rule safe_readerI, unfold source_variable_from_dict_def, intro wire_rules)

record source_capabilities =
  source_capabilities_source :: source_availability
  source_capabilities_declaration_positions :: source_availability
  source_capabilities_reference_targets :: source_availability
  source_capabilities_method_range :: source_availability
  source_capabilities_raw_debug_lines :: source_availability
  source_capabilities_original_bytecode_offsets :: source_availability
  source_capabilities_class_errors :: source_availability

definition source_capabilities_to_dict :: "source_capabilities \<Rightarrow> jdict" where
  "source_capabilities_to_dict x =
     dict_update []
       [(''source'', JStr (source_availability_value (source_capabilities_source x))),
        (''declarationPositions'', JStr (source_availability_value (source_capabilities_declaration_positions x))),
        (''referenceTargets'', JStr (source_availability_value (source_capabilities_reference_targets x))),
        (''methodRange'', JStr (source_availability_value (source_capabilities_method_range x))),
        (''rawDebugLines'', JStr (source_availability_value (source_capabilities_raw_debug_lines x))),
        (''originalBytecodeOffsets'', JStr (source_availability_value (source_capabilities_original_bytecode_offsets x))),
        (''classErrors'', JStr (source_availability_value (source_capabilities_class_errors x)))]"

definition source_capabilities_from_dict :: "json \<Rightarrow> py_exc + source_capabilities" where
  "source_capabilities_from_dict src = reading src (
     popping ''source'' source_availability_of (\<lambda>source.
     popping ''declarationPositions'' source_availability_of (\<lambda>declaration_positions.
     popping ''referenceTargets'' source_availability_of (\<lambda>reference_targets.
     popping ''methodRange'' source_availability_of (\<lambda>method_range.
     popping ''rawDebugLines'' source_availability_of (\<lambda>raw_debug_lines.
     popping ''originalBytecodeOffsets'' source_availability_of (\<lambda>original_bytecode_offsets.
     popping ''classErrors'' source_availability_of (\<lambda>class_errors.
     (\<lambda>d. Inr \<lparr>source_capabilities_source = source,
        source_capabilities_declaration_positions = declaration_positions,
        source_capabilities_reference_targets = reference_targets,
        source_capabilities_method_range = method_range,
        source_capabilities_raw_debug_lines = raw_debug_lines,
        source_capabilities_original_bytecode_offsets = original_bytecode_offsets,
        source_capabilities_class_errors = class_errors\<rparr>)))))))))"

interpretation source_capabilities_wire: codec "\<lambda>x. JObj (source_capabilities_to_dict x)" source_capabilities_from_dict "\<lambda>_. True"
  by unfold_locales
    (simp add: source_capabilities_to_dict_def source_capabilities_from_dict_def wire_simps cong: wire_cong,
     rule safe_readerI, unfold source_capabilities_from_dict_def, intro wire_rules)

record decompile_result =
  decompile_result_outcome :: decompile_result_outcome
  decompile_result_queried_ref :: symbol_ref
  decompile_result_source_owner_ref :: "symbol_ref lenient"
  decompile_result_candidates :: "symbol_info list"
  decompile_result_session_id :: uuid
  decompile_result_logical_revision :: json
  decompile_result_source_snapshot_id :: json
  decompile_result_effective_settings :: effective_source_settings
  decompile_result_status :: decompile_result_status
  decompile_result_representation :: decompile_result_representation
  decompile_result_source :: json
  decompile_result_method_range_available :: json
  decompile_result_method_range :: "source_range lenient"
  decompile_result_method_source :: json
  decompile_result_annotations :: "source_annotation list"
  decompile_result_variables :: "source_variable list"
  decompile_result_raw_debug_lines :: json
  decompile_result_class_error_count :: json
  decompile_result_diagnostics :: json
  decompile_result_capabilities :: source_capabilities

definition decompile_result_to_dict :: "decompile_result \<Rightarrow> jdict" where
  "decompile_result_to_dict x =
     dict_update []
       [(''outcome'', JStr (decompile_result_outcome_value (decompile_result_outcome x))),
        (''queriedRef'', JObj (symbol_ref_to_dict (decompile_result_queried_ref x))),
        (''sourceOwnerRef'', lenient_json (\<lambda>x. JObj (symbol_ref_to_dict x)) (decompile_result_source_owner_ref x)),
        (''candidates'', JArr (map (\<lambda>x. JObj (symbol_info_to_dict x)) (decompile_result_candidates x))),
        (''sessionId'', JStr (uuid_str (decompile_result_session_id x))),
        (''logicalRevision'', decompile_result_logical_revision x),
        (''sourceSnapshotId'', decompile_result_source_snapshot_id x),
        (''effectiveSettings'', JObj (effective_source_settings_to_dict (decompile_result_effective_settings x))),
        (''status'', JStr (decompile_result_status_value (decompile_result_status x))),
        (''representation'', JStr (decompile_result_representation_value (decompile_result_representation x))),
        (''source'', decompile_result_source x),
        (''methodRangeAvailable'', decompile_result_method_range_available x),
        (''methodRange'', lenient_json (\<lambda>x. JObj (source_range_to_dict x)) (decompile_result_method_range x)),
        (''methodSource'', decompile_result_method_source x),
        (''annotations'', JArr (map (\<lambda>x. JObj (source_annotation_to_dict x)) (decompile_result_annotations x))),
        (''variables'', JArr (map (\<lambda>x. JObj (source_variable_to_dict x)) (decompile_result_variables x))),
        (''rawDebugLines'', decompile_result_raw_debug_lines x),
        (''classErrorCount'', decompile_result_class_error_count x),
        (''diagnostics'', decompile_result_diagnostics x),
        (''capabilities'', JObj (source_capabilities_to_dict (decompile_result_capabilities x)))]"

definition decompile_result_from_dict :: "json \<Rightarrow> py_exc + decompile_result" where
  "decompile_result_from_dict src = reading src (
     popping ''outcome'' decompile_result_outcome_of (\<lambda>outcome.
     popping ''queriedRef'' symbol_ref_from_dict (\<lambda>queried_ref.
     popping ''sourceOwnerRef'' (parse_union is_dict [symbol_ref_from_dict]) (\<lambda>source_owner_ref.
     popping ''candidates'' (list_of symbol_info_from_dict) (\<lambda>candidates.
     popping ''sessionId'' uuid_new (\<lambda>session_id.
     popping ''logicalRevision'' Inr (\<lambda>logical_revision.
     popping ''sourceSnapshotId'' Inr (\<lambda>source_snapshot_id.
     popping ''effectiveSettings'' effective_source_settings_from_dict (\<lambda>effective_settings.
     popping ''status'' decompile_result_status_of (\<lambda>status.
     popping ''representation'' decompile_result_representation_of (\<lambda>representation.
     popping ''source'' Inr (\<lambda>source.
     popping ''methodRangeAvailable'' Inr (\<lambda>method_range_available.
     popping ''methodRange'' (parse_union is_dict [source_range_from_dict]) (\<lambda>method_range.
     popping ''methodSource'' Inr (\<lambda>method_source.
     popping ''annotations'' (list_of source_annotation_from_dict) (\<lambda>annotations.
     popping ''variables'' (list_of source_variable_from_dict) (\<lambda>variables.
     popping ''rawDebugLines'' Inr (\<lambda>raw_debug_lines.
     popping ''classErrorCount'' Inr (\<lambda>class_error_count.
     popping ''diagnostics'' Inr (\<lambda>diagnostics.
     popping ''capabilities'' source_capabilities_from_dict (\<lambda>capabilities.
     (\<lambda>d. Inr \<lparr>decompile_result_outcome = outcome,
        decompile_result_queried_ref = queried_ref,
        decompile_result_source_owner_ref = source_owner_ref,
        decompile_result_candidates = candidates,
        decompile_result_session_id = session_id,
        decompile_result_logical_revision = logical_revision,
        decompile_result_source_snapshot_id = source_snapshot_id,
        decompile_result_effective_settings = effective_settings,
        decompile_result_status = status,
        decompile_result_representation = representation,
        decompile_result_source = source,
        decompile_result_method_range_available = method_range_available,
        decompile_result_method_range = method_range,
        decompile_result_method_source = method_source,
        decompile_result_annotations = annotations,
        decompile_result_variables = variables,
        decompile_result_raw_debug_lines = raw_debug_lines,
        decompile_result_class_error_count = class_error_count,
        decompile_result_diagnostics = diagnostics,
        decompile_result_capabilities = capabilities\<rparr>))))))))))))))))))))))"

definition decompile_result_ok :: "decompile_result \<Rightarrow> bool" where
  "decompile_result_ok x \<longleftrightarrow> lenient_ok is_dict [symbol_ref_from_dict] (\<lambda>_. True) (decompile_result_source_owner_ref x)
     \<and> list_all symbol_info_ok (decompile_result_candidates x)
     \<and> lenient_ok is_dict [source_range_from_dict] (\<lambda>_. True) (decompile_result_method_range x)
     \<and> list_all source_annotation_ok (decompile_result_annotations x)
     \<and> list_all source_variable_ok (decompile_result_variables x)"

interpretation decompile_result_wire: codec "\<lambda>x. JObj (decompile_result_to_dict x)" decompile_result_from_dict decompile_result_ok
  by unfold_locales
    (simp add: decompile_result_to_dict_def decompile_result_from_dict_def decompile_result_ok_def wire_simps cong: wire_cong,
     rule safe_readerI, unfold decompile_result_from_dict_def, intro wire_rules)

record control_flow_request =
  control_flow_request_ref :: method_symbol_ref
  control_flow_request_strict :: "json unset"
  control_flow_request_expected_session_id :: "uuid unset"
  control_flow_request_expected_logical_revision :: "json unset"

definition control_flow_request_to_dict :: "control_flow_request \<Rightarrow> jdict" where
  "control_flow_request_to_dict x =
     put_given ''expectedLogicalRevision'' (control_flow_request_expected_logical_revision x) (
     put_given ''expectedSessionId'' (map_given (\<lambda>u. JStr (uuid_str u)) (control_flow_request_expected_session_id x)) (
     put_given ''strict'' (control_flow_request_strict x) (
     dict_update []
       [(''ref'', JObj (method_symbol_ref_to_dict (control_flow_request_ref x)))])))"

definition control_flow_request_from_dict :: "json \<Rightarrow> py_exc + control_flow_request" where
  "control_flow_request_from_dict src = reading src (
     popping ''ref'' method_symbol_ref_from_dict (\<lambda>ref.
     popping_opt ''strict'' Inr (\<lambda>strict.
     popping_opt ''expectedSessionId'' uuid_new (\<lambda>expected_session_id.
     popping_opt ''expectedLogicalRevision'' Inr (\<lambda>expected_logical_revision.
     (\<lambda>d. Inr \<lparr>control_flow_request_ref = ref,
        control_flow_request_strict = strict,
        control_flow_request_expected_session_id = expected_session_id,
        control_flow_request_expected_logical_revision = expected_logical_revision\<rparr>))))))"

definition control_flow_request_ok :: "control_flow_request \<Rightarrow> bool" where
  "control_flow_request_ok x \<longleftrightarrow> method_symbol_ref_ok (control_flow_request_ref x)"

interpretation control_flow_request_wire: codec "\<lambda>x. JObj (control_flow_request_to_dict x)" control_flow_request_from_dict control_flow_request_ok
  by unfold_locales
    (simp add: control_flow_request_to_dict_def control_flow_request_from_dict_def control_flow_request_ok_def wire_simps cong: wire_cong,
     rule safe_readerI, unfold control_flow_request_from_dict_def, intro wire_rules)

datatype control_flow_result_outcome = ControlFlowResultOutcome_AMBIGUOUS | ControlFlowResultOutcome_NOT_FOUND | ControlFlowResultOutcome_PROVENANCE_UNAVAILABLE | ControlFlowResultOutcome_RESOLVED

fun control_flow_result_outcome_value :: "control_flow_result_outcome \<Rightarrow> string" where
  "control_flow_result_outcome_value ControlFlowResultOutcome_AMBIGUOUS = ''AMBIGUOUS''"
| "control_flow_result_outcome_value ControlFlowResultOutcome_NOT_FOUND = ''NOT_FOUND''"
| "control_flow_result_outcome_value ControlFlowResultOutcome_PROVENANCE_UNAVAILABLE = ''PROVENANCE_UNAVAILABLE''"
| "control_flow_result_outcome_value ControlFlowResultOutcome_RESOLVED = ''RESOLVED''"

definition control_flow_result_outcome_of :: "json \<Rightarrow> py_exc + control_flow_result_outcome" where
  "control_flow_result_outcome_of = enum_of [ControlFlowResultOutcome_AMBIGUOUS, ControlFlowResultOutcome_NOT_FOUND, ControlFlowResultOutcome_PROVENANCE_UNAVAILABLE, ControlFlowResultOutcome_RESOLVED] control_flow_result_outcome_value"

interpretation control_flow_result_outcome_wire: codec "\<lambda>m. JStr (control_flow_result_outcome_value m)" control_flow_result_outcome_of "\<lambda>_. True"
proof unfold_locales
  fix m
  show "control_flow_result_outcome_of (JStr (control_flow_result_outcome_value m)) = Inr m"
    by (cases m) (simp_all add: control_flow_result_outcome_of_def enum_of_def)
qed (simp add: control_flow_result_outcome_of_def safe_enum_of)

datatype control_flow_result_availability = ControlFlowResultAvailability_AVAILABLE | ControlFlowResultAvailability_FAILED | ControlFlowResultAvailability_UNAVAILABLE

fun control_flow_result_availability_value :: "control_flow_result_availability \<Rightarrow> string" where
  "control_flow_result_availability_value ControlFlowResultAvailability_AVAILABLE = ''AVAILABLE''"
| "control_flow_result_availability_value ControlFlowResultAvailability_FAILED = ''FAILED''"
| "control_flow_result_availability_value ControlFlowResultAvailability_UNAVAILABLE = ''UNAVAILABLE''"

definition control_flow_result_availability_of :: "json \<Rightarrow> py_exc + control_flow_result_availability" where
  "control_flow_result_availability_of = enum_of [ControlFlowResultAvailability_AVAILABLE, ControlFlowResultAvailability_FAILED, ControlFlowResultAvailability_UNAVAILABLE] control_flow_result_availability_value"

interpretation control_flow_result_availability_wire: codec "\<lambda>m. JStr (control_flow_result_availability_value m)" control_flow_result_availability_of "\<lambda>_. True"
proof unfold_locales
  fix m
  show "control_flow_result_availability_of (JStr (control_flow_result_availability_value m)) = Inr m"
    by (cases m) (simp_all add: control_flow_result_availability_of_def enum_of_def)
qed (simp add: control_flow_result_availability_of_def safe_enum_of)

datatype control_flow_result_precision = ControlFlowResultPrecision_EXACT | ControlFlowResultPrecision_UNAVAILABLE

fun control_flow_result_precision_value :: "control_flow_result_precision \<Rightarrow> string" where
  "control_flow_result_precision_value ControlFlowResultPrecision_EXACT = ''EXACT''"
| "control_flow_result_precision_value ControlFlowResultPrecision_UNAVAILABLE = ''UNAVAILABLE''"

definition control_flow_result_precision_of :: "json \<Rightarrow> py_exc + control_flow_result_precision" where
  "control_flow_result_precision_of = enum_of [ControlFlowResultPrecision_EXACT, ControlFlowResultPrecision_UNAVAILABLE] control_flow_result_precision_value"

interpretation control_flow_result_precision_wire: codec "\<lambda>m. JStr (control_flow_result_precision_value m)" control_flow_result_precision_of "\<lambda>_. True"
proof unfold_locales
  fix m
  show "control_flow_result_precision_of (JStr (control_flow_result_precision_value m)) = Inr m"
    by (cases m) (simp_all add: control_flow_result_precision_of_def enum_of_def)
qed (simp add: control_flow_result_precision_of_def safe_enum_of)

record control_flow_instruction =
  control_flow_instruction_offset :: json
  control_flow_instruction_length :: json
  control_flow_instruction_opcode :: json

definition control_flow_instruction_to_dict :: "control_flow_instruction \<Rightarrow> jdict" where
  "control_flow_instruction_to_dict x =
     dict_update []
       [(''offset'', control_flow_instruction_offset x),
        (''length'', control_flow_instruction_length x),
        (''opcode'', control_flow_instruction_opcode x)]"

definition control_flow_instruction_from_dict :: "json \<Rightarrow> py_exc + control_flow_instruction" where
  "control_flow_instruction_from_dict src = reading src (
     popping ''offset'' Inr (\<lambda>offset.
     popping ''length'' Inr (\<lambda>length.
     popping ''opcode'' Inr (\<lambda>opcode.
     (\<lambda>d. Inr \<lparr>control_flow_instruction_offset = offset,
        control_flow_instruction_length = length,
        control_flow_instruction_opcode = opcode\<rparr>)))))"

interpretation control_flow_instruction_wire: codec "\<lambda>x. JObj (control_flow_instruction_to_dict x)" control_flow_instruction_from_dict "\<lambda>_. True"
  by unfold_locales
    (simp add: control_flow_instruction_to_dict_def control_flow_instruction_from_dict_def wire_simps cong: wire_cong,
     rule safe_readerI, unfold control_flow_instruction_from_dict_def, intro wire_rules)

datatype control_flow_payload_kind = ControlFlowPayloadKind_ARRAY_DATA | ControlFlowPayloadKind_PACKED_SWITCH | ControlFlowPayloadKind_SPARSE_SWITCH

fun control_flow_payload_kind_value :: "control_flow_payload_kind \<Rightarrow> string" where
  "control_flow_payload_kind_value ControlFlowPayloadKind_ARRAY_DATA = ''ARRAY_DATA''"
| "control_flow_payload_kind_value ControlFlowPayloadKind_PACKED_SWITCH = ''PACKED_SWITCH''"
| "control_flow_payload_kind_value ControlFlowPayloadKind_SPARSE_SWITCH = ''SPARSE_SWITCH''"

definition control_flow_payload_kind_of :: "json \<Rightarrow> py_exc + control_flow_payload_kind" where
  "control_flow_payload_kind_of = enum_of [ControlFlowPayloadKind_ARRAY_DATA, ControlFlowPayloadKind_PACKED_SWITCH, ControlFlowPayloadKind_SPARSE_SWITCH] control_flow_payload_kind_value"

interpretation control_flow_payload_kind_wire: codec "\<lambda>m. JStr (control_flow_payload_kind_value m)" control_flow_payload_kind_of "\<lambda>_. True"
proof unfold_locales
  fix m
  show "control_flow_payload_kind_of (JStr (control_flow_payload_kind_value m)) = Inr m"
    by (cases m) (simp_all add: control_flow_payload_kind_of_def enum_of_def)
qed (simp add: control_flow_payload_kind_of_def safe_enum_of)

record control_flow_payload =
  control_flow_payload_offset :: json
  control_flow_payload_length :: json
  control_flow_payload_kind :: control_flow_payload_kind

definition control_flow_payload_to_dict :: "control_flow_payload \<Rightarrow> jdict" where
  "control_flow_payload_to_dict x =
     dict_update []
       [(''offset'', control_flow_payload_offset x),
        (''length'', control_flow_payload_length x),
        (''kind'', JStr (control_flow_payload_kind_value (control_flow_payload_kind x)))]"

definition control_flow_payload_from_dict :: "json \<Rightarrow> py_exc + control_flow_payload" where
  "control_flow_payload_from_dict src = reading src (
     popping ''offset'' Inr (\<lambda>offset.
     popping ''length'' Inr (\<lambda>length.
     popping ''kind'' control_flow_payload_kind_of (\<lambda>kind.
     (\<lambda>d. Inr \<lparr>control_flow_payload_offset = offset,
        control_flow_payload_length = length,
        control_flow_payload_kind = kind\<rparr>)))))"

interpretation control_flow_payload_wire: codec "\<lambda>x. JObj (control_flow_payload_to_dict x)" control_flow_payload_from_dict "\<lambda>_. True"
  by unfold_locales
    (simp add: control_flow_payload_to_dict_def control_flow_payload_from_dict_def wire_simps cong: wire_cong,
     rule safe_readerI, unfold control_flow_payload_from_dict_def, intro wire_rules)

record control_flow_branch =
  control_flow_branch_offset :: json
  control_flow_branch_opcode :: json
  control_flow_branch_target :: json
  control_flow_branch_next_offset :: json

definition control_flow_branch_to_dict :: "control_flow_branch \<Rightarrow> jdict" where
  "control_flow_branch_to_dict x =
     dict_update []
       [(''offset'', control_flow_branch_offset x),
        (''opcode'', control_flow_branch_opcode x),
        (''target'', control_flow_branch_target x),
        (''nextOffset'', control_flow_branch_next_offset x)]"

definition control_flow_branch_from_dict :: "json \<Rightarrow> py_exc + control_flow_branch" where
  "control_flow_branch_from_dict src = reading src (
     popping ''offset'' Inr (\<lambda>offset.
     popping ''opcode'' Inr (\<lambda>opcode.
     popping ''target'' Inr (\<lambda>target.
     popping ''nextOffset'' Inr (\<lambda>next_offset.
     (\<lambda>d. Inr \<lparr>control_flow_branch_offset = offset,
        control_flow_branch_opcode = opcode,
        control_flow_branch_target = target,
        control_flow_branch_next_offset = next_offset\<rparr>))))))"

interpretation control_flow_branch_wire: codec "\<lambda>x. JObj (control_flow_branch_to_dict x)" control_flow_branch_from_dict "\<lambda>_. True"
  by unfold_locales
    (simp add: control_flow_branch_to_dict_def control_flow_branch_from_dict_def wire_simps cong: wire_cong,
     rule safe_readerI, unfold control_flow_branch_from_dict_def, intro wire_rules)

record control_flow_case =
  control_flow_case_key :: json
  control_flow_case_target :: json

definition control_flow_case_to_dict :: "control_flow_case \<Rightarrow> jdict" where
  "control_flow_case_to_dict x =
     dict_update []
       [(''key'', control_flow_case_key x),
        (''target'', control_flow_case_target x)]"

definition control_flow_case_from_dict :: "json \<Rightarrow> py_exc + control_flow_case" where
  "control_flow_case_from_dict src = reading src (
     popping ''key'' Inr (\<lambda>key.
     popping ''target'' Inr (\<lambda>target.
     (\<lambda>d. Inr \<lparr>control_flow_case_key = key,
        control_flow_case_target = target\<rparr>))))"

interpretation control_flow_case_wire: codec "\<lambda>x. JObj (control_flow_case_to_dict x)" control_flow_case_from_dict "\<lambda>_. True"
  by unfold_locales
    (simp add: control_flow_case_to_dict_def control_flow_case_from_dict_def wire_simps cong: wire_cong,
     rule safe_readerI, unfold control_flow_case_from_dict_def, intro wire_rules)

record control_flow_switch =
  control_flow_switch_offset :: json
  control_flow_switch_opcode :: json
  control_flow_switch_payload_offset :: json
  control_flow_switch_default_offset :: json
  control_flow_switch_cases :: "control_flow_case list"

definition control_flow_switch_to_dict :: "control_flow_switch \<Rightarrow> jdict" where
  "control_flow_switch_to_dict x =
     dict_update []
       [(''offset'', control_flow_switch_offset x),
        (''opcode'', control_flow_switch_opcode x),
        (''payloadOffset'', control_flow_switch_payload_offset x),
        (''defaultOffset'', control_flow_switch_default_offset x),
        (''cases'', JArr (map (\<lambda>x. JObj (control_flow_case_to_dict x)) (control_flow_switch_cases x)))]"

definition control_flow_switch_from_dict :: "json \<Rightarrow> py_exc + control_flow_switch" where
  "control_flow_switch_from_dict src = reading src (
     popping ''offset'' Inr (\<lambda>offset.
     popping ''opcode'' Inr (\<lambda>opcode.
     popping ''payloadOffset'' Inr (\<lambda>payload_offset.
     popping ''defaultOffset'' Inr (\<lambda>default_offset.
     popping ''cases'' (list_of control_flow_case_from_dict) (\<lambda>cases.
     (\<lambda>d. Inr \<lparr>control_flow_switch_offset = offset,
        control_flow_switch_opcode = opcode,
        control_flow_switch_payload_offset = payload_offset,
        control_flow_switch_default_offset = default_offset,
        control_flow_switch_cases = cases\<rparr>)))))))"

interpretation control_flow_switch_wire: codec "\<lambda>x. JObj (control_flow_switch_to_dict x)" control_flow_switch_from_dict "\<lambda>_. True"
  by unfold_locales
    (simp add: control_flow_switch_to_dict_def control_flow_switch_from_dict_def wire_simps cong: wire_cong,
     rule safe_readerI, unfold control_flow_switch_from_dict_def, intro wire_rules)

record control_flow_array_data =
  control_flow_array_data_offset :: json
  control_flow_array_data_payload_offset :: json

definition control_flow_array_data_to_dict :: "control_flow_array_data \<Rightarrow> jdict" where
  "control_flow_array_data_to_dict x =
     dict_update []
       [(''offset'', control_flow_array_data_offset x),
        (''payloadOffset'', control_flow_array_data_payload_offset x)]"

definition control_flow_array_data_from_dict :: "json \<Rightarrow> py_exc + control_flow_array_data" where
  "control_flow_array_data_from_dict src = reading src (
     popping ''offset'' Inr (\<lambda>offset.
     popping ''payloadOffset'' Inr (\<lambda>payload_offset.
     (\<lambda>d. Inr \<lparr>control_flow_array_data_offset = offset,
        control_flow_array_data_payload_offset = payload_offset\<rparr>))))"

interpretation control_flow_array_data_wire: codec "\<lambda>x. JObj (control_flow_array_data_to_dict x)" control_flow_array_data_from_dict "\<lambda>_. True"
  by unfold_locales
    (simp add: control_flow_array_data_to_dict_def control_flow_array_data_from_dict_def wire_simps cong: wire_cong,
     rule safe_readerI, unfold control_flow_array_data_from_dict_def, intro wire_rules)

record control_flow_handler =
  control_flow_handler_type :: json
  control_flow_handler_target :: json

definition control_flow_handler_to_dict :: "control_flow_handler \<Rightarrow> jdict" where
  "control_flow_handler_to_dict x =
     dict_update []
       [(''type'', control_flow_handler_type x),
        (''target'', control_flow_handler_target x)]"

definition control_flow_handler_from_dict :: "json \<Rightarrow> py_exc + control_flow_handler" where
  "control_flow_handler_from_dict src = reading src (
     popping ''type'' Inr (\<lambda>type.
     popping ''target'' Inr (\<lambda>target.
     (\<lambda>d. Inr \<lparr>control_flow_handler_type = type,
        control_flow_handler_target = target\<rparr>))))"

interpretation control_flow_handler_wire: codec "\<lambda>x. JObj (control_flow_handler_to_dict x)" control_flow_handler_from_dict "\<lambda>_. True"
  by unfold_locales
    (simp add: control_flow_handler_to_dict_def control_flow_handler_from_dict_def wire_simps cong: wire_cong,
     rule safe_readerI, unfold control_flow_handler_from_dict_def, intro wire_rules)

record control_flow_try =
  control_flow_try_start :: json
  control_flow_try_end_exclusive :: json
  control_flow_try_handlers :: "control_flow_handler list"

definition control_flow_try_to_dict :: "control_flow_try \<Rightarrow> jdict" where
  "control_flow_try_to_dict x =
     dict_update []
       [(''start'', control_flow_try_start x),
        (''endExclusive'', control_flow_try_end_exclusive x),
        (''handlers'', JArr (map (\<lambda>x. JObj (control_flow_handler_to_dict x)) (control_flow_try_handlers x)))]"

definition control_flow_try_from_dict :: "json \<Rightarrow> py_exc + control_flow_try" where
  "control_flow_try_from_dict src = reading src (
     popping ''start'' Inr (\<lambda>start.
     popping ''endExclusive'' Inr (\<lambda>end_exclusive.
     popping ''handlers'' (list_of control_flow_handler_from_dict) (\<lambda>handlers.
     (\<lambda>d. Inr \<lparr>control_flow_try_start = start,
        control_flow_try_end_exclusive = end_exclusive,
        control_flow_try_handlers = handlers\<rparr>)))))"

interpretation control_flow_try_wire: codec "\<lambda>x. JObj (control_flow_try_to_dict x)" control_flow_try_from_dict "\<lambda>_. True"
  by unfold_locales
    (simp add: control_flow_try_to_dict_def control_flow_try_from_dict_def wire_simps cong: wire_cong,
     rule safe_readerI, unfold control_flow_try_from_dict_def, intro wire_rules)

record control_flow_result =
  control_flow_result_outcome :: control_flow_result_outcome
  control_flow_result_queried_ref :: symbol_ref
  control_flow_result_candidates :: "symbol_info list"
  control_flow_result_session_id :: uuid
  control_flow_result_logical_revision :: json
  control_flow_result_publication_epoch :: json
  control_flow_result_effective_settings_hash :: json
  control_flow_result_snapshot_id :: json
  control_flow_result_representation :: json
  control_flow_result_unit :: json
  control_flow_result_base :: json
  control_flow_result_availability :: control_flow_result_availability
  control_flow_result_precision :: control_flow_result_precision
  control_flow_result_coverage :: json
  control_flow_result_reason :: json
  control_flow_result_code_units :: json
  control_flow_result_instructions :: "control_flow_instruction list"
  control_flow_result_payloads :: "control_flow_payload list"
  control_flow_result_branches :: "control_flow_branch list"
  control_flow_result_switches :: "control_flow_switch list"
  control_flow_result_array_data :: "control_flow_array_data list"
  control_flow_result_tries :: "control_flow_try list"
  control_flow_result_diagnostics :: json

definition control_flow_result_to_dict :: "control_flow_result \<Rightarrow> jdict" where
  "control_flow_result_to_dict x =
     dict_update []
       [(''outcome'', JStr (control_flow_result_outcome_value (control_flow_result_outcome x))),
        (''queriedRef'', JObj (symbol_ref_to_dict (control_flow_result_queried_ref x))),
        (''candidates'', JArr (map (\<lambda>x. JObj (symbol_info_to_dict x)) (control_flow_result_candidates x))),
        (''sessionId'', JStr (uuid_str (control_flow_result_session_id x))),
        (''logicalRevision'', control_flow_result_logical_revision x),
        (''publicationEpoch'', control_flow_result_publication_epoch x),
        (''effectiveSettingsHash'', control_flow_result_effective_settings_hash x),
        (''snapshotId'', control_flow_result_snapshot_id x),
        (''representation'', control_flow_result_representation x),
        (''unit'', control_flow_result_unit x),
        (''base'', control_flow_result_base x),
        (''availability'', JStr (control_flow_result_availability_value (control_flow_result_availability x))),
        (''precision'', JStr (control_flow_result_precision_value (control_flow_result_precision x))),
        (''coverage'', control_flow_result_coverage x),
        (''reason'', control_flow_result_reason x),
        (''codeUnits'', control_flow_result_code_units x),
        (''instructions'', JArr (map (\<lambda>x. JObj (control_flow_instruction_to_dict x)) (control_flow_result_instructions x))),
        (''payloads'', JArr (map (\<lambda>x. JObj (control_flow_payload_to_dict x)) (control_flow_result_payloads x))),
        (''branches'', JArr (map (\<lambda>x. JObj (control_flow_branch_to_dict x)) (control_flow_result_branches x))),
        (''switches'', JArr (map (\<lambda>x. JObj (control_flow_switch_to_dict x)) (control_flow_result_switches x))),
        (''arrayData'', JArr (map (\<lambda>x. JObj (control_flow_array_data_to_dict x)) (control_flow_result_array_data x))),
        (''tries'', JArr (map (\<lambda>x. JObj (control_flow_try_to_dict x)) (control_flow_result_tries x))),
        (''diagnostics'', control_flow_result_diagnostics x)]"

definition control_flow_result_from_dict :: "json \<Rightarrow> py_exc + control_flow_result" where
  "control_flow_result_from_dict src = reading src (
     popping ''outcome'' control_flow_result_outcome_of (\<lambda>outcome.
     popping ''queriedRef'' symbol_ref_from_dict (\<lambda>queried_ref.
     popping ''candidates'' (list_of symbol_info_from_dict) (\<lambda>candidates.
     popping ''sessionId'' uuid_new (\<lambda>session_id.
     popping ''logicalRevision'' Inr (\<lambda>logical_revision.
     popping ''publicationEpoch'' Inr (\<lambda>publication_epoch.
     popping ''effectiveSettingsHash'' Inr (\<lambda>effective_settings_hash.
     popping ''snapshotId'' Inr (\<lambda>snapshot_id.
     popping ''representation'' (literal (JStr ''LOADED_DEX_CONTROL_FLOW_FACTS_V1'')) (\<lambda>representation.
     popping ''unit'' (literal (JStr ''DEX_CODE_UNIT_16'')) (\<lambda>unit.
     popping ''base'' (literal (JStr ''LOADED_METHOD_INSNS_START'')) (\<lambda>base.
     popping ''availability'' control_flow_result_availability_of (\<lambda>availability.
     popping ''precision'' control_flow_result_precision_of (\<lambda>precision.
     popping ''coverage'' (literal (JStr ''PARTIAL'')) (\<lambda>coverage.
     popping ''reason'' Inr (\<lambda>reason.
     popping ''codeUnits'' Inr (\<lambda>code_units.
     popping ''instructions'' (list_of control_flow_instruction_from_dict) (\<lambda>instructions.
     popping ''payloads'' (list_of control_flow_payload_from_dict) (\<lambda>payloads.
     popping ''branches'' (list_of control_flow_branch_from_dict) (\<lambda>branches.
     popping ''switches'' (list_of control_flow_switch_from_dict) (\<lambda>switches.
     popping ''arrayData'' (list_of control_flow_array_data_from_dict) (\<lambda>array_data.
     popping ''tries'' (list_of control_flow_try_from_dict) (\<lambda>tries.
     popping ''diagnostics'' Inr (\<lambda>diagnostics.
     (\<lambda>d. Inr \<lparr>control_flow_result_outcome = outcome,
        control_flow_result_queried_ref = queried_ref,
        control_flow_result_candidates = candidates,
        control_flow_result_session_id = session_id,
        control_flow_result_logical_revision = logical_revision,
        control_flow_result_publication_epoch = publication_epoch,
        control_flow_result_effective_settings_hash = effective_settings_hash,
        control_flow_result_snapshot_id = snapshot_id,
        control_flow_result_representation = representation,
        control_flow_result_unit = unit,
        control_flow_result_base = base,
        control_flow_result_availability = availability,
        control_flow_result_precision = precision,
        control_flow_result_coverage = coverage,
        control_flow_result_reason = reason,
        control_flow_result_code_units = code_units,
        control_flow_result_instructions = instructions,
        control_flow_result_payloads = payloads,
        control_flow_result_branches = branches,
        control_flow_result_switches = switches,
        control_flow_result_array_data = array_data,
        control_flow_result_tries = tries,
        control_flow_result_diagnostics = diagnostics\<rparr>)))))))))))))))))))))))))"

definition control_flow_result_ok :: "control_flow_result \<Rightarrow> bool" where
  "control_flow_result_ok x \<longleftrightarrow> list_all symbol_info_ok (control_flow_result_candidates x)
     \<and> json_eq (control_flow_result_representation x) (JStr ''LOADED_DEX_CONTROL_FLOW_FACTS_V1'')
     \<and> json_eq (control_flow_result_unit x) (JStr ''DEX_CODE_UNIT_16'')
     \<and> json_eq (control_flow_result_base x) (JStr ''LOADED_METHOD_INSNS_START'')
     \<and> json_eq (control_flow_result_coverage x) (JStr ''PARTIAL'')"

interpretation control_flow_result_wire: codec "\<lambda>x. JObj (control_flow_result_to_dict x)" control_flow_result_from_dict control_flow_result_ok
  by unfold_locales
    (simp add: control_flow_result_to_dict_def control_flow_result_from_dict_def control_flow_result_ok_def wire_simps cong: wire_cong,
     rule safe_readerI, unfold control_flow_result_from_dict_def, intro wire_rules)

end
