(* ===== verification/Wire_Project.thy ===== *)
theory Wire_Project
  imports Wire_Codec
begin

text \<open>
  The models of the project, its settings, pending edits and mapping transfers.
\<close>

datatype revision_set_persisted_identity_state = RevisionSetPersistedIdentityState_FAILED | RevisionSetPersistedIdentityState_PENDING | RevisionSetPersistedIdentityState_READY

fun revision_set_persisted_identity_state_value :: "revision_set_persisted_identity_state \<Rightarrow> string" where
  "revision_set_persisted_identity_state_value RevisionSetPersistedIdentityState_FAILED = ''FAILED''"
| "revision_set_persisted_identity_state_value RevisionSetPersistedIdentityState_PENDING = ''PENDING''"
| "revision_set_persisted_identity_state_value RevisionSetPersistedIdentityState_READY = ''READY''"

definition revision_set_persisted_identity_state_of :: "json \<Rightarrow> py_exc + revision_set_persisted_identity_state" where
  "revision_set_persisted_identity_state_of = enum_of [RevisionSetPersistedIdentityState_FAILED, RevisionSetPersistedIdentityState_PENDING, RevisionSetPersistedIdentityState_READY] revision_set_persisted_identity_state_value"

interpretation revision_set_persisted_identity_state_wire: codec "\<lambda>m. JStr (revision_set_persisted_identity_state_value m)" revision_set_persisted_identity_state_of "\<lambda>_. True"
proof unfold_locales
  fix m
  show "revision_set_persisted_identity_state_of (JStr (revision_set_persisted_identity_state_value m)) = Inr m"
    by (cases m) (simp_all add: revision_set_persisted_identity_state_of_def enum_of_def)
qed (simp add: revision_set_persisted_identity_state_of_def safe_enum_of)

record revision_set =
  revision_set_session_id :: json
  revision_set_logical_revision :: json
  revision_set_index_revision :: json
  revision_set_persisted_identity :: json
  revision_set_persisted_identity_state :: revision_set_persisted_identity_state
  revision_set_extra :: jdict

definition revision_set_to_dict :: "revision_set \<Rightarrow> jdict" where
  "revision_set_to_dict x =
     dict_update (dict_update [] (revision_set_extra x))
       [(''sessionId'', revision_set_session_id x),
        (''logicalRevision'', revision_set_logical_revision x),
        (''indexRevision'', revision_set_index_revision x),
        (''persistedIdentity'', revision_set_persisted_identity x),
        (''persistedIdentityState'', JStr (revision_set_persisted_identity_state_value (revision_set_persisted_identity_state x)))]"

definition revision_set_from_dict :: "json \<Rightarrow> py_exc + revision_set" where
  "revision_set_from_dict src = reading src (
     popping ''sessionId'' Inr (\<lambda>session_id.
     popping ''logicalRevision'' Inr (\<lambda>logical_revision.
     popping ''indexRevision'' Inr (\<lambda>index_revision.
     popping ''persistedIdentity'' Inr (\<lambda>persisted_identity.
     popping ''persistedIdentityState'' revision_set_persisted_identity_state_of (\<lambda>persisted_identity_state.
     (\<lambda>d. Inr \<lparr>revision_set_session_id = session_id,
        revision_set_logical_revision = logical_revision,
        revision_set_index_revision = index_revision,
        revision_set_persisted_identity = persisted_identity,
        revision_set_persisted_identity_state = persisted_identity_state,
        revision_set_extra = d\<rparr>)))))))"

definition revision_set_ok :: "revision_set \<Rightarrow> bool" where
  "revision_set_ok x \<longleftrightarrow> extra_ok {''sessionId'', ''logicalRevision'', ''indexRevision'', ''persistedIdentity'', ''persistedIdentityState''} (revision_set_extra x)"

interpretation revision_set_wire: codec "\<lambda>x. JObj (revision_set_to_dict x)" revision_set_from_dict revision_set_ok
  by unfold_locales
    (simp add: revision_set_to_dict_def revision_set_from_dict_def revision_set_ok_def wire_simps cong: wire_cong,
     rule safe_readerI, unfold revision_set_from_dict_def, intro wire_rules)

record fixed_project =
  fixed_project_inputs :: json
  fixed_project_dirty :: json
  fixed_project_revisions :: revision_set
  fixed_project_project_path :: "json unset"
  fixed_project_extra :: jdict

definition fixed_project_to_dict :: "fixed_project \<Rightarrow> jdict" where
  "fixed_project_to_dict x =
     put_given ''projectPath'' (fixed_project_project_path x) (
     dict_update (dict_update [] (fixed_project_extra x))
       [(''inputs'', fixed_project_inputs x),
        (''dirty'', fixed_project_dirty x),
        (''revisions'', JObj (revision_set_to_dict (fixed_project_revisions x)))])"

definition fixed_project_from_dict :: "json \<Rightarrow> py_exc + fixed_project" where
  "fixed_project_from_dict src = reading src (
     popping ''inputs'' Inr (\<lambda>inputs.
     popping ''dirty'' Inr (\<lambda>dirty.
     popping ''revisions'' revision_set_from_dict (\<lambda>revisions.
     popping_opt ''projectPath'' Inr (\<lambda>project_path.
     (\<lambda>d. Inr \<lparr>fixed_project_inputs = inputs,
        fixed_project_dirty = dirty,
        fixed_project_revisions = revisions,
        fixed_project_project_path = project_path,
        fixed_project_extra = d\<rparr>))))))"

definition fixed_project_ok :: "fixed_project \<Rightarrow> bool" where
  "fixed_project_ok x \<longleftrightarrow> extra_ok {''inputs'', ''dirty'', ''revisions'', ''projectPath''} (fixed_project_extra x)
     \<and> revision_set_ok (fixed_project_revisions x)"

interpretation fixed_project_wire: codec "\<lambda>x. JObj (fixed_project_to_dict x)" fixed_project_from_dict fixed_project_ok
  by unfold_locales
    (simp add: fixed_project_to_dict_def fixed_project_from_dict_def fixed_project_ok_def wire_simps cong: wire_cong,
     rule safe_readerI, unfold fixed_project_from_dict_def, intro wire_rules)

datatype project_settings_decompilation_mode = ProjectSettingsDecompilationMode_AUTO | ProjectSettingsDecompilationMode_FALLBACK | ProjectSettingsDecompilationMode_RESTRUCTURE | ProjectSettingsDecompilationMode_SIMPLE

fun project_settings_decompilation_mode_value :: "project_settings_decompilation_mode \<Rightarrow> string" where
  "project_settings_decompilation_mode_value ProjectSettingsDecompilationMode_AUTO = ''AUTO''"
| "project_settings_decompilation_mode_value ProjectSettingsDecompilationMode_FALLBACK = ''FALLBACK''"
| "project_settings_decompilation_mode_value ProjectSettingsDecompilationMode_RESTRUCTURE = ''RESTRUCTURE''"
| "project_settings_decompilation_mode_value ProjectSettingsDecompilationMode_SIMPLE = ''SIMPLE''"

definition project_settings_decompilation_mode_of :: "json \<Rightarrow> py_exc + project_settings_decompilation_mode" where
  "project_settings_decompilation_mode_of = enum_of [ProjectSettingsDecompilationMode_AUTO, ProjectSettingsDecompilationMode_FALLBACK, ProjectSettingsDecompilationMode_RESTRUCTURE, ProjectSettingsDecompilationMode_SIMPLE] project_settings_decompilation_mode_value"

interpretation project_settings_decompilation_mode_wire: codec "\<lambda>m. JStr (project_settings_decompilation_mode_value m)" project_settings_decompilation_mode_of "\<lambda>_. True"
proof unfold_locales
  fix m
  show "project_settings_decompilation_mode_of (JStr (project_settings_decompilation_mode_value m)) = Inr m"
    by (cases m) (simp_all add: project_settings_decompilation_mode_of_def enum_of_def)
qed (simp add: project_settings_decompilation_mode_of_def safe_enum_of)

record project_settings =
  project_settings_mappings_path :: json
  project_settings_decompilation_mode :: project_settings_decompilation_mode
  project_settings_revisions :: revision_set
  project_settings_extra :: jdict

definition project_settings_to_dict :: "project_settings \<Rightarrow> jdict" where
  "project_settings_to_dict x =
     dict_update (dict_update [] (project_settings_extra x))
       [(''mappingsPath'', project_settings_mappings_path x),
        (''decompilationMode'', JStr (project_settings_decompilation_mode_value (project_settings_decompilation_mode x))),
        (''revisions'', JObj (revision_set_to_dict (project_settings_revisions x)))]"

definition project_settings_from_dict :: "json \<Rightarrow> py_exc + project_settings" where
  "project_settings_from_dict src = reading src (
     popping ''mappingsPath'' Inr (\<lambda>mappings_path.
     popping ''decompilationMode'' project_settings_decompilation_mode_of (\<lambda>decompilation_mode.
     popping ''revisions'' revision_set_from_dict (\<lambda>revisions.
     (\<lambda>d. Inr \<lparr>project_settings_mappings_path = mappings_path,
        project_settings_decompilation_mode = decompilation_mode,
        project_settings_revisions = revisions,
        project_settings_extra = d\<rparr>)))))"

definition project_settings_ok :: "project_settings \<Rightarrow> bool" where
  "project_settings_ok x \<longleftrightarrow> extra_ok {''mappingsPath'', ''decompilationMode'', ''revisions''} (project_settings_extra x)
     \<and> revision_set_ok (project_settings_revisions x)"

interpretation project_settings_wire: codec "\<lambda>x. JObj (project_settings_to_dict x)" project_settings_from_dict project_settings_ok
  by unfold_locales
    (simp add: project_settings_to_dict_def project_settings_from_dict_def project_settings_ok_def wire_simps cong: wire_cong,
     rule safe_readerI, unfold project_settings_from_dict_def, intro wire_rules)

record save_project_request =
  save_project_request_target_path :: "json unset"
  save_project_request_expected_logical_revision :: "json unset"
  save_project_request_expected_session_id :: "uuid unset"
  save_project_request_extra :: jdict

definition save_project_request_to_dict :: "save_project_request \<Rightarrow> jdict" where
  "save_project_request_to_dict x =
     put_given ''expectedSessionId'' (map_given (\<lambda>u. JStr (uuid_str u)) (save_project_request_expected_session_id x)) (
     put_given ''expectedLogicalRevision'' (save_project_request_expected_logical_revision x) (
     put_given ''targetPath'' (save_project_request_target_path x) (
     dict_update [] (save_project_request_extra x))))"

definition save_project_request_from_dict :: "json \<Rightarrow> py_exc + save_project_request" where
  "save_project_request_from_dict src = reading src (
     popping_opt ''targetPath'' Inr (\<lambda>target_path.
     popping_opt ''expectedLogicalRevision'' Inr (\<lambda>expected_logical_revision.
     popping_opt ''expectedSessionId'' uuid_new (\<lambda>expected_session_id.
     (\<lambda>d. Inr \<lparr>save_project_request_target_path = target_path,
        save_project_request_expected_logical_revision = expected_logical_revision,
        save_project_request_expected_session_id = expected_session_id,
        save_project_request_extra = d\<rparr>)))))"

definition save_project_request_ok :: "save_project_request \<Rightarrow> bool" where
  "save_project_request_ok x \<longleftrightarrow> extra_ok {''targetPath'', ''expectedLogicalRevision'', ''expectedSessionId''} (save_project_request_extra x)"

interpretation save_project_request_wire: codec "\<lambda>x. JObj (save_project_request_to_dict x)" save_project_request_from_dict save_project_request_ok
  by unfold_locales
    (simp add: save_project_request_to_dict_def save_project_request_from_dict_def save_project_request_ok_def wire_simps cong: wire_cong,
     rule safe_readerI, unfold save_project_request_from_dict_def, intro wire_rules)

record reload_project_request =
  reload_project_request_discard_unsaved :: json
  reload_project_request_expected_session_id :: uuid
  reload_project_request_expected_logical_revision :: json
  reload_project_request_extra :: jdict

definition reload_project_request_to_dict :: "reload_project_request \<Rightarrow> jdict" where
  "reload_project_request_to_dict x =
     dict_update (dict_update [] (reload_project_request_extra x))
       [(''discardUnsaved'', reload_project_request_discard_unsaved x),
        (''expectedSessionId'', JStr (uuid_str (reload_project_request_expected_session_id x))),
        (''expectedLogicalRevision'', reload_project_request_expected_logical_revision x)]"

definition reload_project_request_from_dict :: "json \<Rightarrow> py_exc + reload_project_request" where
  "reload_project_request_from_dict src = reading src (
     popping ''discardUnsaved'' Inr (\<lambda>discard_unsaved.
     popping ''expectedSessionId'' uuid_new (\<lambda>expected_session_id.
     popping ''expectedLogicalRevision'' Inr (\<lambda>expected_logical_revision.
     (\<lambda>d. Inr \<lparr>reload_project_request_discard_unsaved = discard_unsaved,
        reload_project_request_expected_session_id = expected_session_id,
        reload_project_request_expected_logical_revision = expected_logical_revision,
        reload_project_request_extra = d\<rparr>)))))"

definition reload_project_request_ok :: "reload_project_request \<Rightarrow> bool" where
  "reload_project_request_ok x \<longleftrightarrow> extra_ok {''discardUnsaved'', ''expectedSessionId'', ''expectedLogicalRevision''} (reload_project_request_extra x)"

interpretation reload_project_request_wire: codec "\<lambda>x. JObj (reload_project_request_to_dict x)" reload_project_request_from_dict reload_project_request_ok
  by unfold_locales
    (simp add: reload_project_request_to_dict_def reload_project_request_from_dict_def reload_project_request_ok_def wire_simps cong: wire_cong,
     rule safe_readerI, unfold reload_project_request_from_dict_def, intro wire_rules)

record update_project_settings_request =
  update_project_settings_request_mappings_path :: json
  update_project_settings_request_expected_logical_revision :: json
  update_project_settings_request_expected_session_id :: uuid
  update_project_settings_request_extra :: jdict

definition update_project_settings_request_to_dict :: "update_project_settings_request \<Rightarrow> jdict" where
  "update_project_settings_request_to_dict x =
     dict_update (dict_update [] (update_project_settings_request_extra x))
       [(''mappingsPath'', update_project_settings_request_mappings_path x),
        (''expectedLogicalRevision'', update_project_settings_request_expected_logical_revision x),
        (''expectedSessionId'', JStr (uuid_str (update_project_settings_request_expected_session_id x)))]"

definition update_project_settings_request_from_dict :: "json \<Rightarrow> py_exc + update_project_settings_request" where
  "update_project_settings_request_from_dict src = reading src (
     popping ''mappingsPath'' Inr (\<lambda>mappings_path.
     popping ''expectedLogicalRevision'' Inr (\<lambda>expected_logical_revision.
     popping ''expectedSessionId'' uuid_new (\<lambda>expected_session_id.
     (\<lambda>d. Inr \<lparr>update_project_settings_request_mappings_path = mappings_path,
        update_project_settings_request_expected_logical_revision = expected_logical_revision,
        update_project_settings_request_expected_session_id = expected_session_id,
        update_project_settings_request_extra = d\<rparr>)))))"

definition update_project_settings_request_ok :: "update_project_settings_request \<Rightarrow> bool" where
  "update_project_settings_request_ok x \<longleftrightarrow> extra_ok {''mappingsPath'', ''expectedLogicalRevision'', ''expectedSessionId''} (update_project_settings_request_extra x)"

interpretation update_project_settings_request_wire: codec "\<lambda>x. JObj (update_project_settings_request_to_dict x)" update_project_settings_request_from_dict update_project_settings_request_ok
  by unfold_locales
    (simp add: update_project_settings_request_to_dict_def update_project_settings_request_from_dict_def update_project_settings_request_ok_def wire_simps cong: wire_cong,
     rule safe_readerI, unfold update_project_settings_request_from_dict_def, intro wire_rules)

record pending_edits_code_data =
  pending_edits_code_data_extra :: jdict

definition pending_edits_code_data_to_dict :: "pending_edits_code_data \<Rightarrow> jdict" where
  "pending_edits_code_data_to_dict x =
     dict_update [] (pending_edits_code_data_extra x)"

definition pending_edits_code_data_from_dict :: "json \<Rightarrow> py_exc + pending_edits_code_data" where
  "pending_edits_code_data_from_dict src = reading src (
     (\<lambda>d. Inr \<lparr>pending_edits_code_data_extra = d\<rparr>))"

definition pending_edits_code_data_ok :: "pending_edits_code_data \<Rightarrow> bool" where
  "pending_edits_code_data_ok x \<longleftrightarrow> extra_ok {} (pending_edits_code_data_extra x)"

interpretation pending_edits_code_data_wire: codec "\<lambda>x. JObj (pending_edits_code_data_to_dict x)" pending_edits_code_data_from_dict pending_edits_code_data_ok
  by unfold_locales
    (simp add: pending_edits_code_data_to_dict_def pending_edits_code_data_from_dict_def pending_edits_code_data_ok_def wire_simps cong: wire_cong,
     rule safe_readerI, unfold pending_edits_code_data_from_dict_def, intro wire_rules)

record pending_edits =
  pending_edits_session_id :: json
  pending_edits_logical_revision :: json
  pending_edits_dirty :: json
  pending_edits_code_data :: pending_edits_code_data
  pending_edits_mappings_path :: "json unset"
  pending_edits_extra :: jdict

definition pending_edits_to_dict :: "pending_edits \<Rightarrow> jdict" where
  "pending_edits_to_dict x =
     put_given ''mappingsPath'' (pending_edits_mappings_path x) (
     dict_update (dict_update [] (pending_edits_extra x))
       [(''sessionId'', pending_edits_session_id x),
        (''logicalRevision'', pending_edits_logical_revision x),
        (''dirty'', pending_edits_dirty x),
        (''codeData'', JObj (pending_edits_code_data_to_dict (pending_edits_code_data x)))])"

definition pending_edits_from_dict :: "json \<Rightarrow> py_exc + pending_edits" where
  "pending_edits_from_dict src = reading src (
     popping ''sessionId'' Inr (\<lambda>session_id.
     popping ''logicalRevision'' Inr (\<lambda>logical_revision.
     popping ''dirty'' Inr (\<lambda>dirty.
     popping ''codeData'' pending_edits_code_data_from_dict (\<lambda>code_data.
     popping_opt ''mappingsPath'' Inr (\<lambda>mappings_path.
     (\<lambda>d. Inr \<lparr>pending_edits_session_id = session_id,
        pending_edits_logical_revision = logical_revision,
        pending_edits_dirty = dirty,
        pending_edits_code_data = code_data,
        pending_edits_mappings_path = mappings_path,
        pending_edits_extra = d\<rparr>)))))))"

definition pending_edits_ok :: "pending_edits \<Rightarrow> bool" where
  "pending_edits_ok x \<longleftrightarrow> extra_ok {''sessionId'', ''logicalRevision'', ''dirty'', ''codeData'', ''mappingsPath''} (pending_edits_extra x)
     \<and> pending_edits_code_data_ok (pending_edits_code_data x)"

interpretation pending_edits_wire: codec "\<lambda>x. JObj (pending_edits_to_dict x)" pending_edits_from_dict pending_edits_ok
  by unfold_locales
    (simp add: pending_edits_to_dict_def pending_edits_from_dict_def pending_edits_ok_def wire_simps cong: wire_cong,
     rule safe_readerI, unfold pending_edits_from_dict_def, intro wire_rules)

record mapping_export_request =
  mapping_export_request_target_path :: json
  mapping_export_request_format :: json
  mapping_export_request_expected_session_id :: uuid
  mapping_export_request_expected_logical_revision :: json

definition mapping_export_request_to_dict :: "mapping_export_request \<Rightarrow> jdict" where
  "mapping_export_request_to_dict x =
     dict_update []
       [(''targetPath'', mapping_export_request_target_path x),
        (''format'', mapping_export_request_format x),
        (''expectedSessionId'', JStr (uuid_str (mapping_export_request_expected_session_id x))),
        (''expectedLogicalRevision'', mapping_export_request_expected_logical_revision x)]"

definition mapping_export_request_from_dict :: "json \<Rightarrow> py_exc + mapping_export_request" where
  "mapping_export_request_from_dict src = reading src (
     popping ''targetPath'' Inr (\<lambda>target_path.
     popping ''format'' (literal (JStr ''TINY_V2'')) (\<lambda>format.
     popping ''expectedSessionId'' uuid_new (\<lambda>expected_session_id.
     popping ''expectedLogicalRevision'' Inr (\<lambda>expected_logical_revision.
     (\<lambda>d. Inr \<lparr>mapping_export_request_target_path = target_path,
        mapping_export_request_format = format,
        mapping_export_request_expected_session_id = expected_session_id,
        mapping_export_request_expected_logical_revision = expected_logical_revision\<rparr>))))))"

definition mapping_export_request_ok :: "mapping_export_request \<Rightarrow> bool" where
  "mapping_export_request_ok x \<longleftrightarrow> json_eq (mapping_export_request_format x) (JStr ''TINY_V2'')"

interpretation mapping_export_request_wire: codec "\<lambda>x. JObj (mapping_export_request_to_dict x)" mapping_export_request_from_dict mapping_export_request_ok
  by unfold_locales
    (simp add: mapping_export_request_to_dict_def mapping_export_request_from_dict_def mapping_export_request_ok_def wire_simps cong: wire_cong,
     rule safe_readerI, unfold mapping_export_request_from_dict_def, intro wire_rules)

record mapping_import_request =
  mapping_import_request_source_path :: json
  mapping_import_request_format :: json
  mapping_import_request_mode :: json
  mapping_import_request_expected_session_id :: uuid
  mapping_import_request_expected_logical_revision :: json

definition mapping_import_request_to_dict :: "mapping_import_request \<Rightarrow> jdict" where
  "mapping_import_request_to_dict x =
     dict_update []
       [(''sourcePath'', mapping_import_request_source_path x),
        (''format'', mapping_import_request_format x),
        (''mode'', mapping_import_request_mode x),
        (''expectedSessionId'', JStr (uuid_str (mapping_import_request_expected_session_id x))),
        (''expectedLogicalRevision'', mapping_import_request_expected_logical_revision x)]"

definition mapping_import_request_from_dict :: "json \<Rightarrow> py_exc + mapping_import_request" where
  "mapping_import_request_from_dict src = reading src (
     popping ''sourcePath'' Inr (\<lambda>source_path.
     popping ''format'' (literal (JStr ''TINY_V2'')) (\<lambda>format.
     popping ''mode'' (literal (JStr ''MERGE_FAIL_ON_CONFLICT'')) (\<lambda>mode.
     popping ''expectedSessionId'' uuid_new (\<lambda>expected_session_id.
     popping ''expectedLogicalRevision'' Inr (\<lambda>expected_logical_revision.
     (\<lambda>d. Inr \<lparr>mapping_import_request_source_path = source_path,
        mapping_import_request_format = format,
        mapping_import_request_mode = mode,
        mapping_import_request_expected_session_id = expected_session_id,
        mapping_import_request_expected_logical_revision = expected_logical_revision\<rparr>)))))))"

definition mapping_import_request_ok :: "mapping_import_request \<Rightarrow> bool" where
  "mapping_import_request_ok x \<longleftrightarrow> json_eq (mapping_import_request_format x) (JStr ''TINY_V2'')
     \<and> json_eq (mapping_import_request_mode x) (JStr ''MERGE_FAIL_ON_CONFLICT'')"

interpretation mapping_import_request_wire: codec "\<lambda>x. JObj (mapping_import_request_to_dict x)" mapping_import_request_from_dict mapping_import_request_ok
  by unfold_locales
    (simp add: mapping_import_request_to_dict_def mapping_import_request_from_dict_def mapping_import_request_ok_def wire_simps cong: wire_cong,
     rule safe_readerI, unfold mapping_import_request_from_dict_def, intro wire_rules)

record mapping_export_counts =
  mapping_export_counts_classes :: json
  mapping_export_counts_methods :: json
  mapping_export_counts_fields :: json
  mapping_export_counts_comments :: json

definition mapping_export_counts_to_dict :: "mapping_export_counts \<Rightarrow> jdict" where
  "mapping_export_counts_to_dict x =
     dict_update []
       [(''classes'', mapping_export_counts_classes x),
        (''methods'', mapping_export_counts_methods x),
        (''fields'', mapping_export_counts_fields x),
        (''comments'', mapping_export_counts_comments x)]"

definition mapping_export_counts_from_dict :: "json \<Rightarrow> py_exc + mapping_export_counts" where
  "mapping_export_counts_from_dict src = reading src (
     popping ''classes'' Inr (\<lambda>classes.
     popping ''methods'' Inr (\<lambda>methods.
     popping ''fields'' Inr (\<lambda>fields.
     popping ''comments'' Inr (\<lambda>comments.
     (\<lambda>d. Inr \<lparr>mapping_export_counts_classes = classes,
        mapping_export_counts_methods = methods,
        mapping_export_counts_fields = fields,
        mapping_export_counts_comments = comments\<rparr>))))))"

interpretation mapping_export_counts_wire: codec "\<lambda>x. JObj (mapping_export_counts_to_dict x)" mapping_export_counts_from_dict "\<lambda>_. True"
  by unfold_locales
    (simp add: mapping_export_counts_to_dict_def mapping_export_counts_from_dict_def wire_simps cong: wire_cong,
     rule safe_readerI, unfold mapping_export_counts_from_dict_def, intro wire_rules)

record mapping_export_receipt_omissions_item =
  mapping_export_receipt_omissions_item_extra :: jdict

definition mapping_export_receipt_omissions_item_to_dict :: "mapping_export_receipt_omissions_item \<Rightarrow> jdict" where
  "mapping_export_receipt_omissions_item_to_dict x =
     dict_update [] (mapping_export_receipt_omissions_item_extra x)"

definition mapping_export_receipt_omissions_item_from_dict :: "json \<Rightarrow> py_exc + mapping_export_receipt_omissions_item" where
  "mapping_export_receipt_omissions_item_from_dict src = reading src (
     (\<lambda>d. Inr \<lparr>mapping_export_receipt_omissions_item_extra = d\<rparr>))"

definition mapping_export_receipt_omissions_item_ok :: "mapping_export_receipt_omissions_item \<Rightarrow> bool" where
  "mapping_export_receipt_omissions_item_ok x \<longleftrightarrow> extra_ok {} (mapping_export_receipt_omissions_item_extra x)"

interpretation mapping_export_receipt_omissions_item_wire: codec "\<lambda>x. JObj (mapping_export_receipt_omissions_item_to_dict x)" mapping_export_receipt_omissions_item_from_dict mapping_export_receipt_omissions_item_ok
  by unfold_locales
    (simp add: mapping_export_receipt_omissions_item_to_dict_def mapping_export_receipt_omissions_item_from_dict_def mapping_export_receipt_omissions_item_ok_def wire_simps cong: wire_cong,
     rule safe_readerI, unfold mapping_export_receipt_omissions_item_from_dict_def, intro wire_rules)

record mapping_export_receipt =
  mapping_export_receipt_format :: json
  mapping_export_receipt_target_path :: json
  mapping_export_receipt_session_id :: uuid
  mapping_export_receipt_logical_revision :: json
  mapping_export_receipt_source :: json
  mapping_export_receipt_completeness :: json
  mapping_export_receipt_exported :: mapping_export_counts
  mapping_export_receipt_bytes :: json
  mapping_export_receipt_sha256 :: json
  mapping_export_receipt_omissions :: "mapping_export_receipt_omissions_item list"
  mapping_export_receipt_project_mutated :: json

definition mapping_export_receipt_to_dict :: "mapping_export_receipt \<Rightarrow> jdict" where
  "mapping_export_receipt_to_dict x =
     dict_update []
       [(''format'', mapping_export_receipt_format x),
        (''targetPath'', mapping_export_receipt_target_path x),
        (''sessionId'', JStr (uuid_str (mapping_export_receipt_session_id x))),
        (''logicalRevision'', mapping_export_receipt_logical_revision x),
        (''source'', mapping_export_receipt_source x),
        (''completeness'', mapping_export_receipt_completeness x),
        (''exported'', JObj (mapping_export_counts_to_dict (mapping_export_receipt_exported x))),
        (''bytes'', mapping_export_receipt_bytes x),
        (''sha256'', mapping_export_receipt_sha256 x),
        (''omissions'', JArr (map (\<lambda>x. JObj (mapping_export_receipt_omissions_item_to_dict x)) (mapping_export_receipt_omissions x))),
        (''projectMutated'', mapping_export_receipt_project_mutated x)]"

definition mapping_export_receipt_from_dict :: "json \<Rightarrow> py_exc + mapping_export_receipt" where
  "mapping_export_receipt_from_dict src = reading src (
     popping ''format'' (literal (JStr ''TINY_V2'')) (\<lambda>format.
     popping ''targetPath'' Inr (\<lambda>target_path.
     popping ''sessionId'' uuid_new (\<lambda>session_id.
     popping ''logicalRevision'' Inr (\<lambda>logical_revision.
     popping ''source'' (literal (JStr ''CURRENT_IN_MEMORY_WITH_ATTACHED_MAPPINGS'')) (\<lambda>source.
     popping ''completeness'' (literal (JStr ''VERIFIED_DECLARATIONS'')) (\<lambda>completeness.
     popping ''exported'' mapping_export_counts_from_dict (\<lambda>exported.
     popping ''bytes'' Inr (\<lambda>bytes.
     popping ''sha256'' Inr (\<lambda>sha256.
     popping ''omissions'' (list_of mapping_export_receipt_omissions_item_from_dict) (\<lambda>omissions.
     popping ''projectMutated'' Inr (\<lambda>project_mutated.
     (\<lambda>d. Inr \<lparr>mapping_export_receipt_format = format,
        mapping_export_receipt_target_path = target_path,
        mapping_export_receipt_session_id = session_id,
        mapping_export_receipt_logical_revision = logical_revision,
        mapping_export_receipt_source = source,
        mapping_export_receipt_completeness = completeness,
        mapping_export_receipt_exported = exported,
        mapping_export_receipt_bytes = bytes,
        mapping_export_receipt_sha256 = sha256,
        mapping_export_receipt_omissions = omissions,
        mapping_export_receipt_project_mutated = project_mutated\<rparr>)))))))))))))"

definition mapping_export_receipt_ok :: "mapping_export_receipt \<Rightarrow> bool" where
  "mapping_export_receipt_ok x \<longleftrightarrow> json_eq (mapping_export_receipt_format x) (JStr ''TINY_V2'')
     \<and> json_eq (mapping_export_receipt_source x) (JStr ''CURRENT_IN_MEMORY_WITH_ATTACHED_MAPPINGS'')
     \<and> json_eq (mapping_export_receipt_completeness x) (JStr ''VERIFIED_DECLARATIONS'')
     \<and> list_all mapping_export_receipt_omissions_item_ok (mapping_export_receipt_omissions x)"

interpretation mapping_export_receipt_wire: codec "\<lambda>x. JObj (mapping_export_receipt_to_dict x)" mapping_export_receipt_from_dict mapping_export_receipt_ok
  by unfold_locales
    (simp add: mapping_export_receipt_to_dict_def mapping_export_receipt_from_dict_def mapping_export_receipt_ok_def wire_simps cong: wire_cong,
     rule safe_readerI, unfold mapping_export_receipt_from_dict_def, intro wire_rules)

record mapping_import_edit_counts =
  mapping_import_edit_counts_aliases :: json
  mapping_import_edit_counts_comments :: json

definition mapping_import_edit_counts_to_dict :: "mapping_import_edit_counts \<Rightarrow> jdict" where
  "mapping_import_edit_counts_to_dict x =
     dict_update []
       [(''aliases'', mapping_import_edit_counts_aliases x),
        (''comments'', mapping_import_edit_counts_comments x)]"

definition mapping_import_edit_counts_from_dict :: "json \<Rightarrow> py_exc + mapping_import_edit_counts" where
  "mapping_import_edit_counts_from_dict src = reading src (
     popping ''aliases'' Inr (\<lambda>aliases.
     popping ''comments'' Inr (\<lambda>comments.
     (\<lambda>d. Inr \<lparr>mapping_import_edit_counts_aliases = aliases,
        mapping_import_edit_counts_comments = comments\<rparr>))))"

interpretation mapping_import_edit_counts_wire: codec "\<lambda>x. JObj (mapping_import_edit_counts_to_dict x)" mapping_import_edit_counts_from_dict "\<lambda>_. True"
  by unfold_locales
    (simp add: mapping_import_edit_counts_to_dict_def mapping_import_edit_counts_from_dict_def wire_simps cong: wire_cong,
     rule safe_readerI, unfold mapping_import_edit_counts_from_dict_def, intro wire_rules)

datatype mapping_import_receipt_outcome = MappingImportReceiptOutcome_APPLIED | MappingImportReceiptOutcome_NO_CHANGE

fun mapping_import_receipt_outcome_value :: "mapping_import_receipt_outcome \<Rightarrow> string" where
  "mapping_import_receipt_outcome_value MappingImportReceiptOutcome_APPLIED = ''APPLIED''"
| "mapping_import_receipt_outcome_value MappingImportReceiptOutcome_NO_CHANGE = ''NO_CHANGE''"

definition mapping_import_receipt_outcome_of :: "json \<Rightarrow> py_exc + mapping_import_receipt_outcome" where
  "mapping_import_receipt_outcome_of = enum_of [MappingImportReceiptOutcome_APPLIED, MappingImportReceiptOutcome_NO_CHANGE] mapping_import_receipt_outcome_value"

interpretation mapping_import_receipt_outcome_wire: codec "\<lambda>m. JStr (mapping_import_receipt_outcome_value m)" mapping_import_receipt_outcome_of "\<lambda>_. True"
proof unfold_locales
  fix m
  show "mapping_import_receipt_outcome_of (JStr (mapping_import_receipt_outcome_value m)) = Inr m"
    by (cases m) (simp_all add: mapping_import_receipt_outcome_of_def enum_of_def)
qed (simp add: mapping_import_receipt_outcome_of_def safe_enum_of)

record mapping_import_receipt_omissions_item =
  mapping_import_receipt_omissions_item_extra :: jdict

definition mapping_import_receipt_omissions_item_to_dict :: "mapping_import_receipt_omissions_item \<Rightarrow> jdict" where
  "mapping_import_receipt_omissions_item_to_dict x =
     dict_update [] (mapping_import_receipt_omissions_item_extra x)"

definition mapping_import_receipt_omissions_item_from_dict :: "json \<Rightarrow> py_exc + mapping_import_receipt_omissions_item" where
  "mapping_import_receipt_omissions_item_from_dict src = reading src (
     (\<lambda>d. Inr \<lparr>mapping_import_receipt_omissions_item_extra = d\<rparr>))"

definition mapping_import_receipt_omissions_item_ok :: "mapping_import_receipt_omissions_item \<Rightarrow> bool" where
  "mapping_import_receipt_omissions_item_ok x \<longleftrightarrow> extra_ok {} (mapping_import_receipt_omissions_item_extra x)"

interpretation mapping_import_receipt_omissions_item_wire: codec "\<lambda>x. JObj (mapping_import_receipt_omissions_item_to_dict x)" mapping_import_receipt_omissions_item_from_dict mapping_import_receipt_omissions_item_ok
  by unfold_locales
    (simp add: mapping_import_receipt_omissions_item_to_dict_def mapping_import_receipt_omissions_item_from_dict_def mapping_import_receipt_omissions_item_ok_def wire_simps cong: wire_cong,
     rule safe_readerI, unfold mapping_import_receipt_omissions_item_from_dict_def, intro wire_rules)

record mapping_import_receipt =
  mapping_import_receipt_format :: json
  mapping_import_receipt_mode :: json
  mapping_import_receipt_source_path :: json
  mapping_import_receipt_sha256 :: json
  mapping_import_receipt_bytes :: json
  mapping_import_receipt_parsed :: mapping_export_counts
  mapping_import_receipt_applied :: mapping_import_edit_counts
  mapping_import_receipt_unchanged :: mapping_import_edit_counts
  mapping_import_receipt_session_id :: uuid
  mapping_import_receipt_before_logical_revision :: json
  mapping_import_receipt_after_logical_revision :: json
  mapping_import_receipt_before_index_revision :: json
  mapping_import_receipt_after_index_revision :: json
  mapping_import_receipt_dirty :: json
  mapping_import_receipt_saved :: json
  mapping_import_receipt_mapping_attached :: json
  mapping_import_receipt_outcome :: mapping_import_receipt_outcome
  mapping_import_receipt_omissions :: "mapping_import_receipt_omissions_item list"

definition mapping_import_receipt_to_dict :: "mapping_import_receipt \<Rightarrow> jdict" where
  "mapping_import_receipt_to_dict x =
     dict_update []
       [(''format'', mapping_import_receipt_format x),
        (''mode'', mapping_import_receipt_mode x),
        (''sourcePath'', mapping_import_receipt_source_path x),
        (''sha256'', mapping_import_receipt_sha256 x),
        (''bytes'', mapping_import_receipt_bytes x),
        (''parsed'', JObj (mapping_export_counts_to_dict (mapping_import_receipt_parsed x))),
        (''applied'', JObj (mapping_import_edit_counts_to_dict (mapping_import_receipt_applied x))),
        (''unchanged'', JObj (mapping_import_edit_counts_to_dict (mapping_import_receipt_unchanged x))),
        (''sessionId'', JStr (uuid_str (mapping_import_receipt_session_id x))),
        (''beforeLogicalRevision'', mapping_import_receipt_before_logical_revision x),
        (''afterLogicalRevision'', mapping_import_receipt_after_logical_revision x),
        (''beforeIndexRevision'', mapping_import_receipt_before_index_revision x),
        (''afterIndexRevision'', mapping_import_receipt_after_index_revision x),
        (''dirty'', mapping_import_receipt_dirty x),
        (''saved'', mapping_import_receipt_saved x),
        (''mappingAttached'', mapping_import_receipt_mapping_attached x),
        (''outcome'', JStr (mapping_import_receipt_outcome_value (mapping_import_receipt_outcome x))),
        (''omissions'', JArr (map (\<lambda>x. JObj (mapping_import_receipt_omissions_item_to_dict x)) (mapping_import_receipt_omissions x)))]"

definition mapping_import_receipt_from_dict :: "json \<Rightarrow> py_exc + mapping_import_receipt" where
  "mapping_import_receipt_from_dict src = reading src (
     popping ''format'' (literal (JStr ''TINY_V2'')) (\<lambda>format.
     popping ''mode'' (literal (JStr ''MERGE_FAIL_ON_CONFLICT'')) (\<lambda>mode.
     popping ''sourcePath'' Inr (\<lambda>source_path.
     popping ''sha256'' Inr (\<lambda>sha256.
     popping ''bytes'' Inr (\<lambda>bytes.
     popping ''parsed'' mapping_export_counts_from_dict (\<lambda>parsed.
     popping ''applied'' mapping_import_edit_counts_from_dict (\<lambda>applied.
     popping ''unchanged'' mapping_import_edit_counts_from_dict (\<lambda>unchanged.
     popping ''sessionId'' uuid_new (\<lambda>session_id.
     popping ''beforeLogicalRevision'' Inr (\<lambda>before_logical_revision.
     popping ''afterLogicalRevision'' Inr (\<lambda>after_logical_revision.
     popping ''beforeIndexRevision'' Inr (\<lambda>before_index_revision.
     popping ''afterIndexRevision'' Inr (\<lambda>after_index_revision.
     popping ''dirty'' Inr (\<lambda>dirty.
     popping ''saved'' Inr (\<lambda>saved.
     popping ''mappingAttached'' Inr (\<lambda>mapping_attached.
     popping ''outcome'' mapping_import_receipt_outcome_of (\<lambda>outcome.
     popping ''omissions'' (list_of mapping_import_receipt_omissions_item_from_dict) (\<lambda>omissions.
     (\<lambda>d. Inr \<lparr>mapping_import_receipt_format = format,
        mapping_import_receipt_mode = mode,
        mapping_import_receipt_source_path = source_path,
        mapping_import_receipt_sha256 = sha256,
        mapping_import_receipt_bytes = bytes,
        mapping_import_receipt_parsed = parsed,
        mapping_import_receipt_applied = applied,
        mapping_import_receipt_unchanged = unchanged,
        mapping_import_receipt_session_id = session_id,
        mapping_import_receipt_before_logical_revision = before_logical_revision,
        mapping_import_receipt_after_logical_revision = after_logical_revision,
        mapping_import_receipt_before_index_revision = before_index_revision,
        mapping_import_receipt_after_index_revision = after_index_revision,
        mapping_import_receipt_dirty = dirty,
        mapping_import_receipt_saved = saved,
        mapping_import_receipt_mapping_attached = mapping_attached,
        mapping_import_receipt_outcome = outcome,
        mapping_import_receipt_omissions = omissions\<rparr>))))))))))))))))))))"

definition mapping_import_receipt_ok :: "mapping_import_receipt \<Rightarrow> bool" where
  "mapping_import_receipt_ok x \<longleftrightarrow> json_eq (mapping_import_receipt_format x) (JStr ''TINY_V2'')
     \<and> json_eq (mapping_import_receipt_mode x) (JStr ''MERGE_FAIL_ON_CONFLICT'')
     \<and> list_all mapping_import_receipt_omissions_item_ok (mapping_import_receipt_omissions x)"

interpretation mapping_import_receipt_wire: codec "\<lambda>x. JObj (mapping_import_receipt_to_dict x)" mapping_import_receipt_from_dict mapping_import_receipt_ok
  by unfold_locales
    (simp add: mapping_import_receipt_to_dict_def mapping_import_receipt_from_dict_def mapping_import_receipt_ok_def wire_simps cong: wire_cong,
     rule safe_readerI, unfold mapping_import_receipt_from_dict_def, intro wire_rules)

end
