(* ===== verification/Wire_Capabilities.thy ===== *)
theory Wire_Capabilities
  imports Wire_Codec
begin

text \<open>
  The capability report of the service.
\<close>

datatype capability_status = CapabilityStatus_PARTIAL | CapabilityStatus_SUPPORTED | CapabilityStatus_UNKNOWN | CapabilityStatus_UNSUPPORTED

fun capability_status_value :: "capability_status \<Rightarrow> string" where
  "capability_status_value CapabilityStatus_PARTIAL = ''PARTIAL''"
| "capability_status_value CapabilityStatus_SUPPORTED = ''SUPPORTED''"
| "capability_status_value CapabilityStatus_UNKNOWN = ''UNKNOWN''"
| "capability_status_value CapabilityStatus_UNSUPPORTED = ''UNSUPPORTED''"

definition capability_status_of :: "json \<Rightarrow> py_exc + capability_status" where
  "capability_status_of = enum_of [CapabilityStatus_PARTIAL, CapabilityStatus_SUPPORTED, CapabilityStatus_UNKNOWN, CapabilityStatus_UNSUPPORTED] capability_status_value"

interpretation capability_status_wire: codec "\<lambda>m. JStr (capability_status_value m)" capability_status_of "\<lambda>_. True"
proof unfold_locales
  fix m
  show "capability_status_of (JStr (capability_status_value m)) = Inr m"
    by (cases m) (simp_all add: capability_status_of_def enum_of_def)
qed (simp add: capability_status_of_def safe_enum_of)

datatype capability_precision_type_1 = CapabilityPrecisionType1_APPROXIMATE | CapabilityPrecisionType1_EXACT | CapabilityPrecisionType1_UNAVAILABLE | CapabilityPrecisionType1_UNKNOWN

fun capability_precision_type_1_value :: "capability_precision_type_1 \<Rightarrow> string" where
  "capability_precision_type_1_value CapabilityPrecisionType1_APPROXIMATE = ''APPROXIMATE''"
| "capability_precision_type_1_value CapabilityPrecisionType1_EXACT = ''EXACT''"
| "capability_precision_type_1_value CapabilityPrecisionType1_UNAVAILABLE = ''UNAVAILABLE''"
| "capability_precision_type_1_value CapabilityPrecisionType1_UNKNOWN = ''UNKNOWN''"

definition capability_precision_type_1_of :: "json \<Rightarrow> py_exc + capability_precision_type_1" where
  "capability_precision_type_1_of = enum_of [CapabilityPrecisionType1_APPROXIMATE, CapabilityPrecisionType1_EXACT, CapabilityPrecisionType1_UNAVAILABLE, CapabilityPrecisionType1_UNKNOWN] capability_precision_type_1_value"

interpretation capability_precision_type_1_wire: codec "\<lambda>m. JStr (capability_precision_type_1_value m)" capability_precision_type_1_of "\<lambda>_. True"
proof unfold_locales
  fix m
  show "capability_precision_type_1_of (JStr (capability_precision_type_1_value m)) = Inr m"
    by (cases m) (simp_all add: capability_precision_type_1_of_def enum_of_def)
qed (simp add: capability_precision_type_1_of_def safe_enum_of)

interpretation capability_precision_type_1_union: union_codec "\<lambda>m. JStr (capability_precision_type_1_value m)" capability_precision_type_1_of "\<lambda>_. True" is_str "[capability_precision_type_1_of, capability_precision_type_1_of]"
  by unfold_locales (simp_all add: wire_rules)

record capability =
  capability_name :: json
  capability_status :: capability_status
  capability_evidence :: json
  capability_persistence :: json
  capability_precision :: "capability_precision_type_1 lenient unset"
  capability_extra :: jdict

definition capability_to_dict :: "capability \<Rightarrow> jdict" where
  "capability_to_dict x =
     put_given ''precision'' (map_given (lenient_json (\<lambda>m. JStr (capability_precision_type_1_value m))) (capability_precision x)) (
     dict_update (dict_update [] (capability_extra x))
       [(''name'', capability_name x),
        (''status'', JStr (capability_status_value (capability_status x))),
        (''evidence'', capability_evidence x),
        (''persistence'', capability_persistence x)])"

definition capability_from_dict :: "json \<Rightarrow> py_exc + capability" where
  "capability_from_dict src = reading src (
     popping ''name'' Inr (\<lambda>name.
     popping ''status'' capability_status_of (\<lambda>status.
     popping ''evidence'' Inr (\<lambda>evidence.
     popping ''persistence'' Inr (\<lambda>persistence.
     popping_opt ''precision'' (parse_union is_str [capability_precision_type_1_of, capability_precision_type_1_of, capability_precision_type_1_of]) (\<lambda>precision.
     (\<lambda>d. Inr \<lparr>capability_name = name,
        capability_status = status,
        capability_evidence = evidence,
        capability_persistence = persistence,
        capability_precision = precision,
        capability_extra = d\<rparr>)))))))"

definition capability_ok :: "capability \<Rightarrow> bool" where
  "capability_ok x \<longleftrightarrow> extra_ok {''name'', ''status'', ''evidence'', ''persistence'', ''precision''} (capability_extra x)
     \<and> given_all (lenient_ok is_str [capability_precision_type_1_of, capability_precision_type_1_of, capability_precision_type_1_of] (\<lambda>_. True)) (capability_precision x)"

interpretation capability_wire: codec "\<lambda>x. JObj (capability_to_dict x)" capability_from_dict capability_ok
  by unfold_locales
    (simp add: capability_to_dict_def capability_from_dict_def capability_ok_def wire_simps cong: wire_cong,
     rule safe_readerI, unfold capability_from_dict_def, intro wire_rules)

record capabilities =
  capabilities_server_version :: json
  capabilities_jadx_version :: json
  capabilities_capabilities :: "capability list"
  capabilities_extra :: jdict

definition capabilities_to_dict :: "capabilities \<Rightarrow> jdict" where
  "capabilities_to_dict x =
     dict_update (dict_update [] (capabilities_extra x))
       [(''serverVersion'', capabilities_server_version x),
        (''jadxVersion'', capabilities_jadx_version x),
        (''capabilities'', JArr (map (\<lambda>x. JObj (capability_to_dict x)) (capabilities_capabilities x)))]"

definition capabilities_from_dict :: "json \<Rightarrow> py_exc + capabilities" where
  "capabilities_from_dict src = reading src (
     popping ''serverVersion'' Inr (\<lambda>server_version.
     popping ''jadxVersion'' Inr (\<lambda>jadx_version.
     popping ''capabilities'' (list_of capability_from_dict) (\<lambda>capabilities.
     (\<lambda>d. Inr \<lparr>capabilities_server_version = server_version,
        capabilities_jadx_version = jadx_version,
        capabilities_capabilities = capabilities,
        capabilities_extra = d\<rparr>)))))"

definition capabilities_ok :: "capabilities \<Rightarrow> bool" where
  "capabilities_ok x \<longleftrightarrow> extra_ok {''serverVersion'', ''jadxVersion'', ''capabilities''} (capabilities_extra x)
     \<and> list_all capability_ok (capabilities_capabilities x)"

interpretation capabilities_wire: codec "\<lambda>x. JObj (capabilities_to_dict x)" capabilities_from_dict capabilities_ok
  by unfold_locales
    (simp add: capabilities_to_dict_def capabilities_from_dict_def capabilities_ok_def wire_simps cong: wire_cong,
     rule safe_readerI, unfold capabilities_from_dict_def, intro wire_rules)

end
