(* ===== verification/Sdk_Transport.thy ===== *)
theory Sdk_Transport
  imports Sdk_Common Wire_Source Wire_Project Wire_Capabilities Wire_Edits
begin

text \<open>
  One request and its answer: what \<open>httpx\<close> and the clock do (parameters of the model), the
  response object of the generated client (\<open>_generated/types.py\<close>), \<open>unwrap\<close>, and \<open>Client._invoke\<close>,
  through which every operation of the SDK goes.
\<close>

subsection \<open>Requests, answers and the outside world\<close>

text \<open>
  \<open>httpx\<close> answers a request or raises. The decoded body is part of the answer: \<open>response.json()\<close>
  returns a JSON value or raises a \<open>ValueError\<close>, \<open>response.text\<close> is a string. The world is whatever the network and the clock
  depend on; it is passed along and changed by them alone.
\<close>

record http_request =
  req_method :: string
  req_url :: string
  req_params :: "(string \<times> json) list option"
  req_json :: "json option"
  req_headers :: "string pydict option"

record http_response =
  resp_status :: int
  resp_headers :: "string pydict"
  resp_json :: "py_exc + json"
  resp_text :: string

datatype http_outcome =
    Answer http_response
  | Timeout_Exception string
  | Http_Error string
  | Http_Raises py_exc

text \<open>
  \<open>pool.stream\<close>: opening it gives a response or raises; reading the body of a refused one
  (\<open>response.read()\<close>), or the chunks of \<open>iter_bytes\<close>, ends by itself or by an \<open>httpx\<close> error.
  \<open>stream_json\<close> is \<open>response.json()\<close> after the body was read.
\<close>

record http_timeout =
  timeout_connect :: "rat option"
  timeout_read :: "rat option"
  timeout_write :: "rat option"
  timeout_pool :: "rat option"

datatype stream_stop = Stream_End | Stream_Timeout string | Stream_Http_Error string

record http_stream =
  stream_response :: http_response
  stream_read :: stream_stop
  stream_chunks :: "string list"
  stream_end :: stream_stop

datatype stream_outcome = Opened http_stream | Open_Timeout string | Open_Http_Error string

record 'w env =
  env_send :: "http_request \<Rightarrow> 'w \<Rightarrow> http_outcome \<times> 'w"
  env_monotonic :: "'w \<Rightarrow> rat \<times> 'w"
  env_sleep :: "rat \<Rightarrow> 'w \<Rightarrow> 'w"
  env_close :: "'w \<Rightarrow> 'w"
  env_stream :: "string \<Rightarrow> string pydict \<Rightarrow> http_timeout \<Rightarrow> 'w \<Rightarrow> stream_outcome \<times> 'w"
  env_pool_timeout :: http_timeout
  env_repr :: "json \<Rightarrow> string"

text \<open>The state of a client: \<open>_closed\<close>, \<open>project._revisions\<close>, and the world.\<close>

record 'w client =
  closed :: bool
  revisions :: revision_cache
  world :: 'w

text \<open>A call returns or raises, and leaves a state either way.\<close>

type_synonym ('w, 'a) sdk = "'w client \<Rightarrow> (sdk_error + 'a) \<times> 'w client"

definition sreturn :: "'a \<Rightarrow> ('w, 'a) sdk" where
  "sreturn x st = (Inr x, st)"

definition sraise :: "sdk_error \<Rightarrow> ('w, 'a) sdk" where
  "sraise e st = (Inl e, st)"

definition sbind :: "('w, 'a) sdk \<Rightarrow> ('a \<Rightarrow> ('w, 'b) sdk) \<Rightarrow> ('w, 'b) sdk" where
  "sbind m f st = (case m st of (Inl e, st') \<Rightarrow> (Inl e, st') | (Inr x, st') \<Rightarrow> f x st')"

text \<open>A computation on values that may raise a built-in exception.\<close>

definition slift :: "py_exc + 'a \<Rightarrow> ('w, 'a) sdk" where
  "slift m st = (map_error Py_Error m, st)"

definition monotonic :: "'w env \<Rightarrow> ('w, rat) sdk" where
  "monotonic env st = (case env_monotonic env (world st) of (t, w) \<Rightarrow> (Inr t, st\<lparr>world := w\<rparr>))"

definition sleep :: "'w env \<Rightarrow> rat \<Rightarrow> ('w, unit) sdk" where
  "sleep env d st = (Inr (), st\<lparr>world := env_sleep env d (world st)\<rparr>)"

lemma sdk_simps [step_simps]:
  "sreturn x st = (Inr x, st)"
  "sraise e st = (Inl e, st)"
  "slift (Inl e') st = (Inl (Py_Error e'), st)"
  "slift (Inr x) st = (Inr x, st)"
  "sleep env d st = (Inr (), st\<lparr>world := env_sleep env d (world st)\<rparr>)"
  by (simp_all add: sreturn_def sraise_def slift_def sleep_def)

lemma sbind_eq:
  "m st = (Inl e, st') \<Longrightarrow> sbind m f st = (Inl e, st')"
  "m st = (Inr x, st') \<Longrightarrow> sbind m f st = f x st'"
  by (simp_all add: sbind_def)

lemma sbind_split: "sbind m f st =
   (case fst (m st) of Inl e \<Rightarrow> (Inl e, snd (m st)) | Inr x \<Rightarrow> f x (snd (m st)))"
  by (auto simp: sbind_def split: prod.splits sum.splits)

subsection \<open>Parsed bodies\<close>

datatype body =
    Job_Body job
  | Status_Body service_status
  | Liveness_Body liveness
  | Capabilities_Body capabilities
  | Shutdown_Body shutdown_accepted
  | Project_Body fixed_project
  | Settings_Body project_settings
  | Pending_Body pending_edits
  | Export_Body mapping_export_receipt
  | Import_Body mapping_import_receipt
  | Edits_Body edit_batch_result
  | Classes_Body class_page
  | Resolution_Body symbol_resolution
  | References_Body reference_page
  | Search_Body search_page
  | Index_Body search_index_status
  | Decompile_Body decompile_result
  | Control_Flow_Body control_flow_result
  | Text_Body string

text \<open>\<open>Response.parsed\<close>: nothing for an undocumented status, an error envelope, or the model.\<close>

datatype parsed = No_Body | Envelope error_envelope | Parsed body

record response =
  status_code :: int
  headers :: "string pydict"
  response_parsed :: parsed

text \<open>
  The revision attributes of the object \<open>getattr(result, "revisions", result)\<close>. A \<open>UUID\<close> is given
  by its string, which is all \<open>observe\<close> uses of it.
\<close>

definition set_attrs :: "revision_set \<Rightarrow> attrs" where
  "set_attrs r = [(''session_id'', revision_set_session_id r),
     (''logical_revision'', revision_set_logical_revision r),
     (''index_revision'', revision_set_index_revision r)]"

fun body_attrs :: "body \<Rightarrow> attrs" where
  "body_attrs (Job_Body x) =
     [(''session_id'', job_session_id x), (''logical_revision'', job_logical_revision x)]"
| "body_attrs (Project_Body x) = set_attrs (fixed_project_revisions x)"
| "body_attrs (Settings_Body x) = set_attrs (project_settings_revisions x)"
| "body_attrs (Pending_Body x) =
     [(''session_id'', pending_edits_session_id x), (''logical_revision'', pending_edits_logical_revision x)]"
| "body_attrs (Export_Body x) =
     [(''session_id'', JStr (uuid_str (mapping_export_receipt_session_id x))),
      (''logical_revision'', mapping_export_receipt_logical_revision x)]"
| "body_attrs (Import_Body x) =
     [(''session_id'', JStr (uuid_str (mapping_import_receipt_session_id x))),
      (''after_logical_revision'', mapping_import_receipt_after_logical_revision x),
      (''after_index_revision'', mapping_import_receipt_after_index_revision x)]"
| "body_attrs (Edits_Body x) =
     [(''session_id'', edit_batch_result_session_id x),
      (''logical_revision_after'', edit_batch_result_logical_revision_after x),
      (''index_revision_after'', edit_batch_result_index_revision_after x)]"
| "body_attrs (Classes_Body x) =
     [(''session_id'', JStr (uuid_str (class_page_session_id x))),
      (''logical_revision'', class_page_logical_revision x)]"
| "body_attrs (Resolution_Body x) =
     [(''session_id'', JStr (uuid_str (symbol_resolution_session_id x))),
      (''logical_revision'', symbol_resolution_logical_revision x)]"
| "body_attrs (References_Body x) =
     [(''session_id'', JStr (uuid_str (reference_page_session_id x))),
      (''logical_revision'', reference_page_logical_revision x)]"
| "body_attrs (Search_Body x) =
     [(''session_id'', search_page_session_id x), (''logical_revision'', search_page_logical_revision x)]"
| "body_attrs (Index_Body x) =
     [(''session_id'', search_index_status_session_id x),
      (''logical_revision'', search_index_status_logical_revision x)]"
| "body_attrs (Decompile_Body x) =
     [(''session_id'', JStr (uuid_str (decompile_result_session_id x))),
      (''logical_revision'', decompile_result_logical_revision x)]"
| "body_attrs (Control_Flow_Body x) =
     [(''session_id'', JStr (uuid_str (control_flow_result_session_id x))),
      (''logical_revision'', control_flow_result_logical_revision x)]"
| "body_attrs _ = []"

fun parsed_attrs :: "parsed \<Rightarrow> attrs" where
  "parsed_attrs (Parsed b) = body_attrs b"
| "parsed_attrs _ = []"

subsection \<open>The generated call\<close>

text \<open>
  An operation of the generated client: the request it sends (\<open>_get_kwargs\<close>) and how it reads the
  answer (\<open>_parse_response\<close>, a function of the status and of what \<open>response.json()\<close> does).
\<close>

record api_call =
  call_request :: http_request
  call_parse :: "int \<Rightarrow> py_exc + json \<Rightarrow> py_exc + parsed"

text \<open>The members of \<open>http.HTTPStatus\<close>.\<close>

definition http_statuses :: "int list" where
  "http_statuses = [100, 101, 102, 103, 200, 201, 202, 203, 204, 205, 206, 207, 208, 226, 300, 301,
     302, 303, 304, 305, 307, 308, 400, 401, 402, 403, 404, 405, 406, 407, 408, 409, 410, 411, 412,
     413, 414, 415, 416, 417, 418, 421, 422, 423, 424, 425, 426, 428, 429, 431, 451, 500, 501, 502,
     503, 504, 505, 506, 507, 508, 510, 511]"

definition build_response :: "api_call \<Rightarrow> http_response \<Rightarrow> py_exc + response" where
  "build_response c r =
     (if resp_status r \<notin> set http_statuses then Inl (ValueErr ''HTTPStatus'')
      else ebind (call_parse c (resp_status r) (resp_json r)) (\<lambda>p.
        Inr \<lparr>status_code = resp_status r, headers = resp_headers r, response_parsed = p\<rparr>))"

datatype call_result = Call_Returns response | Call_Timeout string | Call_Http_Error string | Call_Raises py_exc

definition sync_detailed :: "'w env \<Rightarrow> api_call \<Rightarrow> 'w \<Rightarrow> call_result \<times> 'w" where
  "sync_detailed env c w =
     (case env_send env (call_request c) w of
        (Answer r, w') \<Rightarrow>
          (case build_response c r of Inl e \<Rightarrow> Call_Raises e | Inr x \<Rightarrow> Call_Returns x, w')
      | (Timeout_Exception m, w') \<Rightarrow> (Call_Timeout m, w')
      | (Http_Error m, w') \<Rightarrow> (Call_Http_Error m, w')
      | (Http_Raises e, w') \<Rightarrow> (Call_Raises e, w'))"

subsection \<open>unwrap and _invoke\<close>

text \<open>
  \<open>expect\<close> is the expected type: the test \<open>isinstance\<close> and the value seen at that type in one.
\<close>

definition unexpected_status :: "int \<Rightarrow> string" where
  "unexpected_status n = ''Unexpected HTTP '' @ nat_str (nat n) @ '' response''"

definition unwrap :: "response \<Rightarrow> (parsed \<Rightarrow> 'a option) \<Rightarrow> sdk_error + 'a" where
  "unwrap r expect =
     (case response_parsed r of
        Envelope env \<Rightarrow>
          Inl (Api_Error_Raised (sdk_error_of (error_envelope_error env) (Some (status_code r)) (Some (headers r))))
      | p \<Rightarrow>
          (if 200 \<le> status_code r \<and> status_code r < 300
           then (case expect p of
                   None \<Rightarrow> Inl (Unexpected_Response_Error (unexpected_status (status_code r)))
                 | Some x \<Rightarrow> Inr x)
           else Inl (Unexpected_Response_Error (unexpected_status (status_code r)))))"

definition undecodable :: string where
  "undecodable = ''Response could not be decoded against the contract''"

definition invoke :: "'w env \<Rightarrow> api_call \<Rightarrow> (parsed \<Rightarrow> 'a option) \<Rightarrow> ('w, 'a) sdk" where
  "invoke env c expect st =
     (if closed st then (Inl (Transport_Error ''Client is closed''), st)
      else case sync_detailed env c (world st) of (res, w) \<Rightarrow>
        let st = st\<lparr>world := w\<rparr> in
        (case res of
           Call_Timeout m \<Rightarrow> (Inl (Request_Timeout_Error m), st)
         | Call_Http_Error m \<Rightarrow> (Inl (Transport_Error m), st)
         | Call_Raises e \<Rightarrow>
             (Inl (if decode_failure e then Unexpected_Response_Error undecodable else Py_Error e), st)
         | Call_Returns r \<Rightarrow>
             (case unwrap r expect of
                Inl e \<Rightarrow> (Inl e, st)
              | Inr x \<Rightarrow>
                  (case observe (env_repr env) (parsed_attrs (response_parsed r)) (revisions st) of
                     (Inl e, c') \<Rightarrow> (Inl (Py_Error e), st\<lparr>revisions := c'\<rparr>)
                   | (Inr _, c') \<Rightarrow> (Inr x, st\<lparr>revisions := c'\<rparr>)))))"

text \<open>The expected types.\<close>

definition any_object :: "parsed \<Rightarrow> parsed option" where
  "any_object p = Some p"

fun as_job :: "parsed \<Rightarrow> job option" where
  "as_job (Parsed (Job_Body x)) = Some x"
| "as_job _ = None"

definition as_status :: "parsed \<Rightarrow> service_status option" where
  "as_status p = (case p of Parsed (Status_Body x) \<Rightarrow> Some x | _ \<Rightarrow> None)"

definition as_liveness :: "parsed \<Rightarrow> liveness option" where
  "as_liveness p = (case p of Parsed (Liveness_Body x) \<Rightarrow> Some x | _ \<Rightarrow> None)"

definition as_capabilities :: "parsed \<Rightarrow> capabilities option" where
  "as_capabilities p = (case p of Parsed (Capabilities_Body x) \<Rightarrow> Some x | _ \<Rightarrow> None)"

definition as_shutdown :: "parsed \<Rightarrow> shutdown_accepted option" where
  "as_shutdown p = (case p of Parsed (Shutdown_Body x) \<Rightarrow> Some x | _ \<Rightarrow> None)"

definition as_project :: "parsed \<Rightarrow> fixed_project option" where
  "as_project p = (case p of Parsed (Project_Body x) \<Rightarrow> Some x | _ \<Rightarrow> None)"

definition as_settings :: "parsed \<Rightarrow> project_settings option" where
  "as_settings p = (case p of Parsed (Settings_Body x) \<Rightarrow> Some x | _ \<Rightarrow> None)"

definition as_pending :: "parsed \<Rightarrow> pending_edits option" where
  "as_pending p = (case p of Parsed (Pending_Body x) \<Rightarrow> Some x | _ \<Rightarrow> None)"

definition as_export :: "parsed \<Rightarrow> mapping_export_receipt option" where
  "as_export p = (case p of Parsed (Export_Body x) \<Rightarrow> Some x | _ \<Rightarrow> None)"

definition as_import :: "parsed \<Rightarrow> mapping_import_receipt option" where
  "as_import p = (case p of Parsed (Import_Body x) \<Rightarrow> Some x | _ \<Rightarrow> None)"

definition as_edits :: "parsed \<Rightarrow> edit_batch_result option" where
  "as_edits p = (case p of Parsed (Edits_Body x) \<Rightarrow> Some x | _ \<Rightarrow> None)"

definition as_classes :: "parsed \<Rightarrow> class_page option" where
  "as_classes p = (case p of Parsed (Classes_Body x) \<Rightarrow> Some x | _ \<Rightarrow> None)"

definition as_resolution :: "parsed \<Rightarrow> symbol_resolution option" where
  "as_resolution p = (case p of Parsed (Resolution_Body x) \<Rightarrow> Some x | _ \<Rightarrow> None)"

definition as_references :: "parsed \<Rightarrow> reference_page option" where
  "as_references p = (case p of Parsed (References_Body x) \<Rightarrow> Some x | _ \<Rightarrow> None)"

definition as_search :: "parsed \<Rightarrow> search_page option" where
  "as_search p = (case p of Parsed (Search_Body x) \<Rightarrow> Some x | _ \<Rightarrow> None)"

definition as_index :: "parsed \<Rightarrow> search_index_status option" where
  "as_index p = (case p of Parsed (Index_Body x) \<Rightarrow> Some x | _ \<Rightarrow> None)"

definition as_decompiled :: "parsed \<Rightarrow> decompile_result option" where
  "as_decompiled p = (case p of Parsed (Decompile_Body x) \<Rightarrow> Some x | _ \<Rightarrow> None)"

definition as_control_flow :: "parsed \<Rightarrow> control_flow_result option" where
  "as_control_flow p = (case p of Parsed (Control_Flow_Body x) \<Rightarrow> Some x | _ \<Rightarrow> None)"

subsection \<open>What a call can raise\<close>

text \<open>
  The documented behaviour of \<open>httpx\<close> the client relies on: \<open>response.json()\<close> returns or raises
  what the client catches, and a request raises nothing but \<open>httpx\<close> errors or what is caught.
\<close>

definition proper_outcome :: "http_outcome \<Rightarrow> bool" where
  "proper_outcome out \<longleftrightarrow>
     (case out of
        Answer r \<Rightarrow> safe_result (resp_json r)
      | Http_Raises e \<Rightarrow> decode_failure e
      | _ \<Rightarrow> True)"

definition proper_http :: "'w env \<Rightarrow> bool" where
  "proper_http env \<longleftrightarrow> (\<forall>r w. proper_outcome (fst (env_send env r w)))"

definition safe_call :: "api_call \<Rightarrow> bool" where
  "safe_call c \<longleftrightarrow> (\<forall>status src. safe_result src \<longrightarrow> safe_result (call_parse c status src))"

text \<open>Revisions the service's schema allows: integers or nothing.\<close>

definition int_or_null :: "json \<Rightarrow> bool" where
  "int_or_null v \<longleftrightarrow> v = JNull \<or> (\<exists>n. v = JInt n)"

definition int_attrs :: "attrs \<Rightarrow> bool" where
  "int_attrs a \<longleftrightarrow>
     int_or_null (first_attr a [''logical_revision'', ''logical_revision_after'', ''after_logical_revision''])
     \<and> int_or_null (first_attr a [''index_revision'', ''index_revision_after'', ''after_index_revision''])"

definition int_cache :: "revision_cache \<Rightarrow> bool" where
  "int_cache c \<longleftrightarrow> int_or_null (logical_revision c) \<and> int_or_null (index_revision c)"

lemma raise_to_int_or_null:
  "int_or_null old \<Longrightarrow> \<exists>m. raise_to old (JInt n) = Inr (JInt m)"
  by (auto simp: int_or_null_def raise_to_int) (simp add: raise_to_def)

lemma observe_values_int:
  assumes "int_cache c" "int_or_null logical" "int_or_null index"
  shows "\<exists>c'. observe_values repr session logical index c = (Inr (), c') \<and> int_cache c'"
proof -
  have up: "\<exists>m. raise_to old v = Inr (JInt m)" if "int_or_null old" "int_or_null v" "v \<noteq> JNull" for old v
    using that raise_to_int_or_null [of old] by (auto simp: int_or_null_def)
  from assms(1) have c: "int_or_null (logical_revision c)" "int_or_null (index_revision c)"
    by (simp_all add: int_cache_def)
  have int: "int_or_null (JInt m)" for m by (simp add: int_or_null_def)
  show ?thesis
  proof (cases "session = JNull \<or> logical = JNull \<or> py_str repr session \<in> retired c
      \<or> session_id c \<noteq> Some (py_str repr session)")
    case True
    then show ?thesis
      using assms c by (auto simp: observe_values_def int_cache_def Let_def)
  next
    case False
    then have "logical \<noteq> JNull" by simp
    with up [OF c(1) assms(2)] obtain m where m: "raise_to (logical_revision c) logical = Inr (JInt m)"
      by blast
    show ?thesis
    proof (cases "index = JNull")
      case True
      with False m c int show ?thesis
        by (auto simp: observe_values_def int_cache_def Let_def)
    next
      case index: False
      with up [OF c(2) assms(3)] obtain k where "raise_to (index_revision c) index = Inr (JInt k)"
        by blast
      with False index m int show ?thesis
        by (auto simp: observe_values_def int_cache_def Let_def)
    qed
  qed
qed

lemma observe_int:
  assumes "int_cache c" "int_attrs a"
  shows "\<exists>c'. observe repr a c = (Inr (), c') \<and> int_cache c'"
  unfolding observe_def
  by (rule observe_values_int [OF assms(1)]) (use assms(2) in \<open>simp_all only: int_attrs_def\<close>)

lemma unwrap_lib_error: "unwrap r expect = Inl e \<Longrightarrow> is_lib_error e"
  by (auto simp: unwrap_def split: parsed.splits if_splits option.splits)

lemma build_response_safe: "safe_call c \<Longrightarrow> safe_result (resp_json r) \<Longrightarrow> safe_result (build_response c r)"
  by (auto simp: build_response_def safe_call_def intro!: safe_ebind wire_rules)
    (simp_all add: safe_result_def)

lemma sync_detailed_raises:
  assumes "proper_http env" "safe_call c" "sync_detailed env c w = (Call_Raises e, w')"
  shows "decode_failure e"
proof -
  obtain out w'' where snd: "env_send env (call_request c) w = (out, w'')" by fastforce
  have "proper_outcome out"
    using assms(1) snd by (metis fst_conv proper_http_def)
  with assms(2,3) snd build_response_safe [of c] show ?thesis
    by (auto simp: sync_detailed_def proper_outcome_def safe_result_def split: http_outcome.splits sum.splits)
qed

text \<open>
  Only the answers matter that come back: \<open>int_world\<close> says that every body the service returns
  carries integer revisions.
\<close>

definition int_service :: "'w env \<Rightarrow> api_call \<Rightarrow> bool" where
  "int_service env c \<longleftrightarrow>
     (\<forall>w r w'. sync_detailed env c w = (Call_Returns r, w') \<longrightarrow> int_attrs (parsed_attrs (response_parsed r)))"

lemma invoke_lib_error:
  assumes "proper_http env" "safe_call c" "int_service env c" "int_cache (revisions st)"
    "invoke env c expect st = (res, st')"
  shows "(case res of Inl e \<Rightarrow> is_lib_error e | Inr x \<Rightarrow> True) \<and> int_cache (revisions st')
    \<and> closed st' = closed st"
proof (cases "closed st")
  case True
  with assms show ?thesis by (auto simp: invoke_def)
next
  case False
  obtain call w where call: "sync_detailed env c (world st) = (call, w)" by fastforce
  show ?thesis
  proof (cases call)
    case (Call_Raises e)
    with call sync_detailed_raises [OF assms(1,2)] have "decode_failure e" by blast
    with Call_Raises call False assms(4,5) show ?thesis by (auto simp: invoke_def)
  next
    case (Call_Returns r)
    with call assms(3) have "int_attrs (parsed_attrs (response_parsed r))"
      by (auto simp: int_service_def)
    with observe_int [OF assms(4)] obtain c' where
      "observe (env_repr env) (parsed_attrs (response_parsed r)) (revisions st) = (Inr (), c')" "int_cache c'"
      by blast
    with Call_Returns call False assms(4,5) show ?thesis
      by (cases "unwrap r expect")
        (auto simp: invoke_def Let_def dest: unwrap_lib_error unwrap_lib_error [OF sym] split: sum.splits)
  qed (use call False assms(4,5) in \<open>auto simp: invoke_def\<close>)
qed

lemma invoke_int_cache:
  assumes "int_service env c" "int_cache (revisions st)" "invoke env c expect st = (res, st')"
  shows "int_cache (revisions st')"
proof (cases "closed st")
  case False
  obtain call w where call: "sync_detailed env c (world st) = (call, w)" by fastforce
  show ?thesis
  proof (cases call)
    case (Call_Returns r)
    with call assms(1) have "int_attrs (parsed_attrs (response_parsed r))"
      by (auto simp: int_service_def)
    with observe_int [OF assms(2)] obtain c' where
      "observe (env_repr env) (parsed_attrs (response_parsed r)) (revisions st) = (Inr (), c')" "int_cache c'"
      by blast
    with Call_Returns call False assms(2,3) show ?thesis
      by (cases "unwrap r expect") (auto simp: invoke_def Let_def)
  qed (use call False assms(2,3) in \<open>auto simp: invoke_def\<close>)
qed (use assms in \<open>auto simp: invoke_def\<close>)

text \<open>A closed client sends nothing, and an open one changes only its revisions and the world.\<close>

lemma invoke_closed [step_simps]:
  "closed st \<Longrightarrow> invoke env c expect st = (Inl (Transport_Error ''Client is closed''), st)"
  by (simp add: invoke_def)

lemma invoke_keeps_closed: "invoke env c expect st = (res, st') \<Longrightarrow> closed st' = closed st"
  by (auto simp: invoke_def Let_def split: if_splits prod.splits sum.splits call_result.splits)

lemma invoke_world:
  "\<not> closed st \<Longrightarrow> world (snd (invoke env c expect st)) = snd (env_send env (call_request c) (world st))"
  by (auto simp: invoke_def sync_detailed_def Let_def split: prod.splits sum.splits call_result.splits http_outcome.splits)

text \<open>A result comes from a successful answer whose body has the expected type.\<close>

lemma invoke_returns:
  assumes "invoke env c expect st = (Inr x, st')"
  obtains r w where "\<not> closed st" "sync_detailed env c (world st) = (Call_Returns r, w)"
    "unwrap r expect = Inr x" "200 \<le> status_code r" "status_code r < 300"
    "\<forall>env'. response_parsed r \<noteq> Envelope env'" "expect (response_parsed r) = Some x" "world st' = w"
proof -
  from assms obtain r w where r: "\<not> closed st" "sync_detailed env c (world st) = (Call_Returns r, w)"
    "unwrap r expect = Inr x" "world st' = w"
    by (auto simp: invoke_def Let_def split: if_splits prod.splits sum.splits call_result.splits)
  then show ?thesis
    by (intro that [of r w]) (auto simp: unwrap_def split: parsed.splits if_splits option.splits)
qed

end
