(* ===== verification/Api_Calls.thy ===== *)
theory Api_Calls
  imports Sdk_Transport
begin

text \<open>
  The modules of \<open>_generated/api\<close> the client calls: for each operation the request it sends
  (\<open>_kwargs\<close>, from \<open>_get_kwargs\<close>), how it reads an answer by status (\<open>_parse\<close>, from
  \<open>_parse_response\<close>), and the two together.
\<close>

subsection \<open>Shared parts\<close>

text \<open>\<open>Model.from_dict(response.json())\<close>.\<close>

definition reads :: "(json \<Rightarrow> py_exc + 'a) \<Rightarrow> ('a \<Rightarrow> parsed) \<Rightarrow> py_exc + json \<Rightarrow> py_exc + parsed" where
  "reads dec wrap src = ebind src (\<lambda>v. ebind (dec v) (\<lambda>x. Inr (wrap x)))"

definition reads_error :: "py_exc + json \<Rightarrow> py_exc + parsed" where
  "reads_error = reads error_envelope_from_dict Envelope"

text \<open>\<open>quote(s, safe="")\<close>: letters, digits and \<open>_.-~\<close> stay, other bytes are written in hexadecimal.\<close>

definition quote_safe :: "char \<Rightarrow> bool" where
  "quote_safe c \<longleftrightarrow> is_ascii_letter c \<or> is_ascii_digit c \<or> c \<in> {CHR ''_'', CHR ''.'', CHR ''-'', CHR ''~''}"

definition upper_hex :: "char \<Rightarrow> string" where
  "upper_hex c = (let n = nat (of_char c) in [''0123456789ABCDEF'' ! (n div 16), ''0123456789ABCDEF'' ! (n mod 16)])"

definition url_quote :: "string \<Rightarrow> string" where
  "url_quote s = concat (map (\<lambda>c. if quote_safe c then [c] else CHR ''%'' # upper_hex c) s)"

text \<open>The request of an operation without arguments, and of one with a JSON body.\<close>

definition plain_request :: "string \<Rightarrow> string \<Rightarrow> http_request" where
  "plain_request meth url = \<lparr>req_method = meth, req_url = url, req_params = None, req_json = None, req_headers = None\<rparr>"

definition body_request :: "string \<Rightarrow> string \<Rightarrow> jdict \<Rightarrow> http_request" where
  "body_request meth url body = \<lparr>req_method = meth, req_url = url, req_params = None,
     req_json = Some (JObj body), req_headers = Some [(''Content-Type'', ''application/json'')]\<rparr>"

text \<open>\<open>{k: v for k, v in params.items() if v is not UNSET and v is not None}\<close>.\<close>

definition sent_params :: "(string \<times> json unset) list \<Rightarrow> (string \<times> json) list" where
  "sent_params ps = concat (map (\<lambda>(k, u). case u of UNSET \<Rightarrow> [] | Given v \<Rightarrow> if v = JNull then [] else [(k, v)]) ps)"

subsection \<open>_generated/api/service\<close>

definition cancel_job_kwargs :: "uuid \<Rightarrow> http_request" where
  "cancel_job_kwargs job_id = plain_request ''post'' (''/jobs/'' @ url_quote (uuid_str job_id) @ ''/cancel'')"

definition cancel_job_parse :: "int \<Rightarrow> py_exc + json \<Rightarrow> py_exc + parsed" where
  "cancel_job_parse status src =
     (if status = 200 then reads job_from_dict (\<lambda>x. Parsed (Job_Body x)) src
      else if status \<in> {400, 403, 404} then reads_error src
      else Inr No_Body)"

definition cancel_job_call :: "uuid \<Rightarrow> api_call" where
  "cancel_job_call job_id = \<lparr>call_request = cancel_job_kwargs job_id, call_parse = cancel_job_parse\<rparr>"

definition get_capabilities_kwargs :: http_request where
  "get_capabilities_kwargs = plain_request ''get'' ''/capabilities''"

definition get_capabilities_parse :: "int \<Rightarrow> py_exc + json \<Rightarrow> py_exc + parsed" where
  "get_capabilities_parse status src =
     (if status = 200 then reads capabilities_from_dict (\<lambda>x. Parsed (Capabilities_Body x)) src
      else reads_error src)"

definition get_capabilities_call :: api_call where
  "get_capabilities_call = \<lparr>call_request = get_capabilities_kwargs, call_parse = get_capabilities_parse\<rparr>"

definition get_job_kwargs :: "uuid \<Rightarrow> http_request" where
  "get_job_kwargs job_id = plain_request ''get'' (''/jobs/'' @ url_quote (uuid_str job_id))"

definition get_job_parse :: "int \<Rightarrow> py_exc + json \<Rightarrow> py_exc + parsed" where
  "get_job_parse status src =
     (if status = 200 then reads job_from_dict (\<lambda>x. Parsed (Job_Body x)) src
      else if status \<in> {400, 404} then reads_error src
      else Inr No_Body)"

definition get_job_call :: "uuid \<Rightarrow> api_call" where
  "get_job_call job_id = \<lparr>call_request = get_job_kwargs job_id, call_parse = get_job_parse\<rparr>"

definition get_liveness_kwargs :: http_request where
  "get_liveness_kwargs = plain_request ''get'' ''/health/live''"

definition get_liveness_parse :: "int \<Rightarrow> py_exc + json \<Rightarrow> py_exc + parsed" where
  "get_liveness_parse status src =
     (if status = 200 then reads liveness_from_dict (\<lambda>x. Parsed (Liveness_Body x)) src
      else reads_error src)"

definition get_liveness_call :: api_call where
  "get_liveness_call = \<lparr>call_request = get_liveness_kwargs, call_parse = get_liveness_parse\<rparr>"

definition get_status_kwargs :: http_request where
  "get_status_kwargs = plain_request ''get'' ''/status''"

definition get_status_parse :: "int \<Rightarrow> py_exc + json \<Rightarrow> py_exc + parsed" where
  "get_status_parse status src =
     (if status = 200 then reads service_status_from_dict (\<lambda>x. Parsed (Status_Body x)) src
      else reads_error src)"

definition get_status_call :: api_call where
  "get_status_call = \<lparr>call_request = get_status_kwargs, call_parse = get_status_parse\<rparr>"

definition shutdown_service_kwargs :: "shutdown_request unset \<Rightarrow> http_request" where
  "shutdown_service_kwargs body = (case body of
       UNSET \<Rightarrow> (plain_request ''post'' ''/shutdown'')\<lparr>req_headers := Some [(''Content-Type'', ''application/json'')]\<rparr>
     | Given b \<Rightarrow> body_request ''post'' ''/shutdown'' (shutdown_request_to_dict b))"

definition shutdown_service_parse :: "int \<Rightarrow> py_exc + json \<Rightarrow> py_exc + parsed" where
  "shutdown_service_parse status src =
     (if status = 202 then reads shutdown_accepted_from_dict (\<lambda>x. Parsed (Shutdown_Body x)) src
      else if status \<in> {400, 403, 409, 500, 503} then reads_error src
      else Inr No_Body)"

definition shutdown_service_call :: "shutdown_request unset \<Rightarrow> api_call" where
  "shutdown_service_call body = \<lparr>call_request = shutdown_service_kwargs body, call_parse = shutdown_service_parse\<rparr>"

subsection \<open>_generated/api/project\<close>

definition apply_edit_batch_kwargs :: "edit_batch_request \<Rightarrow> http_request" where
  "apply_edit_batch_kwargs body = body_request ''post'' ''/edits/batch'' (edit_batch_request_to_dict body)"

definition apply_edit_batch_parse :: "int \<Rightarrow> py_exc + json \<Rightarrow> py_exc + parsed" where
  "apply_edit_batch_parse status src =
     (if status = 200 then reads edit_batch_result_from_dict (\<lambda>x. Parsed (Edits_Body x)) src
      else if status \<in> {400, 403, 404, 409, 415, 422, 429, 500, 503} then reads_error src
      else Inr No_Body)"

definition apply_edit_batch_call :: "edit_batch_request \<Rightarrow> api_call" where
  "apply_edit_batch_call body = \<lparr>call_request = apply_edit_batch_kwargs body, call_parse = apply_edit_batch_parse\<rparr>"

definition export_mappings_kwargs :: "mapping_export_request \<Rightarrow> http_request" where
  "export_mappings_kwargs body = body_request ''post'' ''/project/mappings/export'' (mapping_export_request_to_dict body)"

definition export_mappings_parse :: "int \<Rightarrow> py_exc + json \<Rightarrow> py_exc + parsed" where
  "export_mappings_parse status src =
     (if status = 200 then reads mapping_export_receipt_from_dict (\<lambda>x. Parsed (Export_Body x)) src
      else if status \<in> {400, 403, 409, 415, 422, 429, 500, 503} then reads_error src
      else Inr No_Body)"

definition export_mappings_call :: "mapping_export_request \<Rightarrow> api_call" where
  "export_mappings_call body = \<lparr>call_request = export_mappings_kwargs body, call_parse = export_mappings_parse\<rparr>"

definition export_pending_edits_kwargs :: http_request where
  "export_pending_edits_kwargs = plain_request ''post'' ''/project/pending-edits/export''"

definition export_pending_edits_parse :: "int \<Rightarrow> py_exc + json \<Rightarrow> py_exc + parsed" where
  "export_pending_edits_parse status src =
     (if status = 200 then reads pending_edits_from_dict (\<lambda>x. Parsed (Pending_Body x)) src
      else reads_error src)"

definition export_pending_edits_call :: api_call where
  "export_pending_edits_call = \<lparr>call_request = export_pending_edits_kwargs, call_parse = export_pending_edits_parse\<rparr>"

definition get_project_kwargs :: http_request where
  "get_project_kwargs = plain_request ''get'' ''/project''"

definition get_project_parse :: "int \<Rightarrow> py_exc + json \<Rightarrow> py_exc + parsed" where
  "get_project_parse status src =
     (if status = 200 then reads fixed_project_from_dict (\<lambda>x. Parsed (Project_Body x)) src
      else reads_error src)"

definition get_project_call :: api_call where
  "get_project_call = \<lparr>call_request = get_project_kwargs, call_parse = get_project_parse\<rparr>"

definition get_project_settings_kwargs :: http_request where
  "get_project_settings_kwargs = plain_request ''get'' ''/project/settings''"

definition get_project_settings_parse :: "int \<Rightarrow> py_exc + json \<Rightarrow> py_exc + parsed" where
  "get_project_settings_parse status src =
     (if status = 200 then reads project_settings_from_dict (\<lambda>x. Parsed (Settings_Body x)) src
      else reads_error src)"

definition get_project_settings_call :: api_call where
  "get_project_settings_call = \<lparr>call_request = get_project_settings_kwargs, call_parse = get_project_settings_parse\<rparr>"

definition import_mappings_kwargs :: "mapping_import_request \<Rightarrow> http_request" where
  "import_mappings_kwargs body = body_request ''post'' ''/project/mappings/import'' (mapping_import_request_to_dict body)"

definition import_mappings_parse :: "int \<Rightarrow> py_exc + json \<Rightarrow> py_exc + parsed" where
  "import_mappings_parse status src =
     (if status = 200 then reads mapping_import_receipt_from_dict (\<lambda>x. Parsed (Import_Body x)) src
      else if status \<in> {400, 403, 404, 409, 415, 422, 429, 500, 503} then reads_error src
      else Inr No_Body)"

definition import_mappings_call :: "mapping_import_request \<Rightarrow> api_call" where
  "import_mappings_call body = \<lparr>call_request = import_mappings_kwargs body, call_parse = import_mappings_parse\<rparr>"

definition reload_project_kwargs :: "reload_project_request \<Rightarrow> http_request" where
  "reload_project_kwargs body = body_request ''post'' ''/project/reload'' (reload_project_request_to_dict body)"

definition reload_project_parse :: "int \<Rightarrow> py_exc + json \<Rightarrow> py_exc + parsed" where
  "reload_project_parse status src =
     (if status = 200 then reads fixed_project_from_dict (\<lambda>x. Parsed (Project_Body x)) src
      else reads_error src)"

definition reload_project_call :: "reload_project_request \<Rightarrow> api_call" where
  "reload_project_call body = \<lparr>call_request = reload_project_kwargs body, call_parse = reload_project_parse\<rparr>"

definition save_project_kwargs :: "save_project_request \<Rightarrow> http_request" where
  "save_project_kwargs body = body_request ''post'' ''/project/save'' (save_project_request_to_dict body)"

definition save_project_parse :: "int \<Rightarrow> py_exc + json \<Rightarrow> py_exc + parsed" where
  "save_project_parse status src =
     (if status = 200 then reads fixed_project_from_dict (\<lambda>x. Parsed (Project_Body x)) src
      else reads_error src)"

definition save_project_call :: "save_project_request \<Rightarrow> api_call" where
  "save_project_call body = \<lparr>call_request = save_project_kwargs body, call_parse = save_project_parse\<rparr>"

definition update_project_settings_kwargs :: "update_project_settings_request \<Rightarrow> http_request" where
  "update_project_settings_kwargs body = body_request ''patch'' ''/project/settings'' (update_project_settings_request_to_dict body)"

definition update_project_settings_parse :: "int \<Rightarrow> py_exc + json \<Rightarrow> py_exc + parsed" where
  "update_project_settings_parse status src =
     (if status = 200 then reads project_settings_from_dict (\<lambda>x. Parsed (Settings_Body x)) src
      else reads_error src)"

definition update_project_settings_call :: "update_project_settings_request \<Rightarrow> api_call" where
  "update_project_settings_call body = \<lparr>call_request = update_project_settings_kwargs body, call_parse = update_project_settings_parse\<rparr>"

subsection \<open>_generated/api/symbols\<close>

definition list_classes_kwargs :: "json \<Rightarrow> json unset \<Rightarrow> json unset \<Rightarrow> json unset \<Rightarrow> list_classes_name_domain unset \<Rightarrow> json \<Rightarrow> http_request" where
  "list_classes_kwargs page_size cursor package_prefix name_contains name_domain include_inner = \<lparr>req_method = ''get'', req_url = ''/classes'', req_params = Some (sent_params
       [(''pageSize'', Given page_size), (''cursor'', cursor), (''packagePrefix'', package_prefix),
        (''nameContains'', name_contains),
        (''nameDomain'', map_given (\<lambda>m. JStr (list_classes_name_domain_value m)) name_domain),
        (''includeInner'', Given include_inner)]),
       req_json = None, req_headers = None\<rparr>"

definition list_classes_parse :: "int \<Rightarrow> py_exc + json \<Rightarrow> py_exc + parsed" where
  "list_classes_parse status src =
     (if status = 200 then reads class_page_from_dict (\<lambda>x. Parsed (Classes_Body x)) src
      else if status \<in> {400, 409, 429, 500, 503} then reads_error src
      else Inr No_Body)"

definition list_classes_call :: "json \<Rightarrow> json unset \<Rightarrow> json unset \<Rightarrow> json unset \<Rightarrow> list_classes_name_domain unset \<Rightarrow> json \<Rightarrow> api_call" where
  "list_classes_call page_size cursor package_prefix name_contains name_domain include_inner = \<lparr>call_request = list_classes_kwargs page_size cursor package_prefix name_contains name_domain include_inner, call_parse = list_classes_parse\<rparr>"

definition query_references_kwargs :: "reference_query \<Rightarrow> http_request" where
  "query_references_kwargs body = body_request ''post'' ''/references/query'' (reference_query_to_dict body)"

definition query_references_parse :: "int \<Rightarrow> py_exc + json \<Rightarrow> py_exc + parsed" where
  "query_references_parse status src =
     (if status = 200 then reads reference_page_from_dict (\<lambda>x. Parsed (References_Body x)) src
      else if status \<in> {400, 409, 415, 429, 500, 503} then reads_error src
      else Inr No_Body)"

definition query_references_call :: "reference_query \<Rightarrow> api_call" where
  "query_references_call body = \<lparr>call_request = query_references_kwargs body, call_parse = query_references_parse\<rparr>"

definition resolve_symbol_kwargs :: "symbol_resolve_request \<Rightarrow> http_request" where
  "resolve_symbol_kwargs body = body_request ''post'' ''/symbols/resolve'' (symbol_resolve_request_to_dict body)"

definition resolve_symbol_parse :: "int \<Rightarrow> py_exc + json \<Rightarrow> py_exc + parsed" where
  "resolve_symbol_parse status src =
     (if status = 200 then reads symbol_resolution_from_dict (\<lambda>x. Parsed (Resolution_Body x)) src
      else if status \<in> {400, 409, 415, 429, 500, 503} then reads_error src
      else Inr No_Body)"

definition resolve_symbol_call :: "symbol_resolve_request \<Rightarrow> api_call" where
  "resolve_symbol_call body = \<lparr>call_request = resolve_symbol_kwargs body, call_parse = resolve_symbol_parse\<rparr>"

subsection \<open>_generated/api/analysis\<close>

definition build_search_index_kwargs :: "search_build_request \<Rightarrow> http_request" where
  "build_search_index_kwargs body = body_request ''post'' ''/search/build-index'' (search_build_request_to_dict body)"

definition build_search_index_parse :: "int \<Rightarrow> py_exc + json \<Rightarrow> py_exc + parsed" where
  "build_search_index_parse status src =
     (if status = 200 then reads search_index_status_from_dict (\<lambda>x. Parsed (Index_Body x)) src
      else if status = 202 then reads job_from_dict (\<lambda>x. Parsed (Job_Body x)) src
      else if status \<in> {400, 403, 409, 415, 422, 429, 500, 503} then reads_error src
      else Inr No_Body)"

definition build_search_index_call :: "search_build_request \<Rightarrow> api_call" where
  "build_search_index_call body = \<lparr>call_request = build_search_index_kwargs body, call_parse = build_search_index_parse\<rparr>"

definition decompile_java_kwargs :: "decompile_request \<Rightarrow> http_request" where
  "decompile_java_kwargs body = body_request ''post'' ''/decompile'' (decompile_request_to_dict body)"

definition decompile_java_parse :: "int \<Rightarrow> py_exc + json \<Rightarrow> py_exc + parsed" where
  "decompile_java_parse status src =
     (if status = 200 then reads decompile_result_from_dict (\<lambda>x. Parsed (Decompile_Body x)) src
      else if status \<in> {400, 403, 409, 415, 422, 429, 500, 503} then reads_error src
      else Inr No_Body)"

definition decompile_java_call :: "decompile_request \<Rightarrow> api_call" where
  "decompile_java_call body = \<lparr>call_request = decompile_java_kwargs body, call_parse = decompile_java_parse\<rparr>"

definition get_control_flow_facts_kwargs :: "control_flow_request \<Rightarrow> http_request" where
  "get_control_flow_facts_kwargs body = body_request ''post'' ''/analysis/control-flow'' (control_flow_request_to_dict body)"

definition get_control_flow_facts_parse :: "int \<Rightarrow> py_exc + json \<Rightarrow> py_exc + parsed" where
  "get_control_flow_facts_parse status src =
     (if status = 200 then reads control_flow_result_from_dict (\<lambda>x. Parsed (Control_Flow_Body x)) src
      else if status \<in> {400, 409, 415, 429, 500, 503} then reads_error src
      else Inr No_Body)"

definition get_control_flow_facts_call :: "control_flow_request \<Rightarrow> api_call" where
  "get_control_flow_facts_call body = \<lparr>call_request = get_control_flow_facts_kwargs body, call_parse = get_control_flow_facts_parse\<rparr>"

definition search_kwargs :: "search_request \<Rightarrow> http_request" where
  "search_kwargs body = body_request ''post'' ''/search'' (search_request_to_dict body)"

definition search_parse :: "int \<Rightarrow> py_exc + json \<Rightarrow> py_exc + parsed" where
  "search_parse status src =
     (if status = 200 then reads search_page_from_dict (\<lambda>x. Parsed (Search_Body x)) src
      else if status = 202 then reads job_from_dict (\<lambda>x. Parsed (Job_Body x)) src
      else if status \<in> {400, 403, 409, 415, 422, 429, 500, 503} then reads_error src
      else Inr No_Body)"

definition search_call :: "search_request \<Rightarrow> api_call" where
  "search_call body = \<lparr>call_request = search_kwargs body, call_parse = search_parse\<rparr>"

subsection \<open>Lemmas\<close>

text \<open>Reading an answer raises only what the client catches, if \<open>response.json()\<close> does.\<close>

lemma reads_safe: "safe_reader dec \<Longrightarrow> safe_result src \<Longrightarrow> safe_result (reads dec wrap src)"
  unfolding reads_def by (intro safe_ebind) (auto simp: safe_reader_def intro: wire_rules)

lemma reads_error_safe: "safe_result src \<Longrightarrow> safe_result (reads_error src)"
  unfolding reads_error_def by (rule reads_safe) (rule wire_rules)

lemmas parse_defs =
  cancel_job_parse_def get_capabilities_parse_def get_job_parse_def get_liveness_parse_def
  get_status_parse_def shutdown_service_parse_def apply_edit_batch_parse_def export_mappings_parse_def
  export_pending_edits_parse_def get_project_parse_def get_project_settings_parse_def import_mappings_parse_def
  reload_project_parse_def save_project_parse_def update_project_settings_parse_def list_classes_parse_def
  query_references_parse_def resolve_symbol_parse_def build_search_index_parse_def decompile_java_parse_def
  get_control_flow_facts_parse_def search_parse_def

lemma parse_safe:
  assumes "safe_result src"
  shows
    "safe_result (cancel_job_parse status src)"
    "safe_result (get_capabilities_parse status src)"
    "safe_result (get_job_parse status src)"
    "safe_result (get_liveness_parse status src)"
    "safe_result (get_status_parse status src)"
    "safe_result (shutdown_service_parse status src)"
    "safe_result (apply_edit_batch_parse status src)"
    "safe_result (export_mappings_parse status src)"
    "safe_result (export_pending_edits_parse status src)"
    "safe_result (get_project_parse status src)"
    "safe_result (get_project_settings_parse status src)"
    "safe_result (import_mappings_parse status src)"
    "safe_result (reload_project_parse status src)"
    "safe_result (save_project_parse status src)"
    "safe_result (update_project_settings_parse status src)"
    "safe_result (list_classes_parse status src)"
    "safe_result (query_references_parse status src)"
    "safe_result (resolve_symbol_parse status src)"
    "safe_result (build_search_index_parse status src)"
    "safe_result (decompile_java_parse status src)"
    "safe_result (get_control_flow_facts_parse status src)"
    "safe_result (search_parse status src)"
  unfolding parse_defs
  by (auto intro!: reads_safe reads_error_safe assms wire_rules)

lemma calls_safe [step_simps]:
  "safe_call (cancel_job_call a0)"
  "safe_call get_capabilities_call"
  "safe_call (get_job_call a2)"
  "safe_call get_liveness_call"
  "safe_call get_status_call"
  "safe_call (shutdown_service_call a5)"
  "safe_call (apply_edit_batch_call a6)"
  "safe_call (export_mappings_call a7)"
  "safe_call export_pending_edits_call"
  "safe_call get_project_call"
  "safe_call get_project_settings_call"
  "safe_call (import_mappings_call a11)"
  "safe_call (reload_project_call a12)"
  "safe_call (save_project_call a13)"
  "safe_call (update_project_settings_call a14)"
  "safe_call (list_classes_call a15 b15 c15 d15 e15 f15)"
  "safe_call (query_references_call a16)"
  "safe_call (resolve_symbol_call a17)"
  "safe_call (build_search_index_call a18)"
  "safe_call (decompile_java_call a19)"
  "safe_call (get_control_flow_facts_call a20)"
  "safe_call (search_call a21)"
  by (simp_all add: safe_call_def parse_safe
      cancel_job_call_def get_capabilities_call_def get_job_call_def
      get_liveness_call_def get_status_call_def shutdown_service_call_def
      apply_edit_batch_call_def export_mappings_call_def export_pending_edits_call_def
      get_project_call_def get_project_settings_call_def import_mappings_call_def
      reload_project_call_def save_project_call_def update_project_settings_call_def
      list_classes_call_def query_references_call_def resolve_symbol_call_def
      build_search_index_call_def decompile_java_call_def get_control_flow_facts_call_def
      search_call_def)

end
