(* ===== verification/Sdk_Clock.thy ===== *)
theory Sdk_Clock
  imports Sdk_Transport
begin

text \<open>
  Deadlines on the monotonic clock, as the polling loops of \<open>client.py\<close> and \<open>jobs.py\<close> keep them,
  what the documentation of \<open>time\<close> promises about the clock, and the contract every such loop
  meets: it ends, after a number of rounds the timeout and the interval bound.
\<close>

subsection \<open>Deadlines\<close>

text \<open>
  \<open>time.monotonic() + timeout\<close>, and the end of a round: without time left the loop raises
  (\<open>False\<close> here), otherwise it sleeps for the interval or for what is left.
\<close>

definition start_deadline :: "'w env \<Rightarrow> rat option \<Rightarrow> 'w client \<Rightarrow> rat option \<times> 'w client" where
  "start_deadline env timeout st =
     (case timeout of
        None \<Rightarrow> (None, st)
      | Some t \<Rightarrow> (case env_monotonic env (world st) of (now, w) \<Rightarrow> (Some (now + t), st\<lparr>world := w\<rparr>)))"

definition pause :: "'w env \<Rightarrow> rat option \<Rightarrow> rat \<Rightarrow> 'w client \<Rightarrow> bool \<times> 'w client" where
  "pause env deadline interval st =
     (case deadline of
        None \<Rightarrow> (True, st\<lparr>world := env_sleep env interval (world st)\<rparr>)
      | Some d \<Rightarrow>
          (case env_monotonic env (world st) of (now, w) \<Rightarrow>
             let remaining = d - now in
             if remaining \<le> 0 then (False, st\<lparr>world := w\<rparr>)
             else (True, st\<lparr>world := env_sleep env (min interval remaining) w\<rparr>)))"

lemma start_deadline_frame:
  "start_deadline env timeout st = (d, st') \<Longrightarrow> closed st' = closed st \<and> revisions st' = revisions st"
  by (auto simp: start_deadline_def split: option.splits prod.splits)

lemma start_deadline_limit:
  "start_deadline env timeout st = (d, st') \<Longrightarrow> (d = None) = (timeout = None)"
  by (auto simp: start_deadline_def split: option.splits prod.splits)

lemma pause_frame:
  "pause env deadline interval st = (go, st') \<Longrightarrow> closed st' = closed st \<and> revisions st' = revisions st"
  by (auto simp: pause_def Let_def split: option.splits prod.splits if_splits)

lemma pause_stop: "pause env deadline interval st = (False, st') \<Longrightarrow> deadline \<noteq> None"
  by (cases deadline) (auto simp: pause_def)

subsection \<open>The clock\<close>

text \<open>
  \<open>monotonic()\<close> never goes backwards and \<open>sleep(d)\<close> suspends for at least \<open>d\<close>, as documented.
  \<open>now\<close> is the time at which the world is.
\<close>

definition steady_clock :: "'w env \<Rightarrow> ('w \<Rightarrow> rat) \<Rightarrow> bool" where
  "steady_clock env now \<longleftrightarrow>
     (\<forall>w. now w \<le> fst (env_monotonic env w) \<and> fst (env_monotonic env w) \<le> now (snd (env_monotonic env w)))
     \<and> (\<forall>d w. 0 \<le> d \<longrightarrow> now w + d \<le> now (env_sleep env d w))
     \<and> (\<forall>r w. now w \<le> now (snd (env_send env r w)))"

lemma steady_monotonic:
  "steady_clock env now \<Longrightarrow> env_monotonic env w = (t, w') \<Longrightarrow> now w \<le> t \<and> t \<le> now w'"
  unfolding steady_clock_def by (metis fst_conv snd_conv)

lemma steady_sleep: "steady_clock env now \<Longrightarrow> 0 \<le> d \<Longrightarrow> now w + d \<le> now (env_sleep env d w)"
  by (simp add: steady_clock_def)

lemma steady_send: "steady_clock env now \<Longrightarrow> now w \<le> now (snd (env_send env r w))"
  by (simp add: steady_clock_def)

text \<open>How many rounds a loop with this deadline can still make.\<close>

definition rounds_left :: "rat \<Rightarrow> rat \<Rightarrow> rat \<Rightarrow> nat" where
  "rounds_left deadline interval t = nat \<lceil>(deadline - t) / interval\<rceil>"

lemma rounds_left_mono: "0 < i \<Longrightarrow> t \<le> t' \<Longrightarrow> rounds_left d i t' \<le> rounds_left d i t"
  unfolding rounds_left_def by (intro nat_mono ceiling_mono divide_right_mono) auto

lemma rounds_left_zero: "0 < i \<Longrightarrow> d \<le> t \<Longrightarrow> rounds_left d i t = 0"
proof -
  assume "0 < i" "d \<le> t"
  then have "(d - t) / i \<le> 0" by (simp add: divide_le_0_iff)
  then show ?thesis by (simp add: rounds_left_def)
qed

lemma rounds_left_step:
  assumes "0 < i" "t < d" "t + min i (d - t) \<le> t'"
  shows "rounds_left d i t' < rounds_left d i t"
proof -
  have pos: "0 < (d - t) / i" using assms by simp
  then have "0 < \<lceil>(d - t) / i\<rceil>" by linarith
  show ?thesis
  proof (cases "i \<le> d - t")
    case True
    with assms(3) have "(d - t') \<le> (d - t) - i" by (simp add: min_def)
    then have "(d - t') / i \<le> ((d - t) - i) / i"
      using assms(1) by (simp add: divide_right_mono)
    also have "\<dots> = (d - t) / i - 1" using assms(1) by (simp add: diff_divide_distrib)
    finally have "\<lceil>(d - t') / i\<rceil> \<le> \<lceil>(d - t) / i\<rceil> - 1"
      by (metis ceiling_diff_one ceiling_mono)
    with \<open>0 < \<lceil>(d - t) / i\<rceil>\<close> show ?thesis by (simp add: rounds_left_def)
  next
    case False
    with assms(3) have "d \<le> t'" by (simp add: min_def)
    with rounds_left_zero [OF assms(1)] have "rounds_left d i t' = 0" by blast
    with \<open>0 < \<lceil>(d - t) / i\<rceil>\<close> show ?thesis by (simp add: rounds_left_def)
  qed
qed

lemma pause_progress:
  assumes "steady_clock env now" "0 < i" "pause env (Some d) i st = (True, st')"
  shows "rounds_left d i (now (world st')) < rounds_left d i (now (world st))"
proof -
  obtain t w where m: "env_monotonic env (world st) = (t, w)" by fastforce
  then have t: "now (world st) \<le> t" "t \<le> now w" using steady_monotonic [OF assms(1) m] by auto
  from assms(3) m have go: "t < d" "world st' = env_sleep env (min i (d - t)) w"
    by (auto simp: pause_def Let_def split: if_splits)
  with assms(2) have "now w + min i (d - t) \<le> now (world st')"
    using steady_sleep [OF assms(1), of "min i (d - t)" w] by simp
  with t have "t + min i (d - t) \<le> now (world st')" by linarith
  with rounds_left_step [OF assms(2) go(1)] have "rounds_left d i (now (world st')) < rounds_left d i t"
    by blast
  with rounds_left_mono [OF assms(2) t(1)] show ?thesis by (meson less_le_trans)
qed

lemma start_deadline_rounds:
  assumes "steady_clock env now" "0 < i" "start_deadline env (Some t) st = (Some d, st')"
  shows "rounds_left d i (now (world st')) \<le> nat \<lceil>t / i\<rceil>"
proof -
  from assms(3) obtain n w where "env_monotonic env (world st) = (n, w)" "d = n + t" "world st' = w"
    by (auto simp: start_deadline_def split: prod.splits)
  with steady_monotonic [OF assms(1)] have "d - now (world st') \<le> t" by fastforce
  with assms(2) show ?thesis
    unfolding rounds_left_def by (intro nat_mono ceiling_mono divide_right_mono) auto
qed

subsection \<open>Loops with a deadline\<close>

text \<open>
  A polling loop: a round sends one request, and either the loop is over or it pauses before the
  deadline and goes on. \<open>cost\<close> counts what each round adds to the result.
\<close>

locale deadline_loop =
  fixes loop :: "'w env \<Rightarrow> rat \<Rightarrow> rat \<Rightarrow> 'x \<Rightarrow> 'w client \<Rightarrow> 'r option"
    and cost :: "'r \<Rightarrow> nat"
  assumes round: "(\<exists>r. loop env d i x st = Some r \<and> cost r \<le> 1)
      \<or> (\<exists>x' req st' st''. world st' = snd (env_send env req (world st))
          \<and> pause env (Some d) i st' = (True, st'')
          \<and> (\<forall>r. loop env d i x' st'' = Some r \<longrightarrow>
                (\<exists>r'. loop env d i x st = Some r' \<and> cost r' \<le> Suc (cost r))))"
begin

lemma ends:
  assumes clock: "steady_clock env now" "0 < i"
  shows "\<exists>r. loop env d i x st = Some r \<and> cost r \<le> Suc (rounds_left d i (now (world st)))"
proof (induction "rounds_left d i (now (world st))" arbitrary: x st rule: less_induct)
  case less
  show ?case
  proof (cases "\<exists>r. loop env d i x st = Some r \<and> cost r \<le> 1")
    case True
    then show ?thesis by force
  next
    case False
    with round [of env d i x st] obtain x' req st' st'' where
      step: "world st' = snd (env_send env req (world st))" "pause env (Some d) i st' = (True, st'')"
      and on: "\<And>r. loop env d i x' st'' = Some r \<Longrightarrow>
        \<exists>r'. loop env d i x st = Some r' \<and> cost r' \<le> Suc (cost r)"
      by blast
    have "rounds_left d i (now (world st')) \<le> rounds_left d i (now (world st))"
      unfolding step(1) by (intro rounds_left_mono steady_send clock)
    with pause_progress [OF clock step(2)]
    have fewer: "rounds_left d i (now (world st'')) < rounds_left d i (now (world st))" by simp
    from less [OF fewer, of x'] on fewer show ?thesis by fastforce
  qed
qed

text \<open>From the start of the wait, the timeout and the interval bound the cost.\<close>

lemma ends_by_timeout:
  assumes "steady_clock env now" "0 < i" "start_deadline env (Some t) st = (Some d, st')"
  shows "\<exists>r. loop env d i x st' = Some r \<and> cost r \<le> Suc (nat \<lceil>t / i\<rceil>)"
  using ends [OF assms(1,2), of d x st'] start_deadline_rounds [OF assms] by (meson Suc_le_mono le_trans)

end

end
