(* ===== verification/Sdk_Jobs.thy ===== *)
theory Sdk_Jobs
  imports Api_Calls Sdk_Clock Sdk_Sse
begin

text \<open>
  A job handle (\<open>jobs.py\<close>): the properties of the last job seen, refreshing and cancelling it,
  waiting for its end, polling its progress, and reading its event stream. A handle is the job
  it holds (\<open>self.raw\<close>); an operation returns what the call returns or raises, the handle's job
  afterwards, and the state of the client.
\<close>

subsection \<open>Properties of a job\<close>

definition job_sdk_error :: "job \<Rightarrow> sdk_api_error option" where
  "job_sdk_error raw = (case job_error raw of Typed e \<Rightarrow> Some (sdk_error_of e None None) | Untyped _ \<Rightarrow> None)"

definition job_result_dict :: "job \<Rightarrow> sdk_error + jdict option" where
  "job_result_dict raw =
     (case job_result raw of
        Typed r \<Rightarrow> Inr (Some (job_result_type_0_to_dict r))
      | Untyped v \<Rightarrow> if v = JNull then Inr None else Inl (Py_Error AttributeErr))"

definition job_terminal :: "job \<Rightarrow> sdk_error + bool" where
  "job_terminal raw =
     (if job_state raw = JobState_FAILED then Inl (Job_Failed raw (job_sdk_error raw))
      else if job_state raw = JobState_CANCELLED then Inl (Job_Cancelled raw)
      else Inr (job_state raw = JobState_SUCCEEDED))"

definition job_ended :: "job \<Rightarrow> bool" where
  "job_ended raw \<longleftrightarrow> job_state_value (job_state raw) \<in> set terminal_states"

subsection \<open>refresh and cancel\<close>

type_synonym ('w, 'a) job_call = "(sdk_error + 'a) \<times> job \<times> 'w client"

definition fetch_job :: "'w env \<Rightarrow> api_call \<Rightarrow> job \<Rightarrow> 'w client \<Rightarrow> ('w, job) job_call" where
  "fetch_job env c raw st =
     (case invoke env c as_job st of
        (Inl e, st') \<Rightarrow> (Inl e, raw, st')
      | (Inr new, st') \<Rightarrow> (Inr new, new, st'))"

definition job_refresh :: "'w env \<Rightarrow> job \<Rightarrow> 'w client \<Rightarrow> ('w, job) job_call" where
  "job_refresh env raw st = fetch_job env (get_job_call (job_job_id raw)) raw st"

definition job_cancel :: "'w env \<Rightarrow> job \<Rightarrow> 'w client \<Rightarrow> ('w, job) job_call" where
  "job_cancel env raw st = fetch_job env (cancel_job_call (job_job_id raw)) raw st"

subsection \<open>wait and poll_updates\<close>

partial_function (option) wait_loop ::
  "'w env \<Rightarrow> rat option \<Rightarrow> rat \<Rightarrow> job \<Rightarrow> 'w client \<Rightarrow> ('w, job) job_call option" where
  "wait_loop env deadline interval raw st =
     (case job_terminal raw of
        Inl e \<Rightarrow> Some (Inl e, raw, st)
      | Inr over \<Rightarrow>
          if over then Some (Inr raw, raw, st)
          else (case job_refresh env raw st of (res, raw', st') \<Rightarrow>
            (case res of
               Inl e \<Rightarrow> Some (Inl e, raw', st')
             | Inr _ \<Rightarrow>
                 (case job_terminal raw' of
                    Inl e \<Rightarrow> Some (Inl e, raw', st')
                  | Inr over' \<Rightarrow>
                      if over' then Some (Inr raw', raw', st')
                      else (case pause env deadline interval st' of (go, st'') \<Rightarrow>
                        if go then wait_loop env deadline interval raw' st''
                        else Some (Inl Job_Wait_Timeout, raw', st''))))))"

definition job_wait ::
  "'w env \<Rightarrow> rat option \<Rightarrow> rat \<Rightarrow> job \<Rightarrow> 'w client \<Rightarrow> ('w, job) job_call option" where
  "job_wait env timeout interval raw st =
     (case polling timeout interval of
        Inl e \<Rightarrow> Some (Inl (Py_Error e), raw, st)
      | Inr _ \<Rightarrow> (case start_deadline env timeout st of (deadline, st') \<Rightarrow>
          wait_loop env deadline interval raw st'))"

text \<open>
  The generator \<open>poll_updates\<close>, run to its end: the jobs it yields, and how it ends. An exception
  of the body ends it after the jobs already yielded.
\<close>

type_synonym 'w polled = "job list \<times> (sdk_error + unit) \<times> job \<times> 'w client"

partial_function (option) poll_loop ::
  "'w env \<Rightarrow> rat option \<Rightarrow> rat \<Rightarrow> job \<Rightarrow> 'w client \<Rightarrow> 'w polled option" where
  "poll_loop env deadline interval raw st =
     (case job_refresh env raw st of (res, raw', st') \<Rightarrow>
       (case res of
          Inl e \<Rightarrow> Some ([], Inl e, raw', st')
        | Inr j \<Rightarrow>
            if job_ended raw' then Some ([j], Inr (), raw', st')
            else (case pause env deadline interval st' of (go, st'') \<Rightarrow>
              if go then
                Option.bind (poll_loop env deadline interval raw' st'') (\<lambda>(js, rest).
                  Some (j # js, rest))
              else Some ([j], Inl Job_Wait_Timeout, raw', st''))))"

definition poll_updates ::
  "'w env \<Rightarrow> rat option \<Rightarrow> rat \<Rightarrow> job \<Rightarrow> 'w client \<Rightarrow> 'w polled option" where
  "poll_updates env timeout interval raw st =
     (case polling timeout interval of
        Inl e \<Rightarrow> Some ([], Inl (Py_Error e), raw, st)
      | Inr _ \<Rightarrow> (case start_deadline env timeout st of (deadline, st') \<Rightarrow>
          poll_loop env deadline interval raw st'))"

subsection \<open>Lemmas\<close>

lemma job_terminal_cases:
  "job_terminal raw = Inr True \<longleftrightarrow> job_state raw = JobState_SUCCEEDED"
  "job_terminal raw = Inr False \<longleftrightarrow> \<not> job_ended raw"
  "job_terminal raw = Inl e \<longleftrightarrow>
     job_state raw = JobState_FAILED \<and> e = Job_Failed raw (job_sdk_error raw)
     \<or> job_state raw = JobState_CANCELLED \<and> e = Job_Cancelled raw"
proof -
  note defs = job_terminal_def job_ended_def terminal_states_def
  show "job_terminal raw = Inr True \<longleftrightarrow> job_state raw = JobState_SUCCEEDED"
    by (cases "job_state raw") (simp_all add: defs)
  show "job_terminal raw = Inr False \<longleftrightarrow> \<not> job_ended raw"
    by (cases "job_state raw") (simp_all add: defs)
  show "job_terminal raw = Inl e \<longleftrightarrow>
     job_state raw = JobState_FAILED \<and> e = Job_Failed raw (job_sdk_error raw)
     \<or> job_state raw = JobState_CANCELLED \<and> e = Job_Cancelled raw"
    by (cases "job_state raw") (auto simp: defs)
qed

text \<open>The errors a call can raise, whatever \<open>httpx\<close> and the service do.\<close>

fun call_error :: "sdk_error \<Rightarrow> bool" where
  "call_error (Py_Error _) = True"
| "call_error (Transport_Error _) = True"
| "call_error (Request_Timeout_Error _) = True"
| "call_error (Unexpected_Response_Error _) = True"
| "call_error (Api_Error_Raised _) = True"
| "call_error _ = False"

lemma unwrap_call_error: "unwrap r expect = Inl e \<Longrightarrow> call_error e"
  by (auto simp: unwrap_def split: parsed.splits if_splits option.splits)

lemma invoke_call_error: "invoke env c expect st = (Inl e, st') \<Longrightarrow> call_error e"
  by (auto simp: invoke_def Let_def dest: unwrap_call_error
      split: if_splits prod.splits sum.splits call_result.splits)

lemma fetch_job_error:
  "fetch_job env c raw st = (Inl e, raw', st') \<Longrightarrow> call_error e \<and> raw' = raw"
  by (auto simp: fetch_job_def dest: invoke_call_error split: prod.splits sum.splits)

lemma fetch_job_returns:
  assumes "fetch_job env c raw st = (Inr j, raw', st')"
  shows "raw' = j \<and> \<not> closed st \<and> closed st' = closed st
    \<and> world st' = snd (env_send env (call_request c) (world st))"
proof -
  from assms have i: "invoke env c as_job st = (Inr j, st')" "raw' = j"
    by (auto simp: fetch_job_def split: prod.splits sum.splits)
  then have "\<not> closed st" by (auto simp: invoke_def)
  with i invoke_world [of st env c as_job] invoke_keeps_closed [OF i(1)] show ?thesis by simp
qed

lemma job_refresh_returns:
  "job_refresh env raw st = (Inr j, raw', st') \<Longrightarrow>
     raw' = j \<and> \<not> closed st \<and> world st' = snd (env_send env (get_job_kwargs (job_job_id raw)) (world st))"
  using fetch_job_returns [of env "get_job_call (job_job_id raw)" raw st j raw' st']
  by (simp add: job_refresh_def get_job_call_def)

text \<open>A round of \<open>wait\<close>: it ends, or the job was read, had not ended, and there is time left.\<close>

lemma wait_loop_round:
  obtains (over) res raw' st' where "wait_loop env deadline i raw st = Some (res, raw', st')"
    | (again) raw' st' st'' where "\<not> job_ended raw" "job_refresh env raw st = (Inr raw', raw', st')"
      "\<not> job_ended raw'" "pause env deadline i st' = (True, st'')"
      "wait_loop env deadline i raw st = wait_loop env deadline i raw' st''"
proof -
  note unfold = wait_loop.simps [of env deadline i raw st]
  show ?thesis
  proof (cases "job_ended raw")
    case True
    then show ?thesis
      using unfold job_terminal_cases(2) [of raw]
      by (cases "job_terminal raw") (auto intro: over)
  next
    case False
    then have t: "job_terminal raw = Inr False" by (simp add: job_terminal_cases)
    obtain res raw' st' where r: "job_refresh env raw st = (res, raw', st')"
      by (cases "job_refresh env raw st") auto
    show ?thesis
    proof (cases res)
      case (Inl e)
      with unfold t r show ?thesis by (auto intro: over)
    next
      case (Inr j)
      with r job_refresh_returns have j: "raw' = j" by blast
      show ?thesis
      proof (cases "job_ended raw'")
        case True
        then show ?thesis
          using unfold t r Inr job_terminal_cases(2) [of raw']
          by (cases "job_terminal raw'") (auto intro: over)
      next
        case ended: False
        then have t': "job_terminal raw' = Inr False" by (simp add: job_terminal_cases)
        obtain go st'' where p: "pause env deadline i st' = (go, st'')" by fastforce
        with unfold t t' r Inr have "wait_loop env deadline i raw st =
          (if go then wait_loop env deadline i raw' st'' else Some (Inl Job_Wait_Timeout, raw', st''))"
          by simp
        with p r Inr j ended False again over show ?thesis by (cases go) auto
      qed
    qed
  qed
qed

interpretation waiting: deadline_loop "\<lambda>env d. wait_loop env (Some d)" "\<lambda>_. 0"
proof
  fix env :: "'w env" and d i raw st
  show "(\<exists>r. wait_loop env (Some d) i raw st = Some r \<and> 0 \<le> (1::nat))
    \<or> (\<exists>x' req st' st''. world st' = snd (env_send env req (world st))
        \<and> pause env (Some d) i st' = (True, st'')
        \<and> (\<forall>r. wait_loop env (Some d) i x' st'' = Some r \<longrightarrow>
              (\<exists>r'. wait_loop env (Some d) i raw st = Some r' \<and> (0::nat) \<le> Suc 0)))"
    by (rule wait_loop_round [of env "Some d" i raw st]) (use job_refresh_returns in fastforce)+
qed

lemma poll_loop_round:
  obtains (over) js res raw' st' where "poll_loop env deadline i raw st = Some (js, res, raw', st')" "length js \<le> 1"
    | (again) raw' st' st'' where "job_refresh env raw st = (Inr raw', raw', st')" "\<not> job_ended raw'"
      "pause env deadline i st' = (True, st'')"
      "poll_loop env deadline i raw st =
         Option.bind (poll_loop env deadline i raw' st'') (\<lambda>(js, rest). Some (raw' # js, rest))"
proof -
  note unfold = poll_loop.simps [of env deadline i raw st]
  obtain res raw' st' where r: "job_refresh env raw st = (res, raw', st')"
    by (cases "job_refresh env raw st") auto
  show ?thesis
  proof (cases res)
    case (Inl e)
    with unfold r show ?thesis by (auto intro: over)
  next
    case (Inr j)
    with r job_refresh_returns have j: "raw' = j" by blast
    obtain go st'' where p: "pause env deadline i st' = (go, st'')" by fastforce
    with unfold r Inr j again over show ?thesis by (cases "job_ended raw'"; cases go) auto
  qed
qed

interpretation polled: deadline_loop "\<lambda>env d. poll_loop env (Some d)" "\<lambda>r. length (fst r)"
proof
  fix env :: "'w env" and d i raw st
  show "(\<exists>r. poll_loop env (Some d) i raw st = Some r \<and> length (fst r) \<le> 1)
    \<or> (\<exists>x' req st' st''. world st' = snd (env_send env req (world st))
        \<and> pause env (Some d) i st' = (True, st'')
        \<and> (\<forall>r. poll_loop env (Some d) i x' st'' = Some r \<longrightarrow>
              (\<exists>r'. poll_loop env (Some d) i raw st = Some r' \<and> length (fst r') \<le> Suc (length (fst r)))))"
  proof (rule poll_loop_round [of env "Some d" i raw st])
    fix raw' st' st''
    assume *: "job_refresh env raw st = (Inr raw', raw', st')" "pause env (Some d) i st' = (True, st'')"
      "poll_loop env (Some d) i raw st =
         Option.bind (poll_loop env (Some d) i raw' st'') (\<lambda>(js, rest). Some (raw' # js, rest))"
    then have "world st' = snd (env_send env (get_job_kwargs (job_job_id raw)) (world st))"
      using job_refresh_returns by blast
    moreover have "\<forall>r. poll_loop env (Some d) i raw' st'' = Some r \<longrightarrow>
        (\<exists>r'. poll_loop env (Some d) i raw st = Some r' \<and> length (fst r') \<le> Suc (length (fst r)))"
      using *(3) by auto
    ultimately show ?thesis using *(2) by blast
  qed fastforce
qed

text \<open>With a timeout both always end; \<open>poll_updates\<close> yields at most one job per interval, and one.\<close>

lemma polling_ok: "polling timeout i = Inr u \<Longrightarrow> 0 < i"
  by (auto simp: polling_def split: if_splits)

lemma job_wait_ends:
  assumes "steady_clock env now"
  shows "\<exists>r. job_wait env (Some t) i raw st = Some r"
proof (cases "polling (Some t) i")
  case (Inr u)
  obtain d st' where s: "start_deadline env (Some t) st = (Some d, st')"
    by (cases "env_monotonic env (world st)") (simp add: start_deadline_def)
  from waiting.ends_by_timeout [OF assms polling_ok [OF Inr] s] s Inr show ?thesis
    by (fastforce simp: job_wait_def)
qed (simp add: job_wait_def)

lemma poll_updates_ends:
  assumes "steady_clock env now"
  shows "\<exists>js rest. poll_updates env (Some t) i raw st = Some (js, rest) \<and> length js \<le> Suc (nat \<lceil>t / i\<rceil>)"
proof (cases "polling (Some t) i")
  case (Inr u)
  obtain d st' where s: "start_deadline env (Some t) st = (Some d, st')"
    by (cases "env_monotonic env (world st)") (simp add: start_deadline_def)
  from polled.ends_by_timeout [OF assms polling_ok [OF Inr] s] s Inr show ?thesis
    by (fastforce simp: poll_updates_def)
qed (simp add: poll_updates_def)

text \<open>What the result of \<open>wait\<close> says about the job.\<close>

definition wait_result :: "rat option \<Rightarrow> sdk_error + job \<Rightarrow> job \<Rightarrow> bool" where
  "wait_result deadline res raw =
     (case res of
        Inr j \<Rightarrow> j = raw \<and> job_state raw = JobState_SUCCEEDED
      | Inl (Job_Failed j e) \<Rightarrow> j = raw \<and> job_state raw = JobState_FAILED \<and> e = job_sdk_error raw
      | Inl (Job_Cancelled j) \<Rightarrow> j = raw \<and> job_state raw = JobState_CANCELLED
      | Inl Job_Wait_Timeout \<Rightarrow> deadline \<noteq> None \<and> \<not> job_ended raw
      | Inl e \<Rightarrow> call_error e)"

lemma wait_result_terminal:
  "job_terminal raw = Inl e \<Longrightarrow> wait_result d (Inl e) raw"
  "job_terminal raw = Inr True \<Longrightarrow> wait_result d (Inr raw) raw"
  by (auto simp: job_terminal_cases wait_result_def)

lemma wait_result_call: "call_error e \<Longrightarrow> wait_result d (Inl e) raw"
  by (cases e) (auto simp: wait_result_def)

lemma wait_loop_result:
  "wait_loop env deadline i raw st = Some r \<Longrightarrow> wait_result deadline (fst r) (fst (snd r))"
proof (induction rule: wait_loop.raw_induct [rotated, consumes 1])
  case (1 loop env deadline i raw st r)
  show ?case
  proof (cases "job_terminal raw")
    case (Inl e)
    with 1(2) wait_result_terminal show ?thesis by auto
  next
    case (Inr over)
    show ?thesis
    proof (cases over)
      case True
      with 1(2) Inr wait_result_terminal show ?thesis by auto
    next
      case False
      obtain res raw' st' where r: "job_refresh env raw st = (res, raw', st')"
        by (cases "job_refresh env raw st") auto
      show ?thesis
      proof (cases res)
        case (Inl e)
        with r have "call_error e" by (auto simp: job_refresh_def dest: fetch_job_error)
        with 1(2) Inr False r Inl wait_result_call show ?thesis by auto
      next
        case (Inr j)
        obtain go st'' where p: "pause env deadline i st' = (go, st'')" by fastforce
        show ?thesis
        proof (cases "job_terminal raw'")
          case (Inl e)
          with 1(2) \<open>job_terminal raw = _\<close> False r Inr have eq: "r = (Inl e, raw', st')" by simp
          show ?thesis unfolding eq using wait_result_terminal(1) [OF Inl, of deadline] by simp
        next
          case over': (Inr over')
          then show ?thesis
            using 1(2) \<open>job_terminal raw = _\<close> False r Inr p pause_stop [of env deadline i st' st'']
              1(1) [of env deadline i raw' st''] wait_result_terminal(2) [of raw']
            by (cases over'; cases go) (auto simp: wait_result_def job_terminal_cases)
        qed
      qed
    qed
  qed
qed

text \<open>What the jobs \<open>poll_updates\<close> yields say: only the last can have ended.\<close>

definition poll_result :: "rat option \<Rightarrow> job list \<Rightarrow> sdk_error + unit \<Rightarrow> job \<Rightarrow> bool" where
  "poll_result deadline js res raw \<longleftrightarrow>
     (case res of
        Inr _ \<Rightarrow> js \<noteq> [] \<and> last js = raw \<and> job_ended raw \<and> list_all (\<lambda>j. \<not> job_ended j) (butlast js)
      | Inl e \<Rightarrow> list_all (\<lambda>j. \<not> job_ended j) js
          \<and> (if e = Job_Wait_Timeout then deadline \<noteq> None \<and> js \<noteq> [] \<and> last js = raw else call_error e))"

lemma poll_result_Cons:
  "poll_result d js res raw \<Longrightarrow> \<not> job_ended j \<Longrightarrow> poll_result d (j # js) res raw"
  by (auto simp: poll_result_def split: sum.splits if_splits)

lemma poll_loop_result:
  "poll_loop env deadline i raw st = Some r \<Longrightarrow> poll_result deadline (fst r) (fst (snd r)) (fst (snd (snd r)))"
proof (induction rule: poll_loop.raw_induct [rotated, consumes 1])
  case (1 loop env deadline i raw st r)
  obtain res raw' st' where f: "job_refresh env raw st = (res, raw', st')"
    by (cases "job_refresh env raw st") auto
  obtain go st'' where p: "pause env deadline i st' = (go, st'')" by fastforce
  show ?case
  proof (cases res)
    case (Inl e)
    with f have "call_error e" by (auto simp: job_refresh_def dest: fetch_job_error)
    with 1(2) f Inl show ?thesis by (auto simp: poll_result_def)
  next
    case (Inr j)
    with f job_refresh_returns have "raw' = j" by blast
    show ?thesis
    proof (cases "job_ended raw' \<or> \<not> go")
      case True
      with 1(2) f p Inr \<open>raw' = j\<close> pause_stop [of env deadline i st' st'']
      show ?thesis by (auto simp: poll_result_def split: if_splits)
    next
      case False
      with 1(2) f p Inr obtain js rest where on: "loop env deadline i raw' st'' = Some (js, rest)"
        "r = (j # js, rest)"
        by (auto split: option.splits simp: Option.bind_eq_Some_conv)
      with 1(1) [OF on(1)] False \<open>raw' = j\<close> show ?thesis
        by (cases rest) (auto intro: poll_result_Cons)
    qed
  qed
qed

text \<open>Waiting sends nothing but requests for a job, so whatever those and the clock keep, it keeps.\<close>

definition reads_only :: "'w env \<Rightarrow> ('w \<Rightarrow> bool) \<Rightarrow> bool" where
  "reads_only env P \<longleftrightarrow>
     (\<forall>w. P w \<longrightarrow> P (snd (env_monotonic env w)) \<and> (\<forall>d. P (env_sleep env d w))
        \<and> (\<forall>id. P (snd (env_send env (get_job_kwargs id) w))))"

lemma reads_only_clock:
  "reads_only env P \<Longrightarrow> P w \<Longrightarrow> env_monotonic env w = (t, w') \<Longrightarrow> P w'"
  unfolding reads_only_def by (metis snd_conv)

lemma reads_only_sleep: "reads_only env P \<Longrightarrow> P w \<Longrightarrow> P (env_sleep env d w)"
  unfolding reads_only_def by blast

lemma reads_only_pause:
  assumes "reads_only env P" "P (world st)" "pause env d i st = (go, st')"
  shows "P (world st')"
proof (cases d)
  case None
  with assms reads_only_sleep show ?thesis by (auto simp: pause_def)
next
  case (Some t)
  obtain n w where m: "env_monotonic env (world st) = (n, w)" by fastforce
  with assms(1,2) have "P w" by (rule reads_only_clock)
  with assms(3) Some m reads_only_sleep [OF assms(1)] show ?thesis
    by (auto simp: pause_def Let_def split: if_splits)
qed

lemma reads_only_deadline:
  "reads_only env P \<Longrightarrow> P (world st) \<Longrightarrow> start_deadline env t st = (d, st') \<Longrightarrow> P (world st')"
  by (auto simp: start_deadline_def intro: reads_only_clock split: option.splits prod.splits)

lemma reads_only_refresh:
  assumes "reads_only env P" "P (world st)" "job_refresh env raw st = (res, raw', st')"
  shows "P (world st')"
proof -
  from assms(3) obtain res' where i: "invoke env (get_job_call (job_job_id raw)) as_job st = (res', st')"
    by (auto simp: job_refresh_def fetch_job_def split: prod.splits sum.splits)
  show ?thesis
  proof (cases "closed st")
    case True
    with i assms(2) show ?thesis by (simp add: invoke_closed)
  next
    case False
    with invoke_world [of st env "get_job_call (job_job_id raw)" as_job] i assms(1,2) show ?thesis
      by (simp add: reads_only_def get_job_call_def)
  qed
qed

lemma wait_loop_reads_only:
  "wait_loop env d i raw st = Some r \<Longrightarrow> reads_only env P \<Longrightarrow> P (world st) \<Longrightarrow> P (world (snd (snd r)))"
proof (induction rule: wait_loop.raw_induct [rotated, consumes 1])
  case (1 loop env d i raw st r)
  obtain res raw' st' where f: "job_refresh env raw st = (res, raw', st')"
    by (cases "job_refresh env raw st") auto
  obtain go st'' where p: "pause env d i st' = (go, st'')" by fastforce
  have "P (world st')" by (rule reads_only_refresh [OF 1(3,4) f])
  moreover from this have "P (world st'')" by (rule reads_only_pause [OF 1(3) _ p])
  moreover have "world (snd (snd r)) \<in> {world st, world st', world st''} \<or> loop env d i raw' st'' = Some r"
    using 1(2) unfolding f
    by (cases "job_terminal raw"; cases res; cases "job_terminal raw'"; cases go; simp add: p split: if_splits)
      auto
  ultimately show ?case
    using 1(1) [of env d i raw' st'' r] 1(3,4) by auto
qed

text \<open>The same from the start of the wait.\<close>

lemma job_wait_result:
  assumes "job_wait env timeout i raw st = Some (res, raw', st')"
  shows "wait_result timeout res raw'"
proof (cases "polling timeout i")
  case (Inl e)
  with assms show ?thesis by (auto simp: job_wait_def wait_result_def)
next
  case (Inr u)
  obtain d st'' where s: "start_deadline env timeout st = (d, st'')" by fastforce
  with assms Inr have "wait_loop env d i raw st'' = Some (res, raw', st')"
    by (simp add: job_wait_def)
  from wait_loop_result [OF this] start_deadline_limit [OF s] show ?thesis
    by (auto simp: wait_result_def split: sum.splits sdk_error.splits)
qed

lemma poll_updates_result:
  assumes "poll_updates env timeout i raw st = Some (js, res, raw', st')"
  shows "poll_result timeout js res raw'"
proof (cases "polling timeout i")
  case (Inl e)
  with assms show ?thesis by (auto simp: poll_updates_def poll_result_def)
next
  case (Inr u)
  obtain d st'' where s: "start_deadline env timeout st = (d, st'')" by fastforce
  with assms Inr have "poll_loop env d i raw st'' = Some (js, res, raw', st')"
    by (simp add: poll_updates_def)
  from poll_loop_result [OF this] start_deadline_limit [OF s] show ?thesis
    by (auto simp: poll_result_def split: sum.splits if_splits)
qed

lemma job_wait_reads_only:
  assumes "reads_only env P" "P (world st)" "job_wait env timeout i raw st = Some r"
  shows "P (world (snd (snd r)))"
proof (cases "polling timeout i")
  case (Inl e)
  with assms show ?thesis by (auto simp: job_wait_def)
next
  case (Inr u)
  obtain d st' where s: "start_deadline env timeout st = (d, st')" by fastforce
  with assms Inr have "wait_loop env d i raw st' = Some r" by (simp add: job_wait_def)
  from wait_loop_reads_only [OF this assms(1) reads_only_deadline [OF assms(1,2) s]] show ?thesis .
qed

subsection \<open>The other properties of a handle\<close>

definition job_handle_id :: "job \<Rightarrow> uuid" where
  "job_handle_id raw = job_job_id raw"

definition job_handle_type :: "job \<Rightarrow> json" where
  "job_handle_type raw = job_type raw"

definition job_handle_state :: "job \<Rightarrow> job_state" where
  "job_handle_state raw = job_state raw"

definition job_handle_progress :: "job \<Rightarrow> job_progress" where
  "job_handle_progress raw = job_progress raw"

definition job_handle_completeness :: "(json \<Rightarrow> string) \<Rightarrow> job \<Rightarrow> string option" where
  "job_handle_completeness repr raw =
     (case job_completeness raw of
        Typed c \<Rightarrow> Some (job_completeness_type_1_value c)
      | Untyped v \<Rightarrow> if v = JNull then None else Some (py_str repr v))"

definition job_handle_diagnostics :: "job \<Rightarrow> json" where
  "job_handle_diagnostics raw = job_diagnostics raw"

text \<open>\<open>__repr__\<close>; neither the id nor a state has a character that is escaped. \<open>cls\<close> is \<open>type(self).__name__\<close>.\<close>

definition job_repr :: "string \<Rightarrow> job \<Rightarrow> string" where
  "job_repr cls raw = cls @ ''(id='' @ [CHR 0x27] @ uuid_str (job_job_id raw) @ [CHR 0x27]
     @ '', state='' @ [CHR 0x27] @ job_state_value (job_state raw) @ [CHR 0x27] @ '')''"

end
