(* ===== verification/Sdk_Client.thy ===== *)
theory Sdk_Client
  imports Sdk_Jobs
begin

text \<open>
  The client (\<open>client.py\<close>): construction, the operations on the service, waiting for it to be
  ready, and the end of the client's life. The state is \<^typ>\<open>'w client\<close> of \<open>Sdk_Transport\<close>.
\<close>

subsection \<open>Construction\<close>

text \<open>
  \<open>injected\<close> is \<open>str(http_client.base_url)\<close> of a client the caller brings along. The low-level client
  that is made as well is in \<open>Api_Client\<close>.
\<close>

definition new_client ::
  "(string \<Rightarrow> bool) \<Rightarrow> (string \<Rightarrow> string) \<Rightarrow> string \<Rightarrow> string option \<Rightarrow> 'w \<Rightarrow> py_exc + string \<times> 'w client" where
  "new_client ip_literal nfkc url injected w =
     ebind (base_url ip_literal nfkc url) (\<lambda>base.
       if (case injected of None \<Rightarrow> False | Some s \<Rightarrow> rstrip ''/'' s \<noteq> base)
       then Inl (ValueErr ''Injected HTTP client's base_url must match normalized /api/v1 URL'')
       else Inr (base, \<lparr>closed = False, revisions = new_cache, world = w\<rparr>))"

subsection \<open>The service\<close>

definition client_liveness :: "'w env \<Rightarrow> ('w, liveness) sdk" where
  "client_liveness env = invoke env get_liveness_call as_liveness"

definition client_status :: "'w env \<Rightarrow> ('w, service_status) sdk" where
  "client_status env = invoke env get_status_call as_status"

definition client_capabilities :: "'w env \<Rightarrow> ('w, capabilities) sdk" where
  "client_capabilities env = invoke env get_capabilities_call as_capabilities"

definition client_job :: "'w env \<Rightarrow> string \<Rightarrow> ('w, job) sdk" where
  "client_job env job_id =
     sbind (slift (uuid_of_str job_id)) (\<lambda>u. invoke env (get_job_call u) as_job)"

definition client_shutdown :: "'w env \<Rightarrow> string \<Rightarrow> ('w, shutdown_accepted) sdk" where
  "client_shutdown env policy =
     sbind (slift (shutdown_request_policy_of (JStr policy))) (\<lambda>p.
       invoke env (shutdown_service_call (Given \<lparr>shutdown_request_policy = Given p\<rparr>)) as_shutdown)"

definition client_close :: "'w env \<Rightarrow> ('w, unit) sdk" where
  "client_close env st =
     (if closed st then (Inr (), st)
      else (Inr (), st\<lparr>closed := True, world := env_close env (world st)\<rparr>))"

definition client_enter :: "('w, unit) sdk" where
  "client_enter st = (if closed st then (Inl (Transport_Error ''Client is closed''), st) else (Inr (), st))"

definition client_exit :: "'w env \<Rightarrow> ('w, unit) sdk" where
  "client_exit env = client_close env"

subsection \<open>Waiting for the service\<close>

definition status_sdk_error :: "service_status \<Rightarrow> sdk_api_error option" where
  "status_sdk_error s =
     (case service_status_error s of Given (Typed e) \<Rightarrow> Some (sdk_error_of e None None) | _ \<Rightarrow> None)"

partial_function (option) ready_loop ::
  "'w env \<Rightarrow> rat option \<Rightarrow> rat \<Rightarrow> 'w client \<Rightarrow> ((sdk_error + service_status) \<times> 'w client) option" where
  "ready_loop env deadline interval st =
     (case client_status env st of (res, st') \<Rightarrow>
       (case res of
          Inl e \<Rightarrow> Some (Inl e, st')
        | Inr status \<Rightarrow>
            if service_status_state status = ServiceStatusState_READY then Some (Inr status, st')
            else if service_status_state status = ServiceStatusState_FAILED
            then Some (Inl (Service_Load_Failed status (status_sdk_error status)), st')
            else (case pause env deadline interval st' of (go, st'') \<Rightarrow>
              if go then ready_loop env deadline interval st''
              else Some (Inl Wait_Ready_Timeout, st''))))"

definition wait_ready ::
  "'w env \<Rightarrow> rat \<Rightarrow> rat \<Rightarrow> 'w client \<Rightarrow> ((sdk_error + service_status) \<times> 'w client) option" where
  "wait_ready env timeout interval st =
     (case polling (Some timeout) interval of
        Inl e \<Rightarrow> Some (Inl (Py_Error e), st)
      | Inr _ \<Rightarrow> (case start_deadline env (Some timeout) st of (deadline, st') \<Rightarrow>
          ready_loop env deadline interval st'))"

subsection \<open>Lemmas\<close>

lemma client_status_returns:
  assumes "client_status env st = (Inr s, st')"
  shows "\<not> closed st \<and> world st' = snd (env_send env get_status_kwargs (world st))"
proof -
  have "\<not> closed st" using assms by (auto simp: client_status_def invoke_def)
  with assms invoke_world [of st env get_status_call as_status] show ?thesis
    by (simp add: client_status_def get_status_call_def)
qed

lemma ready_loop_round:
  obtains (over) res st' where "ready_loop env deadline i st = Some (res, st')"
    | (again) s st' st'' where "client_status env st = (Inr s, st')"
      "pause env deadline i st' = (True, st'')"
      "ready_loop env deadline i st = ready_loop env deadline i st''"
proof -
  note unfold = ready_loop.simps [of env deadline i st]
  obtain res st' where c: "client_status env st = (res, st')" by fastforce
  show ?thesis
  proof (cases res)
    case (Inl e)
    with unfold c over show ?thesis by simp
  next
    case (Inr s)
    obtain go st'' where p: "pause env deadline i st' = (go, st'')" by fastforce
    show ?thesis
    proof (cases "service_status_state s \<in> {ServiceStatusState_READY, ServiceStatusState_FAILED}")
      case True
      with unfold c Inr over show ?thesis by (auto split: if_splits)
    next
      case False
      then have "ready_loop env deadline i st =
          (if go then ready_loop env deadline i st'' else Some (Inl Wait_Ready_Timeout, st''))"
        using unfold c Inr p by simp
      with c Inr p again over show ?thesis by (cases go) auto
    qed
  qed
qed

interpretation readiness: deadline_loop "\<lambda>env d i (_ :: unit). ready_loop env (Some d) i" "\<lambda>_. 0"
proof
  fix env :: "'w env" and d i st
  show "(\<exists>r. ready_loop env (Some d) i st = Some r \<and> 0 \<le> (1::nat))
    \<or> (\<exists>x' req st' st''. world st' = snd (env_send env req (world st))
        \<and> pause env (Some d) i st' = (True, st'')
        \<and> (\<forall>r. ready_loop env (Some d) i st'' = Some r \<longrightarrow>
              (\<exists>r'. ready_loop env (Some d) i st = Some r' \<and> (0::nat) \<le> Suc 0)))"
    by (rule ready_loop_round [of env "Some d" i st]) (use client_status_returns in fastforce)+
qed

lemma wait_ready_ends:
  assumes "steady_clock env now"
  shows "\<exists>r. wait_ready env t i st = Some r"
proof (cases "polling (Some t) i")
  case (Inr u)
  obtain d st' where s: "start_deadline env (Some t) st = (Some d, st')"
    by (cases "env_monotonic env (world st)") (simp add: start_deadline_def)
  from readiness.ends_by_timeout [OF assms polling_ok [OF Inr] s] s Inr show ?thesis
    by (fastforce simp: wait_ready_def)
qed (simp add: wait_ready_def)

text \<open>What the result says about the last status.\<close>

definition ready_result :: "sdk_error + service_status \<Rightarrow> bool" where
  "ready_result res =
     (case res of
        Inr s \<Rightarrow> service_status_state s = ServiceStatusState_READY
      | Inl (Service_Load_Failed s e) \<Rightarrow>
          service_status_state s = ServiceStatusState_FAILED \<and> e = status_sdk_error s
      | Inl e \<Rightarrow> e = Wait_Ready_Timeout \<or> call_error e)"

lemma ready_result_call: "call_error e \<Longrightarrow> ready_result (Inl e)"
  by (cases e) (auto simp: ready_result_def)

lemma ready_result_simps:
  "ready_result (Inr s) \<longleftrightarrow> service_status_state s = ServiceStatusState_READY"
  "ready_result (Inl (Service_Load_Failed s e)) \<longleftrightarrow>
     service_status_state s = ServiceStatusState_FAILED \<and> e = status_sdk_error s"
  "ready_result (Inl Wait_Ready_Timeout)"
  by (auto simp: ready_result_def)

lemma ready_loop_result: "ready_loop env deadline i st = Some r \<Longrightarrow> ready_result (fst r)"
proof (induction rule: ready_loop.raw_induct [rotated, consumes 1])
  case (1 loop env deadline i st r)
  obtain res st' where c: "client_status env st = (res, st')" by fastforce
  obtain go st'' where p: "pause env deadline i st' = (go, st'')" by fastforce
  show ?case
  proof (cases res)
    case (Inl e)
    with c have "call_error e" by (auto simp: client_status_def dest: invoke_call_error)
    with 1(2) c Inl show ?thesis by (auto intro: ready_result_call)
  next
    case (Inr s)
    from 1(2) [unfolded c] Inr p 1(1) [of env deadline i st''] show ?thesis
      by (cases go) (auto simp: ready_result_simps split: if_splits)
  qed
qed

lemma wait_ready_result:
  assumes "wait_ready env timeout i st = Some (res, st')"
  shows "ready_result res"
proof (cases "polling (Some timeout) i")
  case (Inl e)
  with assms show ?thesis by (auto simp: wait_ready_def ready_result_def)
next
  case (Inr u)
  obtain d st'' where "start_deadline env (Some timeout) st = (d, st'')" by fastforce
  with assms Inr have "ready_loop env d i st'' = Some (res, st')" by (simp add: wait_ready_def)
  from ready_loop_result [OF this] show ?thesis by simp
qed

end
