(* ===== verification/Sdk_Events.thy ===== *)
theory Sdk_Events
  imports Sdk_Jobs
begin

text \<open>
  The event stream of a job (\<open>Job.events\<close> in \<open>jobs.py\<close>): the checks of the response, the request's
  timeouts, and the loop that feeds the bytes to the parser and yields its events. The generator is
  run to its end: the events it yields, then how it ends.
\<close>

subsection \<open>The response\<close>

definition response_header :: "string \<Rightarrow> string \<Rightarrow> string pydict \<Rightarrow> string" where
  "response_header name default_value hs =
     (case find (\<lambda>(k, v). lower_ascii k = name) hs of None \<Rightarrow> default_value | Some (k, v) \<Rightarrow> v)"

definition stream_status :: "http_response \<Rightarrow> sdk_error + unit" where
  "stream_status r =
     (if resp_status r \<noteq> 200 then
        (case ebind (resp_json r) error_envelope_from_dict of
           Inl e \<Rightarrow>
             Inl (if decode_failure e
                  then Unexpected_Response_Error (''Invalid SSE HTTP '' @ nat_str (nat (resp_status r)) @ '' response'')
                  else Py_Error e)
         | Inr env \<Rightarrow>
             Inl (Api_Error_Raised
               (sdk_error_of (error_envelope_error env) (Some (resp_status r)) (Some (resp_headers r)))))
      else if takeWhile (\<lambda>c. c \<noteq> CHR '';'') (response_header ''content-type'' '''' (resp_headers r))
              \<noteq> ''text/event-stream''
      then Inl (Unexpected_Response_Error ''Expected text/event-stream'')
      else Inr ())"

definition event_timeout :: "http_timeout \<Rightarrow> http_timeout" where
  "event_timeout t = \<lparr>timeout_connect = timeout_connect t, timeout_read = None,
     timeout_write = timeout_write t, timeout_pool = timeout_pool t\<rparr>"

subsection \<open>The loop over the chunks\<close>

definition slice_size :: nat where
  "slice_size = 16384"

text \<open>\<open>chunk[offset : offset + 16384] for offset in range(0, len(chunk), 16384)\<close>.\<close>

definition slices :: "nat \<Rightarrow> 'a list \<Rightarrow> 'a list list" where
  "slices n xs = map (\<lambda>k. take n (drop (k * n) xs)) [0..<(length xs + n - 1) div n]"

text \<open>What a chunk yields before an error of \<open>feed\<close> stays yielded.\<close>

fun feed_slices :: "parser \<Rightarrow> string list \<Rightarrow> job_event list \<times> (sdk_error + parser)" where
  "feed_slices p [] = ([], Inr p)"
| "feed_slices p (c # cs) =
     (case feed p c of
        Inl e \<Rightarrow> ([], Inl e)
      | Inr (es, q) \<Rightarrow> (case feed_slices q cs of (es', res) \<Rightarrow> (es @ es', res)))"

fun stop_error :: "stream_stop \<Rightarrow> sdk_error" where
  "stop_error Stream_End =
     Transport_Error ''Job event stream ended before terminal event; poll or reconnect explicitly''"
| "stop_error (Stream_Timeout m) = Request_Timeout_Error m"
| "stop_error (Stream_Http_Error m) = Transport_Error m"

fun read_chunks :: "parser \<Rightarrow> string list \<Rightarrow> stream_stop \<Rightarrow> job_event list \<times> (sdk_error + unit)" where
  "read_chunks p [] stop = ([], Inl (stop_error stop))"
| "read_chunks p (c # cs) stop =
     (case feed_slices p (slices slice_size c) of
        (es, Inl e) \<Rightarrow> (es, Inl e)
      | (es, Inr q) \<Rightarrow>
          if parser_terminal q then (es, Inr ())
          else (case read_chunks q cs stop of (es', res) \<Rightarrow> (es @ es', res)))"

definition events_url :: "job \<Rightarrow> string" where
  "events_url raw = ''/jobs/'' @ uuid_str (job_job_id raw) @ ''/events''"

definition job_events ::
  "'w env \<Rightarrow> string option \<Rightarrow> job \<Rightarrow> 'w client \<Rightarrow> job_event list \<times> (sdk_error + unit) \<times> 'w client" where
  "job_events env last_event_id raw st =
     (if closed st then ([], Inl (Transport_Error ''Client is closed''), st)
      else
        let headers = (case last_event_id of None \<Rightarrow> [] | Some s \<Rightarrow> [(''Last-Event-ID'', s)]);
            url = events_url raw
        in case env_stream env url headers (event_timeout (env_pool_timeout env)) (world st) of
          (opened, w) \<Rightarrow>
            let st = st\<lparr>world := w\<rparr> in
            (case opened of
               Open_Timeout m \<Rightarrow> ([], Inl (Request_Timeout_Error m), st)
             | Open_Http_Error m \<Rightarrow> ([], Inl (Transport_Error m), st)
             | Opened s \<Rightarrow>
                 if resp_status (stream_response s) \<noteq> 200 \<and> stream_read s \<noteq> Stream_End
                 then ([], Inl (stop_error (stream_read s)), st)
                 else (case stream_status (stream_response s) of
                    Inl e \<Rightarrow> ([], Inl e, st)
                  | Inr _ \<Rightarrow>
                      (case new_parser (job_job_id raw) last_event_id of
                         Inl e \<Rightarrow> ([], Inl (Py_Error e), st)
                       | Inr p \<Rightarrow>
                           (case read_chunks p (stream_chunks s) (stream_end s) of
                              (es, res) \<Rightarrow> (es, res, st))))))"

subsection \<open>Lemmas\<close>

text \<open>The slices of a chunk are the chunk; one that is small is its only slice.\<close>

lemma slices_Nil [simp]: "0 < n \<Longrightarrow> slices n [] = []"
  by (simp add: slices_def)

lemma slices_small:
  assumes "xs \<noteq> []" "length xs \<le> n"
  shows "slices n xs = [xs]"
proof -
  have "(length xs + n - 1) div n = 1"
    using assms by (intro div_nat_eqI) (cases xs; auto)+
  then show ?thesis using assms by (simp add: slices_def)
qed

lemma concat_slices:
  assumes "0 < n"
  shows "concat (slices n xs) = xs"
proof -
  have part: "concat (map (\<lambda>k. take n (drop (k * n) xs)) [0..<m]) = take (m * n) xs" for m
  proof (induction m)
    case (Suc m)
    have "take (m * n) xs @ take n (drop (m * n) xs) = take (m * n + n) xs"
      by (simp add: take_add)
    with Suc show ?case by (simp add: add.commute)
  qed simp
  let ?m = "(length xs + n - 1) div n"
  have "?m * n + (length xs + n - 1) mod n = length xs + n - 1"
    by (rule div_mult_mod_eq)
  moreover have "(length xs + n - 1) mod n < n" using assms by simp
  ultimately have "length xs \<le> ?m * n" by linarith
  then show ?thesis unfolding slices_def part by simp
qed

lemma slice_length: "s \<in> set (slices n xs) \<Longrightarrow> length s \<le> n"
  by (auto simp: slices_def)

lemma feed_empty: "parser_ready p \<Longrightarrow> feed p [] = Inr ([], p)"
  using drain_stop [where s = "parser_pending p" and p = p and evs = "[]"]
  by (simp add: feed_def parser_ready_def within_bounds_def)

text \<open>As long as no chunk is larger than a slice, \<open>events\<close> feeds the parser chunk by chunk.\<close>

lemma feed_slices_small:
  assumes "parser_ready p" "length c \<le> slice_size"
  shows "feed_slices p (slices slice_size c)
    = (case feed p c of Inl e \<Rightarrow> ([], Inl e) | Inr (es, q) \<Rightarrow> (es, Inr q))"
proof (cases "c = []")
  case True
  with feed_empty [OF assms(1)] show ?thesis by (simp add: slice_size_def)
next
  case False
  with slices_small [OF _ assms(2)] show ?thesis by (auto split: sum.splits)
qed

lemma read_chunks_small:
  assumes "parser_ready p" "\<forall>c \<in> set cs. length c \<le> slice_size" "feed_all p cs = Inr (evs, q)"
  shows "read_chunks p cs stop = (evs, if parser_terminal q then Inr () else Inl (stop_error stop))"
  using assms
proof (induction cs arbitrary: p evs)
  case (Cons c cs)
  then obtain es r where fd: "feed p c = Inr (es, r)"
    by (auto simp: ebind_eq_Inr)
  with Cons.prems feed_slices_small [of p c]
  have sl: "feed_slices p (slices slice_size c) = (es, Inr r)" by simp
  show ?case
  proof (cases "parser_terminal r")
    case True
    with Cons.prems(3) fd sl show ?thesis by simp
  next
    case False
    with Cons.prems(3) fd obtain es' where "feed_all r cs = Inr (es', q)" "evs = es @ es'"
      by (auto simp: ebind_eq_Inr)
    with Cons.IH [of r es'] feed_ready [OF fd False] Cons.prems(2) sl False show ?thesis by simp
  qed
qed (simp add: parser_ready_def)

text \<open>It returns only after a terminal event, and raises only errors of the SDK.\<close>

lemma feed_slices_terminal:
  "feed_slices p cs = (es, Inr q) \<Longrightarrow> \<not> parser_terminal p \<Longrightarrow> parser_terminal q \<Longrightarrow>
     \<exists>e \<in> set es. is_terminal e"
proof (induction cs arbitrary: p es)
  case (Cons c cs)
  then obtain es1 r es2 where fd: "feed p c = Inr (es1, r)" and rest: "feed_slices r cs = (es2, Inr q)"
    and es: "es = es1 @ es2"
    by (auto split: sum.splits prod.splits)
  from fd Cons.prems(2) have "ends_terminal es1 (parser_terminal r)"
    using drain_ends_terminal [where evs = "[]"] by (auto simp: feed_Inr)
  with Cons.IH [OF rest] Cons.prems(3) es show ?case
    by (cases "parser_terminal r") (auto simp: ends_terminal_def)
qed simp

lemma read_chunks_returns:
  "read_chunks p cs stop = (es, Inr u) \<Longrightarrow> \<not> parser_terminal p \<Longrightarrow> \<exists>e \<in> set es. is_terminal e"
proof (induction cs arbitrary: p es)
  case (Cons c cs)
  obtain es1 res where sl: "feed_slices p (slices slice_size c) = (es1, res)" by fastforce
  with Cons.prems obtain q where q: "res = Inr q" by (cases res) auto
  show ?case
  proof (cases "parser_terminal q")
    case True
    with feed_slices_terminal [of p "slices slice_size c" es1 q] sl q Cons.prems show ?thesis by auto
  next
    case False
    with sl q Cons.prems(1) obtain es2 where "read_chunks q cs stop = (es2, Inr u)" "es = es1 @ es2"
      by (auto split: prod.splits)
    with Cons.IH [of q es2] False show ?thesis by auto
  qed
qed simp

lemma feed_slices_error: "feed_slices p cs = (es, Inl e) \<Longrightarrow> \<exists>m. e = Unexpected_Response_Error m"
  by (induction cs arbitrary: p es) (auto dest: feed_error split: sum.splits prod.splits)

lemma stop_error_lib: "is_lib_error (stop_error stop)"
  by (cases stop) auto

lemma read_chunks_error: "read_chunks p cs stop = (es, Inl e) \<Longrightarrow> is_lib_error e"
  by (induction cs arbitrary: p es)
    (auto simp: stop_error_lib dest: feed_slices_error split: sum.splits prod.splits if_splits)

lemma stream_status_error:
  assumes "safe_result (resp_json r)" "stream_status r = Inl e"
  shows "is_lib_error e"
proof -
  have "safe_reader error_envelope_from_dict" by (rule wire_rules)
  then have "safe_result (ebind (resp_json r) error_envelope_from_dict)"
    by (intro safe_ebind assms(1)) (simp add: safe_reader_def)
  with assms(2) show ?thesis
    by (auto simp: stream_status_def safe_result_def split: if_splits sum.splits)
qed

text \<open>The whole call: what it raises, and what it delivers from an accepted stream.\<close>

definition proper_stream :: "'w env \<Rightarrow> bool" where
  "proper_stream env \<longleftrightarrow>
     (\<forall>url hs t w s w'. env_stream env url hs t w = (Opened s, w') \<longrightarrow> safe_result (resp_json (stream_response s)))"

lemma job_events_error:
  assumes "proper_stream env" "job_events env None raw st = (es, Inl e, st')"
  shows "is_lib_error e"
proof (cases "closed st")
  case True
  with assms(2) show ?thesis by (auto simp: job_events_def)
next
  case False
  obtain opened w where o: "env_stream env (events_url raw) []
      (event_timeout (env_pool_timeout env)) (world st) = (opened, w)" by fastforce
  show ?thesis
  proof (cases opened)
    case (Opened s)
    with o assms(1) have safe: "safe_result (resp_json (stream_response s))"
      unfolding proper_stream_def by blast
    from assms(2) False o Opened show ?thesis
      by (auto simp: job_events_def Let_def new_parser_def stop_error_lib
          dest: stream_status_error [OF safe] read_chunks_error
          split: if_splits sum.splits prod.splits)
  qed (use assms(2) False o in \<open>auto simp: job_events_def\<close>)
qed

lemma job_events_returns:
  assumes "job_events env resume raw st = (es, Inr u, st')"
  shows "\<exists>e \<in> set es. is_terminal e"
proof -
  from assms have "\<exists>p. new_parser (job_job_id raw) resume = Inr p
    \<and> (\<exists>cs stop. read_chunks p cs stop = (es, Inr u))"
    by (auto simp: job_events_def Let_def split: if_splits sum.splits prod.splits stream_outcome.splits)
  then obtain p cs stop where "new_parser (job_job_id raw) resume = Inr p" "read_chunks p cs stop = (es, Inr u)"
    by blast
  moreover from this have "\<not> parser_terminal p"
    by (auto simp: new_parser_def ebind_eq_Inr)
  ultimately show ?thesis using read_chunks_returns by blast
qed

definition accepted_stream :: "'w env \<Rightarrow> job \<Rightarrow> 'w client \<Rightarrow> http_stream \<Rightarrow> bool" where
  "accepted_stream env raw st s \<longleftrightarrow>
     \<not> closed st
     \<and> fst (env_stream env (events_url raw) []
          (event_timeout (env_pool_timeout env)) (world st)) = Opened s
     \<and> stream_status (stream_response s) = Inr ()"

lemma stream_status_ok: "stream_status r = Inr u \<Longrightarrow> resp_status r = 200"
  by (auto simp: stream_status_def split: if_splits sum.splits)

lemma job_events_frames:
  assumes "accepted_stream env raw st s" "\<forall>c \<in> set (stream_chunks s). length c \<le> slice_size"
    and small: "length (concat (stream_chunks s)) \<le> max_frame"
    and utf8: "list_all utf8_ok (complete_lines (concat (stream_chunks s)))"
    and frames: "read_stream (job_job_id raw) 0 (concat (stream_chunks s)) = Inr evs"
  shows "\<exists>st'. job_events env None raw st =
    (evs, if evs \<noteq> [] \<and> is_terminal (last evs) then Inr () else Inl (stop_error (stream_end s)), st')"
proof -
  let ?p = "\<lparr>parser_job_id = job_job_id raw, parser_last_id = 0, parser_pending = [], parser_lines = [],
    parser_frame_bytes = 0, parser_terminal = False\<rparr>"
  have new: "new_parser (job_job_id raw) None = Inr ?p" by (simp add: new_parser_def)
  from feed_all_frames [of ?p "stream_chunks s" evs] small utf8 frames
  obtain q where q: "feed_all ?p (stream_chunks s) = Inr (evs, q)" by auto
  have ready: "parser_ready ?p"
    by (simp add: parser_ready_def within_bounds_def)
  from feed_all_terminal [OF ready q]
  have "parser_terminal q \<longleftrightarrow> evs \<noteq> [] \<and> is_terminal (last evs)"
    by (auto simp: ends_terminal_def list_all_iff split: if_splits)
  with read_chunks_small [OF ready assms(2) q] new assms(1) stream_status_ok [of "stream_response s"]
  show ?thesis
    by (cases "env_stream env (events_url raw) []
          (event_timeout (env_pool_timeout env)) (world st)")
      (auto simp: job_events_def accepted_stream_def Let_def)
qed

end
