(* ===== verification/Sdk_Symbols.thy ===== *)
theory Sdk_Symbols
  imports Wire_Source Wire_Project Wire_Symbols
begin

text \<open>
  Original identities and the handles that carry them (\<open>symbols.py\<close>), and the wrapped results of
  \<open>results.py\<close>. The operations of a bound handle are in \<open>Sdk_Handles\<close>, after those of the project.
\<close>

subsection \<open>Original identities\<close>

text \<open>\<open>None\<close> is \<open>JNull\<close>: the constructors always give all five fields.\<close>

definition class_ref :: "string \<Rightarrow> json \<Rightarrow> symbol_ref" where
  "class_ref descriptor input_identity =
     \<lparr>symbol_ref_kind = SymbolRefKind_CLASS, symbol_ref_original_class_descriptor = JStr descriptor,
      symbol_ref_input_identity = Given input_identity, symbol_ref_original_name = Given JNull,
      symbol_ref_original_descriptor = Given JNull\<rparr>"

definition method_ref :: "string \<Rightarrow> string \<Rightarrow> string \<Rightarrow> json \<Rightarrow> symbol_ref" where
  "method_ref owner name descriptor input_identity =
     \<lparr>symbol_ref_kind = SymbolRefKind_METHOD, symbol_ref_original_class_descriptor = JStr owner,
      symbol_ref_input_identity = Given input_identity, symbol_ref_original_name = Given (JStr name),
      symbol_ref_original_descriptor = Given (JStr descriptor)\<rparr>"

definition field_ref :: "string \<Rightarrow> string \<Rightarrow> string \<Rightarrow> json \<Rightarrow> symbol_ref" where
  "field_ref owner name descriptor input_identity =
     \<lparr>symbol_ref_kind = SymbolRefKind_FIELD, symbol_ref_original_class_descriptor = JStr owner,
      symbol_ref_input_identity = Given input_identity, symbol_ref_original_name = Given (JStr name),
      symbol_ref_original_descriptor = Given (JStr descriptor)\<rparr>"

subsection \<open>Handles\<close>

datatype raw_symbol = Class_Raw class_info | Symbol_Raw symbol_info

datatype handle_class = Java_Class | Java_Method | Java_Field

record handle =
  handle_class :: handle_class
  handle_raw :: raw_symbol
  handle_ref :: symbol_ref

fun raw_ref :: "raw_symbol \<Rightarrow> symbol_ref" where
  "raw_ref (Class_Raw x) = class_info_ref x"
| "raw_ref (Symbol_Raw x) = symbol_info_ref x"

definition new_handle :: "handle_class \<Rightarrow> raw_symbol \<Rightarrow> handle" where
  "new_handle cls raw = \<lparr>handle_class = cls, handle_raw = raw, handle_ref = raw_ref raw\<rparr>"

fun raw_display_name :: "raw_symbol \<Rightarrow> json" where
  "raw_display_name (Class_Raw x) = class_info_display_name x"
| "raw_display_name (Symbol_Raw x) = symbol_info_display_name x"

definition handle_display_name :: "handle \<Rightarrow> json" where
  "handle_display_name h = raw_display_name (handle_raw h)"

definition handle_original_name :: "handle \<Rightarrow> json" where
  "handle_original_name h =
     (case handle_raw h of
        Class_Raw x \<Rightarrow> class_info_original_dotted_name x
      | Symbol_Raw x \<Rightarrow> symbol_info_original_name x)"

text \<open>\<open>reference(value)\<close>: an operation takes a wire reference or a handle.\<close>

datatype target = Wire_Ref symbol_ref | Handle handle

fun reference :: "target \<Rightarrow> symbol_ref" where
  "reference (Handle h) = handle_ref h"
| "reference (Wire_Ref r) = r"

subsection \<open>Results\<close>

record source_result =
  source_raw :: decompile_result

record pending_edits_result =
  pending_raw :: pending_edits

text \<open>Their properties are those of the wire model.\<close>

definition source_result_outcome :: "source_result \<Rightarrow> decompile_result_outcome" where
  "source_result_outcome r = decompile_result_outcome (source_raw r)"

definition source_result_queried_ref :: "source_result \<Rightarrow> symbol_ref" where
  "source_result_queried_ref r = decompile_result_queried_ref (source_raw r)"

definition source_result_source_owner_ref :: "source_result \<Rightarrow> symbol_ref lenient" where
  "source_result_source_owner_ref r = decompile_result_source_owner_ref (source_raw r)"

definition source_result_candidates :: "source_result \<Rightarrow> symbol_info list" where
  "source_result_candidates r = decompile_result_candidates (source_raw r)"

definition source_result_session_id :: "source_result \<Rightarrow> uuid" where
  "source_result_session_id r = decompile_result_session_id (source_raw r)"

definition source_result_logical_revision :: "source_result \<Rightarrow> json" where
  "source_result_logical_revision r = decompile_result_logical_revision (source_raw r)"

definition source_result_source_snapshot_id :: "source_result \<Rightarrow> json" where
  "source_result_source_snapshot_id r = decompile_result_source_snapshot_id (source_raw r)"

definition source_result_effective_settings :: "source_result \<Rightarrow> effective_source_settings" where
  "source_result_effective_settings r = decompile_result_effective_settings (source_raw r)"

definition source_result_status :: "source_result \<Rightarrow> decompile_result_status" where
  "source_result_status r = decompile_result_status (source_raw r)"

definition source_result_representation :: "source_result \<Rightarrow> decompile_result_representation" where
  "source_result_representation r = decompile_result_representation (source_raw r)"

definition source_result_source :: "source_result \<Rightarrow> json" where
  "source_result_source r = decompile_result_source (source_raw r)"

definition source_result_method_range_available :: "source_result \<Rightarrow> json" where
  "source_result_method_range_available r = decompile_result_method_range_available (source_raw r)"

definition source_result_method_range :: "source_result \<Rightarrow> source_range lenient" where
  "source_result_method_range r = decompile_result_method_range (source_raw r)"

definition source_result_method_source :: "source_result \<Rightarrow> json" where
  "source_result_method_source r = decompile_result_method_source (source_raw r)"

definition source_result_annotations :: "source_result \<Rightarrow> source_annotation list" where
  "source_result_annotations r = decompile_result_annotations (source_raw r)"

definition source_result_variables :: "source_result \<Rightarrow> source_variable list" where
  "source_result_variables r = decompile_result_variables (source_raw r)"

definition source_result_raw_debug_lines :: "source_result \<Rightarrow> json" where
  "source_result_raw_debug_lines r = decompile_result_raw_debug_lines (source_raw r)"

definition source_result_class_error_count :: "source_result \<Rightarrow> json" where
  "source_result_class_error_count r = decompile_result_class_error_count (source_raw r)"

definition source_result_diagnostics :: "source_result \<Rightarrow> json" where
  "source_result_diagnostics r = decompile_result_diagnostics (source_raw r)"

definition source_result_capabilities :: "source_result \<Rightarrow> source_capabilities" where
  "source_result_capabilities r = decompile_result_capabilities (source_raw r)"

definition pending_result_session_id :: "pending_edits_result \<Rightarrow> json" where
  "pending_result_session_id r = pending_edits_session_id (pending_raw r)"

definition pending_result_logical_revision :: "pending_edits_result \<Rightarrow> json" where
  "pending_result_logical_revision r = pending_edits_logical_revision (pending_raw r)"

definition pending_result_dirty :: "pending_edits_result \<Rightarrow> json" where
  "pending_result_dirty r = pending_edits_dirty (pending_raw r)"

definition pending_result_code_data :: "pending_edits_result \<Rightarrow> pending_edits_code_data" where
  "pending_result_code_data r = pending_edits_code_data (pending_raw r)"

definition pending_result_mappings_path :: "pending_edits_result \<Rightarrow> json unset" where
  "pending_result_mappings_path r = pending_edits_mappings_path (pending_raw r)"

subsection \<open>Lemmas\<close>

text \<open>
  A reference is read as a method exactly if it is one and has a name and a descriptor, and then
  nothing is lost; without them reading raises \<open>KeyError\<close>.
\<close>

lemma method_symbol_of_ref:
  "method_symbol_ref_from_dict (JObj (symbol_ref_to_dict r)) =
     (if symbol_ref_kind r \<noteq> SymbolRefKind_METHOD then Inl (ValueErr ''const'')
      else case (symbol_ref_original_name r, symbol_ref_original_descriptor r) of
          (Given n, Given d) \<Rightarrow>
            Inr \<lparr>method_symbol_ref_kind = JStr ''METHOD'',
              method_symbol_ref_original_class_descriptor = symbol_ref_original_class_descriptor r,
              method_symbol_ref_original_name = n, method_symbol_ref_original_descriptor = d,
              method_symbol_ref_input_identity = symbol_ref_input_identity r\<rparr>
        | _ \<Rightarrow> Inl KeyErr)"
  by (cases "symbol_ref_kind r"; cases "symbol_ref_original_name r"; cases "symbol_ref_original_descriptor r";
      cases "symbol_ref_input_identity r")
    (simp_all add: symbol_ref_to_dict_def method_symbol_ref_from_dict_def reading_def popping_def
      popping_opt_def dict_pop_def entry_def literal_def wire_simps cong: wire_cong)

lemma method_symbol_of_method_ref:
  "method_symbol_ref_from_dict (JObj (symbol_ref_to_dict (method_ref owner name descriptor ident)))
   = Inr \<lparr>method_symbol_ref_kind = JStr ''METHOD'', method_symbol_ref_original_class_descriptor = JStr owner,
          method_symbol_ref_original_name = JStr name, method_symbol_ref_original_descriptor = JStr descriptor,
          method_symbol_ref_input_identity = Given ident\<rparr>"
  by (simp add: method_symbol_of_ref method_ref_def)

end
