(* ===== verification/Sdk_Project.thy ===== *)
theory Sdk_Project
  imports Api_Calls Sdk_Symbols
begin

text \<open>
  The operations of a project (\<open>Project\<close> in \<open>project.py\<close>) that send one request. The project's
  revisions are those of the client's state. The operations that follow cursors are in
  \<open>Sdk_Pages\<close> and \<open>Sdk_Search\<close>.
\<close>

subsection \<open>Preconditions\<close>

text \<open>
  \<open>**options\<close>: a precondition that is not given is \<open>UNSET\<close>. A session is given by its string, which
  is all that is used of a \<open>UUID\<close>.
\<close>

record preconditions =
  expected_session_id :: "string option unset"
  expected_logical_revision :: "json unset"

definition no_preconditions :: preconditions where
  "no_preconditions = \<lparr>expected_session_id = UNSET, expected_logical_revision = UNSET\<rparr>"

definition project_session_id :: "'w client \<Rightarrow> string option" where
  "project_session_id st = session_id (revisions st)"

definition project_logical_revision :: "'w client \<Rightarrow> json" where
  "project_logical_revision st = logical_revision (revisions st)"

definition project_index_revision :: "'w client \<Rightarrow> json" where
  "project_index_revision st = index_revision (revisions st)"

definition expected_of :: "preconditions \<Rightarrow> bool \<Rightarrow> ('w, uuid unset \<times> json unset) sdk" where
  "expected_of options required st =
     slift (expected (revisions st) (expected_session_id options) (expected_logical_revision options) required) st"

definition required_of :: "preconditions \<Rightarrow> ('w, uuid \<times> json) sdk" where
  "required_of options st =
     slift (required_expected (revisions st) (expected_session_id options) (expected_logical_revision options)) st"

subsection \<open>The project and its settings\<close>

definition project_snapshot :: "'w env \<Rightarrow> ('w, fixed_project) sdk" where
  "project_snapshot env = invoke env get_project_call as_project"

definition project_refresh :: "'w env \<Rightarrow> ('w, fixed_project) sdk" where
  "project_refresh env = project_snapshot env"

definition project_settings_of :: "'w env \<Rightarrow> ('w, project_settings) sdk" where
  "project_settings_of env = invoke env get_project_settings_call as_settings"

definition project_pending_edits :: "'w env \<Rightarrow> ('w, pending_edits_result) sdk" where
  "project_pending_edits env =
     sbind (invoke env export_pending_edits_call as_pending) (\<lambda>x. sreturn \<lparr>pending_raw = x\<rparr>)"

definition project_save :: "'w env \<Rightarrow> string option \<Rightarrow> preconditions \<Rightarrow> ('w, fixed_project) sdk" where
  "project_save env target_path options =
     sbind (expected_of options False) (\<lambda>(session, revision).
       invoke env (save_project_call
         \<lparr>save_project_request_target_path =
            (case target_path of None \<Rightarrow> UNSET | Some p \<Rightarrow> Given (JStr p)),
          save_project_request_expected_logical_revision = revision,
          save_project_request_expected_session_id = session,
          save_project_request_extra = []\<rparr>) as_project)"

definition project_reload :: "'w env \<Rightarrow> bool \<Rightarrow> preconditions \<Rightarrow> ('w, fixed_project) sdk" where
  "project_reload env discard_unsaved options =
     sbind (required_of options) (\<lambda>(session, revision).
       invoke env (reload_project_call
         \<lparr>reload_project_request_discard_unsaved = JBool discard_unsaved,
          reload_project_request_expected_session_id = session,
          reload_project_request_expected_logical_revision = revision,
          reload_project_request_extra = []\<rparr>) as_project)"

definition project_update_settings ::
  "'w env \<Rightarrow> string option \<Rightarrow> preconditions \<Rightarrow> ('w, project_settings) sdk" where
  "project_update_settings env mappings_path options =
     sbind (required_of options) (\<lambda>(session, revision).
       invoke env (update_project_settings_call
         \<lparr>update_project_settings_request_mappings_path =
            (case mappings_path of None \<Rightarrow> JNull | Some p \<Rightarrow> JStr p),
          update_project_settings_request_expected_logical_revision = revision,
          update_project_settings_request_expected_session_id = session,
          update_project_settings_request_extra = []\<rparr>) as_settings)"

definition project_export_mappings ::
  "'w env \<Rightarrow> string \<Rightarrow> preconditions \<Rightarrow> ('w, mapping_export_receipt) sdk" where
  "project_export_mappings env target_path options =
     sbind (required_of options) (\<lambda>(session, revision).
       invoke env (export_mappings_call
         \<lparr>mapping_export_request_target_path = JStr target_path,
          mapping_export_request_format = JStr ''TINY_V2'',
          mapping_export_request_expected_session_id = session,
          mapping_export_request_expected_logical_revision = revision\<rparr>) as_export)"

definition project_import_mappings ::
  "'w env \<Rightarrow> string \<Rightarrow> preconditions \<Rightarrow> ('w, mapping_import_receipt) sdk" where
  "project_import_mappings env source_path options =
     sbind (required_of options) (\<lambda>(session, revision).
       invoke env (import_mappings_call
         \<lparr>mapping_import_request_source_path = JStr source_path,
          mapping_import_request_format = JStr ''TINY_V2'',
          mapping_import_request_mode = JStr ''MERGE_FAIL_ON_CONFLICT'',
          mapping_import_request_expected_session_id = session,
          mapping_import_request_expected_logical_revision = revision\<rparr>) as_import)"

subsection \<open>Edits\<close>

fun needs_preconditions :: "edit_operation \<Rightarrow> bool" where
  "needs_preconditions (Rename_Parameter _) = True"
| "needs_preconditions (Rename x) = (rename_operation_propagate_related x = Given (JBool True))"
| "needs_preconditions (Set_Comment _) = False"

definition project_apply_edits ::
  "'w env \<Rightarrow> edit_operation list \<Rightarrow> preconditions \<Rightarrow> ('w, edit_batch_result) sdk" where
  "project_apply_edits env items options =
     sbind (expected_of options (list_ex needs_preconditions items)) (\<lambda>(session, revision).
       invoke env (apply_edit_batch_call
         \<lparr>edit_batch_request_items = items,
          edit_batch_request_expected_session_id = session,
          edit_batch_request_expected_logical_revision = revision\<rparr>) as_edits)"

definition project_rename ::
  "'w env \<Rightarrow> target \<Rightarrow> string \<Rightarrow> bool \<Rightarrow> preconditions \<Rightarrow> ('w, edit_batch_result) sdk" where
  "project_rename env target new_name propagate_related options =
     (let ref = reference target in
      if propagate_related \<and> symbol_ref_kind ref \<noteq> SymbolRefKind_METHOD
      then sraise (Py_Error (ValueErr ''Related propagation requires an original method ref''))
      else project_apply_edits env
        [Rename \<lparr>rename_operation_kind = JStr ''RENAME'', rename_operation_target = ref,
           rename_operation_new_name = JStr new_name,
           rename_operation_propagate_related = Given (JBool propagate_related)\<rparr>] options)"

definition project_set_comment ::
  "'w env \<Rightarrow> target \<Rightarrow> string \<Rightarrow> preconditions \<Rightarrow> ('w, edit_batch_result) sdk" where
  "project_set_comment env target comment options =
     project_apply_edits env
       [Set_Comment \<lparr>set_comment_operation_kind = JStr ''SET_COMMENT'',
          set_comment_operation_target = reference target,
          set_comment_operation_comment = JStr comment, set_comment_operation_style = JStr ''LINE''\<rparr>] options"

definition project_rename_parameter ::
  "'w env \<Rightarrow> symbol_ref \<Rightarrow> int \<Rightarrow> string \<Rightarrow> string \<Rightarrow> preconditions \<Rightarrow> ('w, edit_batch_result) sdk" where
  "project_rename_parameter env ref parameter_index new_name source_snapshot_id options =
     (if symbol_ref_kind ref \<noteq> SymbolRefKind_METHOD
      then sraise (Py_Error (ValueErr ''Parameter rename requires a method ref''))
      else sbind (slift (method_symbol_ref_from_dict (JObj (symbol_ref_to_dict ref)))) (\<lambda>m.
        project_apply_edits env
          [Rename_Parameter \<lparr>rename_parameter_operation_kind = JStr ''RENAME_PARAMETER'',
             rename_parameter_operation_method = m,
             rename_parameter_operation_parameter_index = JInt parameter_index,
             rename_parameter_operation_source_snapshot_id = JStr source_snapshot_id,
             rename_parameter_operation_new_name = JStr new_name\<rparr>] options))"

subsection \<open>Symbols\<close>

definition project_resolve :: "'w env \<Rightarrow> symbol_ref \<Rightarrow> ('w, symbol_resolution) sdk" where
  "project_resolve env ref =
     invoke env (resolve_symbol_call
       \<lparr>symbol_resolve_request_ref = ref, symbol_resolve_request_expected_session_id = UNSET,
        symbol_resolve_request_expected_logical_revision = UNSET\<rparr>) as_resolution"

text \<open>
  A symbol that did not decode is kept as the raw value; making a handle of it reads its \<open>ref\<close>,
  which a raw value does not have.
\<close>

datatype resolved = Resolved handle | Unresolved symbol_resolution

fun kind_class :: "symbol_ref_kind \<Rightarrow> handle_class" where
  "kind_class SymbolRefKind_CLASS = Java_Class"
| "kind_class SymbolRefKind_METHOD = Java_Method"
| "kind_class SymbolRefKind_FIELD = Java_Field"

definition resolved_of :: "symbol_ref \<Rightarrow> symbol_resolution \<Rightarrow> sdk_error + resolved" where
  "resolved_of ref r =
     (if symbol_resolution_outcome r \<noteq> SymbolResolutionOutcome_RESOLVED then Inr (Unresolved r)
      else case symbol_resolution_symbol r of
          UNSET \<Rightarrow> Inr (Unresolved r)
        | Given (Untyped v) \<Rightarrow> if v = JNull then Inr (Unresolved r) else Inl (Py_Error AttributeErr)
        | Given (Typed s) \<Rightarrow> Inr (Resolved (new_handle (kind_class (symbol_ref_kind ref)) (Symbol_Raw s))))"

definition project_resolve_object :: "'w env \<Rightarrow> symbol_ref \<Rightarrow> ('w, resolved) sdk" where
  "project_resolve_object env ref =
     sbind (project_resolve env ref) (\<lambda>r. \<lambda>st. (resolved_of ref r, st))"

subsection \<open>Source and control flow\<close>

definition project_decompile ::
  "'w env \<Rightarrow> target \<Rightarrow> string \<Rightarrow> bool \<Rightarrow> string unset \<Rightarrow> bool \<Rightarrow> bool \<Rightarrow> ('w, source_result) sdk" where
  "project_decompile env target source_kind strict mode annotations debug_lines =
     sbind (slift (case mode of
         UNSET \<Rightarrow> Inr UNSET
       | Given m \<Rightarrow> ebind (decompile_request_decompilation_mode_of (JStr m)) (\<lambda>x. Inr (Given x)))) (\<lambda>mode.
     sbind (invoke env (decompile_java_call
         \<lparr>decompile_request_ref = reference target,
          decompile_request_representation = Given (JStr source_kind),
          decompile_request_decompilation_mode = mode,
          decompile_request_include_annotations = Given (JBool annotations),
          decompile_request_include_raw_debug_lines = Given (JBool debug_lines),
          decompile_request_strict = Given (JBool strict),
          decompile_request_expected_session_id = UNSET,
          decompile_request_expected_logical_revision = UNSET,
          decompile_request_expected_source_snapshot_id = UNSET\<rparr>) as_decompiled) (\<lambda>x.
       sreturn \<lparr>source_raw = x\<rparr>))"

definition project_control_flow ::
  "'w env \<Rightarrow> target \<Rightarrow> bool \<Rightarrow> preconditions \<Rightarrow> ('w, control_flow_result) sdk" where
  "project_control_flow env target strict options =
     (let ref = reference target in
      if symbol_ref_kind ref \<noteq> SymbolRefKind_METHOD
      then sraise (Py_Error (ValueErr ''control_flow requires an original METHOD''))
      else sbind (expected_of options False) (\<lambda>(session, revision).
        sbind (slift (method_symbol_ref_from_dict (JObj (symbol_ref_to_dict ref)))) (\<lambda>m.
          invoke env (get_control_flow_facts_call
            \<lparr>control_flow_request_ref = m, control_flow_request_strict = Given (JBool strict),
             control_flow_request_expected_session_id = session,
             control_flow_request_expected_logical_revision = revision\<rparr>) as_control_flow)))"

subsection \<open>Lemmas\<close>

text \<open>Before anything was observed, an operation that needs preconditions is refused.\<close>

definition unobserved :: "'w client \<Rightarrow> bool" where
  "unobserved st \<longleftrightarrow> session_id (revisions st) = None \<and> logical_revision (revisions st) = JNull"

definition missing_preconditions :: sdk_error where
  "missing_preconditions =
     Py_Error (ValueErr ''Observe project.snapshot() or supply session/revision explicitly'')"

lemma expected_of_unobserved:
  "unobserved st \<Longrightarrow> expected_of no_preconditions True st = (Inl missing_preconditions, st)"
  by (simp add: expected_of_def unobserved_def no_preconditions_def expected_def missing_preconditions_def slift_def)

lemma required_of_unobserved:
  "unobserved st \<Longrightarrow> required_of no_preconditions st = (Inl missing_preconditions, st)"
  by (simp add: required_of_def unobserved_def no_preconditions_def required_expected_def expected_def
      missing_preconditions_def slift_def)

text \<open>After an observation, the preconditions left out are what was observed.\<close>

lemma required_of_observed:
  assumes "session_id (revisions st) = Some s" "logical_revision (revisions st) = JInt n" "uuid_of_str s = Inr u"
  shows "required_of no_preconditions st = (Inr (u, JInt n), st)"
  using assms by (simp add: required_of_def no_preconditions_def required_expected_def expected_def slift_def)

lemma expected_of_observed:
  assumes "session_id (revisions st) = Some s" "logical_revision (revisions st) = JInt n" "uuid_of_str s = Inr u"
  shows "expected_of no_preconditions required st = (Inr (Given u, Given (JInt n)), st)"
  using assms by (simp add: expected_of_def no_preconditions_def expected_def slift_def)

lemma invoke_observed:
  assumes "invoke env c expect st = (Inr x, st')"
  shows "\<exists>p. expect p = Some x
    \<and> observe (env_repr env) (parsed_attrs p) (revisions st) = (Inr (), revisions st')"
proof -
  from invoke_returns [OF assms] obtain r w where r: "\<not> closed st"
    "sync_detailed env c (world st) = (Call_Returns r, w)" "unwrap r expect = Inr x"
    "expect (response_parsed r) = Some x"
    by blast
  with assms have "observe (env_repr env) (parsed_attrs (response_parsed r)) (revisions st) = (Inr (), revisions st')"
    by (auto simp: invoke_def Let_def split: sum.splits prod.splits)
  with r(4) show ?thesis by blast
qed

text \<open>A first snapshot is what the cache then holds.\<close>

lemma snapshot_observed:
  assumes "revisions st = new_cache" "project_snapshot env st = (Inr x, st')"
    and "revision_set_session_id (fixed_project_revisions x) = JStr s"
    and "revision_set_logical_revision (fixed_project_revisions x) = JInt n"
  shows "session_id (revisions st') = Some s \<and> logical_revision (revisions st') = JInt n"
proof -
  from invoke_observed [OF assms(2) [unfolded project_snapshot_def]] obtain p where
    p: "as_project p = Some x" and st': "observe (env_repr env) (parsed_attrs p) (revisions st) = (Inr (), revisions st')"
    by blast
  from p have "p = Parsed (Project_Body x)"
    by (auto simp: as_project_def split: parsed.splits body.splits)
  moreover from st' have "revisions st' = snd (observe (env_repr env) (parsed_attrs p) (revisions st))"
    by simp
  ultimately show ?thesis
    using assms(1,3,4)
    by (simp add: observe_def observe_values_def set_attrs_def getattr_def new_cache_def Let_def)
qed

text \<open>The operations whose edits need preconditions send them or send nothing.\<close>

lemma apply_edits_preconditions:
  assumes "list_ex needs_preconditions items" "project_apply_edits env items options st = (res, st')"
    and "\<nexists>s r. expected_of options True st = (Inr (Given s, Given r), st)"
  shows "st' = st \<and> (\<exists>e. res = Inl (Py_Error e))"
proof -
  obtain x where x: "expected_of options True st = (x, st)"
    by (metis expected_of_def slift_def)
  show ?thesis
  proof (cases x)
    case (Inl e)
    with x obtain e' where "e = Py_Error e'"
      by (auto simp: expected_of_def slift_def map_error_def split: sum.splits)
    with x Inl assms(1,2) show ?thesis
      by (auto simp: project_apply_edits_def sbind_def)
  next
    case (Inr p)
    with x have "expected (revisions st) (expected_session_id options) (expected_logical_revision options) True
        = Inr (fst p, snd p)"
      by (auto simp: expected_of_def slift_def)
    from expected_cases [OF this] Inr x assms(3) show ?thesis by (cases p) auto
  qed
qed

lemma resolved_handle:
  assumes "resolved_of ref r = Inr (Resolved h)"
  shows "symbol_resolution_outcome r = SymbolResolutionOutcome_RESOLVED
    \<and> (\<exists>s. symbol_resolution_symbol r = Given (Typed s) \<and> handle_ref h = symbol_info_ref s)
    \<and> handle_class h = kind_class (symbol_ref_kind ref)"
  using assms
  by (auto simp: resolved_of_def new_handle_def split: if_splits unset.splits lenient.splits)

end
