(* ===== verification/Sdk_Paging.thy ===== *)
theory Sdk_Paging
  imports Sdk_Transport
begin

text \<open>
  Following the cursors of a paged result, the contract the three loops of the SDK share
  (\<open>class_pages\<close> and \<open>reference_pages\<close> in \<open>project.py\<close>, \<open>SearchCursor.__iter__\<close> in \<open>search.py\<close>): what
  a complete run of such a loop is, and what follows for every loop whose runs are of this kind.
\<close>

subsection \<open>Runs\<close>

text \<open>
  \<open>fetch\<close> asks for the page of a key, \<open>advance\<close> is the decision after the \<open>n\<close>-th page (an error,
  the end, or the cursor to go on with), \<open>key\<close> the next key. A run has the pages it fetched and how
  it ended.
\<close>

inductive page_run ::
  "('k \<Rightarrow> 's \<Rightarrow> (sdk_error + 'p) \<times> 's) \<Rightarrow> (nat \<Rightarrow> json list \<Rightarrow> 'p \<Rightarrow> sdk_error + json option)
    \<Rightarrow> ('k \<Rightarrow> json \<Rightarrow> 'k) \<Rightarrow> 'k \<Rightarrow> nat \<Rightarrow> json list \<Rightarrow> 's \<Rightarrow> 'p list \<Rightarrow> sdk_error + unit \<Rightarrow> 's \<Rightarrow> bool"
  for fetch advance key where
  run_failed: "fetch k st = (Inl e, st') \<Longrightarrow> page_run fetch advance key k n seen st [] (Inl e) st'"
| run_ended: "fetch k st = (Inr p, st') \<Longrightarrow> advance n seen p = Inr None \<Longrightarrow>
    page_run fetch advance key k n seen st [p] (Inr ()) st'"
| run_refused: "fetch k st = (Inr p, st') \<Longrightarrow> advance n seen p = Inl e \<Longrightarrow>
    page_run fetch advance key k n seen st [p] (Inl e) st'"
| run_next: "fetch k st = (Inr p, st') \<Longrightarrow> advance n seen p = Inr (Some c) \<Longrightarrow>
    page_run fetch advance key (key k c) (Suc n) (c # seen) st' ps res st'' \<Longrightarrow>
    page_run fetch advance key k n seen st (p # ps) res st''"

inductive_cases page_run_Nil: "page_run fetch advance key k n seen st [] res st'"

text \<open>No cursor of a list is equal to an earlier one.\<close>

definition fresh_cursors :: "json list \<Rightarrow> bool" where
  "fresh_cursors cs \<longleftrightarrow> sorted_wrt (\<lambda>c d. \<not> json_eq d c) cs"

lemma fresh_cursors_Cons:
  "fresh_cursors (c # cs) \<longleftrightarrow> list_all (\<lambda>d. \<not> json_eq d c) cs \<and> fresh_cursors cs"
  by (simp add: fresh_cursors_def list_all_iff)

text \<open>
  The decision all three loops make: stop at the last page or without a cursor, refuse a cursor
  seen before, otherwise go on. \<open>in\<close> a set hashes the cursor, which raises for lists and dictionaries.
\<close>

definition follow_cursor :: "string \<Rightarrow> bool \<Rightarrow> json \<Rightarrow> json list \<Rightarrow> sdk_error + json option" where
  "follow_cursor message stop cursor seen =
     (if stop \<or> cursor = JNull then Inr None
      else case py_in cursor seen of
          Inl e \<Rightarrow> Inl (Py_Error e)
        | Inr known \<Rightarrow> if known then Inl (Unexpected_Response_Error message) else Inr (Some cursor))"

lemma follow_cursor_next:
  "follow_cursor message stop cursor seen = Inr (Some c) \<longleftrightarrow>
     \<not> stop \<and> c = cursor \<and> cursor \<noteq> JNull \<and> hashable cursor \<and> \<not> list_ex (json_eq cursor) seen"
  by (auto simp: follow_cursor_def py_in_def)

subsection \<open>Loops\<close>

text \<open>
  \<open>loop\<close> runs the generator to its end, if it has one: what it yields (\<open>emit\<close> of each page), how it
  ends, and the state. The provider shows that its loop unfolds to one round, and that a result is
  that of a run.
\<close>

locale pager =
  fixes fetch :: "'k \<Rightarrow> 's \<Rightarrow> (sdk_error + 'p) \<times> 's"
    and advance :: "nat \<Rightarrow> json list \<Rightarrow> 'p \<Rightarrow> sdk_error + json option"
    and key :: "'k \<Rightarrow> json \<Rightarrow> 'k"
    and cursor_of :: "'p \<Rightarrow> json"
    and emit :: "'p \<Rightarrow> 'x list"
    and loop :: "'k \<Rightarrow> nat \<Rightarrow> json list \<Rightarrow> 's \<Rightarrow> ('x list \<times> (sdk_error + unit) \<times> 's) option"
  assumes failed: "fetch k st = (Inl e, st') \<Longrightarrow> loop k n seen st = Some ([], Inl e, st')"
    and ended: "fetch k st = (Inr p, st') \<Longrightarrow> advance n seen p = Inr None \<Longrightarrow>
      loop k n seen st = Some (emit p, Inr (), st')"
    and refused: "fetch k st = (Inr p, st') \<Longrightarrow> advance n seen p = Inl e \<Longrightarrow>
      loop k n seen st = Some (emit p, Inl e, st')"
    and continued: "fetch k st = (Inr p, st') \<Longrightarrow> advance n seen p = Inr (Some c) \<Longrightarrow>
      loop k n seen st =
        Option.bind (loop (key k c) (Suc n) (c # seen) st') (\<lambda>(xs, rest). Some (emit p @ xs, rest))"
    and sound: "loop k n seen st = Some (xs, res, st') \<Longrightarrow>
      \<exists>ps. page_run fetch advance key k n seen st ps res st' \<and> xs = concat (map emit ps)"
    and fresh: "advance n seen p = Inr (Some c) \<Longrightarrow> c = cursor_of p \<and> \<not> list_ex (json_eq c) seen"
begin

text \<open>A loop returns exactly on the runs.\<close>

lemma complete:
  "page_run fetch advance key k n seen st ps res st' \<Longrightarrow>
     loop k n seen st = Some (concat (map emit ps), res, st')"
  by (induction rule: page_run.induct) (simp_all add: failed ended refused continued)

text \<open>The cursors a run follows are new each time.\<close>

lemma run_fresh:
  "page_run fetch advance key k n seen st ps res st' \<Longrightarrow>
     fresh_cursors (map cursor_of (butlast ps))
     \<and> list_all (\<lambda>c. \<not> list_ex (json_eq c) seen) (map cursor_of (butlast ps))"
proof (induction rule: page_run.induct)
  case (run_next k st p st' n seen c ps res st'')
  with fresh [of n seen p c] show ?case
    by (cases "ps = []") (auto simp: fresh_cursors_Cons list_all_iff)
qed (simp_all add: fresh_cursors_def)

text \<open>A run that goes on has a page, and only the last one ends it.\<close>

lemma run_ends:
  "page_run fetch advance key k n seen st ps res st' \<Longrightarrow> res = Inr u \<Longrightarrow>
     ps \<noteq> [] \<and> (\<exists>m seen'. advance m seen' (last ps) = Inr None)"
  by (induction rule: page_run.induct) auto

text \<open>If the service knows finitely many cursors, a run ends and is no longer than their number. \<open>ok\<close>
  holds of the keys and states the run meets.\<close>

lemma finite_run:
  assumes C: "finite C"
    and known: "\<And>k st p st'. ok k st \<Longrightarrow> fetch k st = (Inr p, st') \<Longrightarrow>
      cursor_of p \<in> insert JNull (JStr ` C) \<and> (\<forall>c. ok (key k c) st')"
    and real: "\<And>n seen p. advance n seen p \<noteq> Inr (Some JNull)"
  shows "set seen \<subseteq> JStr ` C \<Longrightarrow> ok k st \<Longrightarrow>
    \<exists>ps res st'. page_run fetch advance key k n seen st ps res st'
      \<and> length ps \<le> Suc (card (JStr ` C - set seen))"
proof (induction "card (JStr ` C - set seen)" arbitrary: k n seen st rule: less_induct)
  case less
  obtain r st' where f: "fetch k st = (r, st')" by fastforce
  show ?case
  proof (cases r)
    case (Inl e)
    with f run_failed [of fetch k st e st' advance key] show ?thesis by fastforce
  next
    case (Inr p)
    show ?thesis
    proof (cases "\<exists>c. advance n seen p = Inr (Some c)")
      case False
      then consider e where "advance n seen p = Inl e" | "advance n seen p = Inr None"
        by (cases "advance n seen p") auto
      then show ?thesis
        using f Inr run_refused [of fetch k st p st' advance] run_ended [of fetch k st p st' advance]
        by cases fastforce+
    next
      case True
      then obtain c where c: "advance n seen p = Inr (Some c)" by blast
      from fresh [OF c] known [of k st p st'] real [of n seen p] c f Inr less.prems(2)
      have new: "c \<in> JStr ` C" "\<not> list_ex (json_eq c) seen" "ok (key k c) st'" by auto
      from new(1,2) have "c \<notin> set seen" by (auto simp: list_ex_iff)
      with new(1) C have fewer: "card (JStr ` C - set (c # seen)) < card (JStr ` C - set seen)"
        by (intro psubset_card_mono) auto
      with less(1) [of "c # seen" "key k c" st' "Suc n"] less.prems new
      obtain ps res st'' where
        "page_run fetch advance key (key k c) (Suc n) (c # seen) st' ps res st''"
        "length ps \<le> Suc (card (JStr ` C - set (c # seen)))"
        by auto
      with f Inr c fewer show ?thesis
        by (intro exI [of _ "p # ps"] exI [of _ res] exI [of _ st''])
          (auto intro: run_next)
    qed
  qed
qed

text \<open>If the decision stops after \<open>limit\<close> pages, so does the run.\<close>

lemma limited_run:
  assumes limit: "\<And>m seen p c. advance m seen p = Inr (Some c) \<Longrightarrow> m < limit"
  shows "\<exists>ps res st'. page_run fetch advance key k n seen st ps res st' \<and> length ps \<le> Suc (limit - n)"
proof (induction "limit - n" arbitrary: k n seen st rule: less_induct)
  case less
  obtain r st' where f: "fetch k st = (r, st')" by fastforce
  show ?case
  proof (cases r)
    case (Inl e)
    with f run_failed [of fetch k st e st' advance key] show ?thesis by fastforce
  next
    case (Inr p)
    consider e where "advance n seen p = Inl e" | "advance n seen p = Inr None"
      | c where "advance n seen p = Inr (Some c)"
      by (cases "advance n seen p") auto
    then show ?thesis
    proof cases
      case (3 c)
      with limit have "limit - Suc n < limit - n" by fastforce
      with less [of "Suc n" "key k c" "c # seen" st'] obtain ps res st'' where
        "page_run fetch advance key (key k c) (Suc n) (c # seen) st' ps res st''"
        "length ps \<le> Suc (limit - Suc n)"
        by auto
      with f Inr 3 limit [of n seen p c] show ?thesis
        by (intro exI [of _ "p # ps"] exI [of _ res] exI [of _ st'']) (auto intro: run_next)
    qed (use f Inr run_refused [of fetch k st p st' advance] run_ended [of fetch k st p st' advance]
        in fastforce)+
  qed
qed

end

end
