(* ===== verification/Sdk_Pages.thy ===== *)
theory Sdk_Pages
  imports Sdk_Project Sdk_Paging
begin

text \<open>
  The listings of a project that follow cursors (\<open>class_pages\<close>, \<open>classes\<close>, \<open>references\<close> and
  \<open>reference_pages\<close> in \<open>project.py\<close>). A generator is run to its end: what it yields, how it ends, and
  the client's state; it is \<open>None\<close> if the server goes on forever.
\<close>

subsection \<open>Classes\<close>

record class_query =
  query_package_prefix :: "json unset"
  query_name_contains :: "json unset"
  query_name_domain :: string
  query_include_inner :: bool
  query_page_size :: int

definition fetch_classes :: "'w env \<Rightarrow> class_query \<Rightarrow> json unset \<Rightarrow> ('w, class_page) sdk" where
  "fetch_classes env q cursor =
     sbind (slift (list_classes_name_domain_of (JStr (query_name_domain q)))) (\<lambda>domain.
       invoke env (list_classes_call (JInt (query_page_size q)) cursor (query_package_prefix q)
         (query_name_contains q) (Given domain) (JBool (query_include_inner q))) as_classes)"

definition class_advance :: "int option \<Rightarrow> nat \<Rightarrow> json list \<Rightarrow> class_page \<Rightarrow> sdk_error + json option" where
  "class_advance max_pages pages seen page =
     follow_cursor ''Server repeated a class cursor''
       (json_truth (class_page_complete page) \<or> (case max_pages of None \<Rightarrow> False | Some m \<Rightarrow> m \<le> int pages))
       (class_page_next_cursor page) seen"

type_synonym ('w, 'x) listing = "('x list \<times> (sdk_error + unit) \<times> 'w client) option"

partial_function (option) class_loop ::
  "'w env \<Rightarrow> class_query \<Rightarrow> int option \<Rightarrow> json unset \<Rightarrow> nat \<Rightarrow> json list \<Rightarrow> 'w client \<Rightarrow> ('w, class_page) listing" where
  "class_loop env q max_pages cursor pages seen st =
     (case fetch_classes env q cursor st of (res, st') \<Rightarrow>
       (case res of
          Inl e \<Rightarrow> Some ([], Inl e, st')
        | Inr page \<Rightarrow>
            (case class_advance max_pages (Suc pages) seen page of
               Inl e \<Rightarrow> Some ([page], Inl e, st')
             | Inr None \<Rightarrow> Some ([page], Inr (), st')
             | Inr (Some c) \<Rightarrow>
                 Option.bind (class_loop env q max_pages (Given c) (Suc pages) (c # seen) st')
                   (\<lambda>(ps, rest). Some (page # ps, rest)))))"

definition class_pages :: "'w env \<Rightarrow> class_query \<Rightarrow> int option \<Rightarrow> 'w client \<Rightarrow> ('w, class_page) listing" where
  "class_pages env q max_pages st =
     (if \<exists>m. max_pages = Some m \<and> m < 1
      then Some ([], Inl (Py_Error (ValueErr ''max_pages must be positive'')), st)
      else class_loop env q max_pages UNSET 0 [] st)"

definition project_classes :: "'w env \<Rightarrow> class_query \<Rightarrow> int option \<Rightarrow> 'w client \<Rightarrow> ('w, handle) listing" where
  "project_classes env q max_pages st =
     map_option (\<lambda>(ps, rest).
         (concat (map (\<lambda>p. map (\<lambda>x. new_handle Java_Class (Class_Raw x)) (class_page_items p)) ps), rest))
       (class_pages env q max_pages st)"

subsection \<open>References\<close>

record reference_options =
  opt_direction :: string
  opt_view :: string
  opt_relations :: "string list option"
  opt_page_size :: int
  opt_cursor :: "string option"
  opt_include_source_sites :: bool
  opt_strict :: bool

definition reference_query_of :: "symbol_ref \<Rightarrow> reference_options \<Rightarrow> py_exc + reference_query" where
  "reference_query_of ref opts =
     ebind (reference_query_direction_of (JStr (opt_direction opts))) (\<lambda>direction.
     ebind (reference_query_view_of (JStr (opt_view opts))) (\<lambda>view.
     ebind (case opt_relations opts of
              None \<Rightarrow> Inr UNSET
            | Some rs \<Rightarrow> ebind (emap (\<lambda>r. reference_relation_of (JStr r)) rs) (\<lambda>ys. Inr (Given ys))) (\<lambda>relations.
       Inr \<lparr>reference_query_ref = ref, reference_query_direction = direction,
         reference_query_view = Given view, reference_query_relations = relations,
         reference_query_page_size = Given (JInt (opt_page_size opts)),
         reference_query_cursor = Given (case opt_cursor opts of None \<Rightarrow> JNull | Some c \<Rightarrow> JStr c),
         reference_query_include_source_sites = Given (JBool (opt_include_source_sites opts)),
         reference_query_strict = Given (JBool (opt_strict opts)),
         reference_query_expected_session_id = UNSET,
         reference_query_expected_logical_revision = UNSET\<rparr>)))"

definition project_references :: "'w env \<Rightarrow> target \<Rightarrow> reference_options \<Rightarrow> ('w, reference_page) sdk" where
  "project_references env target opts =
     sbind (slift (reference_query_of (reference target) opts)) (\<lambda>q.
       invoke env (query_references_call q) as_references)"

definition reference_advance :: "json list \<Rightarrow> reference_page \<Rightarrow> sdk_error + json option" where
  "reference_advance seen page =
     follow_cursor ''Server repeated a reference cursor''
       (json_truth (reference_page_page_complete page)) (reference_page_next_cursor page) seen"

partial_function (option) reference_loop ::
  "'w env \<Rightarrow> reference_query \<Rightarrow> json list \<Rightarrow> 'w client \<Rightarrow> ('w, reference_page) listing" where
  "reference_loop env request seen st =
     (case invoke env (query_references_call request) as_references st of (res, st') \<Rightarrow>
       (case res of
          Inl e \<Rightarrow> Some ([], Inl e, st')
        | Inr page \<Rightarrow>
            (case reference_advance seen page of
               Inl e \<Rightarrow> Some ([page], Inl e, st')
             | Inr None \<Rightarrow> Some ([page], Inr (), st')
             | Inr (Some c) \<Rightarrow>
                 Option.bind (reference_loop env (request\<lparr>reference_query_cursor := Given c\<rparr>) (c # seen) st')
                   (\<lambda>(ps, rest). Some (page # ps, rest)))))"

definition reference_pages :: "'w env \<Rightarrow> reference_query \<Rightarrow> 'w client \<Rightarrow> ('w, reference_page) listing" where
  "reference_pages env query st =
     (case reference_query_from_dict (JObj (reference_query_to_dict query)) of
        Inl e \<Rightarrow> Some ([], Inl (Py_Error e), st)
      | Inr request \<Rightarrow> reference_loop env request [] st)"

subsection \<open>Both are pagers\<close>

lemma class_advance_fresh:
  "class_advance m n seen p = Inr (Some c) \<Longrightarrow>
     c = class_page_next_cursor p \<and> \<not> list_ex (json_eq c) seen \<and> c \<noteq> JNull
     \<and> (case m of None \<Rightarrow> True | Some k \<Rightarrow> int n < k)"
  by (auto simp: class_advance_def follow_cursor_next split: option.splits)

lemma reference_advance_fresh:
  "reference_advance seen p = Inr (Some c) \<Longrightarrow>
     c = reference_page_next_cursor p \<and> \<not> list_ex (json_eq c) seen \<and> c \<noteq> JNull"
  by (auto simp: reference_advance_def follow_cursor_next)

lemma class_loop_sound:
  "class_loop env q m k n seen st = Some r \<Longrightarrow>
     page_run (fetch_classes env q) (\<lambda>n. class_advance m (Suc n)) (\<lambda>_. Given) k n seen st
       (fst r) (fst (snd r)) (snd (snd r))"
proof (induction rule: class_loop.raw_induct [rotated, consumes 1])
  case (1 loop env q m k n seen st r)
  obtain res st' where f: "fetch_classes env q k st = (res, st')" by fastforce
  show ?case
  proof (cases res)
    case (Inl e)
    with 1(2) f show ?thesis by (auto intro: run_failed)
  next
    case (Inr p)
    consider e where "class_advance m (Suc n) seen p = Inl e" | "class_advance m (Suc n) seen p = Inr None"
      | c where "class_advance m (Suc n) seen p = Inr (Some c)"
      by (cases "class_advance m (Suc n) seen p") auto
    then show ?thesis
    proof cases
      case (3 c)
      with 1(2) f Inr obtain ps rest where
        "loop env q m (Given c) (Suc n) (c # seen) st' = Some (ps, rest)" "r = (p # ps, rest)"
        by (auto simp: Option.bind_eq_Some_conv)
      with 1(1) f Inr 3 show ?thesis by (fastforce intro: run_next)
    qed (use 1(2) f Inr in \<open>auto intro: run_refused run_ended\<close>)
  qed
qed

interpretation classes: pager "fetch_classes env q" "\<lambda>n. class_advance m (Suc n)" "\<lambda>_. Given"
    class_page_next_cursor "\<lambda>p. [p]" "class_loop env q m" for env q m
proof
  fix k n seen st p st' c e and xs :: "class_page list" and res
  note unfold = class_loop.simps [of env q m k n seen st]
  show "fetch_classes env q k st = (Inl e, st') \<Longrightarrow> class_loop env q m k n seen st = Some ([], Inl e, st')"
    using unfold by simp
  show "class_loop env q m k n seen st = Some ([p], Inr (), st')"
    if "fetch_classes env q k st = (Inr p, st')" "class_advance m (Suc n) seen p = Inr None"
    using unfold that by simp
  show "class_loop env q m k n seen st = Some ([p], Inl e, st')"
    if "fetch_classes env q k st = (Inr p, st')" "class_advance m (Suc n) seen p = Inl e"
    using unfold that by simp
  show "class_loop env q m k n seen st =
      Option.bind (class_loop env q m (Given c) (Suc n) (c # seen) st') (\<lambda>(xs, rest). Some ([p] @ xs, rest))"
    if "fetch_classes env q k st = (Inr p, st')" "class_advance m (Suc n) seen p = Inr (Some c)"
    using unfold that by simp
  show "\<exists>ps. page_run (fetch_classes env q) (\<lambda>n. class_advance m (Suc n)) (\<lambda>_. Given) k n seen st ps res st'
      \<and> xs = concat (map (\<lambda>p. [p]) ps)"
    if "class_loop env q m k n seen st = Some (xs, res, st')"
    using class_loop_sound [OF that] by auto
qed (use class_advance_fresh in blast)

lemma reference_loop_sound:
  "reference_loop env k seen st = Some r \<Longrightarrow>
     page_run (\<lambda>k. invoke env (query_references_call k) as_references) (\<lambda>_. reference_advance)
       (\<lambda>k c. k\<lparr>reference_query_cursor := Given c\<rparr>) k n seen st (fst r) (fst (snd r)) (snd (snd r))"
proof (induction arbitrary: n rule: reference_loop.raw_induct [rotated, consumes 1])
  case (1 loop env k seen st r)
  obtain res st' where f: "invoke env (query_references_call k) as_references st = (res, st')" by fastforce
  show ?case
  proof (cases res)
    case (Inl e)
    with 1(2) f show ?thesis by (auto intro: run_failed)
  next
    case (Inr p)
    consider e where "reference_advance seen p = Inl e" | "reference_advance seen p = Inr None"
      | c where "reference_advance seen p = Inr (Some c)"
      by (cases "reference_advance seen p") auto
    then show ?thesis
    proof cases
      case (3 c)
      with 1(2) f Inr obtain ps rest where
        "loop env (k\<lparr>reference_query_cursor := Given c\<rparr>) (c # seen) st' = Some (ps, rest)" "r = (p # ps, rest)"
        by (auto simp: Option.bind_eq_Some_conv)
      with 1(1) [of env "k\<lparr>reference_query_cursor := Given c\<rparr>" "c # seen" st' "(ps, rest)" "Suc n"] f Inr 3
      show ?thesis by (auto intro: run_next)
    qed (use 1(2) f Inr in \<open>auto intro: run_refused run_ended\<close>)
  qed
qed

interpretation reference_paging: pager "\<lambda>k. invoke env (query_references_call k) as_references"
    "\<lambda>_. reference_advance" "\<lambda>k c. k\<lparr>reference_query_cursor := Given c\<rparr>"
    reference_page_next_cursor "\<lambda>p. [p]" "\<lambda>k n. reference_loop env k" for env
proof
  fix k :: reference_query and seen st p st' c e and n :: nat and xs :: "reference_page list" and res
  let ?fetch = "\<lambda>k. invoke env (query_references_call k) as_references"
  let ?next = "k\<lparr>reference_query_cursor := Given c\<rparr>"
  note unfold = reference_loop.simps [of env k seen st]
  show "?fetch k st = (Inl e, st') \<Longrightarrow> reference_loop env k seen st = Some ([], Inl e, st')"
    using unfold by simp
  show "reference_loop env k seen st = Some ([p], Inr (), st')"
    if "?fetch k st = (Inr p, st')" "reference_advance seen p = Inr None"
    using unfold that by simp
  show "reference_loop env k seen st = Some ([p], Inl e, st')"
    if "?fetch k st = (Inr p, st')" "reference_advance seen p = Inl e"
    using unfold that by simp
  show "reference_loop env k seen st =
      Option.bind (reference_loop env ?next (c # seen) st') (\<lambda>(xs, rest). Some ([p] @ xs, rest))"
    if "?fetch k st = (Inr p, st')" "reference_advance seen p = Inr (Some c)"
    using unfold that by simp
  show "\<exists>ps. page_run ?fetch (\<lambda>_. reference_advance) (\<lambda>k c. k\<lparr>reference_query_cursor := Given c\<rparr>)
      k n seen st ps res st' \<and> xs = concat (map (\<lambda>p. [p]) ps)"
    if "reference_loop env k seen st = Some (xs, res, st')"
    using reference_loop_sound [OF that] by auto
qed (use reference_advance_fresh in blast)

subsection \<open>What follows\<close>

lemma class_pages_fresh:
  assumes "class_pages env q m st = Some (ps, res, st')"
  shows "fresh_cursors (map class_page_next_cursor (butlast ps))"
proof (cases "\<exists>k. m = Some k \<and> k < 1")
  case False
  with assms have "class_loop env q m UNSET 0 [] st = Some (ps, res, st')"
    by (auto simp: class_pages_def split: if_splits)
  from classes.run_fresh [OF class_loop_sound [OF this]] show ?thesis by simp
qed (use assms in \<open>auto simp: class_pages_def fresh_cursors_def\<close>)

lemma reference_pages_fresh:
  assumes "reference_pages env q st = Some (ps, res, st')"
  shows "fresh_cursors (map reference_page_next_cursor (butlast ps))"
proof (cases "reference_query_from_dict (JObj (reference_query_to_dict q))")
  case (Inr k)
  with assms have "reference_loop env k [] st = Some (ps, res, st')" by (simp add: reference_pages_def)
  from reference_paging.run_fresh [OF reference_loop_sound [OF this]] show ?thesis by simp
qed (use assms in \<open>auto simp: reference_pages_def fresh_cursors_def\<close>)

lemma class_pages_limited:
  assumes "0 < k"
  shows "\<exists>ps res st'. class_pages env q (Some k) st = Some (ps, res, st') \<and> length ps \<le> nat k"
proof -
  have "\<exists>ps res st'. page_run (fetch_classes env q) (\<lambda>n. class_advance (Some k) (Suc n)) (\<lambda>_. Given)
      UNSET 0 [] st ps res st' \<and> length ps \<le> Suc (nat (k - 1) - 0)"
    by (rule classes.limited_run) (use class_advance_fresh in fastforce)
  then obtain ps res st' where r: "page_run (fetch_classes env q) (\<lambda>n. class_advance (Some k) (Suc n))
      (\<lambda>_. Given) UNSET 0 [] st ps res st'" "length ps \<le> nat k"
    using assms by force
  from classes.complete [OF r(1)] r(2) assms show ?thesis
    by (intro exI [of _ ps] exI [of _ res] exI [of _ st']) (simp add: class_pages_def)
qed

lemma cards_of_strings: "finite C \<Longrightarrow> card (JStr ` C) = card C"
  by (rule card_image) (simp add: inj_on_def)

lemma reference_pages_end:
  assumes "finite C"
    and "\<And>k st p st'. invoke env (query_references_call k) as_references st = (Inr p, st') \<Longrightarrow>
      reference_page_next_cursor p \<in> insert JNull (JStr ` C)"
  shows "\<exists>ps res st'. reference_pages env q st = Some (ps, res, st') \<and> length ps \<le> Suc (card C)"
proof (cases "reference_query_from_dict (JObj (reference_query_to_dict q))")
  case (Inr k)
  have "\<exists>ps res st'. page_run (\<lambda>k. invoke env (query_references_call k) as_references) (\<lambda>_. reference_advance)
       (\<lambda>k c. k\<lparr>reference_query_cursor := Given c\<rparr>) k 0 [] st ps res st'
      \<and> length ps \<le> Suc (card (JStr ` C - set []))"
    by (rule reference_paging.finite_run [OF assms(1), where ok = "\<lambda>_ _. True"]) (use assms(2) reference_advance_fresh in \<open>blast | simp\<close>)+
  then obtain ps res st' where r: "page_run (\<lambda>k. invoke env (query_references_call k) as_references)
       (\<lambda>_. reference_advance) (\<lambda>k c. k\<lparr>reference_query_cursor := Given c\<rparr>) k 0 [] st ps res st'"
    "length ps \<le> Suc (card C)"
    using cards_of_strings [OF assms(1)] by auto
  from reference_paging.complete [OF r(1)] r(2) Inr show ?thesis
    by (simp add: reference_pages_def)
qed (simp add: reference_pages_def)

end
