(* ===== verification/Sdk_Search.thy ===== *)
theory Sdk_Search
  imports Sdk_Pages
begin

text \<open>
  Searching (\<open>search\<close> and \<open>build_search_index\<close> in \<open>project.py\<close>) and the cursor over its pages
  (\<open>search.py\<close>).
\<close>

subsection \<open>The cursor\<close>

record search_cursor =
  cursor_query :: jdict
  cursor_raw :: search_page
  cursor_seen :: "json list"
  cursor_started :: bool

definition new_cursor :: "search_request \<Rightarrow> search_page \<Rightarrow> search_cursor" where
  "new_cursor query raw = \<lparr>cursor_query = search_request_to_dict query, cursor_raw = raw,
     cursor_seen = [], cursor_started = False\<rparr>"

definition query_of :: "search_cursor \<Rightarrow> py_exc + search_request" where
  "query_of cur = search_request_from_dict (JObj (cursor_query cur))"

definition coverage_complete :: "search_cursor \<Rightarrow> bool" where
  "coverage_complete cur \<longleftrightarrow>
     list_all (\<lambda>c. search_coverage_state c = SearchCoverageState_COMPLETE) (search_page_coverage (cursor_raw cur))"

definition search_advance :: "json list \<Rightarrow> search_page \<Rightarrow> sdk_error + json option" where
  "search_advance seen page =
     follow_cursor ''Server repeated a search cursor''
       (json_truth (search_page_page_complete page)) (search_page_next_cursor page) seen"

definition next_request :: "search_cursor \<Rightarrow> (sdk_error + search_request option) \<times> search_cursor" where
  "next_request cur =
     (case search_advance (cursor_seen cur) (cursor_raw cur) of
        Inl e \<Rightarrow> (Inl e, cur)
      | Inr None \<Rightarrow> (Inr None, cur)
      | Inr (Some c) \<Rightarrow>
          (case query_of cur of
             Inl e \<Rightarrow> (Inl (Py_Error e), cur\<lparr>cursor_seen := c # cursor_seen cur\<rparr>)
           | Inr q \<Rightarrow> (Inr (Some (q\<lparr>search_request_cursor := Given c\<rparr>)),
                       cur\<lparr>cursor_seen := c # cursor_seen cur\<rparr>)))"

text \<open>The iterator, run to its end: the hits it yields, how it ends, the cursor and the client after it.\<close>

type_synonym 'w search_run = "(search_hit list \<times> (sdk_error + unit) \<times> search_cursor \<times> 'w client) option"

partial_function (option) search_loop :: "'w env \<Rightarrow> search_cursor \<Rightarrow> 'w client \<Rightarrow> 'w search_run" where
  "search_loop env cur st =
     (case next_request cur of (res, cur') \<Rightarrow>
       (case res of
          Inl e \<Rightarrow> Some (search_page_hits (cursor_raw cur), Inl e, cur', st)
        | Inr None \<Rightarrow> Some (search_page_hits (cursor_raw cur), Inr (), cur', st)
        | Inr (Some request) \<Rightarrow>
            (case invoke env (search_call request) as_search st of (answer, st') \<Rightarrow>
              (case answer of
                 Inl e \<Rightarrow> Some (search_page_hits (cursor_raw cur), Inl e, cur', st')
               | Inr page \<Rightarrow>
                   Option.bind (search_loop env (cur'\<lparr>cursor_raw := page\<rparr>) st')
                     (\<lambda>(hs, rest). Some (search_page_hits (cursor_raw cur) @ hs, rest))))))"

definition search_iter :: "'w env \<Rightarrow> search_cursor \<Rightarrow> 'w client \<Rightarrow> 'w search_run" where
  "search_iter env cur st =
     (if cursor_started cur
      then Some ([], Inl (Py_Error (ValueErr ''Search cursor is a single-use iterator'')), cur, st)
      else search_loop env (cur\<lparr>cursor_started := True\<rparr>) st)"

subsection \<open>Searching\<close>

record search_options =
  opt_domains :: "string list option"
  opt_match_mode :: string
  opt_case_sensitive :: bool
  opt_search_page_size :: int
  opt_search_strict :: bool
  opt_require_complete :: bool

definition search_request_of :: "string \<Rightarrow> search_options \<Rightarrow> py_exc + search_request" where
  "search_request_of query opts =
     ebind (case opt_domains opts of
              None \<Rightarrow> Inr UNSET
            | Some ds \<Rightarrow> ebind (emap (\<lambda>d. search_request_domains_item_of (JStr d)) ds) (\<lambda>ys. Inr (Given ys))) (\<lambda>domains.
     ebind (search_request_match_mode_of (JStr (opt_match_mode opts))) (\<lambda>match_mode.
       Inr \<lparr>search_request_query = JStr query, search_request_domains = domains,
         search_request_match_mode = Given match_mode,
         search_request_case_sensitive = Given (JBool (opt_case_sensitive opts)),
         search_request_page_size = Given (JInt (opt_search_page_size opts)),
         search_request_cursor = UNSET,
         search_request_strict = Given (JBool (opt_search_strict opts)),
         search_request_require_complete = Given (JBool (opt_require_complete opts)),
         search_request_expected_session_id = UNSET,
         search_request_expected_logical_revision = UNSET\<rparr>))"

datatype search_outcome = Search_Job job | Search_Results search_cursor

fun search_outcome_of :: "search_request \<Rightarrow> parsed \<Rightarrow> sdk_error + search_outcome" where
  "search_outcome_of request (Parsed (Job_Body j)) = Inr (Search_Job j)"
| "search_outcome_of request (Parsed (Search_Body p)) = Inr (Search_Results (new_cursor request p))"
| "search_outcome_of request _ = Inl (Unexpected_Response_Error ''Expected SearchPage or Job'')"

definition project_search :: "'w env \<Rightarrow> string \<Rightarrow> search_options \<Rightarrow> ('w, search_outcome) sdk" where
  "project_search env query opts =
     sbind (slift (search_request_of query opts)) (\<lambda>request.
     sbind (invoke env (search_call request) any_object) (\<lambda>result.
       \<lambda>st. (search_outcome_of request result, st)))"

datatype index_outcome = Index_Job job | Index_Status search_index_status

fun index_outcome_of :: "parsed \<Rightarrow> sdk_error + index_outcome" where
  "index_outcome_of (Parsed (Job_Body j)) = Inr (Index_Job j)"
| "index_outcome_of (Parsed (Index_Body x)) = Inr (Index_Status x)"
| "index_outcome_of _ = Inl (Unexpected_Response_Error ''Expected SearchIndexStatus or Job'')"

definition project_build_search_index ::
  "'w env \<Rightarrow> search_build_request option \<Rightarrow> ('w, index_outcome) sdk" where
  "project_build_search_index env request =
     sbind (invoke env (build_search_index_call
         (case request of
            None \<Rightarrow> \<lparr>search_build_request_domains = UNSET, search_build_request_force = Given (JBool False)\<rparr>
          | Some r \<Rightarrow> r)) any_object) (\<lambda>result.
       \<lambda>st. (index_outcome_of result, st))"

subsection \<open>The cursor is a pager\<close>

text \<open>The first page is already there; the page of a cursor is asked for with the query's copy.\<close>

definition fetch_hits ::
  "'w env \<Rightarrow> jdict \<Rightarrow> json option \<Rightarrow> search_page \<times> 'w client
     \<Rightarrow> (sdk_error + search_page) \<times> search_page \<times> 'w client" where
  "fetch_hits env query k s =
     (case k of
        None \<Rightarrow> (Inr (fst s), s)
      | Some c \<Rightarrow>
          (case search_request_from_dict (JObj query) of
             Inl e \<Rightarrow> (Inl (Py_Error e), s)
           | Inr q \<Rightarrow>
               (case invoke env (search_call (q\<lparr>search_request_cursor := Given c\<rparr>)) as_search (snd s) of
                  (Inl e, st') \<Rightarrow> (Inl e, fst s, st')
                | (Inr page, st') \<Rightarrow> (Inr page, page, st'))))"

definition hits_of :: "'w env \<Rightarrow> search_cursor \<Rightarrow> 'w client \<Rightarrow>
    (search_hit list \<times> (sdk_error + unit) \<times> search_page \<times> 'w client) option" where
  "hits_of env cur st = map_option (\<lambda>(hs, res, cur', st'). (hs, res, cursor_raw cur', st')) (search_loop env cur st)"

definition hits_loop :: "'w env \<Rightarrow> jdict \<Rightarrow> json option \<Rightarrow> nat \<Rightarrow> json list \<Rightarrow> search_page \<times> 'w client
    \<Rightarrow> (search_hit list \<times> (sdk_error + unit) \<times> search_page \<times> 'w client) option" where
  "hits_loop env query k n seen s =
     (case fetch_hits env query k s of
        (Inl e, s') \<Rightarrow> Some ([], Inl e, s')
      | (Inr page, s') \<Rightarrow>
          hits_of env \<lparr>cursor_query = query, cursor_raw = page, cursor_seen = seen, cursor_started = True\<rparr> (snd s'))"

lemma fetch_hits_page: "fetch_hits env query k s = (Inr p, s') \<Longrightarrow> fst s' = p"
  by (auto simp: fetch_hits_def split: option.splits sum.splits prod.splits)

lemma search_advance_fresh:
  "search_advance seen p = Inr (Some c) \<Longrightarrow>
     c = search_page_next_cursor p \<and> \<not> list_ex (json_eq c) seen \<and> c \<noteq> JNull"
  by (auto simp: search_advance_def follow_cursor_next)

lemma search_advance_real: "search_advance seen p \<noteq> Inr (Some JNull)"
  by (auto dest: search_advance_fresh)

text \<open>A round of the iterator from the page in hand, by the decision.\<close>

lemma hits_of_end:
  "search_advance (cursor_seen cur) (cursor_raw cur) = Inr None \<Longrightarrow>
     hits_of env cur st = Some (search_page_hits (cursor_raw cur), Inr (), cursor_raw cur, st)"
  "search_advance (cursor_seen cur) (cursor_raw cur) = Inl e \<Longrightarrow>
     hits_of env cur st = Some (search_page_hits (cursor_raw cur), Inl e, cursor_raw cur, st)"
  by (simp_all add: hits_of_def search_loop.simps [of env cur] next_request_def)

lemma hits_of_next:
  assumes "search_advance seen page = Inr (Some c)"
  shows "hits_of env \<lparr>cursor_query = query, cursor_raw = page, cursor_seen = seen, cursor_started = True\<rparr> st =
    Option.bind (hits_loop env query (Some c) n (c # seen) (page, st))
      (\<lambda>(hs, rest). Some (search_page_hits page @ hs, rest))"
proof -
  let ?cur = "\<lparr>cursor_query = query, cursor_raw = page, cursor_seen = seen, cursor_started = True\<rparr>"
  note unfold = search_loop.simps [of env ?cur st]
  show ?thesis
  proof (cases "search_request_from_dict (JObj query)")
    case (Inl e)
    with assms show ?thesis
      by (simp add: hits_of_def unfold next_request_def query_of_def hits_loop_def fetch_hits_def)
  next
    case (Inr q)
    obtain res st' where "invoke env (search_call (q\<lparr>search_request_cursor := Given c\<rparr>)) as_search st = (res, st')"
      by fastforce
    with Inr assms show ?thesis
      by (cases res)
        (auto simp: hits_of_def unfold next_request_def query_of_def hits_loop_def fetch_hits_def
          split: Option.bind_split)
  qed
qed

text \<open>The iterator's result is that of a run over the pages.\<close>

lemma search_loop_sound:
  "search_loop env cur st = Some r \<Longrightarrow> cursor_query cur = query \<Longrightarrow>
   fetch_hits env query k s = (Inr (cursor_raw cur), cursor_raw cur, st) \<Longrightarrow>
   \<exists>ps. page_run (fetch_hits env query) (\<lambda>_. search_advance) (\<lambda>_. Some) k n (cursor_seen cur) s ps
       (fst (snd r)) (cursor_raw (fst (snd (snd r))), snd (snd (snd r)))
     \<and> fst r = concat (map search_page_hits ps)"
proof (induction arbitrary: k n s rule: search_loop.raw_induct [rotated, consumes 1])
  case (1 loop env cur st r)
  let ?p = "cursor_raw cur"
  consider e where "search_advance (cursor_seen cur) ?p = Inl e" | "search_advance (cursor_seen cur) ?p = Inr None"
    | c where "search_advance (cursor_seen cur) ?p = Inr (Some c)"
    by (cases "search_advance (cursor_seen cur) ?p") auto
  then show ?case
  proof cases
    case (3 c)
    let ?s = "(?p, st)" and ?cur = "cur\<lparr>cursor_seen := c # cursor_seen cur\<rparr>"
    have step: "page_run (fetch_hits env query) (\<lambda>_. search_advance) (\<lambda>_. Some) k n (cursor_seen cur) s
        (?p # ps) res s'"
      if "page_run (fetch_hits env query) (\<lambda>_. search_advance) (\<lambda>_. Some) (Some c) (Suc n)
        (c # cursor_seen cur) ?s ps res s'" for ps res s'
      by (rule run_next [where fetch = "fetch_hits env query", OF 1(4)]) (use 3 that in simp_all)
    show ?thesis
    proof (cases "query_of cur")
      case (Inl e)
      with 1(2) 3 have r: "r = (search_page_hits ?p, Inl (Py_Error e), ?cur, st)"
        by (simp add: next_request_def)
      from Inl 1(3) have "fetch_hits env query (Some c) ?s = (Inl (Py_Error e), ?s)"
        by (simp add: query_of_def fetch_hits_def)
      from step [OF run_failed [of "fetch_hits env query", OF this]] r show ?thesis by fastforce
    next
      case (Inr q)
      obtain res st' where i: "invoke env (search_call (q\<lparr>search_request_cursor := Given c\<rparr>)) as_search st = (res, st')"
        by fastforce
      show ?thesis
      proof (cases res)
        case (Inl e)
        with 1(2) 3 Inr i have r: "r = (search_page_hits ?p, Inl e, ?cur, st')"
          by (simp add: next_request_def)
        from Inl Inr i 1(3) have "fetch_hits env query (Some c) ?s = (Inl e, ?p, st')"
          by (simp add: query_of_def fetch_hits_def)
        from step [OF run_failed [of "fetch_hits env query", OF this]] r show ?thesis by fastforce
      next
        case page: (Inr p)
        with 1(2) 3 Inr i obtain hs rest where on: "loop env (?cur\<lparr>cursor_raw := p\<rparr>) st' = Some (hs, rest)"
          and r: "r = (search_page_hits ?p @ hs, rest)"
          by (auto simp: next_request_def Option.bind_eq_Some_conv)
        from page Inr i 1(3) have "fetch_hits env query (Some c) ?s = (Inr p, p, st')"
          by (simp add: query_of_def fetch_hits_def)
        with 1(1) [OF on, of "Some c" ?s "Suc n"] 1(3) obtain ps where
          "page_run (fetch_hits env query) (\<lambda>_. search_advance) (\<lambda>_. Some) (Some c) (Suc n)
             (c # cursor_seen cur) ?s ps (fst rest) (cursor_raw (fst (snd rest)), snd (snd rest))"
          "hs = concat (map search_page_hits ps)"
          by auto
        with step r show ?thesis by (intro exI [of _ "?p # ps"]) auto
      qed
    qed
  qed (use 1(2-4) in \<open>auto simp: next_request_def intro!: exI [of _ "[?p]"] run_refused run_ended\<close>)
qed

interpretation hits: pager "fetch_hits env query" "\<lambda>_. search_advance" "\<lambda>_. Some"
    search_page_next_cursor search_page_hits "hits_loop env query" for env query
proof
  fix k st p st' seen c e res xs and n :: nat
  show "fetch_hits env query k st = (Inl e, st') \<Longrightarrow> hits_loop env query k n seen st = Some ([], Inl e, st')"
    by (simp add: hits_loop_def)
  show "hits_loop env query k n seen st = Some (search_page_hits p, Inr (), st')"
    if "fetch_hits env query k st = (Inr p, st')" "search_advance seen p = Inr None"
    using that fetch_hits_page [OF that(1)] by (cases st') (auto simp: hits_loop_def hits_of_end)
  show "hits_loop env query k n seen st = Some (search_page_hits p, Inl e, st')"
    if "fetch_hits env query k st = (Inr p, st')" "search_advance seen p = Inl e"
    using that fetch_hits_page [OF that(1)] by (cases st') (auto simp: hits_loop_def hits_of_end)
  show "hits_loop env query k n seen st =
      Option.bind (hits_loop env query (Some c) (Suc n) (c # seen) st')
        (\<lambda>(xs, rest). Some (search_page_hits p @ xs, rest))"
    if "fetch_hits env query k st = (Inr p, st')" "search_advance seen p = Inr (Some c)"
    using that hits_of_next [OF that(2), of env query "snd st'" "Suc n"] fetch_hits_page [OF that(1)]
    by (cases st') (simp add: hits_loop_def [of env query k])
  show "\<exists>ps. page_run (fetch_hits env query) (\<lambda>_. search_advance) (\<lambda>_. Some) k n seen st ps res st'
      \<and> xs = concat (map search_page_hits ps)"
    if loop: "hits_loop env query k n seen st = Some (xs, res, st')"
  proof -
    obtain ans s' where Pair: "fetch_hits env query k st = (ans, s')"
      by (cases "fetch_hits env query k st")
    show ?thesis
    proof (cases ans)
      case (Inl e)
      with Pair loop show ?thesis
        by (auto simp: hits_loop_def intro!: exI [of _ "[]"] run_failed)
    next
      case (Inr p)
      with Pair loop obtain cur' where r: "search_loop env
          \<lparr>cursor_query = query, cursor_raw = p, cursor_seen = seen, cursor_started = True\<rparr> (snd s') =
          Some (xs, res, cur', snd st')" "fst st' = cursor_raw cur'"
        by (cases st') (auto simp: hits_loop_def hits_of_def)
      from Pair Inr fetch_hits_page have "fetch_hits env query k st = (Inr p, p, snd s')"
        by (metis prod.collapse)
      with search_loop_sound [OF r(1), of query k st n] r(2) show ?thesis
        by (cases st') auto
    qed
  qed
qed (use search_advance_fresh in blast)

text \<open>Iterating a fresh cursor is the pager's loop from the page it was made with.\<close>

lemma hits_of_iter:
  "hits_loop env (search_request_to_dict q) None n [] (raw, st) =
     map_option (\<lambda>(hs, res, cur', st'). (hs, res, cursor_raw cur', st')) (search_iter env (new_cursor q raw) st)"
  by (simp add: hits_loop_def fetch_hits_def search_iter_def new_cursor_def hits_of_def)

subsection \<open>What follows\<close>

text \<open>The hits are those of the pages of a run, which starts with the page in hand.\<close>

lemma search_iter_hits:
  assumes "search_iter env (new_cursor q raw) st = Some (hs, res, cur', st')"
  shows "\<exists>ps. page_run (fetch_hits env (search_request_to_dict q)) (\<lambda>_. search_advance) (\<lambda>_. Some) None 0 []
      (raw, st) ps res (cursor_raw cur', st')
    \<and> hs = concat (map search_page_hits ps) \<and> fresh_cursors (map search_page_next_cursor (butlast ps))"
proof -
  have "hits_loop env (search_request_to_dict q) None 0 [] (raw, st) = Some (hs, res, cursor_raw cur', st')"
    using assms by (simp add: hits_of_iter)
  from hits.sound [OF this] hits.run_fresh show ?thesis by fastforce
qed

lemma search_iter_ends:
  assumes "finite C" "search_page_next_cursor raw \<in> insert JNull (JStr ` C)"
    and "\<And>r st p st'. invoke env (search_call r) as_search st = (Inr p, st') \<Longrightarrow>
      search_page_next_cursor p \<in> insert JNull (JStr ` C)"
  shows "\<exists>hs res cur' st'. search_iter env (new_cursor q raw) st = Some (hs, res, cur', st')"
proof -
  let ?query = "search_request_to_dict q"
  have known: "search_page_next_cursor p \<in> insert JNull (JStr ` C)"
    if "k = None \<longrightarrow> fst s = raw" "fetch_hits env ?query k s = (Inr p, s')" for k s p s'
    using that assms(2,3) by (auto simp: fetch_hits_def split: option.splits sum.splits prod.splits)
  have "\<exists>ps res s'. page_run (fetch_hits env ?query) (\<lambda>_. search_advance) (\<lambda>_. Some) None 0 [] (raw, st) ps res s'
      \<and> length ps \<le> Suc (card (JStr ` C - set []))"
    by (rule hits.finite_run [OF assms(1), where ok = "\<lambda>k s. k = None \<longrightarrow> fst s = raw"])
      (use known search_advance_real in auto)
  then obtain ps res s' where "page_run (fetch_hits env ?query) (\<lambda>_. search_advance) (\<lambda>_. Some) None 0 []
      (raw, st) ps res s'"
    by blast
  from hits.complete [OF this] show ?thesis
    by (auto simp: hits_of_iter)
qed

text \<open>A cursor can be iterated once.\<close>

lemma next_request_started: "next_request cur = (res, cur') \<Longrightarrow> cursor_started cur' = cursor_started cur"
  by (auto simp: next_request_def split: sum.splits option.splits)

lemma search_loop_started:
  "search_loop env cur st = Some r \<Longrightarrow> cursor_started (fst (snd (snd r))) = cursor_started cur"
proof (induction rule: search_loop.raw_induct [rotated, consumes 1])
  case (1 loop env cur st r)
  obtain res cur' where n: "next_request cur = (res, cur')" by fastforce
  note started = next_request_started [OF n]
  show ?case
  proof (cases "\<exists>request. res = Inr (Some request)")
    case False
    with 1(2) [unfolded n] started show ?thesis
      by (cases res) (auto split: option.splits)
  next
    case True
    then obtain request where request: "res = Inr (Some request)" by blast
    obtain answer st' where i: "invoke env (search_call request) as_search st = (answer, st')" by fastforce
    show ?thesis
    proof (cases answer)
      case (Inl e)
      with 1(2) [unfolded n] request i started show ?thesis by auto
    next
      case (Inr page)
      with 1(2) [unfolded n] request i obtain hs rest where
        "loop env (cur'\<lparr>cursor_raw := page\<rparr>) st' = Some (hs, rest)" "snd r = rest"
        by (auto simp: Option.bind_eq_Some_conv)
      with 1(1) started show ?thesis by fastforce
    qed
  qed
qed

lemma search_iter_started:
  "search_iter env cur st = Some (hs, res, cur', st') \<Longrightarrow> cursor_started cur'"
  by (auto simp: search_iter_def dest: search_loop_started split: if_splits)

end
