(* ===== verification/Sdk_Handles.thy ===== *)
theory Sdk_Handles
  imports Sdk_Pages
begin

text \<open>
  The operations of the handles bound to a project (\<open>JavaClass\<close>, \<open>JavaMethod\<close>, \<open>JavaField\<close> in
  \<open>symbols.py\<close>): each is the project's operation on the handle's reference. A method the class does
  not have raises \<open>AttributeError\<close>.
\<close>

definition handle_rename ::
  "'w env \<Rightarrow> handle \<Rightarrow> string \<Rightarrow> bool \<Rightarrow> preconditions \<Rightarrow> ('w, edit_batch_result) sdk" where
  "handle_rename env h new_name propagate_related options =
     project_rename env (Wire_Ref (handle_ref h)) new_name propagate_related options"

definition handle_references ::
  "'w env \<Rightarrow> handle \<Rightarrow> string \<Rightarrow> string \<Rightarrow> bool \<Rightarrow> bool \<Rightarrow> ('w, reference_page) sdk" where
  "handle_references env h direction view strict source_sites =
     project_references env (Wire_Ref (handle_ref h))
       \<lparr>opt_direction = direction, opt_view = view, opt_relations = None, opt_page_size = 50,
        opt_cursor = None, opt_include_source_sites = source_sites, opt_strict = strict\<rparr>"

definition handle_decompile :: "'w env \<Rightarrow> handle \<Rightarrow> bool \<Rightarrow> ('w, source_result) sdk" where
  "handle_decompile env h strict =
     (if handle_class h = Java_Field then sraise (Py_Error AttributeErr)
      else project_decompile env (Wire_Ref (handle_ref h)) ''JAVA'' strict UNSET True False)"

definition handle_control_flow ::
  "'w env \<Rightarrow> handle \<Rightarrow> bool \<Rightarrow> preconditions \<Rightarrow> ('w, control_flow_result) sdk" where
  "handle_control_flow env h strict options =
     (if handle_class h \<noteq> Java_Method then sraise (Py_Error AttributeErr)
      else project_control_flow env (Wire_Ref (handle_ref h)) strict options)"

end
