(* ===== verification/Sdk_Lifecycle.thy ===== *)
theory Sdk_Lifecycle
  imports Sdk_Client Sdk_Events Sdk_Search Sdk_Handles
begin

text \<open>
  The life of a client: its state changes only by calls, by the passing of time and by closing it.
  Every operation of the SDK is a sequence of such steps, so what the steps keep, all operations
  keep in any order; and a closed client's operations do nothing.
\<close>

subsection \<open>Steps\<close>

text \<open>\<open>waited\<close> stands for the clock and the event streams, which change only the world.\<close>

inductive client_step :: "'w env \<Rightarrow> 'w client \<Rightarrow> 'w client \<Rightarrow> bool" for env where
  called: "invoke env c (expect :: parsed \<Rightarrow> unit option) st = (res, st') \<Longrightarrow> client_step env st st'"
| waited: "client_step env st (st\<lparr>world := w\<rparr>)"
| ended: "client_close env st = (res, st') \<Longrightarrow> client_step env st st'"

definition client_run :: "'w env \<Rightarrow> 'w client \<Rightarrow> 'w client \<Rightarrow> bool" where
  "client_run env = (client_step env)\<^sup>*\<^sup>*"

lemma client_run_refl [intro]: "client_run env st st"
  by (simp add: client_run_def)

lemma client_run_trans [trans]: "client_run env st st' \<Longrightarrow> client_run env st' st'' \<Longrightarrow> client_run env st st''"
  by (simp add: client_run_def)

lemma client_run_step: "client_step env st st' \<Longrightarrow> client_run env st st'"
  by (simp add: client_run_def)

text \<open>What a call does to the state does not depend on the type of its result.\<close>

lemma invoke_state:
  "snd (invoke env c expect st) = snd (invoke env c (\<lambda>p. map_option (\<lambda>_. ()) (expect p)) st)"
proof -
  have "unwrap r (\<lambda>p. map_option (\<lambda>_. ()) (expect p)) = map_sum id (\<lambda>_. ()) (unwrap r expect)" for r
    by (cases "expect (response_parsed r)") (auto simp: unwrap_def split: parsed.splits)
  then show ?thesis
    by (auto simp: invoke_def Let_def split: prod.splits sum.splits call_result.splits)
qed

lemma invoke_run: "client_run env st (snd (invoke env c expect st))"
  unfolding invoke_state [of env c expect]
  by (rule client_run_step) (rule called, rule surjective_pairing)

subsection \<open>Invariants of a run\<close>

text \<open>The current session is never a retired one.\<close>

definition session_current :: "'w client \<Rightarrow> bool" where
  "session_current st \<longleftrightarrow> (\<forall>s. session_id (revisions st) = Some s \<longrightarrow> s \<notin> retired (revisions st))"

lemma invoke_revisions:
  "invoke env c expect st = (res, st') \<Longrightarrow>
     revisions st' = revisions st
     \<or> (\<exists>repr a r. observe repr a (revisions st) = (r, revisions st'))"
  by (auto simp: invoke_def Let_def split: if_splits prod.splits sum.splits call_result.splits)

lemma step_session:
  assumes "client_step env st st'"
  shows "retired (revisions st) \<subseteq> retired (revisions st')
    \<and> (session_current st \<longrightarrow> session_current st') \<and> (closed st \<longrightarrow> closed st')"
  using assms
proof cases
  case (called c expect res)
  with invoke_revisions [OF called] invoke_keeps_closed [OF called] show ?thesis
    by (auto simp: session_current_def dest: observe_retired)
next
  case (ended res)
  then show ?thesis by (auto simp: client_close_def session_current_def split: if_splits)
qed (auto simp: session_current_def)

lemma run_session:
  "client_run env st st' \<Longrightarrow> retired (revisions st) \<subseteq> retired (revisions st')
    \<and> (session_current st \<longrightarrow> session_current st') \<and> (closed st \<longrightarrow> closed st')"
  unfolding client_run_def by (induction rule: rtranclp_induct) (auto dest: step_session)

subsection \<open>Operations are runs\<close>

definition lives :: "'w env \<Rightarrow> ('w, 'a) sdk \<Rightarrow> bool" where
  "lives env m \<longleftrightarrow> (\<forall>st. client_run env st (snd (m st)))"

named_theorems life_rules \<open>operations whose effect is a run\<close>

lemma lives_pure [life_rules]:
  "lives env (sreturn x)" "lives env (sraise e)" "lives env (slift m')"
  "lives env (expected_of options required)" "lives env (required_of options)"
  "lives env (\<lambda>st. (r, st))" "lives env client_enter"
  by (auto simp: lives_def sreturn_def sraise_def slift_def expected_of_def required_of_def client_enter_def)

lemma lives_bind [life_rules]:
  assumes "lives env m" "\<And>x. lives env (f x)"
  shows "lives env (sbind m f)"
  unfolding lives_def
proof
  fix st
  have m: "client_run env st (snd (m st))" using assms(1) by (simp add: lives_def)
  show "client_run env st (snd (sbind m f st))"
  proof (cases "fst (m st)")
    case (Inl e)
    with m show ?thesis by (simp add: sbind_split)
  next
    case (Inr x)
    from assms(2) have "client_run env (snd (m st)) (snd (f x (snd (m st))))"
      by (simp add: lives_def)
    with m Inr show ?thesis by (simp add: sbind_split client_run_trans [OF m])
  qed
qed

lemma lives_invoke [life_rules]: "lives env (invoke env c expect)"
  by (simp add: lives_def invoke_run)

lemma lives_close [life_rules]: "lives env (client_close env)"
  unfolding lives_def by (metis client_run_step ended surjective_pairing)

lemma lives_pair [life_rules]: "(\<And>x y. lives env (f x y)) \<Longrightarrow> lives env (case p of (x, y) \<Rightarrow> f x y)"
  by (cases p) simp

lemma lives_if [life_rules]: "lives env m \<Longrightarrow> lives env m' \<Longrightarrow> lives env (if b then m else m')"
  by simp

lemmas client_op_defs =
  client_liveness_def client_status_def client_capabilities_def client_job_def client_shutdown_def
  client_exit_def

lemmas project_op_defs =
  project_refresh_def project_snapshot_def project_settings_of_def project_pending_edits_def
  project_save_def project_reload_def project_update_settings_def project_export_mappings_def
  project_import_mappings_def project_set_comment_def project_rename_def project_rename_parameter_def
  project_apply_edits_def project_resolve_object_def project_resolve_def project_decompile_def
  project_control_flow_def project_references_def project_search_def project_build_search_index_def
  fetch_classes_def

lemma client_ops_live:
  "lives env (client_liveness env)" "lives env (client_status env)" "lives env (client_capabilities env)"
  "lives env (client_job env j)" "lives env (client_shutdown env policy)" "lives env (client_exit env)"
  unfolding client_op_defs by (intro life_rules)+

lemma project_ops_live:
  "lives env (project_snapshot env)" "lives env (project_settings_of env)"
  "lives env (project_pending_edits env)" "lives env (project_save env path options)"
  "lives env (project_reload env discard options)" "lives env (project_update_settings env mappings options)"
  "lives env (project_export_mappings env target options)" "lives env (project_import_mappings env source options)"
  "lives env (project_apply_edits env items options)" "lives env (project_rename env t name related options)"
  "lives env (project_set_comment env t txt options)"
  "lives env (project_rename_parameter env ref i name snapshot options)"
  "lives env (project_resolve env ref)" "lives env (project_resolve_object env ref)"
  "lives env (project_decompile env t kind strict mode an dl)" "lives env (project_control_flow env t strict options)"
  "lives env (project_references env t ro)" "lives env (project_search env query so)"
  "lives env (project_build_search_index env request)" "lives env (fetch_classes env q cursor)"
  unfolding project_op_defs Let_def by (intro life_rules)+

lemma lives_snd: "lives env m \<Longrightarrow> client_run env st (snd (m st))"
  by (simp add: lives_def)

lemma lives_run: "lives env m \<Longrightarrow> m st = (res, st') \<Longrightarrow> client_run env st st'"
  by (metis lives_def snd_conv)

subsection \<open>Loops are runs\<close>

lemma pause_run: "pause env d i st = (go, st') \<Longrightarrow> client_run env st st'"
  by (auto simp: pause_def Let_def intro!: client_run_step waited split: option.splits prod.splits if_splits)

lemma start_deadline_run: "start_deadline env t st = (d, st') \<Longrightarrow> client_run env st st'"
  by (cases t) (auto simp: start_deadline_def intro: client_run_step waited split: prod.splits)

lemma refresh_run:
  assumes "job_refresh env raw st = (res, raw', st')"
  shows "client_run env st st'"
proof -
  from assms have "st' = snd (invoke env (get_job_call (job_job_id raw)) as_job st)"
    by (auto simp: job_refresh_def fetch_job_def split: prod.splits sum.splits)
  then show ?thesis using invoke_run by metis
qed

lemma wait_loop_run:
  "wait_loop env d i raw st = Some r \<Longrightarrow> client_run env st (snd (snd r))"
proof (induction rule: wait_loop.raw_induct [rotated, consumes 1])
  case (1 loop env d i raw st r)
  obtain res raw' st' where f: "job_refresh env raw st = (res, raw', st')"
    by (cases "job_refresh env raw st") auto
  obtain go st'' where p: "pause env d i st' = (go, st'')" by fastforce
  have "client_run env st st'" by (rule refresh_run [OF f])
  moreover have "client_run env st st''" by (rule client_run_trans [OF refresh_run [OF f] pause_run [OF p]])
  moreover have "snd (snd r) \<in> {st, st', st''} \<or> loop env d i raw' st'' = Some r"
    using 1(2) unfolding f
    by (cases "job_terminal raw"; cases res; cases "job_terminal raw'"; cases go; simp add: p split: if_splits)
      auto
  ultimately show ?case
    using 1(1) [of env d i raw' st'' r] client_run_trans [of env st st''] by auto
qed

lemma poll_loop_run:
  "poll_loop env d i raw st = Some r \<Longrightarrow> client_run env st (snd (snd (snd r)))"
proof (induction rule: poll_loop.raw_induct [rotated, consumes 1])
  case (1 loop env d i raw st r)
  obtain res raw' st' where f: "job_refresh env raw st = (res, raw', st')"
    by (cases "job_refresh env raw st") auto
  obtain go st'' where p: "pause env d i st' = (go, st'')" by fastforce
  have "client_run env st st'" by (rule refresh_run [OF f])
  moreover have "client_run env st st''" by (rule client_run_trans [OF refresh_run [OF f] pause_run [OF p]])
  moreover have "snd (snd (snd r)) \<in> {st, st', st''}
      \<or> (\<exists>js. loop env d i raw' st'' = Some (js, snd r))"
    using 1(2) unfolding f
    by (cases res; cases go; simp add: p split: if_splits) (auto simp: Option.bind_eq_Some_conv)
  ultimately show ?case
    using 1(1) [of env d i raw' st''] client_run_trans [of env st st''] by fastforce
qed

lemma ready_loop_run:
  "ready_loop env d i st = Some r \<Longrightarrow> client_run env st (snd r)"
proof (induction rule: ready_loop.raw_induct [rotated, consumes 1])
  case (1 loop env d i st r)
  obtain res st' where c: "client_status env st = (res, st')" by fastforce
  obtain go st'' where p: "pause env d i st' = (go, st'')" by fastforce
  have st': "client_run env st st'" by (rule lives_run [OF client_ops_live(2) c])
  moreover have "client_run env st st''" by (rule client_run_trans [OF st' pause_run [OF p]])
  moreover have "snd r \<in> {st', st''} \<or> loop env d i st'' = Some r"
    using 1(2) unfolding c by (cases res; cases go; simp add: p split: if_splits) auto
  ultimately show ?case
    using 1(1) [of env d i st'' r] client_run_trans [of env st st''] by auto
qed

lemma job_wait_run:
  assumes "job_wait env t i raw st = Some r"
  shows "client_run env st (snd (snd r))"
proof (cases "polling t i")
  case (Inr u)
  obtain d st' where s: "start_deadline env t st = (d, st')" by fastforce
  with assms Inr have "wait_loop env d i raw st' = Some r" by (simp add: job_wait_def)
  from client_run_trans [OF start_deadline_run [OF s] wait_loop_run [OF this]] show ?thesis .
qed (use assms in \<open>auto simp: job_wait_def\<close>)

lemma poll_updates_run:
  assumes "poll_updates env t i raw st = Some r"
  shows "client_run env st (snd (snd (snd r)))"
proof (cases "polling t i")
  case (Inr u)
  obtain d st' where s: "start_deadline env t st = (d, st')" by fastforce
  with assms Inr have "poll_loop env d i raw st' = Some r" by (simp add: poll_updates_def)
  from client_run_trans [OF start_deadline_run [OF s] poll_loop_run [OF this]] show ?thesis .
qed (use assms in \<open>auto simp: poll_updates_def\<close>)

lemma wait_ready_run:
  assumes "wait_ready env t i st = Some r"
  shows "client_run env st (snd r)"
proof (cases "polling (Some t) i")
  case (Inr u)
  obtain d st' where s: "start_deadline env (Some t) st = (d, st')" by fastforce
  with assms Inr have "ready_loop env d i st' = Some r" by (simp add: wait_ready_def)
  from client_run_trans [OF start_deadline_run [OF s] ready_loop_run [OF this]] show ?thesis .
qed (use assms in \<open>auto simp: wait_ready_def\<close>)

text \<open>A paged run is a run of the client, seen through \<open>view\<close>.\<close>

lemma page_run_client:
  assumes "\<And>k st. client_run env (view st) (view (snd (fetch k st)))"
  shows "page_run fetch advance key k n seen st ps res st' \<Longrightarrow> client_run env (view st) (view st')"
proof (induction rule: page_run.induct)
  case (run_next k st p st' n seen c ps res st'')
  with assms [of st k] show ?case by (metis client_run_trans snd_conv)
qed (metis assms snd_conv)+

lemma fetch_hits_run: "client_run env (snd s) (snd (snd (fetch_hits env query k s)))"
proof -
  have "client_run env (snd s) st'" if "invoke env c as_search (snd s) = (res, st')" for c res st'
    using invoke_run [of env "snd s" c as_search] that by simp
  then show ?thesis
    by (auto simp: fetch_hits_def split: option.splits sum.splits prod.splits)
qed

lemma class_pages_run:
  assumes "class_pages env q m st = Some (ps, res, st')"
  shows "client_run env st st'"
proof (cases "\<exists>k. m = Some k \<and> k < 1")
  case False
  with assms have "class_loop env q m UNSET 0 [] st = Some (ps, res, st')"
    by (auto simp: class_pages_def split: if_splits)
  from class_loop_sound [OF this]
  have "page_run (fetch_classes env q) (\<lambda>n. class_advance m (Suc n)) (\<lambda>_. Given) UNSET 0 [] st ps res st'"
    by simp
  moreover have "\<And>k st. client_run env st (snd (fetch_classes env q k st))"
    using project_ops_live(20) by (auto simp: lives_def)
  ultimately show ?thesis
    using page_run_client [where view = "\<lambda>s. s" and env = env and fetch = "fetch_classes env q"] by blast
qed (use assms in \<open>auto simp: class_pages_def\<close>)

lemma reference_pages_run:
  assumes "reference_pages env q st = Some (ps, res, st')"
  shows "client_run env st st'"
proof (cases "reference_query_from_dict (JObj (reference_query_to_dict q))")
  case (Inr k)
  with assms have "reference_loop env k [] st = Some (ps, res, st')" by (simp add: reference_pages_def)
  from page_run_client [where view = "\<lambda>s. s" and env = env, OF invoke_run reference_loop_sound [OF this]]
  show ?thesis by simp
qed (use assms in \<open>auto simp: reference_pages_def\<close>)

lemma search_iter_run:
  assumes "search_iter env cur st = Some (hs, res, cur', st')"
  shows "client_run env st st'"
proof (cases "cursor_started cur")
  case False
  with assms have l: "search_loop env (cur\<lparr>cursor_started := True\<rparr>) st = Some (hs, res, cur', st')"
    by (simp add: search_iter_def)
  have "fetch_hits env (cursor_query cur) None (cursor_raw cur, st) = (Inr (cursor_raw cur), cursor_raw cur, st)"
    by (simp add: fetch_hits_def)
  with search_loop_sound [OF l, of "cursor_query cur" None "(cursor_raw cur, st)" 0] obtain ps where
    "page_run (fetch_hits env (cursor_query cur)) (\<lambda>_. search_advance) (\<lambda>_. Some) None 0 (cursor_seen cur)
       (cursor_raw cur, st) ps res (cursor_raw cur', st')"
    by auto
  from page_run_client [where view = snd and env = env, OF fetch_hits_run this] show ?thesis by simp
qed (use assms in \<open>auto simp: search_iter_def\<close>)

subsection \<open>A closed client\<close>

text \<open>An operation of a closed client raises and changes nothing; nothing is sent.\<close>

definition silent :: "('w, 'a) sdk \<Rightarrow> bool" where
  "silent m \<longleftrightarrow> (\<forall>st. closed st \<longrightarrow> snd (m st) = st \<and> (\<exists>e. fst (m st) = Inl e))"

definition stateless :: "('w, 'a) sdk \<Rightarrow> bool" where
  "stateless m \<longleftrightarrow> (\<forall>st. snd (m st) = st)"

named_theorems silent_rules \<open>operations a closed client refuses\<close>

lemma silent_invoke [silent_rules]: "silent (invoke env c expect)"
  by (simp add: silent_def invoke_closed)

lemma silent_raise [silent_rules]: "silent (sraise e)"
  by (simp add: silent_def sraise_def)

lemma stateless_simps [silent_rules]:
  "stateless (slift m)" "stateless (expected_of options required)" "stateless (required_of options)"
  by (simp_all add: stateless_def slift_def expected_of_def required_of_def)

lemma silent_first [silent_rules]: "silent m \<Longrightarrow> silent (sbind m f)"
  by (auto simp: silent_def sbind_split split: sum.splits)

lemma silent_then [silent_rules]: "stateless m \<Longrightarrow> (\<And>x. silent (f x)) \<Longrightarrow> silent (sbind m f)"
  by (auto simp: silent_def stateless_def sbind_split split: sum.splits)

lemma silent_pair [silent_rules]: "(\<And>x y. silent (f x y)) \<Longrightarrow> silent (case p of (x, y) \<Rightarrow> f x y)"
  by (cases p) simp

lemma silent_if [silent_rules]: "silent m \<Longrightarrow> silent m' \<Longrightarrow> silent (if b then m else m')"
  by simp

lemma silent_refuses: "silent m \<Longrightarrow> closed st \<Longrightarrow> \<exists>e. m st = (Inl e, st)"
  unfolding silent_def by (metis surjective_pairing)

lemma client_ops_silent:
  "silent (client_liveness env)" "silent (client_status env)" "silent (client_capabilities env)"
  "silent (client_job env j)" "silent (client_shutdown env policy)"
  unfolding client_op_defs by (intro silent_rules)+

lemma project_ops_silent:
  "silent (project_snapshot env)" "silent (project_settings_of env)"
  "silent (project_pending_edits env)" "silent (project_save env path options)"
  "silent (project_reload env discard options)" "silent (project_update_settings env mappings options)"
  "silent (project_export_mappings env target options)" "silent (project_import_mappings env source options)"
  "silent (project_apply_edits env items options)" "silent (project_rename env t name related options)"
  "silent (project_set_comment env t txt options)"
  "silent (project_rename_parameter env ref i name snapshot options)"
  "silent (project_resolve env ref)" "silent (project_resolve_object env ref)"
  "silent (project_decompile env t kind strict mode an dl)" "silent (project_control_flow env t strict options)"
  "silent (project_references env t ro)" "silent (project_search env query so)"
  "silent (project_build_search_index env request)" "silent (fetch_classes env q cursor)"
  unfolding project_op_defs Let_def by (intro silent_rules)+

end
