(* ===== verification/Api_Client.thy ===== *)
theory Api_Client
  imports Sdk_Client
begin

text \<open>
  The low-level client (\<open>_generated/client.py\<close>) and \<open>connection\<close> of \<open>_common.py\<close>: the settings a
  request is sent with, and the clients of \<open>httpx\<close> that are made of them when first used.
\<close>

subsection \<open>State\<close>

text \<open>
  Dictionaries are objects that clients share, so they are kept at addresses. What \<open>httpx\<close> does is a
  parameter: its clients are known by a number, and making one may raise.
\<close>

datatype verify = Verify_Flag bool | Verify_File string | Verify_Context nat

record httpx_config =
  conf_base_url :: string
  conf_cookies :: "string pydict"
  conf_headers :: "string pydict"
  conf_timeout :: "http_timeout option"
  conf_verify :: verify
  conf_follow_redirects :: bool
  conf_args :: jdict

record 'w httpx =
  hx_client :: "httpx_config \<Rightarrow> 'w \<Rightarrow> (py_exc + nat) \<times> 'w"
  hx_async_client :: "httpx_config \<Rightarrow> 'w \<Rightarrow> (py_exc + nat) \<times> 'w"
  hx_update_headers :: "nat \<Rightarrow> string pydict \<Rightarrow> 'w \<Rightarrow> 'w"
  hx_update_cookies :: "nat \<Rightarrow> string pydict \<Rightarrow> 'w \<Rightarrow> 'w"
  hx_set_timeout :: "nat \<Rightarrow> http_timeout \<Rightarrow> 'w \<Rightarrow> 'w"
  hx_enter :: "nat \<Rightarrow> 'w \<Rightarrow> (py_exc + unit) \<times> 'w"
  hx_exit :: "nat \<Rightarrow> 'w \<Rightarrow> (py_exc + unit) \<times> 'w"

record 'w store =
  dicts :: "nat \<Rightarrow> string pydict"
  next_dict :: nat
  outside :: 'w

record generated_client =
  gc_raise_on_unexpected_status :: bool
  gc_base_url :: string
  gc_cookies :: nat
  gc_headers :: nat
  gc_timeout :: "http_timeout option"
  gc_verify_ssl :: verify
  gc_follow_redirects :: bool
  gc_httpx_args :: jdict
  gc_client :: "nat option"
  gc_async_client :: "nat option"

record authenticated_client = generated_client +
  gc_token :: string
  gc_prefix :: string
  gc_auth_header_name :: string

text \<open>An operation on a client: the object and the store change, it returns or raises.\<close>

type_synonym ('w, 'z, 'a) on_gc =
  "'z generated_client_scheme \<Rightarrow> 'w store \<Rightarrow> (py_exc + 'a) \<times> 'z generated_client_scheme \<times> 'w store"

definition put_dict :: "nat \<Rightarrow> string pydict \<Rightarrow> 'w store \<Rightarrow> 'w store" where
  "put_dict a d s = s\<lparr>dicts := (dicts s)(a := d)\<rparr>"

definition new_dict :: "string pydict \<Rightarrow> 'w store \<Rightarrow> nat \<times> 'w store" where
  "new_dict d s = (next_dict s, (put_dict (next_dict s) d s)\<lparr>next_dict := Suc (next_dict s)\<rparr>)"

definition outside_do :: "('w \<Rightarrow> 'w) \<Rightarrow> 'w store \<Rightarrow> 'w store" where
  "outside_do f s = s\<lparr>outside := f (outside s)\<rparr>"

definition for_each_client :: "(nat \<Rightarrow> 'w \<Rightarrow> 'w) \<Rightarrow> 'z generated_client_scheme \<Rightarrow> 'w store \<Rightarrow> 'w store" where
  "for_each_client f c s =
     (let s = (case gc_client c of None \<Rightarrow> s | Some a \<Rightarrow> outside_do (f a) s)
      in (case gc_async_client c of None \<Rightarrow> s | Some a \<Rightarrow> outside_do (f a) s))"

subsection \<open>Deriving a client\<close>

text \<open>
  \<open>evolve\<close> passes the fields of the constructor on, dictionaries included; the clients of \<open>httpx\<close> are
  no such fields, so the new object has none.
\<close>

definition evolved :: "'z generated_client_scheme \<Rightarrow> 'z generated_client_scheme" where
  "evolved c = c\<lparr>gc_client := None, gc_async_client := None\<rparr>"

definition with_headers ::
  "'w httpx \<Rightarrow> string pydict \<Rightarrow> 'z generated_client_scheme \<Rightarrow> 'w store \<Rightarrow> 'z generated_client_scheme \<times> 'w store" where
  "with_headers hx hs c s =
     (let s = for_each_client (\<lambda>a. hx_update_headers hx a hs) c s
      in case new_dict (dict_update (dicts s (gc_headers c)) hs) s of
           (a, s) \<Rightarrow> ((evolved c)\<lparr>gc_headers := a\<rparr>, s))"

definition with_cookies ::
  "'w httpx \<Rightarrow> string pydict \<Rightarrow> 'z generated_client_scheme \<Rightarrow> 'w store \<Rightarrow> 'z generated_client_scheme \<times> 'w store" where
  "with_cookies hx cs c s =
     (let s = for_each_client (\<lambda>a. hx_update_cookies hx a cs) c s
      in case new_dict (dict_update (dicts s (gc_cookies c)) cs) s of
           (a, s) \<Rightarrow> ((evolved c)\<lparr>gc_cookies := a\<rparr>, s))"

definition with_timeout ::
  "'w httpx \<Rightarrow> http_timeout \<Rightarrow> 'z generated_client_scheme \<Rightarrow> 'w store \<Rightarrow> 'z generated_client_scheme \<times> 'w store" where
  "with_timeout hx t c s =
     ((evolved c)\<lparr>gc_timeout := Some t\<rparr>, for_each_client (\<lambda>a. hx_set_timeout hx a t) c s)"

subsection \<open>The clients of httpx\<close>

definition set_httpx_client :: "nat \<Rightarrow> 'z generated_client_scheme \<Rightarrow> 'z generated_client_scheme" where
  "set_httpx_client a c = c\<lparr>gc_client := Some a\<rparr>"

definition set_async_httpx_client :: "nat \<Rightarrow> 'z generated_client_scheme \<Rightarrow> 'z generated_client_scheme" where
  "set_async_httpx_client a c = c\<lparr>gc_async_client := Some a\<rparr>"

definition config_of :: "'z generated_client_scheme \<Rightarrow> 'w store \<Rightarrow> httpx_config" where
  "config_of c s =
     \<lparr>conf_base_url = gc_base_url c, conf_cookies = dicts s (gc_cookies c), conf_headers = dicts s (gc_headers c),
      conf_timeout = gc_timeout c, conf_verify = gc_verify_ssl c, conf_follow_redirects = gc_follow_redirects c,
      conf_args = gc_httpx_args c\<rparr>"

text \<open>An extra argument that is also given by its own keyword is a \<open>TypeError\<close>.\<close>

definition made :: "(httpx_config \<Rightarrow> 'w \<Rightarrow> (py_exc + nat) \<times> 'w) \<Rightarrow> 'z generated_client_scheme \<Rightarrow> 'w store
    \<Rightarrow> (py_exc + nat) \<times> 'w store" where
  "made build c s =
     (if \<exists>k \<in> set (map fst (gc_httpx_args c)).
           k \<in> set [''base_url'', ''cookies'', ''headers'', ''timeout'', ''verify'', ''follow_redirects'']
      then (Inl TypeErr, s)
      else case build (config_of c s) (outside s) of (res, w) \<Rightarrow> (res, s\<lparr>outside := w\<rparr>))"

definition get_httpx_client :: "'w httpx \<Rightarrow> ('w, 'z, nat) on_gc" where
  "get_httpx_client hx c s =
     (case gc_client c of
        Some a \<Rightarrow> (Inr a, c, s)
      | None \<Rightarrow> (case made (hx_client hx) c s of
            (Inl e, s) \<Rightarrow> (Inl e, c, s)
          | (Inr a, s) \<Rightarrow> (Inr a, c\<lparr>gc_client := Some a\<rparr>, s)))"

definition get_async_httpx_client :: "'w httpx \<Rightarrow> ('w, 'z, nat) on_gc" where
  "get_async_httpx_client hx c s =
     (case gc_async_client c of
        Some a \<Rightarrow> (Inr a, c, s)
      | None \<Rightarrow> (case made (hx_async_client hx) c s of
            (Inl e, s) \<Rightarrow> (Inl e, c, s)
          | (Inr a, s) \<Rightarrow> (Inr a, c\<lparr>gc_async_client := Some a\<rparr>, s)))"

text \<open>The methods of the context manager are those of the client of \<open>httpx\<close>.\<close>

definition managed :: "('w, 'z, nat) on_gc \<Rightarrow> (nat \<Rightarrow> 'w \<Rightarrow> (py_exc + unit) \<times> 'w) \<Rightarrow> ('w, 'z, unit) on_gc" where
  "managed get f c s =
     (case get c s of
        (Inl e, c, s) \<Rightarrow> (Inl e, c, s)
      | (Inr a, c, s) \<Rightarrow> (case f a (outside s) of (res, w) \<Rightarrow> (res, c, s\<lparr>outside := w\<rparr>)))"

definition lowlevel_enter :: "'w httpx \<Rightarrow> ('w, 'z, unit) on_gc" where
  "lowlevel_enter hx = managed (get_httpx_client hx) (hx_enter hx)"

definition lowlevel_exit :: "'w httpx \<Rightarrow> ('w, 'z, unit) on_gc" where
  "lowlevel_exit hx = managed (get_httpx_client hx) (hx_exit hx)"

definition lowlevel_aenter :: "'w httpx \<Rightarrow> ('w, 'z, unit) on_gc" where
  "lowlevel_aenter hx = managed (get_async_httpx_client hx) (hx_enter hx)"

definition lowlevel_aexit :: "'w httpx \<Rightarrow> ('w, 'z, unit) on_gc" where
  "lowlevel_aexit hx = managed (get_async_httpx_client hx) (hx_exit hx)"

subsection \<open>Authenticated clients\<close>

text \<open>
  \<open>AuthenticatedClient\<close> derives clients as \<open>Client\<close> does. Before it makes a client of \<open>httpx\<close> it puts
  the token into its dictionary of headers, whoever else holds that dictionary.
\<close>

definition auth_value :: "authenticated_client \<Rightarrow> string" where
  "auth_value c = (if gc_prefix c \<noteq> [] then gc_prefix c @ '' '' @ gc_token c else gc_token c)"

definition authorise :: "authenticated_client \<Rightarrow> 'w store \<Rightarrow> 'w store" where
  "authorise c s =
     put_dict (gc_headers c) (dict_set (gc_auth_header_name c) (auth_value c) (dicts s (gc_headers c))) s"

definition auth_with_headers :: "'w httpx \<Rightarrow> string pydict \<Rightarrow> authenticated_client \<Rightarrow> 'w store
    \<Rightarrow> authenticated_client \<times> 'w store" where
  "auth_with_headers = with_headers"

definition auth_with_cookies :: "'w httpx \<Rightarrow> string pydict \<Rightarrow> authenticated_client \<Rightarrow> 'w store
    \<Rightarrow> authenticated_client \<times> 'w store" where
  "auth_with_cookies = with_cookies"

definition auth_with_timeout :: "'w httpx \<Rightarrow> http_timeout \<Rightarrow> authenticated_client \<Rightarrow> 'w store
    \<Rightarrow> authenticated_client \<times> 'w store" where
  "auth_with_timeout = with_timeout"

definition auth_get_httpx_client ::
  "'w httpx \<Rightarrow> authenticated_client \<Rightarrow> 'w store \<Rightarrow> (py_exc + nat) \<times> authenticated_client \<times> 'w store" where
  "auth_get_httpx_client hx c s = get_httpx_client hx c (if gc_client c = None then authorise c s else s)"

definition auth_get_async_httpx_client ::
  "'w httpx \<Rightarrow> authenticated_client \<Rightarrow> 'w store \<Rightarrow> (py_exc + nat) \<times> authenticated_client \<times> 'w store" where
  "auth_get_async_httpx_client hx c s =
     get_async_httpx_client hx c (if gc_async_client c = None then authorise c s else s)"

definition auth_enter ::
  "'w httpx \<Rightarrow> authenticated_client \<Rightarrow> 'w store \<Rightarrow> (py_exc + unit) \<times> authenticated_client \<times> 'w store" where
  "auth_enter hx = managed (auth_get_httpx_client hx) (hx_enter hx)"

definition auth_exit ::
  "'w httpx \<Rightarrow> authenticated_client \<Rightarrow> 'w store \<Rightarrow> (py_exc + unit) \<times> authenticated_client \<times> 'w store" where
  "auth_exit hx = managed (auth_get_httpx_client hx) (hx_exit hx)"

definition auth_aenter ::
  "'w httpx \<Rightarrow> authenticated_client \<Rightarrow> 'w store \<Rightarrow> (py_exc + unit) \<times> authenticated_client \<times> 'w store" where
  "auth_aenter hx = managed (auth_get_async_httpx_client hx) (hx_enter hx)"

definition auth_aexit ::
  "'w httpx \<Rightarrow> authenticated_client \<Rightarrow> 'w store \<Rightarrow> (py_exc + unit) \<times> authenticated_client \<times> 'w store" where
  "auth_aexit hx = managed (auth_get_async_httpx_client hx) (hx_exit hx)"

subsection \<open>connection and Client\<close>

definition connection ::
  "(string \<Rightarrow> bool) \<Rightarrow> (string \<Rightarrow> string) \<Rightarrow> string \<Rightarrow> http_timeout \<Rightarrow> string pydict option \<Rightarrow> bool
     \<Rightarrow> 'w store \<Rightarrow> (py_exc + generated_client) \<times> 'w store" where
  "connection ip_literal nfkc url timeout hs trust_env s =
     (case base_url ip_literal nfkc url of
        Inl e \<Rightarrow> (Inl e, s)
      | Inr base \<Rightarrow>
          (case new_dict (case hs of None \<Rightarrow> [] | Some d \<Rightarrow> d) s of (a, s) \<Rightarrow>
          (case new_dict [] s of (b, s) \<Rightarrow>
            (Inr \<lparr>gc_raise_on_unexpected_status = False, gc_base_url = base, gc_cookies = b, gc_headers = a,
               gc_timeout = Some timeout, gc_verify_ssl = Verify_Flag True, gc_follow_redirects = False,
               gc_httpx_args = [(''trust_env'', JBool trust_env)], gc_client = None, gc_async_client = None\<rparr>, s))))"

text \<open>
  The low-level client \<open>Client.__init__\<close> makes; \<open>injected\<close> is a client of \<open>httpx\<close> the caller brings
  along, with \<open>str(base_url)\<close> of it.
\<close>

definition client_lowlevel ::
  "(string \<Rightarrow> bool) \<Rightarrow> (string \<Rightarrow> string) \<Rightarrow> string \<Rightarrow> http_timeout \<Rightarrow> string pydict option \<Rightarrow> bool
     \<Rightarrow> (nat \<times> string) option \<Rightarrow> 'w store \<Rightarrow> (py_exc + generated_client) \<times> 'w store" where
  "client_lowlevel ip_literal nfkc url timeout hs trust_env injected s =
     (case base_url ip_literal nfkc url of
        Inl e \<Rightarrow> (Inl e, s)
      | Inr base \<Rightarrow>
          (case connection ip_literal nfkc url timeout hs trust_env s of
             (Inl e, s) \<Rightarrow> (Inl e, s)
           | (Inr c, s) \<Rightarrow>
               (case injected of
                  None \<Rightarrow> (Inr c, s)
                | Some (a, u) \<Rightarrow>
                    if rstrip ''/'' u \<noteq> base
                    then (Inl (ValueErr ''Injected HTTP client's base_url must match normalized /api/v1 URL''), s)
                    else (Inr (set_httpx_client a c), s))))"

subsection \<open>What clients keep\<close>

text \<open>The dictionaries of a client are in use, so no new one takes their place.\<close>

definition client_ok :: "'z generated_client_scheme \<Rightarrow> 'w store \<Rightarrow> bool" where
  "client_ok c s \<longleftrightarrow> gc_cookies c < next_dict s \<and> gc_headers c < next_dict s \<and> gc_cookies c \<noteq> gc_headers c"

lemma outside_do_simps [simp]:
  "dicts (outside_do f s) = dicts s" "next_dict (outside_do f s) = next_dict s"
  by (simp_all add: outside_do_def)

lemma for_each_client_simps [simp]:
  "dicts (for_each_client f c s) = dicts s" "next_dict (for_each_client f c s) = next_dict s"
  by (simp_all add: for_each_client_def Let_def split: option.split)

lemma new_dict_simps [simp]:
  "fst (new_dict d s) = next_dict s" "dicts (snd (new_dict d s)) = (dicts s)(next_dict s := d)"
  "next_dict (snd (new_dict d s)) = Suc (next_dict s)" "outside (snd (new_dict d s)) = outside s"
  by (simp_all add: new_dict_def put_dict_def)

lemma evolved_simps [simp]:
  "gc_headers (evolved c) = gc_headers c" "gc_cookies (evolved c) = gc_cookies c"
  "gc_client (evolved c) = None" "gc_async_client (evolved c) = None"
  by (simp_all add: evolved_def)

text \<open>Deriving a client leaves the settings of every other client alone, also its own.\<close>

definition settings_kept :: "'w store \<Rightarrow> 'w store \<Rightarrow> bool" where
  "settings_kept s s' \<longleftrightarrow> (\<forall>a < next_dict s. dicts s' a = dicts s a) \<and> next_dict s \<le> next_dict s'"

lemma kept_config:
  "settings_kept s s' \<Longrightarrow> client_ok c s \<Longrightarrow> config_of c s' = config_of c s \<and> client_ok c s'"
  by (auto simp: settings_kept_def client_ok_def config_of_def)

lemma with_headers_derives:
  assumes "client_ok c s" "with_headers hx hs c s = (c', s')"
  shows "settings_kept s s' \<and> client_ok c' s' \<and> gc_client c' = None \<and> gc_async_client c' = None
    \<and> config_of c' s' = (config_of c s)\<lparr>conf_headers := dict_update (conf_headers (config_of c s)) hs\<rparr>"
  using assms
  by (auto simp: with_headers_def Let_def new_dict_def put_dict_def settings_kept_def client_ok_def config_of_def
      evolved_def)

lemma with_cookies_derives:
  assumes "client_ok c s" "with_cookies hx cs c s = (c', s')"
  shows "settings_kept s s' \<and> client_ok c' s' \<and> gc_client c' = None \<and> gc_async_client c' = None
    \<and> config_of c' s' = (config_of c s)\<lparr>conf_cookies := dict_update (conf_cookies (config_of c s)) cs\<rparr>"
  using assms
  by (auto simp: with_cookies_def Let_def new_dict_def put_dict_def settings_kept_def client_ok_def config_of_def
      evolved_def)

lemma with_timeout_derives:
  assumes "client_ok c s" "with_timeout hx t c s = (c', s')"
  shows "settings_kept s s' \<and> client_ok c' s' \<and> gc_client c' = None \<and> gc_async_client c' = None
    \<and> config_of c' s' = (config_of c s)\<lparr>conf_timeout := Some t\<rparr>"
  using assms
  by (auto simp: with_timeout_def settings_kept_def client_ok_def config_of_def evolved_def)

text \<open>The client of \<open>httpx\<close> is made once, of the settings at that time, and is the same ever after.\<close>

lemma get_httpx_client_once:
  assumes "get_httpx_client hx c s = (Inr a, c', s')"
  shows "get_httpx_client hx c' t = (Inr a, c', t) \<and> c' = c\<lparr>gc_client := Some a\<rparr> \<and> dicts s' = dicts s
    \<and> (gc_client c = None \<longrightarrow> hx_client hx (config_of c s) (outside s) = (Inr a, outside s'))"
  using assms
  by (auto simp: get_httpx_client_def made_def split: option.splits prod.splits sum.splits if_splits)

lemma get_async_httpx_client_once:
  assumes "get_async_httpx_client hx c s = (Inr a, c', s')"
  shows "get_async_httpx_client hx c' t = (Inr a, c', t) \<and> c' = c\<lparr>gc_async_client := Some a\<rparr> \<and> dicts s' = dicts s
    \<and> (gc_async_client c = None \<longrightarrow> hx_async_client hx (config_of c s) (outside s) = (Inr a, outside s'))"
  using assms
  by (auto simp: get_async_httpx_client_def made_def split: option.splits prod.splits sum.splits if_splits)

lemma connection_config:
  assumes "connection ip_literal nfkc url timeout hs trust_env s = (Inr c, s')"
  shows "base_url ip_literal nfkc url = Inr (gc_base_url c) \<and> client_ok c s' \<and> settings_kept s s'
    \<and> config_of c s' = \<lparr>conf_base_url = gc_base_url c, conf_cookies = [],
        conf_headers = (case hs of None \<Rightarrow> [] | Some d \<Rightarrow> d), conf_timeout = Some timeout,
        conf_verify = Verify_Flag True, conf_follow_redirects = False, conf_args = [(''trust_env'', JBool trust_env)]\<rparr>"
  using assms
  by (auto simp: connection_def new_dict_def put_dict_def client_ok_def settings_kept_def config_of_def
      split: sum.splits)

text \<open>What \<open>Client.__init__\<close> refuses is what \<open>new_client\<close> refuses.\<close>

lemma client_lowlevel_new_client:
  "map_error id (fst (client_lowlevel ip_literal nfkc url timeout hs trust_env injected s)) = Inl e
     \<longleftrightarrow> new_client ip_literal nfkc url (map_option snd injected) w = Inl e"
  by (auto simp: client_lowlevel_def new_client_def connection_def new_dict_def split: sum.splits option.splits prod.splits)

lemma client_lowlevel_injected:
  assumes "client_lowlevel ip_literal nfkc url timeout hs trust_env (Some (a, u)) s = (Inr c, s')"
  shows "get_httpx_client hx c t = (Inr a, c, t)"
  using assms
  by (auto simp: client_lowlevel_def get_httpx_client_def set_httpx_client_def split: sum.splits prod.splits if_splits)

text \<open>The token reaches every client that shares the dictionary of headers.\<close>

lemma authorise_simps [simp]:
  "dicts (authorise c s) = (dicts s)(gc_headers c := dict_set (gc_auth_header_name c) (auth_value c) (dicts s (gc_headers c)))"
  "next_dict (authorise c s) = next_dict s" "outside (authorise c s) = outside s"
  by (simp_all add: authorise_def put_dict_def)

lemma auth_first_use:
  assumes "auth_get_httpx_client hx c s = (Inr a, c', s')" "gc_client c = None" "client_ok c s"
  shows "hx_client hx ((config_of c s)\<lparr>conf_headers := dict_set (gc_auth_header_name c) (auth_value c)
        (conf_headers (config_of c s))\<rparr>) (outside s) = (Inr a, outside s')"
    and "gc_headers d = gc_headers c \<Longrightarrow> map_of (dicts s' (gc_headers d)) (gc_auth_header_name c) = Some (auth_value c)"
proof -
  from assms(1,2) have get: "get_httpx_client hx c (authorise c s) = (Inr a, c', s')" by (simp add: auth_get_httpx_client_def)
  from get_httpx_client_once [OF this] assms(2)
  have made: "hx_client hx (config_of c (authorise c s)) (outside s) = (Inr a, outside s')"
    and kept: "dicts s' = dicts (authorise c s)" by auto
  from made show "hx_client hx ((config_of c s)\<lparr>conf_headers := dict_set (gc_auth_header_name c) (auth_value c)
        (conf_headers (config_of c s))\<rparr>) (outside s) = (Inr a, outside s')"
    using assms(3) by (auto simp: config_of_def client_ok_def)
  show "gc_headers d = gc_headers c \<Longrightarrow> map_of (dicts s' (gc_headers d)) (gc_auth_header_name c) = Some (auth_value c)"
    by (simp add: kept dict_set_def update_conv)
qed

subsection \<open>Clients derived of clients\<close>

text \<open>
  The abstract view of a client is the settings its client of \<open>httpx\<close> is made of, and \<open>applied\<close> is
  what deriving means for them.
\<close>

datatype derivation = Add_Headers "string pydict" | Add_Cookies "string pydict" | Set_Timeout http_timeout

primrec derive :: "'w httpx \<Rightarrow> derivation \<Rightarrow> 'z generated_client_scheme \<Rightarrow> 'w store
    \<Rightarrow> 'z generated_client_scheme \<times> 'w store" where
  "derive hx (Add_Headers hs) = with_headers hx hs"
| "derive hx (Add_Cookies cs) = with_cookies hx cs"
| "derive hx (Set_Timeout t) = with_timeout hx t"

primrec applied :: "derivation \<Rightarrow> httpx_config \<Rightarrow> httpx_config" where
  "applied (Add_Headers hs) conf = conf\<lparr>conf_headers := dict_update (conf_headers conf) hs\<rparr>"
| "applied (Add_Cookies cs) conf = conf\<lparr>conf_cookies := dict_update (conf_cookies conf) cs\<rparr>"
| "applied (Set_Timeout t) conf = conf\<lparr>conf_timeout := Some t\<rparr>"

primrec derive_all :: "'w httpx \<Rightarrow> derivation list \<Rightarrow> 'z generated_client_scheme \<Rightarrow> 'w store
    \<Rightarrow> 'z generated_client_scheme \<times> 'w store" where
  "derive_all hx [] c s = (c, s)"
| "derive_all hx (x # xs) c s = (case derive hx x c s of (d, s') \<Rightarrow> derive_all hx xs d s')"

lemma derive_applied:
  assumes "client_ok c s" "derive hx x c s = (d, s')"
  shows "settings_kept s s' \<and> client_ok d s' \<and> gc_client d = None \<and> gc_async_client d = None
    \<and> config_of d s' = applied x (config_of c s)"
proof (cases x)
  case (Add_Headers hs)
  with assms(2) with_headers_derives [OF assms(1), of hx hs] show ?thesis by simp
next
  case (Add_Cookies cs)
  with assms(2) with_cookies_derives [OF assms(1), of hx cs] show ?thesis by simp
next
  case (Set_Timeout t)
  with assms(2) with_timeout_derives [OF assms(1), of hx t] show ?thesis by simp
qed

lemma settings_kept_refl [simp]: "settings_kept s s"
  by (simp add: settings_kept_def)

lemma settings_kept_trans: "settings_kept s s' \<Longrightarrow> settings_kept s' s'' \<Longrightarrow> settings_kept s s''"
  by (auto simp: settings_kept_def)

lemma derive_all_applied:
  assumes "client_ok c s" "gc_client c = None" "derive_all hx xs c s = (d, s')"
  shows "settings_kept s s' \<and> client_ok d s' \<and> gc_client d = None \<and> config_of d s' = fold applied xs (config_of c s)"
  using assms
proof (induction xs arbitrary: c s)
  case (Cons x xs)
  obtain e t where x: "derive hx x c s = (e, t)" by fastforce
  from derive_applied [OF Cons.prems(1) x] Cons.IH [of e t] Cons.prems(3) x show ?case
    by (auto intro: settings_kept_trans)
qed simp

end
