(* ===== verification/Scenarios.thy ===== *)
theory Scenarios
  imports Examples Sdk_Lifecycle Api_Client
begin

text \<open>
  A service that answers by the request, a clock that moves when the client sleeps, and a log of
  what was sent: the environment on which the properties of the client are instantiated.
\<close>

subsection \<open>The environment\<close>

record script =
  script_clock :: rat
  script_sent :: "http_request list"

definition no_timeout :: http_timeout where
  "no_timeout = \<lparr>timeout_connect = None, timeout_read = None, timeout_write = None, timeout_pool = None\<rparr>"

definition served :: "(http_request \<Rightarrow> http_outcome) \<Rightarrow> http_stream \<Rightarrow> script env" where
  "served f s =
     \<lparr>env_send = (\<lambda>r w. (f r, w\<lparr>script_sent := script_sent w @ [r]\<rparr>)),
      env_monotonic = (\<lambda>w. (script_clock w, w)),
      env_sleep = (\<lambda>d w. w\<lparr>script_clock := script_clock w + d\<rparr>),
      env_close = (\<lambda>w. w),
      env_stream = (\<lambda>url hs t w. (Opened s, w)),
      env_pool_timeout = no_timeout,
      env_repr = sample_str\<rparr>"

lemma served_clock: "steady_clock (served f s) script_clock"
  by (simp add: steady_clock_def served_def)

definition ok_answer :: "json \<Rightarrow> http_outcome" where
  "ok_answer v = Answer \<lparr>resp_status = 200, resp_headers = [], resp_json = Inr v, resp_text = []\<rparr>"

definition no_stream :: http_stream where
  "no_stream = \<lparr>stream_response = \<lparr>resp_status = 503, resp_headers = [], resp_json = Inr JNull, resp_text = []\<rparr>,
     stream_read = Stream_End, stream_chunks = [], stream_end = Stream_End\<rparr>"

definition event_stream :: "string list \<Rightarrow> http_stream" where
  "event_stream cs = \<lparr>stream_response =
       \<lparr>resp_status = 200, resp_headers = [(''Content-Type'', ''text/event-stream; charset=utf-8'')],
        resp_json = Inl (ValueErr ''''), resp_text = []\<rparr>,
     stream_read = Stream_End, stream_chunks = cs, stream_end = Stream_End\<rparr>"

text \<open>The service whose every answer is \<open>v\<close>, and a fresh client.\<close>

definition answering :: "json \<Rightarrow> script env" where
  "answering v = served (\<lambda>_. ok_answer v) no_stream"

definition fresh :: "script client" where
  "fresh = \<lparr>closed = False, revisions = new_cache, world = \<lparr>script_clock = 0, script_sent = []\<rparr>\<rparr>"

text \<open>A call to it.\<close>

lemma invoke_answering:
  assumes "call_parse c 200 (Inr v) = Inr p" "expect p = Some x" "\<forall>e. p \<noteq> Envelope e" "\<not> closed st"
  shows "invoke (answering v) c expect st =
    (case observe sample_str (parsed_attrs p) (revisions st) of
       (Inl e, r) \<Rightarrow> (Inl (Py_Error e), st\<lparr>world := (world st)\<lparr>script_sent := script_sent (world st) @ [call_request c]\<rparr>, revisions := r\<rparr>)
     | (Inr _, r) \<Rightarrow> (Inr x, st\<lparr>world := (world st)\<lparr>script_sent := script_sent (world st) @ [call_request c]\<rparr>, revisions := r\<rparr>))"
  using assms
  by (auto simp: invoke_def sync_detailed_def answering_def served_def ok_answer_def build_response_def
      http_statuses_def unwrap_def Let_def split: parsed.splits prod.splits sum.splits)

lemma read_answer:
  "dec v = Inr x \<Longrightarrow> reads dec wrap (Inr v) = Inr (wrap x)"
  by (simp add: reads_def)

subsection \<open>Jobs\<close>

definition done_job :: job where
  "done_job = sample_job\<lparr>job_state := JobState_SUCCEEDED, job_error := Untyped JNull\<rparr>"

abbreviation job_json :: "job \<Rightarrow> json" where
  "job_json j \<equiv> JObj (job_to_dict j)"

lemma job_answer:
  assumes "job_ok j" "job_session_id j = JStr ''s''" "job_logical_revision j = JInt 4"
  shows "\<exists>st'. job_refresh (answering (job_json j)) raw fresh = (Inr j, j, st') \<and> \<not> closed st'
    \<and> world st' = \<lparr>script_clock = 0, script_sent = [get_job_kwargs (job_job_id raw)]\<rparr>"
proof -
  have "get_job_parse 200 (Inr (job_json j)) = Inr (Parsed (Job_Body j))"
    using assms(1) by (simp add: get_job_parse_def read_answer job_wire.dec_enc)
  then have p: "call_parse (get_job_call (job_job_id raw)) 200 (Inr (job_json j)) = Inr (Parsed (Job_Body j))"
    by (simp add: get_job_call_def)
  have o: "observe sample_str (parsed_attrs (Parsed (Job_Body j))) new_cache =
     (Inr (), \<lparr>retired = {}, session_id = Some ''s'', logical_revision = JInt 4, index_revision = JNull\<rparr>)"
    using assms(2,3) by (simp add: observe_def observe_values_def getattr_def new_cache_def Let_def)
  show ?thesis
    using invoke_answering [OF p, of as_job j fresh] o
    by (simp add: job_refresh_def fetch_job_def fresh_def get_job_call_def)
qed

lemma done_job_ok: "job_ok done_job"
  by code_simp

lemma sample_job_ok: "job_ok sample_job"
  by code_simp

lemma sample_refresh:
  "\<exists>st'. job_refresh (answering (job_json done_job)) sample_job fresh = (Inr done_job, done_job, st')
    \<and> \<not> closed st' \<and> world st' = \<lparr>script_clock = 0, script_sent = [get_job_kwargs 1]\<rparr>"
  using job_answer [OF done_job_ok, of sample_job] by (simp add: done_job_def sample_job_def)

lemma sample_states: "\<not> job_ended sample_job" "job_ended done_job" "job_state done_job = JobState_SUCCEEDED"
  by code_simp+

lemma sample_wait:
  "\<exists>st'. job_wait (answering (job_json done_job)) (Some 5) 1 sample_job fresh = Some (Inr done_job, done_job, st')"
proof -
  let ?env = "answering (job_json done_job)"
  from sample_refresh obtain st' where r: "job_refresh ?env sample_job fresh = (Inr done_job, done_job, st')"
    by blast
  have "start_deadline ?env (Some 5) fresh = (Some 5, fresh)"
    by (simp add: start_deadline_def answering_def served_def fresh_def)
  moreover have "job_terminal sample_job = Inr False" "job_terminal done_job = Inr True"
    using sample_states by (simp_all add: job_terminal_cases)
  ultimately show ?thesis
    using r by (simp add: job_wait_def polling_def wait_loop.simps [of ?env "Some 5"])
qed

lemma sample_poll:
  "\<exists>st'. poll_updates (answering (job_json done_job)) (Some 5) 1 sample_job fresh
     = Some ([done_job], Inr (), done_job, st')"
proof -
  let ?env = "answering (job_json done_job)"
  from sample_refresh obtain st' where r: "job_refresh ?env sample_job fresh = (Inr done_job, done_job, st')"
    by blast
  have "start_deadline ?env (Some 5) fresh = (Some 5, fresh)"
    by (simp add: start_deadline_def answering_def served_def fresh_def)
  with r sample_states show ?thesis
    by (simp add: poll_updates_def polling_def poll_loop.simps [of ?env "Some 5"])
qed

text \<open>The log of a wait holds only requests for a job.\<close>

definition only_reads :: "script \<Rightarrow> bool" where
  "only_reads w \<longleftrightarrow> (\<forall>r \<in> set (script_sent w). \<exists>u. r = get_job_kwargs u)"

lemma served_reads_only: "reads_only (served f s) only_reads"
  by (auto simp: reads_only_def served_def only_reads_def)

subsection \<open>The service\<close>

definition ready_status :: service_status where
  "ready_status = \<lparr>service_status_state = ServiceStatusState_READY, service_status_stage = JStr ''ready'',
     service_status_progress = \<lparr>progress_completed = JInt 1, progress_total = JInt 1,
       progress_unit = JStr ''files'', progress_extra = []\<rparr>,
     service_status_inputs = JArr [], service_status_project_path = UNSET, service_status_error = UNSET,
     service_status_extra = []\<rparr>"

abbreviation status_json :: json where
  "status_json \<equiv> JObj (service_status_to_dict ready_status)"

lemma no_attrs: "observe repr [] c = (Inr (), c)"
  by (simp add: observe_def observe_values_def getattr_def)

lemma sample_ready_status:
  "\<exists>st'. client_status (answering status_json) fresh = (Inr ready_status, st')"
proof -
  have "service_status_ok ready_status" by code_simp
  then have "get_status_parse 200 (Inr status_json) = Inr (Parsed (Status_Body ready_status))"
    by (simp add: get_status_parse_def read_answer service_status_wire.dec_enc)
  then have "call_parse get_status_call 200 (Inr status_json) = Inr (Parsed (Status_Body ready_status))"
    by (simp add: get_status_call_def)
  from invoke_answering [OF this, of as_status ready_status fresh] show ?thesis
    by (simp add: client_status_def as_status_def no_attrs fresh_def)
qed

lemma sample_wait_ready:
  "\<exists>st'. wait_ready (answering status_json) 30 1 fresh = Some (Inr ready_status, st')"
proof -
  let ?env = "answering status_json"
  from sample_ready_status obtain st' where c: "client_status ?env fresh = (Inr ready_status, st')" by blast
  have "start_deadline ?env (Some 30) fresh = (Some 30, fresh)"
    by (simp add: start_deadline_def answering_def served_def fresh_def)
  moreover have "service_status_state ready_status = ServiceStatusState_READY"
    by (simp add: ready_status_def)
  ultimately show ?thesis
    using c by (simp add: wait_ready_def polling_def ready_loop.simps [of ?env "Some 30"])
qed

subsection \<open>Event streams\<close>

lemma sample_stream_short: "length sample_stream \<le> slice_size"
proof -
  have "length sample_stream < 500" by code_simp
  then show ?thesis by (simp add: slice_size_def)
qed

lemma sample_accepted: "accepted_stream (served f (event_stream cs)) raw fresh (event_stream cs)"
proof -
  have "stream_status (stream_response (event_stream cs)) = Inr ()"
    unfolding event_stream_def by code_simp
  then show ?thesis by (simp add: accepted_stream_def served_def fresh_def)
qed

lemma sample_events:
  "\<exists>st'. job_events (served (\<lambda>_. Http_Error ''down'') (event_stream [sample_stream])) None sample_job fresh =
    ([sample_started, sample_completed], Inr (), st')"
proof -
  have cs: "stream_chunks (event_stream [sample_stream]) = [sample_stream]" by (simp add: event_stream_def)
  have id: "job_job_id sample_job = 1" by (simp add: sample_job_def)
  have "is_terminal sample_completed" by code_simp
  with job_events_frames [OF sample_accepted [of "\<lambda>_. Http_Error ''down''" "[sample_stream]" sample_job]]
    sample_stream_short sample_size sample_lines sample_read
  show ?thesis by (simp add: cs id)
qed

lemma served_proper_stream:
  "safe_result (resp_json (stream_response s)) \<Longrightarrow> proper_stream (served f s)"
  by (auto simp: proper_stream_def served_def)

subsection \<open>Pages\<close>

definition sample_classes :: class_page where
  "sample_classes = \<lparr>class_page_session_id = 5, class_page_logical_revision = JInt 1,
     class_page_snapshot_id = JStr ''snap'', class_page_scope = JStr ''JADX_VISIBLE'',
     class_page_source_coverage = JStr ''UNVERIFIED'', class_page_items = [],
     class_page_next_cursor = JStr ''c'', class_page_complete = JBool False\<rparr>"

definition sample_class_query :: class_query where
  "sample_class_query = \<lparr>query_package_prefix = UNSET, query_name_contains = UNSET,
     query_name_domain = ''original'', query_include_inner = True, query_page_size = 50\<rparr>"

definition sample_references :: reference_page where
  "sample_references = \<lparr>reference_page_outcome = ReferencePageOutcome_RESOLVED,
     reference_page_queried_ref = sample_ref, reference_page_direction = ReferencePageDirection_INCOMING,
     reference_page_candidates = [], reference_page_session_id = 5, reference_page_logical_revision = JInt 1,
     reference_page_snapshot_id = JStr ''snap'', reference_page_scope = ReferencePageScope_JADX_REPORTED,
     reference_page_coverage = \<lparr>reference_page_coverage_status = JStr ''PARTIAL'', reference_page_coverage_reason = JStr ''none''\<rparr>,
     reference_page_edges = [], reference_page_next_cursor = JStr ''c'', reference_page_page_complete = JBool False,
     reference_page_capabilities = \<lparr>reference_capabilities_resolved_target = SourceAvailability_EXACT,
       reference_capabilities_source_location = SourceAvailability_EXACT,
       reference_capabilities_original_offset = JStr ''UNAVAILABLE'',
       reference_capabilities_reference_kind = JStr ''PARTIAL'',
       reference_capabilities_global_coverage = JStr ''UNKNOWN'',
       reference_capabilities_loaded_dex_offset = UNSET\<rparr>,
     reference_page_diagnostics = JArr [], reference_page_instruction_scan = UNSET\<rparr>"

definition sample_hits :: search_page where
  "sample_hits = \<lparr>search_page_session_id = JStr ''s'', search_page_logical_revision = JInt 1,
     search_page_settings_fingerprint = JNull, search_page_index_snapshot_id = JNull,
     search_page_index_generation = JNull, search_page_result_snapshot_id = JStr ''r'',
     search_page_coverage = [],
     search_page_hits = [\<lparr>search_hit_domain = SearchHitDomain_CLASS_NAME, search_hit_ref = Typed sample_ref,
       search_hit_source_owner_ref = Untyped JNull, search_hit_display_name = JStr ''A'',
       search_hit_matched_text = JStr ''A'', search_hit_match_mode = SearchHitMatchMode_CONTAINS,
       search_hit_range = Untyped JNull, search_hit_source_snapshot_id = JNull\<rparr>],
     search_page_next_cursor = JStr ''c'', search_page_page_complete = JBool False,
     search_page_diagnostics = JArr []\<rparr>"

abbreviation classes_json :: json where
  "classes_json \<equiv> JObj (class_page_to_dict sample_classes)"

abbreviation references_json :: json where
  "references_json \<equiv> JObj (reference_page_to_dict sample_references)"

abbreviation hits_json :: json where
  "hits_json \<equiv> JObj (search_page_to_dict sample_hits)"

text \<open>Whatever is asked of these services, a page that comes back is theirs.\<close>

lemma answering_returns:
  assumes "invoke (answering v) c expect st = (Inr x, st')"
  shows "\<exists>p. call_parse c 200 (Inr v) = Inr p \<and> expect p = Some x"
proof -
  from invoke_returns [OF assms] obtain r w where
    "sync_detailed (answering v) c (world st) = (Call_Returns r, w)" "expect (response_parsed r) = Some x"
    by blast
  then show ?thesis
    by (auto simp: sync_detailed_def answering_def served_def ok_answer_def build_response_def
        http_statuses_def ebind_eq_Inr split: sum.splits)
qed

lemma references_answered:
  assumes "invoke (answering references_json) (query_references_call k) as_references st = (Inr p, st')"
  shows "p = sample_references"
proof -
  have "reference_page_ok sample_references" by code_simp
  then have "call_parse (query_references_call k) 200 (Inr references_json)
      = Inr (Parsed (References_Body sample_references))"
    by (simp add: query_references_call_def query_references_parse_def read_answer reference_page_wire.dec_enc)
  with answering_returns [OF assms] show ?thesis by (auto simp: as_references_def)
qed

lemma hits_answered:
  assumes "invoke (answering hits_json) (search_call k) as_search st = (Inr p, st')"
  shows "p = sample_hits"
proof -
  have "search_page_ok sample_hits" by code_simp
  then have "call_parse (search_call k) 200 (Inr hits_json) = Inr (Parsed (Search_Body sample_hits))"
    by (simp add: search_call_def search_parse_def read_answer search_page_wire.dec_enc)
  with answering_returns [OF assms] show ?thesis by (auto simp: as_search_def)
qed

lemma classes_answered:
  assumes "\<not> closed st" "revisions st \<in> {new_cache, \<lparr>retired = {}, session_id = Some (uuid_str 5), logical_revision = JInt 1, index_revision = JNull\<rparr>}"
  shows "\<exists>st'. fetch_classes (answering classes_json) sample_class_query k st = (Inr sample_classes, st') \<and> \<not> closed st'
    \<and> revisions st' = \<lparr>retired = {}, session_id = Some (uuid_str 5), logical_revision = JInt 1, index_revision = JNull\<rparr>"
proof -
  have "class_page_ok sample_classes" by code_simp
  then have p: "call_parse (list_classes_call a k b c d e) 200 (Inr classes_json) = Inr (Parsed (Classes_Body sample_classes))"
    for a b c d e
    by (simp add: list_classes_call_def list_classes_parse_def read_answer class_page_wire.dec_enc)
  have "observe sample_str (parsed_attrs (Parsed (Classes_Body sample_classes))) (revisions st) =
    (Inr (), \<lparr>retired = {}, session_id = Some (uuid_str 5), logical_revision = JInt 1, index_revision = JNull\<rparr>)"
    using assms(2)
    by (auto simp: observe_def observe_values_def getattr_def new_cache_def raise_to_def sample_classes_def Let_def)
  moreover have "list_classes_name_domain_of (JStr (query_name_domain sample_class_query)) = Inr ListClassesNameDomain_ORIGINAL"
    by code_simp
  ultimately show ?thesis
    using invoke_answering [OF p, of as_classes sample_classes st] assms(1)
    by (simp add: fetch_classes_def as_classes_def sbind_def sdk_simps)
qed

text \<open>The service gives the same page again, and the listing ends with an error after the second.\<close>

lemma sample_class_pages:
  "\<exists>st'. class_pages (answering classes_json) sample_class_query (Some 5) fresh =
     Some ([sample_classes, sample_classes], Inl (Unexpected_Response_Error ''Server repeated a class cursor''), st')"
proof -
  let ?env = "answering classes_json" and ?q = sample_class_query
  obtain st1 where s1: "fetch_classes ?env ?q UNSET fresh = (Inr sample_classes, st1)" "\<not> closed st1"
    "revisions st1 = \<lparr>retired = {}, session_id = Some (uuid_str 5), logical_revision = JInt 1, index_revision = JNull\<rparr>"
    using classes_answered [of fresh UNSET] by (auto simp: fresh_def)
  obtain st2 where s2: "fetch_classes ?env ?q (Given (JStr ''c'')) st1 = (Inr sample_classes, st2)"
    using classes_answered [of st1] s1(2,3) by blast
  have a: "class_advance (Some 5) (Suc 0) [] sample_classes = Inr (Some (JStr ''c''))"
    "class_advance (Some 5) (Suc (Suc 0)) [JStr ''c''] sample_classes =
      Inl (Unexpected_Response_Error ''Server repeated a class cursor'')"
    by (simp_all add: class_advance_def follow_cursor_def py_in_def sample_classes_def)
  show ?thesis
    using s1(1) s2 a
    by (simp add: class_pages_def class_loop.simps [of ?env ?q "Some 5" UNSET]
        class_loop.simps [of ?env ?q "Some 5" "Given (JStr ''c'')"])
qed

subsection \<open>The project\<close>

definition sample_project :: fixed_project where
  "sample_project = \<lparr>fixed_project_inputs = JArr [], fixed_project_dirty = JBool False,
     fixed_project_revisions = \<lparr>revision_set_session_id = JStr sample_id,
       revision_set_logical_revision = JInt 3, revision_set_index_revision = JInt 0,
       revision_set_persisted_identity = JNull,
       revision_set_persisted_identity_state = RevisionSetPersistedIdentityState_READY,
       revision_set_extra = []\<rparr>,
     fixed_project_project_path = UNSET, fixed_project_extra = []\<rparr>"

abbreviation project_json :: json where
  "project_json \<equiv> JObj (fixed_project_to_dict sample_project)"

lemma sample_snapshot:
  "\<exists>st'. project_snapshot (answering project_json) fresh = (Inr sample_project, st')"
proof -
  have "fixed_project_ok sample_project" by code_simp
  then have "call_parse get_project_call 200 (Inr project_json) = Inr (Parsed (Project_Body sample_project))"
    by (simp add: get_project_call_def get_project_parse_def read_answer fixed_project_wire.dec_enc)
  from invoke_answering [OF this, of as_project sample_project fresh] show ?thesis
    by (simp add: project_snapshot_def as_project_def fresh_def observe_def observe_values_def set_attrs_def
        getattr_def new_cache_def sample_project_def Let_def)
qed

lemma sample_uuid: "uuid_of_str sample_id = Inr 1"
  by code_simp

definition sample_symbol :: symbol_info where
  "sample_symbol = \<lparr>symbol_info_ref = sample_ref, symbol_info_original_name = JStr ''m'',
     symbol_info_original_descriptor = JStr ''()V'', symbol_info_display_name = JStr ''run'',
     symbol_info_display_qualified_name = JStr ''a.run'', symbol_info_provenance = SymbolInfoProvenance_EXACT,
     symbol_info_containing_class = UNSET\<rparr>"

definition sample_resolution :: symbol_resolution where
  "sample_resolution = \<lparr>symbol_resolution_outcome = SymbolResolutionOutcome_RESOLVED,
     symbol_resolution_queried_ref = sample_ref, symbol_resolution_session_id = 5,
     symbol_resolution_logical_revision = JInt 1, symbol_resolution_snapshot_id = JStr ''snap'',
     symbol_resolution_candidates = [], symbol_resolution_diagnostics = JArr [],
     symbol_resolution_symbol = Given (Typed sample_symbol)\<rparr>"

abbreviation resolution_json :: json where
  "resolution_json \<equiv> JObj (symbol_resolution_to_dict sample_resolution)"

lemma sample_resolve:
  "\<exists>st'. project_resolve_object (answering resolution_json) sample_ref fresh =
     (Inr (Resolved (new_handle Java_Method (Symbol_Raw sample_symbol))), st')"
proof -
  have "symbol_resolution_ok sample_resolution" by code_simp
  then have p: "call_parse (resolve_symbol_call k) 200 (Inr resolution_json) = Inr (Parsed (Resolution_Body sample_resolution))"
    for k
    by (simp add: resolve_symbol_call_def resolve_symbol_parse_def read_answer symbol_resolution_wire.dec_enc)
  have o: "observe sample_str (parsed_attrs (Parsed (Resolution_Body sample_resolution))) new_cache =
    (Inr (), \<lparr>retired = {}, session_id = Some (uuid_str 5), logical_revision = JInt 1, index_revision = JNull\<rparr>)"
    by (simp add: observe_def observe_values_def getattr_def new_cache_def sample_resolution_def Let_def)
  have k: "resolved_of sample_ref sample_resolution = Inr (Resolved (new_handle Java_Method (Symbol_Raw sample_symbol)))"
    by (simp add: resolved_of_def sample_resolution_def sample_ref_def)
  show ?thesis
    unfolding project_resolve_object_def project_resolve_def sbind_def
    using invoke_answering [OF p, of as_resolution sample_resolution fresh] o k
    by (simp add: as_resolution_def fresh_def)
qed

definition first_query :: search_request where
  "first_query = \<lparr>search_request_query = JStr ''A'', search_request_domains = UNSET,
     search_request_match_mode = UNSET, search_request_case_sensitive = UNSET, search_request_page_size = UNSET,
     search_request_cursor = UNSET, search_request_strict = UNSET, search_request_require_complete = UNSET,
     search_request_expected_session_id = UNSET, search_request_expected_logical_revision = UNSET\<rparr>"

lemma sample_search:
  "\<exists>hs res cur' st'. search_iter (answering hits_json) (new_cursor first_query sample_hits) fresh
    = Some (hs, res, cur', st')"
  by (rule search_iter_ends [where C = "{''c''}"])
    (use hits_answered in \<open>fastforce simp: sample_hits_def\<close>)+

definition sample_query :: reference_query where
  "sample_query = \<lparr>reference_query_ref = sample_ref, reference_query_direction = ReferenceQueryDirection_INCOMING,
     reference_query_view = UNSET, reference_query_relations = UNSET, reference_query_page_size = UNSET,
     reference_query_cursor = UNSET, reference_query_include_source_sites = UNSET,
     reference_query_strict = UNSET, reference_query_expected_session_id = UNSET,
     reference_query_expected_logical_revision = UNSET\<rparr>"

text \<open>A service that answers with pages of classes has none of references.\<close>

lemma sample_refused:
  "\<exists>rs res st'. reference_pages (answering classes_json) sample_query fresh = Some (rs, res, st')"
proof -
  have "isl (reference_page_from_dict classes_json)"
    by code_simp
  then obtain e where "reference_page_from_dict classes_json = Inl e"
    by (auto simp: isl_def)
  then have "invoke (answering classes_json) (query_references_call k) as_references st \<noteq> (Inr p, st')" for k st p st'
    using answering_returns [of classes_json "query_references_call k" as_references st p st']
    by (auto simp: query_references_call_def query_references_parse_def reads_def)
  then show ?thesis
    using reference_pages_end [of "{}" "answering classes_json" sample_query fresh] by blast
qed

subsection \<open>The library of HTTP clients\<close>

text \<open>Clients are numbered; the world is the number of the next.\<close>

definition counting_httpx :: "nat httpx" where
  "counting_httpx = \<lparr>hx_client = (\<lambda>conf w. (Inr w, Suc w)), hx_async_client = (\<lambda>conf w. (Inr w, Suc w)),
     hx_update_headers = (\<lambda>a d w. w), hx_update_cookies = (\<lambda>a d w. w), hx_set_timeout = (\<lambda>a t w. w),
     hx_enter = (\<lambda>a w. (Inr (), w)), hx_exit = (\<lambda>a w. (Inr (), w))\<rparr>"

definition empty_store :: "nat store" where
  "empty_store = \<lparr>dicts = (\<lambda>_. []), next_dict = 0, outside = 0\<rparr>"

lemma sample_lowlevel:
  "\<exists>c s d s' d' s''. client_lowlevel (\<lambda>_. False) (\<lambda>s. s) ''http://localhost:8080'' no_timeout (Some [(''a'', ''b'')]) False
      None empty_store = (Inr c, s)
    \<and> derive_all counting_httpx [Add_Headers [(''a'', ''c'')]] c s = (d, s')
    \<and> get_httpx_client counting_httpx d s' = (Inr 0, d', s'')"
proof -
  have "base_url (\<lambda>_. False) (\<lambda>s. s) ''http://localhost:8080'' = Inr ''http://localhost:8080/api/v1''" by code_simp
  then show ?thesis
    by (simp add: client_lowlevel_def connection_def new_dict_def put_dict_def empty_store_def with_headers_def
        for_each_client_def evolved_def get_httpx_client_def made_def counting_httpx_def Let_def)
qed

end
