(* ===== verification/Py_Coroutine.thy ===== *)
theory Py_Coroutine
  imports Sdk_Transport
begin

text \<open>
  Coroutines of \<open>asyncio\<close>: what \<open>async def\<close> makes of a function. A coroutine runs until it awaits,
  yields or ends; while it is suspended, other tasks run on the same state. Its loops may go on
  forever, so coroutines are a codatatype.
\<close>

subsection \<open>Coroutines\<close>

text \<open>
  What the SDK awaits: the answer to a request, the opening of a stream, the next bytes of one,
  \<open>asyncio.sleep\<close>, and the end of \<open>aclose\<close>. An answer is of the kind of what is awaited.
\<close>

datatype suspension =
    Sending http_request
  | Opening string "string pydict" http_timeout
  | Reading
  | Sleeping rat
  | Closing

datatype answer = Responded (responded: http_outcome) | Streamed (streamed: stream_outcome) | Resumed

fun answers :: "suspension \<Rightarrow> answer \<Rightarrow> bool" where
  "answers (Sending _) a = is_Responded a"
| "answers (Opening _ _ _) a = is_Streamed a"
| "answers _ a = (a = Resumed)"

text \<open>
  \<open>Act\<close> is code between two suspensions: it changes the state and goes on at once. \<open>Yield\<close> is the
  \<open>yield\<close> of an asynchronous generator.
\<close>

codatatype ('s, 'y, 'a) coroutine =
    Finish 'a
  | Act "'s \<Rightarrow> ('s, 'y, 'a) coroutine \<times> 's"
  | Await suspension "answer \<Rightarrow> ('s, 'y, 'a) coroutine"
  | Yield 'y "('s, 'y, 'a) coroutine"

text \<open>\<open>await\<close> on another coroutine, then going on with its result.\<close>

primcorec cbind :: "('s, 'y, 'a) coroutine \<Rightarrow> ('a \<Rightarrow> ('s, 'y, 'b) coroutine) \<Rightarrow> ('s, 'y, 'b) coroutine" where
  "cbind m f =
     (case m of
        Finish a \<Rightarrow> f a
      | Act g \<Rightarrow> Act (\<lambda>s. map_prod (\<lambda>t. cbind t f) id (g s))
      | Await q k \<Rightarrow> Await q (\<lambda>out. cbind (k out) f)
      | Yield y t \<Rightarrow> Yield y (cbind t f))"

text \<open>
  \<open>while True\<close>: the body gives the variables of the next round or the result of the loop.
\<close>

primcorec cloop :: "('x \<Rightarrow> ('s, 'y, 'x + 'a) coroutine) \<Rightarrow> ('s, 'y, 'x + 'a) coroutine \<Rightarrow> ('s, 'y, 'a) coroutine" where
  "cloop body m =
     (case m of
        Finish r \<Rightarrow> (case r of Inl x \<Rightarrow> Act (\<lambda>s. (cloop body (body x), s)) | Inr a \<Rightarrow> Finish a)
      | Act g \<Rightarrow> Act (\<lambda>s. map_prod (cloop body) id (g s))
      | Await q k \<Rightarrow> Await q (\<lambda>out. cloop body (k out))
      | Yield y t \<Rightarrow> Yield y (cloop body t))"

definition cwhile :: "('x \<Rightarrow> ('s, 'y, 'x + 'a) coroutine) \<Rightarrow> 'x \<Rightarrow> ('s, 'y, 'a) coroutine" where
  "cwhile body x = cloop body (body x)"

text \<open>\<open>async for y in m: for z in f(y): yield z\<close>; \<open>zs\<close> are those still to be yielded.\<close>

primcorec cemit :: "('y \<Rightarrow> 'z list) \<Rightarrow> 'z list \<Rightarrow> ('s, 'y, 'a) coroutine \<Rightarrow> ('s, 'z, 'a) coroutine" where
  "cemit f zs m =
     (case zs of
        z # zs \<Rightarrow> Yield z (cemit f zs m)
      | [] \<Rightarrow>
          (case m of
             Finish a \<Rightarrow> Finish a
           | Act g \<Rightarrow> Act (\<lambda>s. map_prod (cemit f []) id (g s))
           | Await q k \<Rightarrow> Await q (\<lambda>out. cemit f [] (k out))
           | Yield y t \<Rightarrow> Act (\<lambda>s. (cemit f (f y) t, s))))"

text \<open>A step without suspension, and yielding the elements of a list.\<close>

definition cact :: "('s \<Rightarrow> 'a \<times> 's) \<Rightarrow> ('s, 'y, 'a) coroutine" where
  "cact f = Act (\<lambda>s. map_prod Finish id (f s))"

definition cyields :: "'y list \<Rightarrow> ('s, 'y, 'a) coroutine \<Rightarrow> ('s, 'y, 'a) coroutine" where
  "cyields ys t = foldr Yield ys t"

lemma cbind_simps [simp]:
  "cbind (Finish a) f = f a"
  "cbind (Act g) f = Act (\<lambda>s. map_prod (\<lambda>t. cbind t f) id (g s))"
  "cbind (Await q k) f = Await q (\<lambda>out. cbind (k out) f)"
  "cbind (Yield y t) f = Yield y (cbind t f)"
  by (subst cbind.code, simp)+

lemma cloop_simps [simp]:
  "cloop body (Finish (Inr a)) = Finish a"
  "cloop body (Finish (Inl x)) = Act (\<lambda>s. (cwhile body x, s))"
  "cloop body (Act g) = Act (\<lambda>s. map_prod (cloop body) id (g s))"
  "cloop body (Await q k) = Await q (\<lambda>out. cloop body (k out))"
  "cloop body (Yield y t) = Yield y (cloop body t)"
  by (subst cloop.code, simp add: cwhile_def)+

lemma cemit_simps [simp]:
  "cemit f (z # zs) m = Yield z (cemit f zs m)"
  "cemit f [] (Finish a) = Finish a"
  "cemit f [] (Act g) = Act (\<lambda>s. map_prod (cemit f []) id (g s))"
  "cemit f [] (Await q k) = Await q (\<lambda>out. cemit f [] (k out))"
  "cemit f [] (Yield y t) = Act (\<lambda>s. (cemit f (f y) t, s))"
  by (subst cemit.code, simp)+

lemma cyields_simps [simp]: "cyields [] t = t" "cyields (y # ys) t = Yield y (cyields ys t)"
  by (simp_all add: cyields_def)

lemma cbind_assoc: "cbind (cbind m f) g = cbind m (\<lambda>x. cbind (f x) g)"
proof (coinduction arbitrary: m rule: coroutine.coinduct_strong)
  case Eq_coroutine
  show ?case
  proof (cases m)
    case (Finish a)
    then show ?thesis by (cases "cbind (f a) g") (auto simp: rel_fun_def rel_prod_sel)
  next
    case (Act h)
    then show ?thesis by (force simp: rel_fun_def rel_prod_sel)
  next
    case (Await q k)
    then show ?thesis by (force simp: rel_fun_def)
  next
    case (Yield y t)
    then show ?thesis by force
  qed
qed

subsection \<open>A coroutine on its own\<close>

text \<open>
  With no other task, what is awaited comes as the outside world (\<open>perform\<close>) gives it, and a
  generator is run to its end: what it yields, its result and the state; \<open>None\<close> if it never ends.
\<close>

partial_function (option) alone ::
  "(suspension \<Rightarrow> 's \<Rightarrow> answer \<times> 's) \<Rightarrow> ('s, 'y, 'a) coroutine \<Rightarrow> 's \<Rightarrow> ('y list \<times> 'a \<times> 's) option" where
  "alone perform t s =
     (case t of
        Finish a \<Rightarrow> Some ([], a, s)
      | Act g \<Rightarrow> alone perform (fst (g s)) (snd (g s))
      | Await q k \<Rightarrow> alone perform (k (fst (perform q s))) (snd (perform q s))
      | Yield y t' \<Rightarrow> Option.bind (alone perform t' s) (\<lambda>(ys, rest). Some (y # ys, rest)))"

definition prefixed :: "'y list \<Rightarrow> ('y list \<times> 'r) option \<Rightarrow> ('y list \<times> 'r) option" where
  "prefixed ys = map_option (apfst ((@) ys))"

lemma prefixed_simps [simp]:
  "prefixed ys None = None"
  "prefixed ys (Some (zs, x)) = Some (ys @ zs, x)"
  "prefixed [] r = r"
  "prefixed ys (prefixed zs r) = prefixed (ys @ zs) r"
  by (cases r; force simp: prefixed_def)+

lemma prefixed_Some: "prefixed ys r = Some (zs, x) \<longleftrightarrow> (\<exists>ys'. r = Some (ys', x) \<and> zs = ys @ ys')"
  by (cases r) (auto simp: prefixed_def)

lemma alone_simps [simp]:
  "alone perform (Finish a) s = Some ([], a, s)"
  "alone perform (Act g) s = alone perform (fst (g s)) (snd (g s))"
  "alone perform (Await q k) s = alone perform (k (fst (perform q s))) (snd (perform q s))"
  "alone perform (Yield y t) s = prefixed [y] (alone perform t s)"
  by (simp_all add: alone.simps [of perform "Finish a"] alone.simps [of perform "Act g"]
      alone.simps [of perform "Await q k"] alone.simps [of perform "Yield y t"] prefixed_def
      map_conv_bind_option case_prod_unfold apfst_def map_prod_def comp_def)

lemma alone_cact [simp]: "alone perform (cact f) s = Some ([], f s)"
  by (cases "f s") (simp add: cact_def)

lemma alone_cyields [simp]: "alone perform (cyields ys t) s = prefixed ys (alone perform t s)"
  by (induction ys) simp_all

text \<open>Sequencing.\<close>

lemma alone_cbind_ends:
  "alone perform t s = Some r \<Longrightarrow> t = cbind m f \<Longrightarrow> \<exists>q. alone perform m s = Some q"
proof (induction arbitrary: m rule: alone.raw_induct [rotated, consumes 1])
  case (1 alone' perform t s r)
  show ?case
  proof (cases m)
    case (Act g)
    with 1(2,3) have "alone' perform (cbind (fst (g s)) f) (snd (g s)) = Some r" by simp
    from 1(1) [OF this refl] Act show ?thesis by simp
  next
    case (Await q k)
    with 1(2,3) have "alone' perform (cbind (k (fst (perform q s))) f) (snd (perform q s)) = Some r" by simp
    from 1(1) [OF this refl] Await show ?thesis by simp
  next
    case (Yield y t')
    with 1(2,3) obtain r' where "alone' perform (cbind t' f) s = Some r'"
      by (auto simp: Option.bind_eq_Some_conv)
    from 1(1) [OF this refl] Yield show ?thesis by (auto simp: prefixed_Some)
  qed simp
qed

lemma alone_cbind_goes_on:
  "alone perform m s = Some r \<Longrightarrow>
     alone perform (cbind m f) s = prefixed (fst r) (alone perform (f (fst (snd r))) (snd (snd r)))"
proof (induction rule: alone.raw_induct [rotated, consumes 1])
  case (1 alone' perform m s r)
  show ?case
  proof (cases m)
    case (Act g)
    with 1(2) have "alone' perform (fst (g s)) (snd (g s)) = Some r" by simp
    from 1(1) [OF this] Act show ?thesis by simp
  next
    case (Await q k)
    with 1(2) have "alone' perform (k (fst (perform q s))) (snd (perform q s)) = Some r" by simp
    from 1(1) [OF this] Await show ?thesis by simp
  next
    case (Yield y t')
    with 1(2) obtain ys rest where t': "alone' perform t' s = Some (ys, rest)" and r: "r = (y # ys, rest)"
      by (auto simp: Option.bind_eq_Some_conv)
    from 1(1) [OF t'] Yield r show ?thesis by simp
  qed (use 1(2) in auto)
qed

lemma alone_cbind:
  "alone perform (cbind m f) s =
     (case alone perform m s of None \<Rightarrow> None | Some (ys, a, s') \<Rightarrow> prefixed ys (alone perform (f a) s'))"
  using alone_cbind_goes_on [of perform m s _ f] alone_cbind_ends [OF _ refl, of perform m f s]
  by (cases "alone perform (cbind m f) s"; cases "alone perform m s"; force)

text \<open>Loops.\<close>

lemma alone_cloop_ends:
  "alone perform t s = Some r \<Longrightarrow> t = cloop body m \<Longrightarrow> \<exists>q. alone perform m s = Some q"
proof (induction arbitrary: m rule: alone.raw_induct [rotated, consumes 1])
  case (1 alone' perform t s r)
  show ?case
  proof (cases m)
    case (Act g)
    with 1(2,3) have "alone' perform (cloop body (fst (g s))) (snd (g s)) = Some r" by simp
    from 1(1) [OF this refl] Act show ?thesis by simp
  next
    case (Await q k)
    with 1(2,3) have "alone' perform (cloop body (k (fst (perform q s)))) (snd (perform q s)) = Some r" by simp
    from 1(1) [OF this refl] Await show ?thesis by simp
  next
    case (Yield y t')
    with 1(2,3) obtain r' where "alone' perform (cloop body t') s = Some r'"
      by (auto simp: Option.bind_eq_Some_conv)
    from 1(1) [OF this refl] Yield show ?thesis by (auto simp: prefixed_Some)
  qed simp
qed

definition next_round ::
  "('x \<Rightarrow> 's \<Rightarrow> ('y list \<times> 'a \<times> 's) option) \<Rightarrow> ('y list \<times> ('x + 'a) \<times> 's) option \<Rightarrow> ('y list \<times> 'a \<times> 's) option" where
  "next_round loop r =
     (case r of
        None \<Rightarrow> None
      | Some (ys, Inr a, s) \<Rightarrow> Some (ys, a, s)
      | Some (ys, Inl x, s) \<Rightarrow> prefixed ys (loop x s))"

lemma next_round_simps [simp]:
  "next_round loop None = None"
  "next_round loop (Some (ys, Inr a, s)) = Some (ys, a, s)"
  "next_round loop (Some (ys, Inl x, s)) = prefixed ys (loop x s)"
  "next_round loop (prefixed ys r) = prefixed ys (next_round loop r)"
  by (auto simp: next_round_def split: option.splits sum.splits prod.splits)

lemma alone_cloop_goes_on:
  "alone perform m s = Some r \<Longrightarrow>
     alone perform (cloop body m) s = next_round (\<lambda>x. alone perform (cwhile body x)) (Some r)"
proof (induction rule: alone.raw_induct [rotated, consumes 1])
  case (1 alone' perform m s r)
  show ?case
  proof (cases m)
    case (Finish x)
    with 1(2) show ?thesis by (cases x) auto
  next
    case (Act g)
    with 1(2) have "alone' perform (fst (g s)) (snd (g s)) = Some r" by simp
    from 1(1) [OF this] Act show ?thesis by simp
  next
    case (Await q k)
    with 1(2) have "alone' perform (k (fst (perform q s))) (snd (perform q s)) = Some r" by simp
    from 1(1) [OF this] Await show ?thesis by simp
  next
    case (Yield y t')
    with 1(2) obtain ys rest where t': "alone' perform t' s = Some (ys, rest)" and r: "r = (y # ys, rest)"
      by (auto simp: Option.bind_eq_Some_conv)
    have "Some r = prefixed [y] (Some (ys, rest))" using r by simp
    with 1(1) [OF t'] Yield show ?thesis by (simp only: cloop_simps alone_simps next_round_simps)
  qed
qed

lemma alone_cloop:
  "alone perform (cloop body m) s = next_round (\<lambda>x. alone perform (cwhile body x)) (alone perform m s)"
  using alone_cloop_goes_on [of perform m s _ body] alone_cloop_ends [OF _ refl, of perform body m s]
  by (cases "alone perform (cloop body m) s"; cases "alone perform m s"; force)

lemma alone_cwhile:
  "alone perform (cwhile body x) s =
     next_round (\<lambda>x. alone perform (cwhile body x)) (alone perform (body x) s)"
  by (simp add: cwhile_def [of body x] alone_cloop)

text \<open>Yielding what another generator's elements stand for.\<close>

lemma alone_cemit_ends:
  "alone perform t s = Some r \<Longrightarrow> t = cemit f zs m \<Longrightarrow> \<exists>q. alone perform m s = Some q"
proof (induction arbitrary: zs m rule: alone.raw_induct [rotated, consumes 1])
  case (1 alone' perform t s r)
  show ?case
  proof (cases zs)
    case (Cons z zs')
    with 1(2,3) obtain r' where "alone' perform (cemit f zs' m) s = Some r'"
      by (auto simp: Option.bind_eq_Some_conv)
    from 1(1) [OF this refl] show ?thesis .
  next
    case Nil
    show ?thesis
    proof (cases m)
      case (Act g)
      with Nil 1(2,3) have "alone' perform (cemit f [] (fst (g s))) (snd (g s)) = Some r" by simp
      from 1(1) [OF this refl] Act show ?thesis by simp
    next
      case (Await q k)
      with Nil 1(2,3) have "alone' perform (cemit f [] (k (fst (perform q s)))) (snd (perform q s)) = Some r"
        by simp
      from 1(1) [OF this refl] Await show ?thesis by simp
    next
      case (Yield y t')
      with Nil 1(2,3) have "alone' perform (cemit f (f y) t') s = Some r" by simp
      from 1(1) [OF this refl] Yield show ?thesis by (auto simp: prefixed_Some)
    qed simp
  qed
qed

definition emitted :: "('y \<Rightarrow> 'z list) \<Rightarrow> ('y list \<times> 'r) option \<Rightarrow> ('z list \<times> 'r) option" where
  "emitted f = map_option (apfst (\<lambda>ys. concat (map f ys)))"

lemma emitted_simps [simp]:
  "emitted f None = None" "emitted f (Some (ys, x)) = Some (concat (map f ys), x)"
  "emitted f (prefixed [y] r) = prefixed (f y) (emitted f r)"
  by (cases r; force simp: emitted_def prefixed_def)+

lemma alone_cemit_buffer: "alone perform (cemit f zs m) s = prefixed zs (alone perform (cemit f [] m) s)"
  by (induction zs) simp_all

lemma alone_cemit_goes_on:
  "alone perform m s = Some r \<Longrightarrow> alone perform (cemit f [] m) s = emitted f (Some r)"
proof (induction rule: alone.raw_induct [rotated, consumes 1])
  case (1 alone' perform m s r)
  show ?case
  proof (cases m)
    case (Act g)
    with 1(2) have "alone' perform (fst (g s)) (snd (g s)) = Some r" by simp
    from 1(1) [OF this] Act show ?thesis by simp
  next
    case (Await q k)
    with 1(2) have "alone' perform (k (fst (perform q s))) (snd (perform q s)) = Some r" by simp
    from 1(1) [OF this] Await show ?thesis by simp
  next
    case (Yield y t')
    with 1(2) obtain ys rest where t': "alone' perform t' s = Some (ys, rest)" and r: "r = (y # ys, rest)"
      by (auto simp: Option.bind_eq_Some_conv)
    from 1(1) [OF t'] Yield r show ?thesis by (simp add: alone_cemit_buffer [of _ _ "f y"])
  qed (use 1(2) in auto)
qed

lemma alone_cemit: "alone perform (cemit f [] m) s = emitted f (alone perform m s)"
  using alone_cemit_goes_on [of perform m s _ f] alone_cemit_ends [OF _ refl, of perform f "[]" m s]
  by (cases "alone perform (cemit f [] m) s"; cases "alone perform m s"; force)

subsection \<open>Loops with a twin\<close>

text \<open>
  The synchronous twin of a loop is the same function: \<open>loop\<close> unfolds to the same round, and a
  result of it is one of the coroutine run alone.
\<close>

locale loop_twin =
  fixes perform :: "suspension \<Rightarrow> 's \<Rightarrow> answer \<times> 's"
    and body :: "'x \<Rightarrow> ('s, 'y, 'x + 'a) coroutine"
    and loop :: "'x \<Rightarrow> 's \<Rightarrow> ('y list \<times> 'a \<times> 's) option"
  assumes round: "loop x s = next_round loop (alone perform (body x) s)"
    and returns: "loop x s = Some r \<Longrightarrow> alone perform (cwhile body x) s = Some r"
begin

lemma cloop_loop:
  "alone p t s = Some r \<Longrightarrow> p = perform \<Longrightarrow> t = cloop body m \<Longrightarrow>
     next_round loop (alone perform m s) = Some r"
proof (induction arbitrary: m rule: alone.raw_induct [rotated, consumes 1])
  case (1 alone' p t s r)
  show ?case
  proof (cases m)
    case (Finish v)
    show ?thesis
    proof (cases v)
      case (Inl x)
      with Finish 1(2,4) have "alone' p (cloop body (body x)) s = Some r" by (simp add: cwhile_def)
      from 1(1) [OF this 1(3) refl] Finish Inl round [of x s] show ?thesis by simp
    qed (use Finish 1(2,4) in auto)
  next
    case (Act g)
    with 1(2,4) have "alone' p (cloop body (fst (g s))) (snd (g s)) = Some r" by simp
    from 1(1) [OF this 1(3) refl] Act show ?thesis by simp
  next
    case (Await q k)
    with 1(2,4) have "alone' p (cloop body (k (fst (p q s)))) (snd (p q s)) = Some r" by simp
    from 1(1) [OF this 1(3) refl] Await 1(3) show ?thesis by simp
  next
    case (Yield y t')
    with 1(2,4) obtain ys rest where t': "alone' p (cloop body t') s = Some (ys, rest)" and r: "r = (y # ys, rest)"
      by (auto simp: Option.bind_eq_Some_conv)
    from 1(1) [OF t' 1(3) refl] Yield r show ?thesis by simp
  qed
qed

theorem twin: "alone perform (cwhile body x) s = loop x s"
proof (cases "alone perform (cwhile body x) s")
  case None
  with returns [of x s] show ?thesis by (cases "loop x s") simp_all
next
  case (Some r)
  from cloop_loop [OF Some refl cwhile_def] Some round [of x s] show ?thesis by simp
qed

end

end
