(* ===== verification/Api_Async.thy ===== *)
theory Api_Async
  imports Api_Calls Py_Coroutine
begin

text \<open>
  \<open>asyncio_detailed\<close> in the modules of \<open>_generated/api\<close>: the request of the operation is awaited, and
  its answer is read as by \<open>sync_detailed\<close>.
\<close>

text \<open>What the body of the call does with what \<open>httpx\<close> gives or raises.\<close>

definition answered_call :: "api_call \<Rightarrow> http_outcome \<Rightarrow> call_result" where
  "answered_call c out =
     (case out of
        Answer r \<Rightarrow> (case build_response c r of Inl e \<Rightarrow> Call_Raises e | Inr x \<Rightarrow> Call_Returns x)
      | Timeout_Exception m \<Rightarrow> Call_Timeout m
      | Http_Error m \<Rightarrow> Call_Http_Error m
      | Http_Raises e \<Rightarrow> Call_Raises e)"

definition asyncio_detailed :: "api_call \<Rightarrow> ('s, 'y, call_result) coroutine" where
  "asyncio_detailed c = Await (Sending (call_request c)) (\<lambda>a. Finish (answered_call c (responded a)))"

lemma sync_detailed_answered:
  "sync_detailed env c w =
     (answered_call c (fst (env_send env (call_request c) w)), snd (env_send env (call_request c) w))"
  by (simp add: sync_detailed_def answered_call_def split: prod.splits http_outcome.splits)

definition cancel_job_asyncio :: "uuid \<Rightarrow> ('s, 'y, call_result) coroutine" where
  "cancel_job_asyncio job_id = asyncio_detailed (cancel_job_call job_id)"

definition get_capabilities_asyncio :: "('s, 'y, call_result) coroutine" where
  "get_capabilities_asyncio = asyncio_detailed get_capabilities_call"

definition get_job_asyncio :: "uuid \<Rightarrow> ('s, 'y, call_result) coroutine" where
  "get_job_asyncio job_id = asyncio_detailed (get_job_call job_id)"

definition get_liveness_asyncio :: "('s, 'y, call_result) coroutine" where
  "get_liveness_asyncio = asyncio_detailed get_liveness_call"

definition get_status_asyncio :: "('s, 'y, call_result) coroutine" where
  "get_status_asyncio = asyncio_detailed get_status_call"

definition shutdown_service_asyncio :: "shutdown_request unset \<Rightarrow> ('s, 'y, call_result) coroutine" where
  "shutdown_service_asyncio body = asyncio_detailed (shutdown_service_call body)"

definition apply_edit_batch_asyncio :: "edit_batch_request \<Rightarrow> ('s, 'y, call_result) coroutine" where
  "apply_edit_batch_asyncio body = asyncio_detailed (apply_edit_batch_call body)"

definition export_mappings_asyncio :: "mapping_export_request \<Rightarrow> ('s, 'y, call_result) coroutine" where
  "export_mappings_asyncio body = asyncio_detailed (export_mappings_call body)"

definition export_pending_edits_asyncio :: "('s, 'y, call_result) coroutine" where
  "export_pending_edits_asyncio = asyncio_detailed export_pending_edits_call"

definition get_project_asyncio :: "('s, 'y, call_result) coroutine" where
  "get_project_asyncio = asyncio_detailed get_project_call"

definition get_project_settings_asyncio :: "('s, 'y, call_result) coroutine" where
  "get_project_settings_asyncio = asyncio_detailed get_project_settings_call"

definition import_mappings_asyncio :: "mapping_import_request \<Rightarrow> ('s, 'y, call_result) coroutine" where
  "import_mappings_asyncio body = asyncio_detailed (import_mappings_call body)"

definition reload_project_asyncio :: "reload_project_request \<Rightarrow> ('s, 'y, call_result) coroutine" where
  "reload_project_asyncio body = asyncio_detailed (reload_project_call body)"

definition save_project_asyncio :: "save_project_request \<Rightarrow> ('s, 'y, call_result) coroutine" where
  "save_project_asyncio body = asyncio_detailed (save_project_call body)"

definition update_project_settings_asyncio :: "update_project_settings_request \<Rightarrow> ('s, 'y, call_result) coroutine" where
  "update_project_settings_asyncio body = asyncio_detailed (update_project_settings_call body)"

definition list_classes_asyncio :: "json \<Rightarrow> json unset \<Rightarrow> json unset \<Rightarrow> json unset \<Rightarrow> list_classes_name_domain unset \<Rightarrow> json \<Rightarrow> ('s, 'y, call_result) coroutine" where
  "list_classes_asyncio page_size cursor package_prefix name_contains name_domain include_inner = asyncio_detailed (list_classes_call page_size cursor package_prefix name_contains name_domain include_inner)"

definition query_references_asyncio :: "reference_query \<Rightarrow> ('s, 'y, call_result) coroutine" where
  "query_references_asyncio body = asyncio_detailed (query_references_call body)"

definition resolve_symbol_asyncio :: "symbol_resolve_request \<Rightarrow> ('s, 'y, call_result) coroutine" where
  "resolve_symbol_asyncio body = asyncio_detailed (resolve_symbol_call body)"

definition build_search_index_asyncio :: "search_build_request \<Rightarrow> ('s, 'y, call_result) coroutine" where
  "build_search_index_asyncio body = asyncio_detailed (build_search_index_call body)"

definition decompile_java_asyncio :: "decompile_request \<Rightarrow> ('s, 'y, call_result) coroutine" where
  "decompile_java_asyncio body = asyncio_detailed (decompile_java_call body)"

definition get_control_flow_facts_asyncio :: "control_flow_request \<Rightarrow> ('s, 'y, call_result) coroutine" where
  "get_control_flow_facts_asyncio body = asyncio_detailed (get_control_flow_facts_call body)"

definition search_asyncio :: "search_request \<Rightarrow> ('s, 'y, call_result) coroutine" where
  "search_asyncio body = asyncio_detailed (search_call body)"

lemmas asyncio_defs =
  cancel_job_asyncio_def get_capabilities_asyncio_def get_job_asyncio_def
  get_liveness_asyncio_def get_status_asyncio_def shutdown_service_asyncio_def
  apply_edit_batch_asyncio_def export_mappings_asyncio_def export_pending_edits_asyncio_def
  get_project_asyncio_def get_project_settings_asyncio_def import_mappings_asyncio_def
  reload_project_asyncio_def save_project_asyncio_def update_project_settings_asyncio_def
  list_classes_asyncio_def query_references_asyncio_def resolve_symbol_asyncio_def
  build_search_index_asyncio_def decompile_java_asyncio_def get_control_flow_facts_asyncio_def
  search_asyncio_def

end
