(* ===== verification/Sdk_Async.thy ===== *)
theory Sdk_Async
  imports Sdk_Lifecycle Api_Async
begin

text \<open>
  The asynchronous client (\<open>async_client.py\<close>): its calls, the operations on the service, waiting for
  the service, and closing. Job handles and search cursors are objects several tasks may share, so
  they live in a heap, beside the state of the client.
\<close>

subsection \<open>The state tasks share\<close>

record 'w heap =
  heap_client :: "'w client"
  heap_jobs :: "nat \<Rightarrow> job"
  heap_cursors :: "nat \<Rightarrow> search_cursor"
  heap_next :: nat

definition put_client :: "'w client \<Rightarrow> 'w heap \<Rightarrow> 'w heap" where
  "put_client st h = h\<lparr>heap_client := st\<rparr>"

definition put_job :: "nat \<Rightarrow> job \<Rightarrow> 'w heap \<Rightarrow> 'w heap" where
  "put_job a raw h = h\<lparr>heap_jobs := (heap_jobs h)(a := raw)\<rparr>"

definition put_cursor :: "nat \<Rightarrow> search_cursor \<Rightarrow> 'w heap \<Rightarrow> 'w heap" where
  "put_cursor a cur h = h\<lparr>heap_cursors := (heap_cursors h)(a := cur)\<rparr>"

text \<open>A new object gets an address no object has.\<close>

definition new_job :: "job \<Rightarrow> 'w heap \<Rightarrow> nat \<times> 'w heap" where
  "new_job raw h = (heap_next h, (put_job (heap_next h) raw h)\<lparr>heap_next := Suc (heap_next h)\<rparr>)"

definition new_search_cursor :: "search_cursor \<Rightarrow> 'w heap \<Rightarrow> nat \<times> 'w heap" where
  "new_search_cursor cur h =
     (heap_next h, (put_cursor (heap_next h) cur h)\<lparr>heap_next := Suc (heap_next h)\<rparr>)"

text \<open>What the outside world does while a task is suspended.\<close>

definition on_world :: "('w \<Rightarrow> 'w) \<Rightarrow> 'w heap \<Rightarrow> 'w heap" where
  "on_world f h = put_client ((heap_client h)\<lparr>world := f (world (heap_client h))\<rparr>) h"

fun perform :: "'w env \<Rightarrow> suspension \<Rightarrow> 'w heap \<Rightarrow> answer \<times> 'w heap" where
  "perform env (Sending r) h =
     (Responded (fst (env_send env r (world (heap_client h)))), on_world (\<lambda>w. snd (env_send env r w)) h)"
| "perform env (Opening u hs t) h =
     (Streamed (fst (env_stream env u hs t (world (heap_client h)))),
      on_world (\<lambda>w. snd (env_stream env u hs t w)) h)"
| "perform env Reading h = (Resumed, h)"
| "perform env (Sleeping d) h = (Resumed, on_world (env_sleep env d) h)"
| "perform env Closing h = (Resumed, on_world (env_close env) h)"

subsection \<open>Steps\<close>

type_synonym ('w, 'y, 'a) task = "('w heap, 'y, sdk_error + 'a) coroutine"

text \<open>Code without \<open>await\<close> that uses only the client, and sequencing that stops at an exception.\<close>

definition on_client :: "('w client \<Rightarrow> 'a \<times> 'w client) \<Rightarrow> ('w heap, 'y, 'a) coroutine" where
  "on_client f = cact (\<lambda>h. case f (heap_client h) of (x, st) \<Rightarrow> (x, put_client st h))"

definition abind :: "('w, 'y, 'a) task \<Rightarrow> ('a \<Rightarrow> ('w, 'y, 'b) task) \<Rightarrow> ('w, 'y, 'b) task" where
  "abind m f = cbind m (\<lambda>r. case r of Inl e \<Rightarrow> Finish (Inl e) | Inr x \<Rightarrow> f x)"

definition areturn :: "'a \<Rightarrow> ('w, 'y, 'a) task" where
  "areturn x = Finish (Inr x)"

definition araise :: "sdk_error \<Rightarrow> ('w, 'y, 'a) task" where
  "araise e = Finish (Inl e)"

definition alift :: "py_exc + 'a \<Rightarrow> ('w, 'y, 'a) task" where
  "alift m = Finish (map_error Py_Error m)"

definition aplace :: "('a \<Rightarrow> 'w heap \<Rightarrow> 'b \<times> 'w heap) \<Rightarrow> 'a \<Rightarrow> ('w, 'y, 'b) task" where
  "aplace put x = cact (\<lambda>h. map_prod Inr id (put x h))"

subsection \<open>Calls\<close>

text \<open>\<open>AsyncClient._invoke\<close> after the answer has come.\<close>

definition settle :: "'w env \<Rightarrow> (parsed \<Rightarrow> 'a option) \<Rightarrow> call_result \<Rightarrow> ('w, 'a) sdk" where
  "settle env expect res st =
     (case res of
        Call_Timeout m \<Rightarrow> (Inl (Request_Timeout_Error m), st)
      | Call_Http_Error m \<Rightarrow> (Inl (Transport_Error m), st)
      | Call_Raises e \<Rightarrow>
          (Inl (if decode_failure e then Unexpected_Response_Error undecodable else Py_Error e), st)
      | Call_Returns r \<Rightarrow>
          (case unwrap r expect of
             Inl e \<Rightarrow> (Inl e, st)
           | Inr x \<Rightarrow>
               (case observe (env_repr env) (parsed_attrs (response_parsed r)) (revisions st) of
                  (Inl e, c') \<Rightarrow> (Inl (Py_Error e), st\<lparr>revisions := c'\<rparr>)
                | (Inr _, c') \<Rightarrow> (Inr x, st\<lparr>revisions := c'\<rparr>))))"

definition async_invoke ::
  "'w env \<Rightarrow> ('w heap, 'y, call_result) coroutine \<Rightarrow> (parsed \<Rightarrow> 'a option) \<Rightarrow> ('w, 'y, 'a) task" where
  "async_invoke env operation expect =
     cbind (on_client (\<lambda>st. (closed st, st))) (\<lambda>gone.
       if gone then araise (Transport_Error ''Client is closed'')
       else cbind operation (\<lambda>res. on_client (settle env expect res)))"

subsection \<open>The client\<close>

definition new_async_client ::
  "(string \<Rightarrow> bool) \<Rightarrow> (string \<Rightarrow> string) \<Rightarrow> string \<Rightarrow> string option \<Rightarrow> 'w \<Rightarrow> py_exc + string \<times> 'w client" where
  "new_async_client ip_literal nfkc url injected w =
     ebind (base_url ip_literal nfkc url) (\<lambda>base.
       if (case injected of None \<Rightarrow> False | Some s \<Rightarrow> rstrip ''/'' s \<noteq> base)
       then Inl (ValueErr ''Injected HTTP client's base_url must match normalized /api/v1 URL'')
       else Inr (base, \<lparr>closed = False, revisions = new_cache, world = w\<rparr>))"

definition async_liveness :: "'w env \<Rightarrow> ('w, 'y, liveness) task" where
  "async_liveness env = async_invoke env get_liveness_asyncio as_liveness"

definition async_status :: "'w env \<Rightarrow> ('w, 'y, service_status) task" where
  "async_status env = async_invoke env get_status_asyncio as_status"

definition async_capabilities :: "'w env \<Rightarrow> ('w, 'y, capabilities) task" where
  "async_capabilities env = async_invoke env get_capabilities_asyncio as_capabilities"

definition async_job :: "'w env \<Rightarrow> string \<Rightarrow> ('w, 'y, nat) task" where
  "async_job env job_id =
     abind (alift (uuid_of_str job_id)) (\<lambda>u.
     abind (async_invoke env (get_job_asyncio u) as_job) (\<lambda>raw.
       aplace new_job raw))"

definition async_shutdown :: "'w env \<Rightarrow> string \<Rightarrow> ('w, 'y, shutdown_accepted) task" where
  "async_shutdown env policy =
     abind (alift (shutdown_request_policy_of (JStr policy))) (\<lambda>p.
       async_invoke env (shutdown_service_asyncio (Given \<lparr>shutdown_request_policy = Given p\<rparr>)) as_shutdown)"

text \<open>\<open>_closed\<close> is set before the connections are closed, which takes a while.\<close>

definition async_close :: "('w, 'y, unit) task" where
  "async_close =
     cbind (on_client (\<lambda>st. (closed st, st\<lparr>closed := True\<rparr>))) (\<lambda>gone.
       if gone then areturn () else Await Closing (\<lambda>_. areturn ()))"

definition async_enter :: "('w, 'y, unit) task" where
  "async_enter =
     cbind (on_client (\<lambda>st. (closed st, st))) (\<lambda>gone.
       if gone then araise (Transport_Error ''Client is closed'') else areturn ())"

definition async_exit :: "('w, 'y, unit) task" where
  "async_exit = async_close"

subsection \<open>Waiting for the service\<close>

definition time_left :: "'w env \<Rightarrow> rat option \<Rightarrow> 'w client \<Rightarrow> rat option \<times> 'w client" where
  "time_left env deadline st =
     (case deadline of
        None \<Rightarrow> (None, st)
      | Some d \<Rightarrow> (case env_monotonic env (world st) of (now, w) \<Rightarrow> (Some (d - now), st\<lparr>world := w\<rparr>)))"

definition async_pause :: "'w env \<Rightarrow> rat option \<Rightarrow> rat \<Rightarrow> ('w heap, 'y, bool) coroutine" where
  "async_pause env deadline interval =
     cbind (on_client (time_left env deadline)) (\<lambda>left.
       (case left of
          None \<Rightarrow> Await (Sleeping interval) (\<lambda>_. Finish True)
        | Some remaining \<Rightarrow>
            if remaining \<le> 0 then Finish False
            else Await (Sleeping (min interval remaining)) (\<lambda>_. Finish True)))"

definition async_ready_round ::
  "'w env \<Rightarrow> rat option \<Rightarrow> rat \<Rightarrow> unit \<Rightarrow> ('w heap, 'y, unit + (sdk_error + service_status)) coroutine" where
  "async_ready_round env deadline interval u =
     cbind (async_status env) (\<lambda>res.
       (case res of
          Inl e \<Rightarrow> Finish (Inr (Inl e))
        | Inr status \<Rightarrow>
            if service_status_state status = ServiceStatusState_READY then Finish (Inr (Inr status))
            else if service_status_state status = ServiceStatusState_FAILED
            then Finish (Inr (Inl (Service_Load_Failed status (status_sdk_error status))))
            else cbind (async_pause env deadline interval) (\<lambda>go.
              Finish (if go then Inl () else Inr (Inl Wait_Ready_Timeout)))))"

definition async_wait_ready :: "'w env \<Rightarrow> rat \<Rightarrow> rat \<Rightarrow> ('w, 'y, service_status) task" where
  "async_wait_ready env timeout interval =
     abind (alift (polling (Some timeout) interval)) (\<lambda>_.
     cbind (on_client (start_deadline env (Some timeout))) (\<lambda>deadline.
       cwhile (async_ready_round env deadline interval) ()))"

subsection \<open>Twins\<close>

text \<open>
  On its own a coroutine does to the client what its synchronous twin does, returns or raises the
  same, and yields nothing.
\<close>

definition runs_as :: "'w env \<Rightarrow> ('w, 'y, 'a) task \<Rightarrow> ('w, 'a) sdk \<Rightarrow> bool" where
  "runs_as env t m \<longleftrightarrow>
     (\<forall>h. alone (perform env) t h = Some ([], fst (m (heap_client h)), put_client (snd (m (heap_client h))) h))"

named_theorems twin_rules \<open>coroutines and their synchronous twins\<close>

lemma put_client_simps [simp]:
  "heap_client (put_client st h) = st" "put_client (heap_client h) h = h"
  "put_client st (put_client st' h) = put_client st h"
  "heap_jobs (put_client st h) = heap_jobs h" "heap_cursors (put_client st h) = heap_cursors h"
  "heap_next (put_client st h) = heap_next h"
  by (simp_all add: put_client_def)

lemma put_job_simps [simp]:
  "heap_client (put_job a raw h) = heap_client h" "heap_jobs (put_job a raw h) a = raw"
  "put_job a raw (put_job a raw' h) = put_job a raw h" "heap_jobs h a = raw \<Longrightarrow> put_job a raw h = h"
  "put_client st (put_job a raw h) = put_job a raw (put_client st h)"
  by (auto simp: put_job_def put_client_def)

lemma put_cursor_simps [simp]:
  "heap_client (put_cursor a cur h) = heap_client h" "heap_cursors (put_cursor a cur h) a = cur"
  "put_cursor a cur (put_cursor a cur' h) = put_cursor a cur h" "heap_cursors h a = cur \<Longrightarrow> put_cursor a cur h = h"
  "put_client st (put_cursor a cur h) = put_cursor a cur (put_client st h)"
  by (auto simp: put_cursor_def put_client_def)

lemma on_world_simps [simp]:
  "heap_client (on_world f h) = (heap_client h)\<lparr>world := f (world (heap_client h))\<rparr>"
  "on_world f h = put_client ((heap_client h)\<lparr>world := f (world (heap_client h))\<rparr>) h"
  by (simp_all add: on_world_def)

lemma alone_on_client [simp]:
  "alone P (on_client f) h =
     Some ([], fst (f (heap_client h)), put_client (snd (f (heap_client h))) h)"
  by (simp add: on_client_def case_prod_unfold)

lemma alone_abind:
  "alone P (abind m f) h =
     (case alone P m h of
        None \<Rightarrow> None
      | Some (ys, Inl e, h') \<Rightarrow> Some (ys, Inl e, h')
      | Some (ys, Inr x, h') \<Rightarrow> prefixed ys (alone P (f x) h'))"
  by (auto simp: abind_def alone_cbind split: option.splits sum.splits prod.splits)

lemma abind_assoc: "abind (abind m f) g = abind m (\<lambda>x. abind (f x) g)"
  by (auto simp: abind_def cbind_assoc intro!: arg_cong [where f = "cbind m"] split: sum.split)

lemma runs_as_bind [twin_rules]:
  "runs_as env t m \<Longrightarrow> (\<And>x. runs_as env (f x) (g x)) \<Longrightarrow> runs_as env (abind t f) (sbind m g)"
  by (auto simp: runs_as_def alone_abind sbind_split split: sum.splits)

lemma runs_as_steps [twin_rules]:
  "runs_as env (on_client m) m" "runs_as env (areturn x) (sreturn x)" "runs_as env (araise e) (sraise e)"
  "runs_as env (alift v) (slift v)" "runs_as env (Finish r) (\<lambda>st. (r, st))"
  by (simp_all add: runs_as_def areturn_def araise_def alift_def sreturn_def sraise_def slift_def)

lemma runs_as_if [twin_rules]:
  "(b \<Longrightarrow> runs_as env t m) \<Longrightarrow> (\<not> b \<Longrightarrow> runs_as env t' m') \<Longrightarrow>
     runs_as env (if b then t else t') (if b then m else m')"
  by simp

lemma runs_as_pair [twin_rules]:
  "(\<And>x y. runs_as env (f x y) (g x y)) \<Longrightarrow> runs_as env (case p of (x, y) \<Rightarrow> f x y) (case p of (x, y) \<Rightarrow> g x y)"
  by (cases p) simp

lemma invoke_settle:
  "\<not> closed st \<Longrightarrow> invoke env c expect st =
     settle env expect (fst (sync_detailed env c (world st))) (st\<lparr>world := snd (sync_detailed env c (world st))\<rparr>)"
  by (simp add: invoke_def settle_def Let_def split: prod.splits call_result.splits sum.splits)

lemma runs_as_invoke [twin_rules]: "runs_as env (async_invoke env (asyncio_detailed c) expect) (invoke env c expect)"
  unfolding runs_as_def
proof
  fix h :: "'a heap"
  show "alone (perform env) (async_invoke env (asyncio_detailed c) expect) h =
    Some ([], fst (invoke env c expect (heap_client h)), put_client (snd (invoke env c expect (heap_client h))) h)"
  proof (cases "closed (heap_client h)")
    case True
    then show ?thesis by (simp add: async_invoke_def alone_cbind araise_def invoke_closed)
  next
    case False
    then show ?thesis
      by (simp add: async_invoke_def alone_cbind invoke_settle sync_detailed_answered asyncio_detailed_def)
  qed
qed

lemma client_twins:
  "runs_as env (async_liveness env) (client_liveness env)"
  "runs_as env (async_status env) (client_status env)"
  "runs_as env (async_capabilities env) (client_capabilities env)"
  "runs_as env (async_shutdown env policy) (client_shutdown env policy)"
  unfolding async_liveness_def async_status_def async_capabilities_def async_shutdown_def
    client_liveness_def client_status_def client_capabilities_def client_shutdown_def asyncio_defs
  by (intro twin_rules)+

lemma client_exit_twins:
  "runs_as env async_close (client_close env)"
  "runs_as env async_exit (client_exit env)"
  "runs_as env async_enter client_enter"
  by (auto simp: runs_as_def async_exit_def async_close_def client_exit_def client_close_def async_enter_def
      client_enter_def alone_cbind areturn_def araise_def)

text \<open>A handle that is made of the result is put in the heap.\<close>

lemma alone_twin:
  "runs_as env t m \<Longrightarrow> alone (perform env) t h =
     Some ([], fst (m (heap_client h)), put_client (snd (m (heap_client h))) h)"
  by (simp add: runs_as_def)

definition placed :: "('a \<Rightarrow> 'w heap \<Rightarrow> 'b \<times> 'w heap) \<Rightarrow> (sdk_error + 'a) \<times> 'w client \<Rightarrow> 'w heap \<Rightarrow>
    (sdk_error + 'b) \<times> 'w heap" where
  "placed put r h =
     (case fst r of
        Inl e \<Rightarrow> (Inl e, put_client (snd r) h)
      | Inr x \<Rightarrow> map_prod Inr id (put x (put_client (snd r) h)))"

lemma alone_placed:
  assumes "runs_as env t m"
  shows "alone (perform env) (abind t (aplace put)) h = Some ([], placed put (m (heap_client h)) h)"
  using assms by (simp add: alone_abind alone_twin aplace_def placed_def split: sum.splits)

lemma async_job_alone:
  "alone (perform env) (async_job env job_id) h = Some ([], placed new_job (client_job env job_id (heap_client h)) h)"
proof -
  have "runs_as env (abind (alift (uuid_of_str job_id)) (\<lambda>u. async_invoke env (get_job_asyncio u) as_job))
    (client_job env job_id)"
    unfolding client_job_def asyncio_defs by (intro twin_rules)
  from alone_placed [OF this, of new_job h] show ?thesis
    by (simp only: async_job_def abind_assoc)
qed

text \<open>Waiting.\<close>

definition client_loop :: "('w client \<Rightarrow> ('b \<times> 'w client) option) \<Rightarrow> 'w heap \<Rightarrow> ('y list \<times> 'b \<times> 'w heap) option" where
  "client_loop loop h =
     map_option (\<lambda>(res, st). ([], res, put_client st h)) (loop (heap_client h))"

lemma alone_pause: "alone (perform env) (async_pause env deadline interval) h =
   Some ([], fst (pause env deadline interval (heap_client h)),
     put_client (snd (pause env deadline interval (heap_client h))) h)"
  by (simp add: async_pause_def alone_cbind time_left_def pause_def Let_def split: option.splits prod.splits)

lemma async_ready_round_alone:
  assumes "client_status env (heap_client h) = (res, st')" "pause env deadline interval st' = (go, st'')"
  shows "alone (perform env) (async_ready_round env deadline interval u) h =
    Some ([], case res of
        Inl e \<Rightarrow> (Inr (Inl e), put_client st' h)
      | Inr s \<Rightarrow>
          if service_status_state s = ServiceStatusState_READY then (Inr (Inr s), put_client st' h)
          else if service_status_state s = ServiceStatusState_FAILED
          then (Inr (Inl (Service_Load_Failed s (status_sdk_error s))), put_client st' h)
          else (if go then Inl () else Inr (Inl Wait_Ready_Timeout), put_client st'' h))"
  using assms
  by (simp add: async_ready_round_def alone_cbind alone_pause alone_twin [OF client_twins(2)] split: sum.splits)

interpretation ready_twin:
  loop_twin "perform env" "async_ready_round env deadline interval"
    "\<lambda>_. client_loop (ready_loop env deadline interval)" for env :: "'w env" and deadline interval
proof
  fix u and h :: "'w heap"
  obtain res st' where c: "client_status env (heap_client h) = (res, st')" by fastforce
  obtain go st'' where p: "pause env deadline interval st' = (go, st'')" by fastforce
  show "client_loop (ready_loop env deadline interval) h =
    next_round (\<lambda>_ :: unit. client_loop (ready_loop env deadline interval))
      (alone (perform env) (async_ready_round env deadline interval u) h)"
    unfolding async_ready_round_alone [OF c p]
    using c p by (cases res)
      (simp_all add: client_loop_def ready_loop.simps [of env deadline interval "heap_client h"])
next
  fix u and h :: "'w heap" and r :: "'y list \<times> (sdk_error + service_status) \<times> 'w heap"
  have *: "ready_loop env deadline interval st = Some r \<Longrightarrow> heap_client h = st \<Longrightarrow>
    alone (perform env) (cwhile (async_ready_round env deadline interval) u) h =
      Some ([] :: 'y list, fst r, put_client (snd r) h)" for st r h
  proof (induction arbitrary: h rule: ready_loop.raw_induct [rotated, consumes 1])
    case (1 loop env deadline interval st r)
    obtain res st' where c: "client_status env (heap_client h) = (res, st')" by fastforce
    obtain go st'' where p: "pause env deadline interval st' = (go, st'')" by fastforce
    from 1(1) [of env deadline interval st'' r "put_client st'' h"] 1(2,3) c p
    show ?case
      by (cases res; cases r) (subst alone_cwhile; auto simp: async_ready_round_alone [OF c p] split: if_splits)+
  qed
  assume "client_loop (ready_loop env deadline interval) h = Some r"
  with * show "alone (perform env) (cwhile (async_ready_round env deadline interval) u) h = Some r"
    by (auto simp: client_loop_def)
qed

lemma async_wait_ready_alone:
  "alone (perform env) (async_wait_ready env timeout interval) h = client_loop (wait_ready env timeout interval) h"
proof (cases "polling (Some timeout) interval")
  case (Inl e)
  then show ?thesis
    by (simp add: async_wait_ready_def wait_ready_def alone_abind alift_def client_loop_def)
next
  case (Inr x)
  then show ?thesis
    by (simp add: async_wait_ready_def wait_ready_def alone_abind alift_def alone_cbind ready_twin.twin
        client_loop_def split: prod.splits)
qed

end
