(* ===== verification/Sdk_Async_Jobs.thy ===== *)
theory Sdk_Async_Jobs
  imports Sdk_Async
begin

text \<open>
  The asynchronous job handle (\<open>AsyncJob\<close> in \<open>jobs.py\<close>): a handle is an address in the heap, so
  tasks that hold the same handle see each other's refreshes.
\<close>

subsection \<open>refresh and cancel\<close>

definition job_at :: "nat \<Rightarrow> ('w heap, 'y, job) coroutine" where
  "job_at a = cact (\<lambda>h. (heap_jobs h a, h))"

definition async_fetch_job ::
  "'w env \<Rightarrow> (uuid \<Rightarrow> ('w heap, 'y, call_result) coroutine) \<Rightarrow> nat \<Rightarrow> ('w, 'y, job) task" where
  "async_fetch_job env operation a =
     cbind (job_at a) (\<lambda>raw.
     abind (async_invoke env (operation (job_job_id raw)) as_job) (\<lambda>new.
       cact (\<lambda>h. (Inr new, put_job a new h))))"

definition async_refresh :: "'w env \<Rightarrow> nat \<Rightarrow> ('w, 'y, job) task" where
  "async_refresh env a = async_fetch_job env get_job_asyncio a"

definition async_cancel :: "'w env \<Rightarrow> nat \<Rightarrow> ('w, 'y, job) task" where
  "async_cancel env a = async_fetch_job env cancel_job_asyncio a"

subsection \<open>wait and poll_updates\<close>

definition async_wait_round ::
  "'w env \<Rightarrow> rat option \<Rightarrow> rat \<Rightarrow> nat \<Rightarrow> unit \<Rightarrow> ('w heap, 'y, unit + (sdk_error + job)) coroutine" where
  "async_wait_round env deadline interval a u =
     cbind (job_at a) (\<lambda>raw.
     (case job_terminal raw of
        Inl e \<Rightarrow> Finish (Inr (Inl e))
      | Inr over \<Rightarrow>
          if over then Finish (Inr (Inr raw))
          else cbind (async_refresh env a) (\<lambda>res.
            (case res of
               Inl e \<Rightarrow> Finish (Inr (Inl e))
             | Inr _ \<Rightarrow>
                 cbind (job_at a) (\<lambda>raw'.
                 (case job_terminal raw' of
                    Inl e \<Rightarrow> Finish (Inr (Inl e))
                  | Inr over' \<Rightarrow>
                      if over' then Finish (Inr (Inr raw'))
                      else cbind (async_pause env deadline interval) (\<lambda>go.
                        Finish (if go then Inl () else Inr (Inl Job_Wait_Timeout)))))))))"

definition async_wait :: "'w env \<Rightarrow> rat option \<Rightarrow> rat \<Rightarrow> nat \<Rightarrow> ('w, 'y, job) task" where
  "async_wait env timeout interval a =
     abind (alift (polling timeout interval)) (\<lambda>_.
     cbind (on_client (start_deadline env timeout)) (\<lambda>deadline.
       cwhile (async_wait_round env deadline interval a) ()))"

definition async_poll_round ::
  "'w env \<Rightarrow> rat option \<Rightarrow> rat \<Rightarrow> nat \<Rightarrow> unit \<Rightarrow> ('w heap, job, unit + (sdk_error + unit)) coroutine" where
  "async_poll_round env deadline interval a u =
     cbind (async_refresh env a) (\<lambda>res.
     (case res of
        Inl e \<Rightarrow> Finish (Inr (Inl e))
      | Inr j \<Rightarrow> Yield j (cbind (job_at a) (\<lambda>raw.
          if job_ended raw then Finish (Inr (Inr ()))
          else cbind (async_pause env deadline interval) (\<lambda>go.
            Finish (if go then Inl () else Inr (Inl Job_Wait_Timeout)))))))"

definition async_poll_updates :: "'w env \<Rightarrow> rat option \<Rightarrow> rat \<Rightarrow> nat \<Rightarrow> ('w, job, unit) task" where
  "async_poll_updates env timeout interval a =
     abind (alift (polling timeout interval)) (\<lambda>_.
     cbind (on_client (start_deadline env timeout)) (\<lambda>deadline.
       cwhile (async_poll_round env deadline interval a) ()))"

subsection \<open>events\<close>

fun async_feed :: "parser \<Rightarrow> string list \<Rightarrow> ('w, job_event, parser) task" where
  "async_feed p [] = areturn p"
| "async_feed p (c # cs) =
     (case feed p c of
        Inl e \<Rightarrow> araise e
      | Inr (es, q) \<Rightarrow> cyields es (async_feed q cs))"

text \<open>The next chunk, or the end of the stream, is awaited.\<close>

fun async_read_chunks :: "parser \<Rightarrow> string list \<Rightarrow> stream_stop \<Rightarrow> ('w, job_event, unit) task" where
  "async_read_chunks p [] stop = Await Reading (\<lambda>_. araise (stop_error stop))"
| "async_read_chunks p (c # cs) stop = Await Reading (\<lambda>_.
     abind (async_feed p (slices slice_size c)) (\<lambda>q.
       if parser_terminal q then areturn () else async_read_chunks q cs stop))"

definition async_accepted :: "string option \<Rightarrow> nat \<Rightarrow> http_stream \<Rightarrow> ('w, job_event, unit) task" where
  "async_accepted last_event_id a s =
     (case stream_status (stream_response s) of
        Inl e \<Rightarrow> araise e
      | Inr _ \<Rightarrow> cbind (job_at a) (\<lambda>raw.
          abind (alift (new_parser (job_job_id raw) last_event_id)) (\<lambda>p.
            async_read_chunks p (stream_chunks s) (stream_end s))))"

definition async_events :: "'w env \<Rightarrow> string option \<Rightarrow> nat \<Rightarrow> ('w, job_event, unit) task" where
  "async_events env last_event_id a =
     cbind (on_client (\<lambda>st. (closed st, st))) (\<lambda>gone.
       if gone then araise (Transport_Error ''Client is closed'')
       else cbind (job_at a) (\<lambda>raw.
         Await (Opening (events_url raw)
             (case last_event_id of None \<Rightarrow> [] | Some s \<Rightarrow> [(''Last-Event-ID'', s)])
             (event_timeout (env_pool_timeout env))) (\<lambda>answer.
           (case streamed answer of
              Open_Timeout m \<Rightarrow> araise (Request_Timeout_Error m)
            | Open_Http_Error m \<Rightarrow> araise (Transport_Error m)
            | Opened s \<Rightarrow>
                if resp_status (stream_response s) \<noteq> 200
                then Await Reading (\<lambda>_.
                  if stream_read s \<noteq> Stream_End then araise (stop_error (stream_read s))
                  else async_accepted last_event_id a s)
                else async_accepted last_event_id a s))))"

subsection \<open>Twins\<close>

lemma alone_job_at [simp]: "alone P (job_at a) h = Some ([], heap_jobs h a, h)"
  by (simp add: job_at_def)

lemma alone_fetch_job:
  assumes "fetch_job env (c (job_job_id (heap_jobs h a))) (heap_jobs h a) (heap_client h) = (res, raw', st')"
  shows "alone (perform env) (async_fetch_job env (\<lambda>u. asyncio_detailed (c u)) a) h =
    Some ([], res, put_job a raw' (put_client st' h))"
  using assms
  by (auto simp: async_fetch_job_def fetch_job_def alone_cbind alone_abind alone_twin [OF runs_as_invoke]
      split: prod.splits sum.splits)

lemma alone_refresh:
  assumes "job_refresh env (heap_jobs h a) (heap_client h) = (res, raw', st')"
  shows "alone (perform env) (async_refresh env a) h = Some ([], res, put_job a raw' (put_client st' h))"
  using alone_fetch_job [of env get_job_call h a res raw' st'] assms
  by (simp add: async_refresh_def job_refresh_def get_job_asyncio_def [abs_def])

lemma alone_cancel:
  assumes "job_cancel env (heap_jobs h a) (heap_client h) = (res, raw', st')"
  shows "alone (perform env) (async_cancel env a) h = Some ([], res, put_job a raw' (put_client st' h))"
  using alone_fetch_job [of env cancel_job_call h a res raw' st'] assms
  by (simp add: async_cancel_def job_cancel_def cancel_job_asyncio_def [abs_def])

lemma alone_wait_round:
  assumes "job_refresh env (heap_jobs h a) (heap_client h) = (res, raw', st')"
    and "pause env deadline interval st' = (go, st'')"
  shows "alone (perform env) (async_wait_round env deadline interval a u) h =
    Some ([], case job_terminal (heap_jobs h a) of
        Inl e \<Rightarrow> (Inr (Inl e), h)
      | Inr True \<Rightarrow> (Inr (Inr (heap_jobs h a)), h)
      | Inr False \<Rightarrow>
          (case res of
             Inl e \<Rightarrow> (Inr (Inl e), put_job a raw' (put_client st' h))
           | Inr _ \<Rightarrow>
               (case job_terminal raw' of
                  Inl e \<Rightarrow> (Inr (Inl e), put_job a raw' (put_client st' h))
                | Inr True \<Rightarrow> (Inr (Inr raw'), put_job a raw' (put_client st' h))
                | Inr False \<Rightarrow> (if go then Inl () else Inr (Inl Job_Wait_Timeout),
                    put_job a raw' (put_client st'' h)))))"
  using assms
  by (simp add: async_wait_round_def alone_cbind alone_pause alone_refresh [OF assms(1)]
      split: sum.splits bool.splits)

lemma alone_poll_round:
  assumes "job_refresh env (heap_jobs h a) (heap_client h) = (res, raw', st')"
    and "pause env deadline interval st' = (go, st'')"
  shows "alone (perform env) (async_poll_round env deadline interval a u) h =
    Some (case res of
        Inl e \<Rightarrow> ([], Inr (Inl e), put_job a raw' (put_client st' h))
      | Inr j \<Rightarrow>
          if job_ended raw' then ([j], Inr (Inr ()), put_job a raw' (put_client st' h))
          else ([j], if go then Inl () else Inr (Inl Job_Wait_Timeout), put_job a raw' (put_client st'' h)))"
  using assms
  by (simp add: async_poll_round_def alone_cbind alone_pause alone_refresh [OF assms(1)] split: sum.splits)

definition job_loop :: "(job \<Rightarrow> 'w client \<Rightarrow> ('w, 'a) job_call option) \<Rightarrow> nat \<Rightarrow> 'w heap
    \<Rightarrow> ('y list \<times> (sdk_error + 'a) \<times> 'w heap) option" where
  "job_loop loop a h =
     map_option (\<lambda>(res, raw, st). ([], res, put_job a raw (put_client st h))) (loop (heap_jobs h a) (heap_client h))"

definition poll_loop_on :: "(job \<Rightarrow> 'w client \<Rightarrow> 'w polled option) \<Rightarrow> nat \<Rightarrow> 'w heap
    \<Rightarrow> (job list \<times> (sdk_error + unit) \<times> 'w heap) option" where
  "poll_loop_on loop a h =
     map_option (\<lambda>(js, res, raw, st). (js, res, put_job a raw (put_client st h))) (loop (heap_jobs h a) (heap_client h))"

interpretation wait_twin:
  loop_twin "perform env" "async_wait_round env deadline interval a"
    "\<lambda>_. job_loop (wait_loop env deadline interval) a" for env :: "'w env" and deadline interval a
proof
  fix u and h :: "'w heap"
  obtain res raw' st' where f: "job_refresh env (heap_jobs h a) (heap_client h) = (res, raw', st')"
    by (cases "job_refresh env (heap_jobs h a) (heap_client h)")
  obtain go st'' where p: "pause env deadline interval st' = (go, st'')" by fastforce
  show "job_loop (wait_loop env deadline interval) a h =
    next_round (\<lambda>_ :: unit. job_loop (wait_loop env deadline interval) a)
      (alone (perform env) (async_wait_round env deadline interval a u) h)"
    unfolding alone_wait_round [OF f p]
    using f p by (simp add: job_loop_def wait_loop.simps [of env deadline interval "heap_jobs h a"]
        split: sum.splits bool.splits)
next
  fix u and h :: "'w heap" and r :: "'y list \<times> (sdk_error + job) \<times> 'w heap"
  have *: "wait_loop env deadline interval raw st = Some r \<Longrightarrow> heap_jobs h a = raw \<Longrightarrow> heap_client h = st \<Longrightarrow>
    alone (perform env) (cwhile (async_wait_round env deadline interval a) u) h =
      Some ([] :: 'y list, fst r, put_job a (fst (snd r)) (put_client (snd (snd r)) h))" for raw st r h
  proof (induction arbitrary: h rule: wait_loop.raw_induct [rotated, consumes 1])
    case (1 loop env deadline interval raw st r)
    obtain res raw' st' where f: "job_refresh env (heap_jobs h a) (heap_client h) = (res, raw', st')"
      by (cases "job_refresh env (heap_jobs h a) (heap_client h)")
    obtain go st'' where p: "pause env deadline interval st' = (go, st'')" by fastforce
    from 1(1) [of env deadline interval raw' st'' r "put_job a raw' (put_client st'' h)"] 1(2-4) f p
    show ?case
      by (cases r) (subst alone_cwhile; auto simp: alone_wait_round [OF f p] split: if_splits sum.splits bool.splits)
  qed
  assume "job_loop (wait_loop env deadline interval) a h = Some r"
  with * show "alone (perform env) (cwhile (async_wait_round env deadline interval a) u) h = Some r"
    by (auto simp: job_loop_def)
qed

interpretation poll_twin:
  loop_twin "perform env" "async_poll_round env deadline interval a"
    "\<lambda>_. poll_loop_on (poll_loop env deadline interval) a" for env :: "'w env" and deadline interval a
proof
  fix u and h :: "'w heap"
  obtain res raw' st' where f: "job_refresh env (heap_jobs h a) (heap_client h) = (res, raw', st')"
    by (cases "job_refresh env (heap_jobs h a) (heap_client h)")
  obtain go st'' where p: "pause env deadline interval st' = (go, st'')" by fastforce
  show "poll_loop_on (poll_loop env deadline interval) a h =
    next_round (\<lambda>_ :: unit. poll_loop_on (poll_loop env deadline interval) a)
      (alone (perform env) (async_poll_round env deadline interval a u) h)"
    unfolding alone_poll_round [OF f p]
    using f p by (cases "poll_loop env deadline interval raw' st''")
      (auto simp: poll_loop_on_def poll_loop.simps [of env deadline interval "heap_jobs h a"]
        split: sum.splits)
next
  fix u and h :: "'w heap" and r
  have *: "poll_loop env deadline interval raw st = Some r \<Longrightarrow> heap_jobs h a = raw \<Longrightarrow> heap_client h = st \<Longrightarrow>
    alone (perform env) (cwhile (async_poll_round env deadline interval a) u) h =
      Some (fst r, fst (snd r), put_job a (fst (snd (snd r))) (put_client (snd (snd (snd r))) h))" for raw st r h
  proof (induction arbitrary: h rule: poll_loop.raw_induct [rotated, consumes 1])
    case (1 loop env deadline interval raw st r)
    obtain res raw' st' where f: "job_refresh env (heap_jobs h a) (heap_client h) = (res, raw', st')"
      by (cases "job_refresh env (heap_jobs h a) (heap_client h)")
    obtain go st'' where p: "pause env deadline interval st' = (go, st'')" by fastforce
    from 1(1) [of env deadline interval raw' st'' _ "put_job a raw' (put_client st'' h)"] 1(2-4) f p
    show ?case
      by (cases r) (subst alone_cwhile; auto simp: alone_poll_round [OF f p] Option.bind_eq_Some_conv
          split: if_splits sum.splits)
  qed
  assume "poll_loop_on (poll_loop env deadline interval) a h = Some r"
  with * show "alone (perform env) (cwhile (async_poll_round env deadline interval a) u) h = Some r"
    by (auto simp: poll_loop_on_def)
qed

lemma async_wait_alone:
  "alone (perform env) (async_wait env timeout interval a) h = job_loop (job_wait env timeout interval) a h"
proof (cases "polling timeout interval")
  case (Inl e)
  then show ?thesis
    by (simp add: async_wait_def job_wait_def alone_abind alift_def job_loop_def)
next
  case (Inr x)
  then show ?thesis
    by (simp add: async_wait_def job_wait_def alone_abind alift_def alone_cbind wait_twin.twin
        job_loop_def split: prod.splits)
qed

lemma async_poll_alone:
  "alone (perform env) (async_poll_updates env timeout interval a) h
    = poll_loop_on (poll_updates env timeout interval) a h"
proof (cases "polling timeout interval")
  case (Inl e)
  then show ?thesis
    by (simp add: async_poll_updates_def poll_updates_def alone_abind alift_def poll_loop_on_def)
next
  case (Inr x)
  then show ?thesis
    by (simp add: async_poll_updates_def poll_updates_def alone_abind alift_def alone_cbind poll_twin.twin
        poll_loop_on_def split: prod.splits)
qed

text \<open>The stream.\<close>

lemma alone_feed: "alone P (async_feed p cs) h = Some (fst (feed_slices p cs), snd (feed_slices p cs), h)"
  by (induction cs arbitrary: p)
    (auto simp: areturn_def araise_def split: sum.splits prod.splits)

lemma alone_read_chunks:
  "alone (perform env) (async_read_chunks p cs stop) h
    = Some (fst (read_chunks p cs stop), snd (read_chunks p cs stop), h)"
  by (induction cs arbitrary: p)
    (auto simp: areturn_def araise_def alone_abind alone_feed split: sum.splits prod.splits)

lemma async_events_alone:
  "alone (perform env) (async_events env last_event_id a) h =
     (case job_events env last_event_id (heap_jobs h a) (heap_client h) of (es, res, st) \<Rightarrow>
        Some (es, res, put_client st h))"
  by (simp add: async_events_def job_events_def alone_cbind alone_abind araise_def alift_def async_accepted_def
      alone_read_chunks Let_def split: sum.splits prod.splits stream_outcome.splits option.splits)

end
