(* ===== verification/Sdk_Async_Project.thy ===== *)
theory Sdk_Async_Project
  imports Sdk_Async
begin

text \<open>
  The operations of an asynchronous project (\<open>AsyncProject\<close> in \<open>project.py\<close>) that send one request.
  What is shared with the synchronous project (\<open>_ProjectBase\<close>, the models and their checks) is that
  of \<open>Sdk_Project\<close>; preconditions are read from the cache before the request, without suspension.
\<close>

subsection \<open>The project and its settings\<close>

definition async_snapshot :: "'w env \<Rightarrow> ('w, 'y, fixed_project) task" where
  "async_snapshot env = async_invoke env get_project_asyncio as_project"

definition async_project_refresh :: "'w env \<Rightarrow> ('w, 'y, fixed_project) task" where
  "async_project_refresh env = async_snapshot env"

definition async_settings :: "'w env \<Rightarrow> ('w, 'y, project_settings) task" where
  "async_settings env = async_invoke env get_project_settings_asyncio as_settings"

definition async_pending_edits :: "'w env \<Rightarrow> ('w, 'y, pending_edits_result) task" where
  "async_pending_edits env =
     abind (async_invoke env export_pending_edits_asyncio as_pending) (\<lambda>x. areturn \<lparr>pending_raw = x\<rparr>)"

definition async_save :: "'w env \<Rightarrow> string option \<Rightarrow> preconditions \<Rightarrow> ('w, 'y, fixed_project) task" where
  "async_save env target_path options =
     abind (on_client (expected_of options False)) (\<lambda>(session, revision).
       async_invoke env (save_project_asyncio
         \<lparr>save_project_request_target_path =
            (case target_path of None \<Rightarrow> UNSET | Some p \<Rightarrow> Given (JStr p)),
          save_project_request_expected_logical_revision = revision,
          save_project_request_expected_session_id = session,
          save_project_request_extra = []\<rparr>) as_project)"

definition async_reload :: "'w env \<Rightarrow> bool \<Rightarrow> preconditions \<Rightarrow> ('w, 'y, fixed_project) task" where
  "async_reload env discard_unsaved options =
     abind (on_client (required_of options)) (\<lambda>(session, revision).
       async_invoke env (reload_project_asyncio
         \<lparr>reload_project_request_discard_unsaved = JBool discard_unsaved,
          reload_project_request_expected_session_id = session,
          reload_project_request_expected_logical_revision = revision,
          reload_project_request_extra = []\<rparr>) as_project)"

definition async_update_settings ::
  "'w env \<Rightarrow> string option \<Rightarrow> preconditions \<Rightarrow> ('w, 'y, project_settings) task" where
  "async_update_settings env mappings_path options =
     abind (on_client (required_of options)) (\<lambda>(session, revision).
       async_invoke env (update_project_settings_asyncio
         \<lparr>update_project_settings_request_mappings_path =
            (case mappings_path of None \<Rightarrow> JNull | Some p \<Rightarrow> JStr p),
          update_project_settings_request_expected_logical_revision = revision,
          update_project_settings_request_expected_session_id = session,
          update_project_settings_request_extra = []\<rparr>) as_settings)"

definition async_export_mappings ::
  "'w env \<Rightarrow> string \<Rightarrow> preconditions \<Rightarrow> ('w, 'y, mapping_export_receipt) task" where
  "async_export_mappings env target_path options =
     abind (on_client (required_of options)) (\<lambda>(session, revision).
       async_invoke env (export_mappings_asyncio
         \<lparr>mapping_export_request_target_path = JStr target_path,
          mapping_export_request_format = JStr ''TINY_V2'',
          mapping_export_request_expected_session_id = session,
          mapping_export_request_expected_logical_revision = revision\<rparr>) as_export)"

definition async_import_mappings ::
  "'w env \<Rightarrow> string \<Rightarrow> preconditions \<Rightarrow> ('w, 'y, mapping_import_receipt) task" where
  "async_import_mappings env source_path options =
     abind (on_client (required_of options)) (\<lambda>(session, revision).
       async_invoke env (import_mappings_asyncio
         \<lparr>mapping_import_request_source_path = JStr source_path,
          mapping_import_request_format = JStr ''TINY_V2'',
          mapping_import_request_mode = JStr ''MERGE_FAIL_ON_CONFLICT'',
          mapping_import_request_expected_session_id = session,
          mapping_import_request_expected_logical_revision = revision\<rparr>) as_import)"

subsection \<open>Edits\<close>

definition async_apply_edits ::
  "'w env \<Rightarrow> edit_operation list \<Rightarrow> preconditions \<Rightarrow> ('w, 'y, edit_batch_result) task" where
  "async_apply_edits env items options =
     abind (on_client (expected_of options (list_ex needs_preconditions items))) (\<lambda>(session, revision).
       async_invoke env (apply_edit_batch_asyncio
         \<lparr>edit_batch_request_items = items,
          edit_batch_request_expected_session_id = session,
          edit_batch_request_expected_logical_revision = revision\<rparr>) as_edits)"

definition async_rename ::
  "'w env \<Rightarrow> target \<Rightarrow> string \<Rightarrow> bool \<Rightarrow> preconditions \<Rightarrow> ('w, 'y, edit_batch_result) task" where
  "async_rename env target new_name propagate_related options =
     (let ref = reference target in
      if propagate_related \<and> symbol_ref_kind ref \<noteq> SymbolRefKind_METHOD
      then araise (Py_Error (ValueErr ''Related propagation requires an original method ref''))
      else async_apply_edits env
        [Rename \<lparr>rename_operation_kind = JStr ''RENAME'', rename_operation_target = ref,
           rename_operation_new_name = JStr new_name,
           rename_operation_propagate_related = Given (JBool propagate_related)\<rparr>] options)"

definition async_set_comment ::
  "'w env \<Rightarrow> target \<Rightarrow> string \<Rightarrow> preconditions \<Rightarrow> ('w, 'y, edit_batch_result) task" where
  "async_set_comment env target comment options =
     async_apply_edits env
       [Set_Comment \<lparr>set_comment_operation_kind = JStr ''SET_COMMENT'',
          set_comment_operation_target = reference target,
          set_comment_operation_comment = JStr comment, set_comment_operation_style = JStr ''LINE''\<rparr>] options"

definition async_rename_parameter ::
  "'w env \<Rightarrow> symbol_ref \<Rightarrow> int \<Rightarrow> string \<Rightarrow> string \<Rightarrow> preconditions \<Rightarrow> ('w, 'y, edit_batch_result) task" where
  "async_rename_parameter env ref parameter_index new_name source_snapshot_id options =
     (if symbol_ref_kind ref \<noteq> SymbolRefKind_METHOD
      then araise (Py_Error (ValueErr ''Parameter rename requires a method ref''))
      else abind (alift (method_symbol_ref_from_dict (JObj (symbol_ref_to_dict ref)))) (\<lambda>m.
        async_apply_edits env
          [Rename_Parameter \<lparr>rename_parameter_operation_kind = JStr ''RENAME_PARAMETER'',
             rename_parameter_operation_method = m,
             rename_parameter_operation_parameter_index = JInt parameter_index,
             rename_parameter_operation_source_snapshot_id = JStr source_snapshot_id,
             rename_parameter_operation_new_name = JStr new_name\<rparr>] options))"

subsection \<open>Symbols\<close>

definition async_resolve :: "'w env \<Rightarrow> symbol_ref \<Rightarrow> ('w, 'y, symbol_resolution) task" where
  "async_resolve env ref =
     async_invoke env (resolve_symbol_asyncio
       \<lparr>symbol_resolve_request_ref = ref, symbol_resolve_request_expected_session_id = UNSET,
        symbol_resolve_request_expected_logical_revision = UNSET\<rparr>) as_resolution"

definition async_resolve_object :: "'w env \<Rightarrow> symbol_ref \<Rightarrow> ('w, 'y, resolved) task" where
  "async_resolve_object env ref =
     abind (async_resolve env ref) (\<lambda>r. Finish (resolved_of ref r))"

subsection \<open>Source and control flow\<close>

definition async_decompile ::
  "'w env \<Rightarrow> target \<Rightarrow> string \<Rightarrow> bool \<Rightarrow> string unset \<Rightarrow> bool \<Rightarrow> bool \<Rightarrow> ('w, 'y, source_result) task" where
  "async_decompile env target source_kind strict mode annotations debug_lines =
     abind (alift (case mode of
         UNSET \<Rightarrow> Inr UNSET
       | Given m \<Rightarrow> ebind (decompile_request_decompilation_mode_of (JStr m)) (\<lambda>x. Inr (Given x)))) (\<lambda>mode.
     abind (async_invoke env (decompile_java_asyncio
         \<lparr>decompile_request_ref = reference target,
          decompile_request_representation = Given (JStr source_kind),
          decompile_request_decompilation_mode = mode,
          decompile_request_include_annotations = Given (JBool annotations),
          decompile_request_include_raw_debug_lines = Given (JBool debug_lines),
          decompile_request_strict = Given (JBool strict),
          decompile_request_expected_session_id = UNSET,
          decompile_request_expected_logical_revision = UNSET,
          decompile_request_expected_source_snapshot_id = UNSET\<rparr>) as_decompiled) (\<lambda>x.
       areturn \<lparr>source_raw = x\<rparr>))"

definition async_control_flow ::
  "'w env \<Rightarrow> target \<Rightarrow> bool \<Rightarrow> preconditions \<Rightarrow> ('w, 'y, control_flow_result) task" where
  "async_control_flow env target strict options =
     (let ref = reference target in
      if symbol_ref_kind ref \<noteq> SymbolRefKind_METHOD
      then araise (Py_Error (ValueErr ''control_flow requires an original METHOD''))
      else abind (on_client (expected_of options False)) (\<lambda>(session, revision).
        abind (alift (method_symbol_ref_from_dict (JObj (symbol_ref_to_dict ref)))) (\<lambda>m.
          async_invoke env (get_control_flow_facts_asyncio
            \<lparr>control_flow_request_ref = m, control_flow_request_strict = Given (JBool strict),
             control_flow_request_expected_session_id = session,
             control_flow_request_expected_logical_revision = revision\<rparr>) as_control_flow)))"

definition async_references :: "'w env \<Rightarrow> target \<Rightarrow> reference_options \<Rightarrow> ('w, 'y, reference_page) task" where
  "async_references env target opts =
     abind (alift (reference_query_of (reference target) opts)) (\<lambda>q.
       async_invoke env (query_references_asyncio q) as_references)"

subsection \<open>Searching\<close>

text \<open>What a search gives: the address of a job or of a cursor.\<close>

datatype async_found = Async_Job nat | Async_Cursor nat

fun put_found :: "search_outcome \<Rightarrow> 'w heap \<Rightarrow> async_found \<times> 'w heap" where
  "put_found (Search_Job j) h = map_prod Async_Job id (new_job j h)"
| "put_found (Search_Results cur) h = map_prod Async_Cursor id (new_search_cursor cur h)"

definition async_search :: "'w env \<Rightarrow> string \<Rightarrow> search_options \<Rightarrow> ('w, 'y, async_found) task" where
  "async_search env query opts =
     abind (alift (search_request_of query opts)) (\<lambda>request.
     abind (async_invoke env (search_asyncio request) any_object) (\<lambda>result.
     abind (Finish (search_outcome_of request result)) (aplace put_found)))"

datatype async_index = Async_Index_Job nat | Async_Index_Status search_index_status

fun put_index :: "index_outcome \<Rightarrow> 'w heap \<Rightarrow> async_index \<times> 'w heap" where
  "put_index (Index_Job j) h = map_prod Async_Index_Job id (new_job j h)"
| "put_index (Index_Status x) h = (Async_Index_Status x, h)"

definition async_build_search_index ::
  "'w env \<Rightarrow> search_build_request option \<Rightarrow> ('w, 'y, async_index) task" where
  "async_build_search_index env request =
     abind (async_invoke env (build_search_index_asyncio
         (case request of
            None \<Rightarrow> \<lparr>search_build_request_domains = UNSET, search_build_request_force = Given (JBool False)\<rparr>
          | Some r \<Rightarrow> r)) any_object) (\<lambda>result.
     abind (Finish (index_outcome_of result)) (aplace put_index))"

subsection \<open>Handles\<close>

text \<open>The asynchronous handles (\<open>_AsyncBoundSymbol\<close> and its classes in \<open>symbols.py\<close>).\<close>

definition async_handle_rename ::
  "'w env \<Rightarrow> handle \<Rightarrow> string \<Rightarrow> bool \<Rightarrow> preconditions \<Rightarrow> ('w, 'y, edit_batch_result) task" where
  "async_handle_rename env hnd new_name propagate_related options =
     async_rename env (Wire_Ref (handle_ref hnd)) new_name propagate_related options"

definition async_handle_references ::
  "'w env \<Rightarrow> handle \<Rightarrow> string \<Rightarrow> string \<Rightarrow> bool \<Rightarrow> bool \<Rightarrow> ('w, 'y, reference_page) task" where
  "async_handle_references env hnd direction view strict source_sites =
     async_references env (Wire_Ref (handle_ref hnd))
       \<lparr>opt_direction = direction, opt_view = view, opt_relations = None, opt_page_size = 50,
        opt_cursor = None, opt_include_source_sites = source_sites, opt_strict = strict\<rparr>"

definition async_handle_decompile :: "'w env \<Rightarrow> handle \<Rightarrow> bool \<Rightarrow> ('w, 'y, source_result) task" where
  "async_handle_decompile env hnd strict =
     (if handle_class hnd = Java_Field then araise (Py_Error AttributeErr)
      else async_decompile env (Wire_Ref (handle_ref hnd)) ''JAVA'' strict UNSET True False)"

definition async_handle_control_flow ::
  "'w env \<Rightarrow> handle \<Rightarrow> bool \<Rightarrow> preconditions \<Rightarrow> ('w, 'y, control_flow_result) task" where
  "async_handle_control_flow env hnd strict options =
     (if handle_class hnd \<noteq> Java_Method then araise (Py_Error AttributeErr)
      else async_control_flow env (Wire_Ref (handle_ref hnd)) strict options)"

subsection \<open>Twins\<close>

lemmas async_project_defs =
  async_project_refresh_def async_snapshot_def async_settings_def async_pending_edits_def async_save_def
  async_reload_def async_update_settings_def async_export_mappings_def async_import_mappings_def
  async_set_comment_def async_rename_def async_rename_parameter_def async_apply_edits_def
  async_resolve_object_def async_resolve_def async_decompile_def async_control_flow_def
  async_references_def

lemmas async_handle_defs =
  async_handle_rename_def async_handle_references_def async_handle_decompile_def
  async_handle_control_flow_def handle_rename_def handle_references_def handle_decompile_def
  handle_control_flow_def

lemma project_twins:
  "runs_as env (async_snapshot env) (project_snapshot env)"
  "runs_as env (async_project_refresh env) (project_refresh env)"
  "runs_as env (async_settings env) (project_settings_of env)"
  "runs_as env (async_pending_edits env) (project_pending_edits env)"
  "runs_as env (async_save env path options) (project_save env path options)"
  "runs_as env (async_reload env discard options) (project_reload env discard options)"
  "runs_as env (async_update_settings env mappings options) (project_update_settings env mappings options)"
  "runs_as env (async_export_mappings env file options) (project_export_mappings env file options)"
  "runs_as env (async_import_mappings env file options) (project_import_mappings env file options)"
  "runs_as env (async_apply_edits env items options) (project_apply_edits env items options)"
  "runs_as env (async_rename env t name related options) (project_rename env t name related options)"
  "runs_as env (async_set_comment env t txt options) (project_set_comment env t txt options)"
  "runs_as env (async_rename_parameter env ref i name snapshot options)
     (project_rename_parameter env ref i name snapshot options)"
  "runs_as env (async_resolve env ref) (project_resolve env ref)"
  "runs_as env (async_resolve_object env ref) (project_resolve_object env ref)"
  "runs_as env (async_decompile env t kind strict mode an dl) (project_decompile env t kind strict mode an dl)"
  "runs_as env (async_control_flow env t strict options) (project_control_flow env t strict options)"
  "runs_as env (async_references env t ro) (project_references env t ro)"
  unfolding async_project_defs project_op_defs Let_def asyncio_defs by (intro twin_rules)+

lemma handle_twins:
  "runs_as env (async_handle_rename env hnd name related options) (handle_rename env hnd name related options)"
  "runs_as env (async_handle_references env hnd direction view strict sites)
     (handle_references env hnd direction view strict sites)"
  "runs_as env (async_handle_decompile env hnd strict) (handle_decompile env hnd strict)"
  "runs_as env (async_handle_control_flow env hnd strict options) (handle_control_flow env hnd strict options)"
  unfolding async_handle_defs by (intro twin_rules project_twins)+

text \<open>Searches put what they find in the heap.\<close>

lemma async_search_alone:
  "alone (perform env) (async_search env query opts) h =
     Some ([], placed put_found (project_search env query opts (heap_client h)) h)"
proof -
  have "runs_as env (abind (alift (search_request_of query opts)) (\<lambda>request.
      abind (async_invoke env (search_asyncio request) any_object) (\<lambda>result.
        Finish (search_outcome_of request result)))) (project_search env query opts)"
    unfolding project_search_def asyncio_defs by (intro twin_rules)
  from alone_placed [OF this, of put_found h] show ?thesis
    by (simp only: async_search_def abind_assoc)
qed

lemma async_build_search_index_alone:
  "alone (perform env) (async_build_search_index env request) h =
     Some ([], placed put_index (project_build_search_index env request (heap_client h)) h)"
proof -
  have "runs_as env (abind (async_invoke env (build_search_index_asyncio
         (case request of
            None \<Rightarrow> \<lparr>search_build_request_domains = UNSET, search_build_request_force = Given (JBool False)\<rparr>
          | Some r \<Rightarrow> r)) any_object) (\<lambda>result. Finish (index_outcome_of result)))
      (project_build_search_index env request)"
    unfolding project_build_search_index_def asyncio_defs by (intro twin_rules)
  from alone_placed [OF this, of put_index h] show ?thesis
    by (simp only: async_build_search_index_def abind_assoc)
qed

end
