(* ===== verification/Sdk_Async_Pages.thy ===== *)
theory Sdk_Async_Pages
  imports Sdk_Async_Project
begin

text \<open>
  The asynchronous generators that follow cursors (\<open>AsyncProject.class_pages\<close>, \<open>classes\<close> and
  \<open>reference_pages\<close> in \<open>project.py\<close>, \<open>AsyncSearchCursor\<close> in \<open>search.py\<close>). The variables of a loop are
  its own; a search cursor is an object of the heap.
\<close>

subsection \<open>Classes\<close>

definition async_fetch_classes :: "'w env \<Rightarrow> class_query \<Rightarrow> json unset \<Rightarrow> ('w, 'y, class_page) task" where
  "async_fetch_classes env q cursor =
     abind (alift (list_classes_name_domain_of (JStr (query_name_domain q)))) (\<lambda>domain.
       async_invoke env (list_classes_asyncio (JInt (query_page_size q)) cursor (query_package_prefix q)
         (query_name_contains q) (Given domain) (JBool (query_include_inner q))) as_classes)"

fun async_class_round ::
  "'w env \<Rightarrow> class_query \<Rightarrow> int option \<Rightarrow> json unset \<times> nat \<times> json list
     \<Rightarrow> ('w heap, class_page, (json unset \<times> nat \<times> json list) + (sdk_error + unit)) coroutine" where
  "async_class_round env q max_pages (cursor, pages, seen) =
     cbind (async_fetch_classes env q cursor) (\<lambda>res.
     (case res of
        Inl e \<Rightarrow> Finish (Inr (Inl e))
      | Inr page \<Rightarrow> Yield page
          (case class_advance max_pages (Suc pages) seen page of
             Inl e \<Rightarrow> Finish (Inr (Inl e))
           | Inr None \<Rightarrow> Finish (Inr (Inr ()))
           | Inr (Some c) \<Rightarrow> Finish (Inl (Given c, Suc pages, c # seen)))))"

definition async_class_pages :: "'w env \<Rightarrow> class_query \<Rightarrow> int option \<Rightarrow> ('w, class_page, unit) task" where
  "async_class_pages env q max_pages =
     (if (case max_pages of None \<Rightarrow> False | Some m \<Rightarrow> m < 1)
      then araise (Py_Error (ValueErr ''max_pages must be positive''))
      else cwhile (async_class_round env q max_pages) (UNSET, 0, []))"

definition async_classes :: "'w env \<Rightarrow> class_query \<Rightarrow> int option \<Rightarrow> ('w, handle, unit) task" where
  "async_classes env q max_pages =
     cemit (\<lambda>p. map (\<lambda>x. new_handle Java_Class (Class_Raw x)) (class_page_items p)) []
       (async_class_pages env q max_pages)"

subsection \<open>References\<close>

fun async_reference_round ::
  "'w env \<Rightarrow> reference_query \<times> json list
     \<Rightarrow> ('w heap, reference_page, (reference_query \<times> json list) + (sdk_error + unit)) coroutine" where
  "async_reference_round env (request, seen) =
     cbind (async_invoke env (query_references_asyncio request) as_references) (\<lambda>res.
     (case res of
        Inl e \<Rightarrow> Finish (Inr (Inl e))
      | Inr page \<Rightarrow> Yield page
          (case reference_advance seen page of
             Inl e \<Rightarrow> Finish (Inr (Inl e))
           | Inr None \<Rightarrow> Finish (Inr (Inr ()))
           | Inr (Some c) \<Rightarrow> Finish (Inl (request\<lparr>reference_query_cursor := Given c\<rparr>, c # seen)))))"

definition async_reference_pages :: "'w env \<Rightarrow> reference_query \<Rightarrow> ('w, reference_page, unit) task" where
  "async_reference_pages env query =
     abind (alift (reference_query_from_dict (JObj (reference_query_to_dict query)))) (\<lambda>request.
       cwhile (async_reference_round env) (request, []))"

subsection \<open>Search cursors\<close>

definition advance_cursor :: "nat \<Rightarrow> ('w heap, 'y, sdk_error + search_request option) coroutine" where
  "advance_cursor a = cact (\<lambda>h. case next_request (heap_cursors h a) of (res, cur) \<Rightarrow> (res, put_cursor a cur h))"

definition async_search_round ::
  "'w env \<Rightarrow> nat \<Rightarrow> unit \<Rightarrow> ('w heap, search_hit, unit + (sdk_error + unit)) coroutine" where
  "async_search_round env a u =
     cbind (cact (\<lambda>h. (search_page_hits (cursor_raw (heap_cursors h a)), h))) (\<lambda>hits.
     cyields hits (cbind (advance_cursor a) (\<lambda>res.
     (case res of
        Inl e \<Rightarrow> Finish (Inr (Inl e))
      | Inr None \<Rightarrow> Finish (Inr (Inr ()))
      | Inr (Some request) \<Rightarrow>
          cbind (async_invoke env (search_asyncio request) as_search) (\<lambda>answer.
          (case answer of
             Inl e \<Rightarrow> Finish (Inr (Inl e))
           | Inr page \<Rightarrow>
               cact (\<lambda>h. (Inl (), put_cursor a ((heap_cursors h a)\<lparr>cursor_raw := page\<rparr>) h))))))))"

definition async_search_iter :: "'w env \<Rightarrow> nat \<Rightarrow> ('w, search_hit, unit) task" where
  "async_search_iter env a =
     cbind (cact (\<lambda>h. (cursor_started (heap_cursors h a),
         put_cursor a ((heap_cursors h a)\<lparr>cursor_started := True\<rparr>) h))) (\<lambda>started.
       if started then araise (Py_Error (ValueErr ''Search cursor is a single-use iterator''))
       else cwhile (async_search_round env a) ())"

subsection \<open>Twins\<close>

declare async_class_round.simps [simp del] async_reference_round.simps [simp del]

definition listing_on :: "('w client \<Rightarrow> ('w, 'x) listing) \<Rightarrow> 'w heap
    \<Rightarrow> ('x list \<times> (sdk_error + unit) \<times> 'w heap) option" where
  "listing_on loop h = map_option (\<lambda>(xs, res, st). (xs, res, put_client st h)) (loop (heap_client h))"

definition search_on :: "(search_cursor \<Rightarrow> 'w client \<Rightarrow> 'w search_run) \<Rightarrow> nat \<Rightarrow> 'w heap
    \<Rightarrow> (search_hit list \<times> (sdk_error + unit) \<times> 'w heap) option" where
  "search_on loop a h =
     map_option (\<lambda>(hs, res, cur, st). (hs, res, put_cursor a cur (put_client st h)))
       (loop (heap_cursors h a) (heap_client h))"

lemma fetch_classes_twin: "runs_as env (async_fetch_classes env q cursor) (fetch_classes env q cursor)"
  unfolding async_fetch_classes_def fetch_classes_def asyncio_defs by (intro twin_rules)

lemma alone_class_round:
  assumes "fetch_classes env q cursor (heap_client h) = (res, st')"
  shows "alone (perform env) (async_class_round env q m (cursor, n, seen)) h =
    Some (case res of
        Inl e \<Rightarrow> ([], Inr (Inl e), put_client st' h)
      | Inr page \<Rightarrow> ([page], case class_advance m (Suc n) seen page of
            Inl e \<Rightarrow> Inr (Inl e)
          | Inr None \<Rightarrow> Inr (Inr ())
          | Inr (Some c) \<Rightarrow> Inl (Given c, Suc n, c # seen), put_client st' h))"
  using assms
  by (simp add: async_class_round.simps alone_cbind alone_twin [OF fetch_classes_twin] split: sum.splits option.splits)

lemma alone_reference_round:
  assumes "invoke env (query_references_call request) as_references (heap_client h) = (res, st')"
  shows "alone (perform env) (async_reference_round env (request, seen)) h =
    Some (case res of
        Inl e \<Rightarrow> ([], Inr (Inl e), put_client st' h)
      | Inr page \<Rightarrow> ([page], case reference_advance seen page of
            Inl e \<Rightarrow> Inr (Inl e)
          | Inr None \<Rightarrow> Inr (Inr ())
          | Inr (Some c) \<Rightarrow> Inl (request\<lparr>reference_query_cursor := Given c\<rparr>, c # seen), put_client st' h))"
  using assms
  by (simp add: async_reference_round.simps alone_cbind query_references_asyncio_def alone_twin [OF runs_as_invoke]
      split: sum.splits option.splits)

interpretation class_twin:
  loop_twin "perform env" "async_class_round env q m"
    "\<lambda>(k, n, seen). listing_on (class_loop env q m k n seen)" for env :: "'w env" and q m
proof
  fix x :: "json unset \<times> nat \<times> json list" and h :: "'w heap"
  obtain k n seen where x: "x = (k, n, seen)" by (cases x)
  obtain res st' where f: "fetch_classes env q k (heap_client h) = (res, st')" by fastforce
  show "(case x of (k, n, seen) \<Rightarrow> listing_on (class_loop env q m k n seen)) h =
    next_round (\<lambda>(k, n, seen). listing_on (class_loop env q m k n seen))
      (alone (perform env) (async_class_round env q m x) h)"
    unfolding x alone_class_round [OF f]
    using f by (simp add: listing_on_def class_loop.simps [of env q m k n seen] prefixed_def
        map_conv_bind_option case_prod_unfold split: sum.splits option.splits)
next
  fix x :: "json unset \<times> nat \<times> json list" and h :: "'w heap" and r
  obtain k n seen where x: "x = (k, n, seen)" by (cases x)
  have *: "class_loop env q m k n seen st = Some r \<Longrightarrow> heap_client h = st \<Longrightarrow>
    alone (perform env) (cwhile (async_class_round env q m) (k, n, seen)) h =
      Some (fst r, fst (snd r), put_client (snd (snd r)) h)" for k n seen st r h
  proof (induction arbitrary: h rule: class_loop.raw_induct [rotated, consumes 1])
    case (1 loop env q m k n seen st r)
    obtain res st' where f: "fetch_classes env q k (heap_client h) = (res, st')" by fastforce
    from 1(1) [of env q m _ "Suc n" _ st' _ "put_client st' h"] 1(2,3) f show ?case
      by (cases r) (subst alone_cwhile; auto simp: alone_class_round [OF f] Option.bind_eq_Some_conv
          split: sum.splits option.splits)
  qed
  assume "(case x of (k, n, seen) \<Rightarrow> listing_on (class_loop env q m k n seen)) h = Some r"
  with * show "alone (perform env) (cwhile (async_class_round env q m) x) h = Some r"
    by (auto simp: listing_on_def x)
qed

interpretation reference_twin:
  loop_twin "perform env" "async_reference_round env"
    "\<lambda>(k, seen). listing_on (reference_loop env k seen)" for env :: "'w env"
proof
  fix x :: "reference_query \<times> json list" and h :: "'w heap"
  obtain k seen where x: "x = (k, seen)" by (cases x)
  obtain res st' where f: "invoke env (query_references_call k) as_references (heap_client h) = (res, st')"
    by fastforce
  show "(case x of (k, seen) \<Rightarrow> listing_on (reference_loop env k seen)) h =
    next_round (\<lambda>(k, seen). listing_on (reference_loop env k seen))
      (alone (perform env) (async_reference_round env x) h)"
    unfolding x alone_reference_round [OF f]
    using f by (simp add: listing_on_def reference_loop.simps [of env k seen] prefixed_def
        map_conv_bind_option case_prod_unfold split: sum.splits option.splits)
next
  fix x :: "reference_query \<times> json list" and h :: "'w heap" and r
  obtain k seen where x: "x = (k, seen)" by (cases x)
  have *: "reference_loop env k seen st = Some r \<Longrightarrow> heap_client h = st \<Longrightarrow>
    alone (perform env) (cwhile (async_reference_round env) (k, seen)) h =
      Some (fst r, fst (snd r), put_client (snd (snd r)) h)" for k seen st r h
  proof (induction arbitrary: h rule: reference_loop.raw_induct [rotated, consumes 1])
    case (1 loop env k seen st r)
    obtain res st' where f: "invoke env (query_references_call k) as_references (heap_client h) = (res, st')"
      by fastforce
    from 1(1) [of env _ _ st' _ "put_client st' h"] 1(2,3) f show ?case
      by (cases r) (subst alone_cwhile; auto simp: alone_reference_round [OF f] Option.bind_eq_Some_conv
          split: sum.splits option.splits)
  qed
  assume "(case x of (k, seen) \<Rightarrow> listing_on (reference_loop env k seen)) h = Some r"
  with * show "alone (perform env) (cwhile (async_reference_round env) x) h = Some r"
    by (auto simp: listing_on_def x)
qed

lemma async_class_pages_alone:
  "alone (perform env) (async_class_pages env q m) h = listing_on (class_pages env q m) h"
  by (cases m) (simp_all add: async_class_pages_def class_pages_def listing_on_def araise_def class_twin.twin)

lemma async_classes_alone:
  "alone (perform env) (async_classes env q m) h = listing_on (project_classes env q m) h"
  by (cases "class_pages env q m (heap_client h)")
    (auto simp: async_classes_def alone_cemit async_class_pages_alone listing_on_def project_classes_def)

lemma async_reference_pages_alone:
  "alone (perform env) (async_reference_pages env q) h = listing_on (reference_pages env q) h"
  by (cases "reference_query_from_dict (JObj (reference_query_to_dict q))")
    (simp_all add: async_reference_pages_def reference_pages_def alone_abind alift_def reference_twin.twin
      listing_on_def)

lemma alone_search_round:
  assumes "next_request (heap_cursors h a) = (res, cur)"
  shows "alone (perform env) (async_search_round env a u) h =
    Some (search_page_hits (cursor_raw (heap_cursors h a)),
      case res of
        Inl e \<Rightarrow> (Inr (Inl e), put_cursor a cur h)
      | Inr None \<Rightarrow> (Inr (Inr ()), put_cursor a cur h)
      | Inr (Some request) \<Rightarrow>
          (case invoke env (search_call request) as_search (heap_client h) of
             (Inl e, st') \<Rightarrow> (Inr (Inl e), put_cursor a cur (put_client st' h))
           | (Inr page, st') \<Rightarrow> (Inl (), put_cursor a (cur\<lparr>cursor_raw := page\<rparr>) (put_client st' h))))"
  using assms
  by (simp add: async_search_round_def advance_cursor_def alone_cbind search_asyncio_def
      alone_twin [OF runs_as_invoke] split: sum.splits option.splits prod.splits)

interpretation search_twin:
  loop_twin "perform env" "async_search_round env a" "\<lambda>_. search_on (search_loop env) a" for env :: "'w env" and a
proof
  fix u and h :: "'w heap"
  obtain res cur where n: "next_request (heap_cursors h a) = (res, cur)" by fastforce
  show "search_on (search_loop env) a h =
    next_round (\<lambda>_ :: unit. search_on (search_loop env) a) (alone (perform env) (async_search_round env a u) h)"
    unfolding alone_search_round [OF n]
    using n by (simp add: search_on_def search_loop.simps [of env "heap_cursors h a"] prefixed_def
        map_conv_bind_option case_prod_unfold split: sum.splits option.splits)
next
  fix u and h :: "'w heap" and r
  have *: "search_loop env cur st = Some r \<Longrightarrow> heap_cursors h a = cur \<Longrightarrow> heap_client h = st \<Longrightarrow>
    alone (perform env) (cwhile (async_search_round env a) u) h =
      Some (fst r, fst (snd r), put_cursor a (fst (snd (snd r))) (put_client (snd (snd (snd r))) h))" for cur st r h
  proof (induction arbitrary: h rule: search_loop.raw_induct [rotated, consumes 1])
    case (1 loop env cur st r)
    obtain res cur' where n: "next_request (heap_cursors h a) = (res, cur')" by fastforce
    from 1(1) [of env _ _ _ "put_cursor a _ (put_client _ h)"] 1(2-4) n show ?case
      by (cases r) (subst alone_cwhile; auto simp: alone_search_round [OF n] Option.bind_eq_Some_conv
          split: sum.splits option.splits prod.splits)
  qed
  assume "search_on (search_loop env) a h = Some r"
  with * show "alone (perform env) (cwhile (async_search_round env a) u) h = Some r"
    by (auto simp: search_on_def)
qed

lemma async_search_iter_alone:
  "alone (perform env) (async_search_iter env a) h = search_on (search_iter env) a h"
  by (cases "cursor_started (heap_cursors h a)")
    (simp_all add: async_search_iter_def alone_cbind search_on_def search_iter_def araise_def search_twin.twin)

end
