(* ===== verification/Sdk_Order.thy ===== *)
theory Sdk_Order
  imports Sdk_Async_Jobs Sdk_Async_Pages
begin

text \<open>
  What every step of every coroutine of the SDK keeps, whatever other tasks do in between: the cache
  of revisions only goes forward, a closed client stays closed, and a request is started only by
  an open client.
\<close>

subsection \<open>The cache goes forward\<close>

text \<open>A revision that is a number is only replaced by one that is not smaller.\<close>

definition not_lower :: "json \<Rightarrow> json \<Rightarrow> bool" where
  "not_lower old new \<longleftrightarrow>
     (case number_of old of
        None \<Rightarrow> True
      | Some f \<Rightarrow> f = NaN \<or> (case number_of new of None \<Rightarrow> False | Some g \<Rightarrow> g \<noteq> NaN \<and> \<not> float_less g f))"

lemma float_less_irrefl [simp]: "\<not> float_less f f"
  by (cases f) auto

lemma not_lower_refl [simp]: "not_lower v v"
  by (simp add: not_lower_def split: option.split)

lemma float_not_less_trans:
  "\<not> float_less g f \<Longrightarrow> \<not> float_less k g \<Longrightarrow> g \<noteq> NaN \<Longrightarrow> \<not> float_less k f"
  by (cases f; cases g; cases k) auto

lemma not_lower_trans: "not_lower u v \<Longrightarrow> not_lower v w \<Longrightarrow> not_lower u w"
  by (auto simp: not_lower_def dest: float_not_less_trans split: option.splits)

lemma raise_to_not_lower:
  assumes "raise_to old new = Inr v"
  shows "not_lower old v"
proof (cases "number_of old")
  case (Some f)
  define a where "a = py_or old (JInt 0)"
  have a: "number_of a = Some f"
    using Some by (cases old) (auto simp: a_def py_or_def)
  from assms obtain lt where lt: "json_less a new = Inr lt" "v = (if lt then new else a)"
    by (auto simp: raise_to_def py_max_def a_def ebind_eq_Inr)
  with a obtain g where g: "number_of new = Some g" "lt = float_less f g"
    by (auto simp: json_less.simps split: option.splits)
  have "float_less f g \<Longrightarrow> g \<noteq> NaN \<and> \<not> float_less g f"
    by (cases f; cases g) auto
  with a g lt Some not_lower_refl [of a] show ?thesis by (auto simp: not_lower_def)
qed (simp add: not_lower_def)

definition cache_current :: "revision_cache \<Rightarrow> bool" where
  "cache_current c \<longleftrightarrow> (\<forall>s. session_id c = Some s \<longrightarrow> s \<notin> retired c)"

text \<open>
  \<open>c'\<close> is ahead of \<open>c\<close>: within a session no revision has decreased, and a session that was left is
  retired for good.
\<close>

definition cache_ahead :: "revision_cache \<Rightarrow> revision_cache \<Rightarrow> bool" where
  "cache_ahead c c' \<longleftrightarrow>
     retired c \<subseteq> retired c'
     \<and> (session_id c' = session_id c \<longrightarrow>
          not_lower (logical_revision c) (logical_revision c') \<and> not_lower (index_revision c) (index_revision c'))
     \<and> (\<forall>s. session_id c = Some s \<longrightarrow> session_id c' \<noteq> None \<and> (session_id c' \<noteq> Some s \<longrightarrow> s \<in> retired c'))"

definition goes_forward :: "revision_cache \<Rightarrow> revision_cache \<Rightarrow> bool" where
  "goes_forward c c' \<longleftrightarrow> (cache_current c \<longrightarrow> cache_current c' \<and> cache_ahead c c')"

lemma goes_forward_refl [simp]: "goes_forward c c"
  by (simp add: goes_forward_def cache_ahead_def)

lemma cache_ahead_trans:
  assumes "cache_ahead c c'" "cache_ahead c' c''" "cache_current c''"
  shows "cache_ahead c c''"
proof -
  have same: "session_id c' = session_id c" if "session_id c'' = session_id c"
  proof (rule ccontr)
    assume "session_id c' \<noteq> session_id c"
    with assms that show False
      by (cases "session_id c"; cases "session_id c'") (auto simp: cache_ahead_def cache_current_def)
  qed
  have "not_lower (logical_revision c) (logical_revision c'') \<and> not_lower (index_revision c) (index_revision c'')"
    if "session_id c'' = session_id c"
    using assms(1,2) same [OF that] that unfolding cache_ahead_def by (metis not_lower_trans)
  with assms(1,2) show ?thesis unfolding cache_ahead_def by blast
qed

lemma goes_forward_trans: "goes_forward c c' \<Longrightarrow> goes_forward c' c'' \<Longrightarrow> goes_forward c c''"
  using cache_ahead_trans by (auto simp: goes_forward_def)

lemma observe_goes_forward: "goes_forward c (snd (observe repr a c))"
proof -
  have ahead: "goes_forward c (snd (observe_values repr session logical index c))" for session logical index
  proof (cases "session = JNull \<or> logical = JNull \<or> py_str repr session \<in> retired c")
    case False
    show ?thesis
    proof (cases "session_id c = Some (py_str repr session)")
      case True
      with False show ?thesis
        by (auto simp: goes_forward_def cache_ahead_def cache_current_def observe_values_def Let_def
            dest: raise_to_not_lower split: sum.splits)
    next
      case new: False
      with False show ?thesis
        by (auto simp: goes_forward_def cache_ahead_def cache_current_def observe_values_def Let_def
            split: option.splits)
    qed
  qed (auto simp: observe_values_def Let_def)
  show ?thesis unfolding observe_def by (rule ahead)
qed

subsection \<open>Orderly coroutines\<close>

fun sends :: "suspension \<Rightarrow> bool" where
  "sends (Sending _) = True"
| "sends (Opening _ _ _) = True"
| "sends _ = False"

definition client_forward :: "'w client \<Rightarrow> 'w client \<Rightarrow> bool" where
  "client_forward st st' \<longleftrightarrow> goes_forward (revisions st) (revisions st') \<and> (closed st \<longrightarrow> closed st')"

text \<open>
  Every piece of code between two suspensions moves the client forward, and where it ends in a
  request, the client is open. After a suspension the state may be any.
\<close>

coinductive orderly :: "'w heap \<Rightarrow> ('w heap, 'y, 'a) coroutine \<Rightarrow> bool" where
  finished: "orderly h (Finish a)"
| acted: "client_forward (heap_client h) (heap_client (snd (g h))) \<Longrightarrow> orderly (snd (g h)) (fst (g h)) \<Longrightarrow>
    orderly h (Act g)"
| awaited: "(sends q \<Longrightarrow> \<not> closed (heap_client h)) \<Longrightarrow> (\<And>a h'. orderly h' (k a)) \<Longrightarrow> orderly h (Await q k)"
| yielded: "(\<And>h'. orderly h' t) \<Longrightarrow> orderly h (Yield y t)"

inductive_simps orderly_simps [simp]:
  "orderly h (Finish a)" "orderly h (Act g)" "orderly h (Await q k)" "orderly h (Yield y t)"

definition always_orderly :: "('w heap, 'y, 'a) coroutine \<Rightarrow> bool" where
  "always_orderly t \<longleftrightarrow> (\<forall>h. orderly h t)"

named_theorems order_rules \<open>coroutines that are always orderly\<close>

lemma client_forward_refl [simp]: "client_forward st st"
  by (simp add: client_forward_def)

lemma client_forward_trans: "client_forward st st' \<Longrightarrow> client_forward st' st'' \<Longrightarrow> client_forward st st''"
  by (auto simp: client_forward_def dest: goes_forward_trans)

lemma orderly_cbind:
  "orderly h m \<Longrightarrow> (\<And>a h'. orderly h' (f a)) \<Longrightarrow> orderly h (cbind m f)"
proof (coinduction arbitrary: h m)
  case orderly
  show ?case
  proof (cases m)
    case (Finish a)
    from orderly(2) have "orderly h (f a)" by blast
    with Finish show ?thesis by (cases "f a") auto
  next
    case (Act g)
    with orderly show ?thesis by auto
  next
    case (Await q k)
    with orderly show ?thesis by auto
  next
    case (Yield y t)
    with orderly show ?thesis by auto
  qed
qed

lemma orderly_cloop:
  "orderly h m \<Longrightarrow> (\<And>x h'. orderly h' (body x)) \<Longrightarrow> orderly h (cloop body m)"
proof (coinduction arbitrary: h m)
  case orderly
  show ?case
  proof (cases m)
    case (Finish r)
    with orderly show ?thesis by (cases r) (auto simp: cwhile_def)
  next
    case (Act g)
    with orderly show ?thesis by auto
  next
    case (Await q k)
    with orderly show ?thesis by auto
  next
    case (Yield y t)
    with orderly show ?thesis by auto
  qed
qed

lemma orderly_cemit: "orderly h m \<Longrightarrow> zs = [] \<or> always_orderly m \<Longrightarrow> orderly h (cemit f zs m)"
proof (coinduction arbitrary: h m zs)
  case orderly
  show ?case
  proof (cases zs)
    case (Cons z zs')
    with orderly show ?thesis by (auto simp: always_orderly_def)
  next
    case Nil
    show ?thesis
    proof (cases m)
      case (Finish r)
      with Nil orderly show ?thesis by auto
    next
      case (Act g)
      with Nil orderly show ?thesis by auto
    next
      case (Await q k)
      with Nil orderly show ?thesis by auto
    next
      case (Yield y t)
      with Nil orderly show ?thesis by (auto simp: always_orderly_def)
    qed
  qed
qed

subsection \<open>Every operation is orderly\<close>

lemma always_orderlyI: "(\<And>h. orderly h t) \<Longrightarrow> always_orderly t"
  by (simp add: always_orderly_def)

lemma always_orderlyD: "always_orderly t \<Longrightarrow> orderly h t"
  by (simp add: always_orderly_def)

lemma order_finish [order_rules]:
  "always_orderly (Finish a)" "always_orderly (areturn x)" "always_orderly (araise e)" "always_orderly (alift v)"
  by (simp_all add: always_orderly_def areturn_def araise_def alift_def)

lemma order_bind [order_rules]:
  "always_orderly m \<Longrightarrow> (\<And>a. always_orderly (f a)) \<Longrightarrow> always_orderly (cbind m f)"
  by (simp add: always_orderly_def orderly_cbind)

lemma order_abind [order_rules]:
  "always_orderly m \<Longrightarrow> (\<And>x. always_orderly (f x)) \<Longrightarrow> always_orderly (abind m f)"
  unfolding abind_def by (intro order_bind) (auto split: sum.split intro: order_rules)

lemma order_while [order_rules]: "(\<And>x. always_orderly (body x)) \<Longrightarrow> always_orderly (cwhile body x)"
  by (simp add: always_orderly_def cwhile_def orderly_cloop)

lemma order_emit [order_rules]: "always_orderly m \<Longrightarrow> always_orderly (cemit f [] m)"
  by (simp add: always_orderly_def orderly_cemit)

lemma order_yield [order_rules]:
  "always_orderly t \<Longrightarrow> always_orderly (Yield y t)"
  "always_orderly t \<Longrightarrow> always_orderly (cyields ys t)"
  by (simp add: always_orderly_def) (induction ys; simp add: always_orderly_def)

lemma order_await [order_rules]:
  "\<not> sends q \<Longrightarrow> (\<And>a. always_orderly (k a)) \<Longrightarrow> always_orderly (Await q k)"
  by (simp add: always_orderly_def)

lemma order_act [order_rules]:
  "(\<And>h. client_forward (heap_client h) (heap_client (snd (f h)))) \<Longrightarrow> always_orderly (cact f)"
  by (simp add: always_orderly_def cact_def)

lemma order_on_client [order_rules]:
  "(\<And>st. client_forward st (snd (f st))) \<Longrightarrow> always_orderly (on_client f)"
  unfolding on_client_def by (intro order_rules) (simp add: case_prod_unfold)

lemma order_place [order_rules]:
  "(\<And>x h. heap_client (snd (put x h)) = heap_client h) \<Longrightarrow> always_orderly (aplace put x)"
  unfolding aplace_def by (intro order_rules) simp

lemma order_if [order_rules]:
  "(b \<Longrightarrow> always_orderly t) \<Longrightarrow> (\<not> b \<Longrightarrow> always_orderly t') \<Longrightarrow> always_orderly (if b then t else t')"
  by simp

lemma order_cases [order_rules]:
  "(\<And>e. always_orderly (f e)) \<Longrightarrow> (\<And>x. always_orderly (g x)) \<Longrightarrow>
     always_orderly (case r of Inl e \<Rightarrow> f e | Inr x \<Rightarrow> g x)"
  "always_orderly t \<Longrightarrow> (\<And>x. always_orderly (g x)) \<Longrightarrow>
     always_orderly (case v of None \<Rightarrow> t | Some x \<Rightarrow> g x)"
  "(\<And>x y. always_orderly (f2 x y)) \<Longrightarrow> always_orderly (case p of (x, y) \<Rightarrow> f2 x y)"
  by (simp_all split: sum.split option.split prod.split)

lemma forward_simps [simp]:
  "client_forward st (st\<lparr>world := w\<rparr>)" "client_forward st (st\<lparr>closed := True\<rparr>)"
  by (simp_all add: client_forward_def)

lemma forward_pure [simp]:
  "client_forward st (snd (expected_of options required st))" "client_forward st (snd (required_of options st))"
  "client_forward st (snd (time_left env deadline st))" "client_forward st (snd (start_deadline env timeout st))"
  by (simp_all add: expected_of_def required_of_def slift_def time_left_def start_deadline_def
      split: option.split prod.split)

lemma forward_settle [simp]: "client_forward st (snd (settle env expect res st))"
proof -
  have "client_forward st (st\<lparr>revisions := snd (observe repr a (revisions st))\<rparr>)" for repr a
    by (simp add: client_forward_def observe_goes_forward)
  then show ?thesis
    by (auto simp: settle_def split: call_result.split sum.split prod.split) (metis snd_conv)+
qed

lemma order_invoke [order_rules]: "always_orderly (async_invoke env (asyncio_detailed c) expect)"
proof (rule always_orderlyI)
  fix h
  have settled: "orderly h' (on_client (settle env expect res))" for h' res
    by (rule always_orderlyD [OF order_on_client]) simp
  show "orderly h (async_invoke env (asyncio_detailed c) expect)"
    by (simp add: settled async_invoke_def asyncio_detailed_def on_client_def [of "\<lambda>st. (closed st, st)"] cact_def
        araise_def)
qed

lemma new_frame [simp]:
  "heap_client (snd (new_job raw h)) = heap_client h"
  "heap_client (snd (new_search_cursor cur h)) = heap_client h"
  by (simp_all add: new_job_def new_search_cursor_def put_job_def put_cursor_def)

lemma found_frame [simp]:
  "heap_client (snd (put_found found h)) = heap_client h"
  "heap_client (snd (put_index index h)) = heap_client h"
  by (cases found; simp) (cases index; simp)

lemma order_client:
  "always_orderly (async_liveness env)" "always_orderly (async_status env)"
  "always_orderly (async_capabilities env)" "always_orderly (async_job env job_id)"
  "always_orderly (async_shutdown env policy)" "always_orderly async_close" "always_orderly async_enter"
  "always_orderly async_exit" "always_orderly (async_pause env deadline interval)"
  unfolding async_liveness_def async_status_def async_capabilities_def async_job_def async_shutdown_def
    async_close_def async_enter_def async_exit_def async_pause_def asyncio_defs
  by (intro order_rules; simp)+

lemma order_wait_ready: "always_orderly (async_wait_ready env timeout interval)"
  unfolding async_wait_ready_def async_ready_round_def
  by (intro order_rules order_client; simp)+

lemma order_project:
  "always_orderly (async_snapshot env)" "always_orderly (async_project_refresh env)"
  "always_orderly (async_settings env)" "always_orderly (async_pending_edits env)"
  "always_orderly (async_save env path options)" "always_orderly (async_reload env discard options)"
  "always_orderly (async_update_settings env mappings options)"
  "always_orderly (async_export_mappings env file options)"
  "always_orderly (async_import_mappings env file options)"
  "always_orderly (async_apply_edits env items options)"
  "always_orderly (async_rename env t name related options)"
  "always_orderly (async_set_comment env t txt options)"
  "always_orderly (async_rename_parameter env ref i name snapshot options)"
  "always_orderly (async_resolve env ref)" "always_orderly (async_resolve_object env ref)"
  "always_orderly (async_decompile env t kind strict mode an dl)"
  "always_orderly (async_control_flow env t strict options)" "always_orderly (async_references env t ro)"
  unfolding async_project_defs Let_def asyncio_defs by (intro order_rules; simp)+

lemma order_search:
  "always_orderly (async_search env query so)" "always_orderly (async_build_search_index env request)"
  unfolding async_search_def async_build_search_index_def asyncio_defs by (intro order_rules; simp)+

lemma order_class_round: "always_orderly (async_class_round env q m x)"
  by (cases x; simp only: async_class_round.simps async_fetch_classes_def asyncio_defs)
    (intro order_rules; simp)+

lemma order_reference_round: "always_orderly (async_reference_round env x)"
  by (cases x; simp only: async_reference_round.simps asyncio_defs) (intro order_rules; simp)+

lemma order_pages:
  "always_orderly (async_class_pages env q m)" "always_orderly (async_classes env q m)"
  "always_orderly (async_reference_pages env rq)"
  unfolding async_classes_def async_class_pages_def async_reference_pages_def
  by (intro order_rules order_class_round order_reference_round)+

lemma order_search_iter: "always_orderly (async_search_iter env a)"
  unfolding async_search_iter_def async_search_round_def advance_cursor_def asyncio_defs
  by (intro order_rules; simp split: prod.split)+

lemma order_job_at [order_rules]: "always_orderly (job_at a)"
  unfolding job_at_def by (intro order_rules) simp

lemma order_job_calls:
  "always_orderly (async_refresh env a)" "always_orderly (async_cancel env a)"
  unfolding async_refresh_def async_cancel_def async_fetch_job_def asyncio_defs
  by (intro order_rules; simp)+

lemma order_job_loops:
  "always_orderly (async_wait env timeout interval a)"
  "always_orderly (async_poll_updates env timeout interval a)"
  unfolding async_wait_def async_poll_updates_def async_wait_round_def async_poll_round_def
  by (intro order_rules order_job_calls order_client; simp)+

lemma order_feed: "always_orderly (async_feed p cs)"
  by (induction cs arbitrary: p) (auto intro!: order_rules split: sum.split)

lemma order_read_chunks: "always_orderly (async_read_chunks p cs stop)"
  by (induction cs arbitrary: p) (auto intro!: order_rules order_feed)

lemma order_accepted: "always_orderly (async_accepted last_event_id a s)"
  unfolding async_accepted_def by (intro order_rules order_read_chunks)

text \<open>The stream is opened in the same step in which the client was found open.\<close>

lemma order_events: "always_orderly (async_events env last_event_id a)"
proof (rule always_orderlyI)
  fix h
  show "orderly h (async_events env last_event_id a)"
    by (auto simp: async_events_def on_client_def job_at_def cact_def araise_def always_orderlyD [OF order_accepted]
        split: stream_outcome.split)
qed

end
