(* ===== verification/Sdk_Tasks.thy ===== *)
theory Sdk_Tasks
  imports Sdk_Order
begin

text \<open>
  Several tasks of one event loop that share an asynchronous client: each runs until it is suspended,
  then the loop may resume any other, and the world changes meanwhile. What all tasks together keep
  follows from what each keeps on its own (\<open>Sdk_Order\<close>).
\<close>

subsection \<open>The event loop\<close>

text \<open>A task that was resumed runs to its next suspension, without interruption.\<close>

inductive segment :: "('w heap, 'y, 'a) coroutine \<Rightarrow> 'w heap \<Rightarrow> ('w heap, 'y, 'a) coroutine \<Rightarrow> 'w heap \<Rightarrow> bool" where
  at_end: "segment (Finish a) h (Finish a) h"
| at_await: "segment (Await q k) h (Await q k) h"
| at_yield: "segment (Yield y t) h (Yield y t) h"
| act: "segment (fst (g h)) (snd (g h)) t' h' \<Longrightarrow> segment (Act g) h t' h'"

text \<open>
  What makes a task go on: it was created (\<open>Act\<close>), what it awaits has come and the world with it, or
  the next element of a generator is asked for.
\<close>

inductive resumes :: "('w heap, 'y, 'a) coroutine \<Rightarrow> 'w heap \<Rightarrow> ('w heap, 'y, 'a) coroutine \<Rightarrow> 'w heap \<Rightarrow> bool" where
  started: "resumes (Act g) h (Act g) h"
| answered: "answers q a \<Longrightarrow> resumes (Await q k) h (k a) (on_world (\<lambda>_. w) h)"
| asked: "resumes (Yield y t) h t h"

inductive_cases resumes_ActE: "resumes (Act g) h t h'"
inductive_cases resumes_AwaitE: "resumes (Await q k) h t h'"
inductive_cases resumes_YieldE: "resumes (Yield y t) h t' h'"
inductive_cases resumes_FinishE: "resumes (Finish a) h t h'"

fun awaited_by :: "('w heap, 'y, 'a) coroutine \<Rightarrow> suspension list" where
  "awaited_by (Await q k) = [q]"
| "awaited_by _ = []"

text \<open>
  A step of the loop resumes one task, or cancels one where it is suspended. The list has what the
  tasks began to await.
\<close>

inductive pool_step ::
  "('w heap, 'y, 'a) coroutine list \<Rightarrow> 'w heap \<Rightarrow> suspension list
     \<Rightarrow> ('w heap, 'y, 'a) coroutine list \<Rightarrow> 'w heap \<Rightarrow> bool" where
  ran: "i < length ts \<Longrightarrow> resumes (ts ! i) h t0 h0 \<Longrightarrow> segment t0 h0 t h' \<Longrightarrow>
    pool_step ts h (awaited_by t) (ts[i := t]) h'"
| cancelled: "i < length ts \<Longrightarrow> pool_step ts h [] (take i ts @ drop (Suc i) ts) h"

inductive pool_run ::
  "('w heap, 'y, 'a) coroutine list \<Rightarrow> 'w heap \<Rightarrow> suspension list
     \<Rightarrow> ('w heap, 'y, 'a) coroutine list \<Rightarrow> 'w heap \<Rightarrow> bool" where
  pool_done: "pool_run ts h [] ts h"
| pool_more: "pool_step ts h qs ts' h' \<Longrightarrow> pool_run ts' h' qs' ts'' h'' \<Longrightarrow>
    pool_run ts h (qs @ qs') ts'' h''"

subsection \<open>What a pool keeps\<close>

text \<open>
  A contract of single tasks is one of the pool: \<open>ready\<close> holds of suspended tasks, \<open>moves\<close> relates the
  states before and after a task has run, and what it then awaits.
\<close>

locale pool_contract =
  fixes ready :: "('w heap, 'y, 'a) coroutine \<Rightarrow> bool"
    and moves :: "'w heap \<Rightarrow> suspension list \<Rightarrow> 'w heap \<Rightarrow> bool"
  assumes resumed: "ready t \<Longrightarrow> resumes t h t0 h0 \<Longrightarrow> segment t0 h0 u h' \<Longrightarrow>
      ready u \<and> moves h (awaited_by u) h'"
    and still: "moves h [] h"
    and chain: "moves h qs h' \<Longrightarrow> moves h' rs h'' \<Longrightarrow> moves h (qs @ rs) h''"
begin

lemma step:
  assumes "pool_step ts h qs ts' h'" "list_all ready ts"
  shows "list_all ready ts' \<and> moves h qs h'"
  using assms(1)
proof cases
  case (ran i t0 h0 t)
  with assms(2) have "ready (ts ! i)" by (simp add: list_all_length)
  from resumed [OF this ran(4,5)] have "ready t" "moves h qs h'" using ran by auto
  with assms(2) ran(2) show ?thesis
    by (auto simp: list_all_iff dest: set_update_subset_insert [THEN subsetD])
next
  case (cancelled i)
  with assms(2) still show ?thesis by (auto simp: list_all_iff dest: in_set_takeD in_set_dropD)
qed

lemma run: "pool_run ts h qs ts' h' \<Longrightarrow> list_all ready ts \<Longrightarrow> list_all ready ts' \<and> moves h qs h'"
proof (induction rule: pool_run.induct)
  case (pool_more ts h qs ts' h' qs' ts'' h'')
  from step [OF pool_more(1,4)] have "list_all ready ts'" "moves h qs h'" by auto
  with pool_more(3) chain show ?case by blast
qed (simp add: still)

end

text \<open>Orderly tasks keep the client in order.\<close>

definition waiting_orderly :: "('w heap, 'y, 'a) coroutine \<Rightarrow> bool" where
  "waiting_orderly t \<longleftrightarrow> (\<forall>h t0 h0. resumes t h t0 h0 \<longrightarrow> orderly h0 t0)"

definition moves_orderly :: "'w heap \<Rightarrow> suspension list \<Rightarrow> 'w heap \<Rightarrow> bool" where
  "moves_orderly h qs h' \<longleftrightarrow>
     client_forward (heap_client h) (heap_client h') \<and> (closed (heap_client h) \<longrightarrow> \<not> list_ex sends qs)"

lemma always_waiting: "always_orderly t \<Longrightarrow> waiting_orderly t"
  by (auto simp: waiting_orderly_def always_orderly_def elim!: resumes.cases)

lemma segment_orderly:
  "segment t h t' h' \<Longrightarrow> orderly h t \<Longrightarrow>
     waiting_orderly t' \<and> client_forward (heap_client h) (heap_client h')
     \<and> (\<forall>q \<in> set (awaited_by t'). sends q \<longrightarrow> \<not> closed (heap_client h'))"
proof (induction rule: segment.induct)
  case (act g h t' h')
  then show ?case by (auto intro: client_forward_trans)
qed (auto simp: waiting_orderly_def elim!: resumes_AwaitE resumes_YieldE resumes_FinishE)

lemma resumes_forward: "resumes t h t0 h0 \<Longrightarrow> client_forward (heap_client h) (heap_client h0)"
  by (auto elim!: resumes.cases)

lemma resumed_orderly:
  assumes "waiting_orderly t" "resumes t h t0 h0" "segment t0 h0 u h'"
  shows "waiting_orderly u" "moves_orderly h (awaited_by u) h'"
proof -
  from assms(1,2) have "orderly h0 t0" by (auto simp: waiting_orderly_def)
  from segment_orderly [OF assms(3) this] client_forward_trans [OF resumes_forward [OF assms(2)]]
  show "waiting_orderly u" "moves_orderly h (awaited_by u) h'"
    by (auto simp: moves_orderly_def client_forward_def list_ex_iff)
qed

lemma moves_orderly_trans:
  "moves_orderly h qs h' \<Longrightarrow> moves_orderly h' rs h'' \<Longrightarrow> moves_orderly h (qs @ rs) h''"
  using client_forward_trans by (auto simp: moves_orderly_def client_forward_def)

interpretation order: pool_contract waiting_orderly moves_orderly
  by unfold_locales
    (auto simp: moves_orderly_def [of h "[]" h for h] intro: resumed_orderly moves_orderly_trans)

subsection \<open>Programs\<close>

text \<open>The operations a task can make on a client, its project, the jobs and the cursors of the heap.\<close>

datatype client_op =
    Op_Liveness | Op_Status | Op_Capabilities | Op_Job string | Op_Shutdown string
  | Op_Wait_Ready rat rat | Op_Enter | Op_Close

datatype project_op =
    Op_Snapshot | Op_Settings | Op_Pending_Edits | Op_Save "string option" preconditions
  | Op_Reload bool preconditions | Op_Update_Settings "string option" preconditions
  | Op_Export_Mappings string preconditions | Op_Import_Mappings string preconditions
  | Op_Apply_Edits "edit_operation list" preconditions
  | Op_Rename target string bool preconditions | Op_Set_Comment target string preconditions
  | Op_Rename_Parameter symbol_ref int string string preconditions | Op_Resolve_Object symbol_ref

datatype query_op =
    Op_Decompile target string bool "string unset" bool bool
  | Op_Control_Flow target bool preconditions | Op_References target reference_options
  | Op_Search string search_options | Op_Build_Search_Index "search_build_request option"
  | Op_Class_Pages class_query "int option" | Op_Classes class_query "int option"
  | Op_Reference_Pages reference_query | Op_Search_Iter nat

datatype job_op =
    Op_Refresh nat | Op_Cancel nat | Op_Wait "rat option" rat nat
  | Op_Poll_Updates "rat option" rat nat | Op_Events "string option" nat

datatype async_op = Client_Op client_op | Project_Op project_op | Query_Op query_op | Job_Op job_op

text \<open>What the task makes of the result and of what is yielded is its own; each element is a suspension.\<close>

definition consumed :: "('w heap, 'y, 'a) coroutine \<Rightarrow> ('w heap, unit, unit) coroutine" where
  "consumed m = cemit (\<lambda>_. [()]) [] (cbind m (\<lambda>_. Finish ()))"

primrec run_client_op :: "'w env \<Rightarrow> client_op \<Rightarrow> ('w heap, unit, unit) coroutine" where
  "run_client_op env Op_Liveness = consumed (async_liveness env :: ('w, unit, liveness) task)"
| "run_client_op env Op_Status = consumed (async_status env :: ('w, unit, service_status) task)"
| "run_client_op env Op_Capabilities = consumed (async_capabilities env :: ('w, unit, capabilities) task)"
| "run_client_op env (Op_Job j) = consumed (async_job env j :: ('w, unit, nat) task)"
| "run_client_op env (Op_Shutdown p) = consumed (async_shutdown env p :: ('w, unit, shutdown_accepted) task)"
| "run_client_op env (Op_Wait_Ready t i) = consumed (async_wait_ready env t i :: ('w, unit, service_status) task)"
| "run_client_op env Op_Enter = consumed (async_enter :: ('w, unit, unit) task)"
| "run_client_op env Op_Close = consumed (async_close :: ('w, unit, unit) task)"

primrec run_project_op :: "'w env \<Rightarrow> project_op \<Rightarrow> ('w heap, unit, unit) coroutine" where
  "run_project_op env Op_Snapshot = consumed (async_snapshot env :: ('w, unit, fixed_project) task)"
| "run_project_op env Op_Settings = consumed (async_settings env :: ('w, unit, project_settings) task)"
| "run_project_op env Op_Pending_Edits = consumed (async_pending_edits env :: ('w, unit, pending_edits_result) task)"
| "run_project_op env (Op_Save f p) = consumed (async_save env f p :: ('w, unit, fixed_project) task)"
| "run_project_op env (Op_Reload d p) = consumed (async_reload env d p :: ('w, unit, fixed_project) task)"
| "run_project_op env (Op_Update_Settings f p) = consumed (async_update_settings env f p :: ('w, unit, project_settings) task)"
| "run_project_op env (Op_Export_Mappings f p) =
     consumed (async_export_mappings env f p :: ('w, unit, mapping_export_receipt) task)"
| "run_project_op env (Op_Import_Mappings f p) =
     consumed (async_import_mappings env f p :: ('w, unit, mapping_import_receipt) task)"
| "run_project_op env (Op_Apply_Edits es p) = consumed (async_apply_edits env es p :: ('w, unit, edit_batch_result) task)"
| "run_project_op env (Op_Rename t n r p) = consumed (async_rename env t n r p :: ('w, unit, edit_batch_result) task)"
| "run_project_op env (Op_Set_Comment t c p) = consumed (async_set_comment env t c p :: ('w, unit, edit_batch_result) task)"
| "run_project_op env (Op_Rename_Parameter m i n s p) =
     consumed (async_rename_parameter env m i n s p :: ('w, unit, edit_batch_result) task)"
| "run_project_op env (Op_Resolve_Object r) = consumed (async_resolve_object env r :: ('w, unit, resolved) task)"

primrec run_query_op :: "'w env \<Rightarrow> query_op \<Rightarrow> ('w heap, unit, unit) coroutine" where
  "run_query_op env (Op_Decompile t k s m an dl) =
     consumed (async_decompile env t k s m an dl :: ('w, unit, source_result) task)"
| "run_query_op env (Op_Control_Flow t s p) = consumed (async_control_flow env t s p :: ('w, unit, control_flow_result) task)"
| "run_query_op env (Op_References t ro) = consumed (async_references env t ro :: ('w, unit, reference_page) task)"
| "run_query_op env (Op_Search q so) = consumed (async_search env q so :: ('w, unit, async_found) task)"
| "run_query_op env (Op_Build_Search_Index r) = consumed (async_build_search_index env r :: ('w, unit, async_index) task)"
| "run_query_op env (Op_Class_Pages q m) = consumed (async_class_pages env q m)"
| "run_query_op env (Op_Classes q m) = consumed (async_classes env q m)"
| "run_query_op env (Op_Reference_Pages q) = consumed (async_reference_pages env q)"
| "run_query_op env (Op_Search_Iter a) = consumed (async_search_iter env a)"

primrec run_job_op :: "'w env \<Rightarrow> job_op \<Rightarrow> ('w heap, unit, unit) coroutine" where
  "run_job_op env (Op_Refresh a) = consumed (async_refresh env a :: ('w, unit, job) task)"
| "run_job_op env (Op_Cancel a) = consumed (async_cancel env a :: ('w, unit, job) task)"
| "run_job_op env (Op_Wait t i a) = consumed (async_wait env t i a :: ('w, unit, job) task)"
| "run_job_op env (Op_Poll_Updates t i a) = consumed (async_poll_updates env t i a)"
| "run_job_op env (Op_Events l a) = consumed (async_events env l a)"

primrec run_op :: "'w env \<Rightarrow> async_op \<Rightarrow> ('w heap, unit, unit) coroutine" where
  "run_op env (Client_Op x) = run_client_op env x"
| "run_op env (Project_Op x) = run_project_op env x"
| "run_op env (Query_Op x) = run_query_op env x"
| "run_op env (Job_Op x) = run_job_op env x"

text \<open>A program makes an operation, looks at the state, and goes on as it likes.\<close>

datatype 'w program = Stop | Make async_op "'w heap \<Rightarrow> 'w program"

primrec run_program :: "'w env \<Rightarrow> 'w program \<Rightarrow> ('w heap, unit, unit) coroutine" where
  "run_program env Stop = Finish ()"
| "run_program env (Make op rest) =
     cbind (run_op env op) (\<lambda>_. Act (\<lambda>h. (run_program env (rest h), h)))"

lemma order_consumed [order_rules]: "always_orderly m \<Longrightarrow> always_orderly (consumed m)"
  unfolding consumed_def by (intro order_rules)

lemma order_op: "always_orderly (run_op env op)"
proof (cases op)
  case (Client_Op x)
  show ?thesis unfolding Client_Op run_op.simps
    by (cases x; simp only: run_client_op.simps; intro order_consumed order_client order_wait_ready)
next
  case (Project_Op x)
  show ?thesis unfolding Project_Op run_op.simps
    by (cases x; simp only: run_project_op.simps; intro order_consumed order_project)
next
  case (Query_Op x)
  show ?thesis unfolding Query_Op run_op.simps
    by (cases x; simp only: run_query_op.simps;
      intro order_consumed order_project order_search order_pages order_search_iter)
next
  case (Job_Op x)
  show ?thesis unfolding Job_Op run_op.simps
    by (cases x; simp only: run_job_op.simps; intro order_consumed order_job_calls order_job_loops order_events)
qed

lemma order_program: "always_orderly (run_program env program)"
proof (induction program)
  case (Make op rest)
  then show ?case by (auto intro!: order_bind order_op) (auto simp: always_orderly_def)
qed (simp add: order_finish)

lemma programs_waiting: "list_all waiting_orderly (map (run_program env) programs)"
  by (simp add: list_all_iff always_waiting [OF order_program])

end
