(* ===== verification/Sdk_Progress.thy ===== *)
theory Sdk_Progress
  imports Sdk_Tasks
begin

text \<open>
  No task holds up the event loop: between two suspensions the code of the SDK always comes to the
  next one, or to its end, whatever it was answered.
\<close>

subsection \<open>Segments\<close>

inductive_simps segment_simps [simp]:
  "segment (Finish a) h t h'" "segment (Await q k) h t h'" "segment (Yield y u) h t h'" "segment (Act g) h t h'"

lemma segment_unique: "segment t h u h1 \<Longrightarrow> segment t h v h2 \<Longrightarrow> v = u \<and> h2 = h1"
  by (induction rule: segment.induct) auto

lemma segment_not_act: "segment t h (Act g) h' \<Longrightarrow> False"
  by (induction t h "Act g :: ('a heap, 'b, 'c) coroutine" h' rule: segment.induct) auto

text \<open>A coroutine comes to a suspension, or its end, of which \<open>P\<close> holds.\<close>

definition reaches :: "('w heap, 'y, 'a) coroutine \<Rightarrow> 'w heap \<Rightarrow> (('w heap, 'y, 'a) coroutine \<Rightarrow> bool) \<Rightarrow> bool" where
  "reaches t h P \<longleftrightarrow> (\<exists>u h'. segment t h u h' \<and> P u)"

lemma reaches_mono [mono]: "(\<And>u. P u \<longrightarrow> Q u) \<Longrightarrow> reaches t h P \<longrightarrow> reaches t h Q"
  by (auto simp: reaches_def)

lemma reaches_simps [simp]:
  "reaches (Finish a) h P = P (Finish a)" "reaches (Await q k) h P = P (Await q k)"
  "reaches (Yield y t) h P = P (Yield y t)" "reaches (Act g) h P = reaches (fst (g h)) (snd (g h)) P"
  by (simp_all add: reaches_def)

lemma reaches_cbind:
  assumes "reaches m h Q" "\<And>a h'. Q (Finish a) \<Longrightarrow> reaches (f a) h' P"
    and "\<And>q k. Q (Await q k) \<Longrightarrow> P (Await q (\<lambda>a. cbind (k a) f))"
    and "\<And>y t. Q (Yield y t) \<Longrightarrow> P (Yield y (cbind t f))"
  shows "reaches (cbind m f) h P"
proof -
  from assms(1) obtain u h' where "segment m h u h'" "Q u" by (auto simp: reaches_def)
  then show ?thesis
    by (induction rule: segment.induct) (simp_all add: assms)
qed

lemma reaches_cloop:
  assumes "reaches m h Q" "\<And>x h'. Q (Finish (Inl x)) \<Longrightarrow> reaches (cwhile body x) h' P"
    and "\<And>a. Q (Finish (Inr a)) \<Longrightarrow> P (Finish a)"
    and "\<And>q k. Q (Await q k) \<Longrightarrow> P (Await q (\<lambda>a. cloop body (k a)))"
    and "\<And>y t. Q (Yield y t) \<Longrightarrow> P (Yield y (cloop body t))"
  shows "reaches (cloop body m) h P"
proof -
  from assms(1) obtain u h' where "segment m h u h'" "Q u" by (auto simp: reaches_def)
  then show ?thesis
  proof (induction rule: segment.induct)
    case (at_end r h)
    then show ?case by (cases r) (simp_all add: assms)
  qed (simp_all add: assms)
qed

lemma reaches_cemit:
  assumes "reaches m h Q" "\<And>y t h'. Q (Yield y t) \<Longrightarrow> reaches (cemit f (f y) t) h' P"
    and "\<And>a. Q (Finish a) \<Longrightarrow> P (Finish a)"
    and "\<And>q k. Q (Await q k) \<Longrightarrow> P (Await q (\<lambda>a. cemit f [] (k a)))"
  shows "reaches (cemit f [] m) h P"
proof -
  from assms(1) obtain u h' where "segment m h u h'" "Q u" by (auto simp: reaches_def)
  then show ?thesis
    by (induction rule: segment.induct) (simp_all add: assms)
qed

subsection \<open>Responsive coroutines\<close>

text \<open>
  Whether a coroutine may yield before it awaits anything. \<open>again\<close> is the phase right after an
  element was yielded: with \<open>Waits\<close> no two are yielded without awaiting something in between.
\<close>

datatype phase = Yields | Waits

coinductive pending :: "phase \<Rightarrow> phase \<Rightarrow> ('w heap, 'y, 'a) coroutine \<Rightarrow> bool" where
  over: "pending again now (Finish a)"
| waiting: "(\<And>a h. reaches (k a) h (pending again Yields)) \<Longrightarrow> pending again now (Await q k)"
| yielding: "now = Yields \<Longrightarrow> (\<And>h. reaches t h (pending again again)) \<Longrightarrow> pending again now (Yield y t)"

inductive_simps pending_simps [simp]:
  "pending again now (Finish a)" "pending again now (Await q k)" "pending again now (Yield y t)"
  "pending again now (Act g)"

definition responsive :: "phase \<Rightarrow> phase \<Rightarrow> ('w heap, 'y, 'a) coroutine \<Rightarrow> bool" where
  "responsive again now t \<longleftrightarrow> (\<forall>h. reaches t h (pending again now))"

definition later :: "phase \<Rightarrow> phase \<Rightarrow> bool" where
  "later now now' \<longleftrightarrow> (now = Yields \<longrightarrow> now' = Yields)"

lemma reaches_weaken: "reaches t h P \<Longrightarrow> (\<And>u. P u \<Longrightarrow> Q u) \<Longrightarrow> reaches t h Q"
  by (auto simp: reaches_def)

lemma pending_mono: "pending again now t \<Longrightarrow> later now now' \<Longrightarrow> pending again now' t"
  by (cases t) (auto simp: later_def)

lemma responsive_mono: "responsive again now t \<Longrightarrow> later now now' \<Longrightarrow> responsive again now' t"
  unfolding responsive_def using reaches_weaken pending_mono by metis

lemma responsiveD: "responsive again now t \<Longrightarrow> later now now' \<Longrightarrow> reaches t h (\<lambda>u. X u \<or> pending again now' u)"
  by (rule reaches_weaken [where P = "pending again now"]) (auto simp: responsive_def intro: pending_mono)

lemma later_simps [simp]: "later now now" "later now Yields" "later Waits now"
  by (simp_all add: later_def)

lemma pending_cbind:
  "pending again now m \<Longrightarrow> (\<And>a. responsive again again (f a)) \<Longrightarrow> \<forall>a. m \<noteq> Finish a \<Longrightarrow>
     pending again now (cbind m f)"
proof (coinduction arbitrary: now m)
  case pending
  from pending(2) have f: "\<And>a. responsive again again (f a)" by blast
  show ?case
  proof (cases m)
    case (Await q k)
    with pending(1) have "\<And>a h. reaches (k a) h (pending again Yields)" by simp
    then have "reaches (cbind (k a) f) h (\<lambda>u. (\<exists>m. u = cbind m f \<and> pending again Yields m
        \<and> (\<forall>a. m \<noteq> Finish a)) \<or> pending again Yields u)" for a h
      by (rule reaches_cbind) (auto intro: responsiveD [OF f] exI [of _ "Await _ _"] exI [of _ "Yield _ _"])
    with Await f show ?thesis by simp
  next
    case (Yield y t)
    with pending(1) have "\<And>h. reaches t h (pending again again)" by simp
    then have "reaches (cbind t f) h (\<lambda>u. (\<exists>m. u = cbind m f \<and> pending again again m
        \<and> (\<forall>a. m \<noteq> Finish a)) \<or> pending again again u)" for h
      by (rule reaches_cbind) (auto intro: responsiveD [OF f] exI [of _ "Await _ _"] exI [of _ "Yield _ _"])
    with Yield f pending(1) show ?thesis by simp
  qed (use pending in auto)
qed

named_theorems progress_rules \<open>responsive coroutines\<close>

lemma responsive_cbind [progress_rules]:
  assumes "responsive again now m" "\<And>a. responsive again again (f a)" "later again now"
  shows "responsive again now (cbind m f)"
  unfolding responsive_def
proof
  fix h
  from assms(1) have "reaches m h (pending again now)" by (simp add: responsive_def)
  then show "reaches (cbind m f) h (pending again now)"
  proof (rule reaches_cbind)
    show "reaches (f a) h' (pending again now)" for a h'
      using responsiveD [OF assms(2,3), where X = "\<lambda>_. False"] by simp
    show "pending again now (Await q (\<lambda>a. cbind (k a) f))" if "pending again now (Await q k)" for q k
      using pending_cbind [OF that assms(2)] by (simp del: pending_simps)
    show "pending again now (Yield y (cbind t f))" if "pending again now (Yield y t)" for y t
      using pending_cbind [OF that assms(2)] by (simp del: pending_simps)
  qed
qed

text \<open>A loop is responsive if every round is, and awaits or yields before the next begins.\<close>

lemma reaches_both: "reaches t h P \<Longrightarrow> reaches t h Q \<Longrightarrow> reaches t h (\<lambda>u. P u \<and> Q u)"
  unfolding reaches_def using segment_unique by blast

definition suspends :: "('x \<Rightarrow> ('w heap, 'y, 'x + 'a) coroutine) \<Rightarrow> bool" where
  "suspends body \<longleftrightarrow> (\<forall>x h. reaches (body x) h (\<lambda>u. \<forall>y. u \<noteq> Finish (Inl y)))"

lemma pending_cloop:
  "pending again now m \<Longrightarrow> (\<And>x. responsive again again (body x)) \<Longrightarrow> suspends body \<Longrightarrow> \<forall>r. m \<noteq> Finish r \<Longrightarrow>
     pending again now (cloop body m)"
proof (coinduction arbitrary: now m)
  case pending
  define X where "X now u \<longleftrightarrow> (\<exists>m. u = cloop body m \<and> pending again now m \<and> (\<forall>r. m \<noteq> Finish r))
      \<or> pending again now u" for now u
  have X: "pending again now (Await q k) \<Longrightarrow> X now (Await q (\<lambda>a. cloop body (k a)))"
    "pending again now (Yield y t) \<Longrightarrow> X now (Yield y (cloop body t))" for now q k y t
    unfolding X_def by (rule disjI1, rule exI [of _ "Await q k"], simp)
      (rule disjI1, rule exI [of _ "Yield y t"], simp)
  have body: "reaches (cwhile body x) h (X now)" if "later again now" for x h now
  proof -
    have "reaches (body x) h (\<lambda>u. pending again again u \<and> (\<forall>y. u \<noteq> Finish (Inl y)))"
      using pending(2,3) by (auto simp: responsive_def suspends_def intro!: reaches_both)
    then show ?thesis
      unfolding cwhile_def
    proof (rule reaches_cloop)
      show "X now (Await q (\<lambda>a. cloop body (k a)))"
        if "pending again again (Await q k) \<and> (\<forall>y. Await q k \<noteq> Finish (Inl y))" for q k
        using that X(1) pending_mono [OF _ \<open>later again now\<close>] by blast
      show "X now (Yield y (cloop body t))"
        if "pending again again (Yield y t) \<and> (\<forall>z. Yield y t \<noteq> Finish (Inl z))" for y t
        using that X(2) pending_mono [OF _ \<open>later again now\<close>] by blast
    qed (auto simp: X_def)
  qed
  have after: "reaches (cloop body t) h (X now)" if "reaches t h (pending again now)" "later again now" for t h now
    using that(1) by (rule reaches_cloop) (fact body [OF that(2)] | rule X, assumption | simp add: X_def)+
  show ?case
  proof (cases m)
    case (Await q k)
    with pending after [where now = Yields] show ?thesis by (auto simp: X_def [abs_def])
  next
    case (Yield y t)
    with pending after [where now = again] show ?thesis by (auto simp: X_def [abs_def])
  qed (use pending in auto)
qed

lemma responsive_while [progress_rules]:
  assumes "\<And>x. responsive again again (body x)" "suspends body"
  shows "responsive again again (cwhile body x)"
  unfolding responsive_def
proof
  fix h
  have "reaches (body x) h (\<lambda>u. pending again again u \<and> (\<forall>y. u \<noteq> Finish (Inl y)))"
    using assms by (auto simp: responsive_def suspends_def intro!: reaches_both)
  then show "reaches (cwhile body x) h (pending again again)"
    unfolding cwhile_def
  proof (rule reaches_cloop)
    show "pending again again (Await q (\<lambda>a. cloop body (k a)))"
      if "pending again again (Await q k) \<and> (\<forall>y. Await q k \<noteq> Finish (Inl y))" for q k
      using pending_cloop [OF that [THEN conjunct1] assms] by (simp del: pending_simps)
    show "pending again again (Yield y (cloop body t))"
      if "pending again again (Yield y t) \<and> (\<forall>z. Yield y t \<noteq> Finish (Inl z))" for y t
      using pending_cloop [OF that [THEN conjunct1] assms] by (simp del: pending_simps)
  qed auto
qed

text \<open>Yielding on: pages that are awaited may be empty; or each element is yielded on as one.\<close>

lemma emit_step:
  fixes f :: "'y \<Rightarrow> 'z list"
  assumes "again = Waits \<or> (\<forall>y. f y \<noteq> [])"
    and X: "\<And>q k. pending again Yields (Await q k) \<Longrightarrow> X (cemit f [] (Await q k))"
      "\<And>a. X (Finish a)" "\<And>z zs t. responsive again again t \<Longrightarrow> X (Yield z (cemit f zs t))"
  shows "responsive again again t \<Longrightarrow> zs \<noteq> [] \<or> again = Waits \<Longrightarrow> reaches (cemit f zs t) h X"
    and "reaches t h (pending again Yields) \<Longrightarrow> reaches (cemit f [] t) h X"
proof -
  have buffer: "reaches (cemit f zs t) h X" if t: "responsive again again t" and zs: "zs \<noteq> [] \<or> again = Waits"
    for zs t h
  proof (cases zs)
    case (Cons z zs')
    with X(3) [OF t] show ?thesis by simp
  next
    case Nil
    with zs have "again = Waits" by simp
    from t have "reaches t h (pending again again)" by (simp add: responsive_def)
    then show ?thesis unfolding Nil
    proof (rule reaches_cemit)
      show "X (Await q (\<lambda>a. cemit f [] (k a)))" if "pending again again (Await q k)" for q k
        using X(1) [of q k] that by simp
    qed (use \<open>again = Waits\<close> X(2) in auto)
  qed
  show "responsive again again t \<Longrightarrow> zs \<noteq> [] \<or> again = Waits \<Longrightarrow> reaches (cemit f zs t) h X"
    by (rule buffer)
  assume "reaches t h (pending again Yields)"
  then show "reaches (cemit f [] t) h X"
  proof (rule reaches_cemit)
    show "reaches (cemit f (f y) v) h' X" if "pending again Yields (Yield y v)" for y v h'
      by (rule buffer) (use that assms(1) in \<open>auto simp: responsive_def\<close>)
    show "X (Await q (\<lambda>a. cemit f [] (k a)))" if "pending again Yields (Await q k)" for q k
      using X(1) [OF that] by simp
  qed (rule X(2))
qed

definition emitting :: "phase \<Rightarrow> ('y \<Rightarrow> 'z list) \<Rightarrow> ('w heap, 'z, 'a) coroutine \<Rightarrow> bool" where
  "emitting again f u \<longleftrightarrow>
     (\<exists>q (k :: answer \<Rightarrow> ('w heap, 'y, 'a) coroutine). u = cemit f [] (Await q k) \<and> pending again Yields (Await q k))
     \<or> (\<exists>z zs (t :: ('w heap, 'y, 'a) coroutine). u = Yield z (cemit f zs t) \<and> responsive again again t)"

lemma pending_cemit:
  fixes u :: "('w heap, 'z, 'a) coroutine"
  assumes f: "again = Waits \<or> (\<forall>y. f y \<noteq> [])"
  shows "emitting again f u \<Longrightarrow> pending Yields Yields u"
proof (coinduction arbitrary: u)
  case pending
  define X where "X u \<longleftrightarrow> emitting again f u \<or> pending Yields Yields u" for u :: "('w heap, 'z, 'a) coroutine"
  have X: "\<And>q k. pending again Yields (Await q k) \<Longrightarrow> X (cemit f [] (Await q k))"
      "\<And>a. X (Finish a)" "\<And>z zs t. responsive again again t \<Longrightarrow> X (Yield z (cemit f zs t))"
    unfolding X_def emitting_def by (blast, simp, blast)
  note step = emit_step [where X = X, OF f X]
  from pending [unfolded emitting_def] show ?case
  proof (elim disjE exE conjE)
    fix q k
    assume u: "u = cemit f [] (Await q k)" "pending again Yields (Await q k)"
    then have "\<forall>a h. reaches (cemit f [] (k a)) h X" by (auto intro: step(2))
    with u(1) show ?thesis by (simp add: X_def [abs_def])
  next
    fix z zs t
    assume u: "u = Yield z (cemit f zs t)" "responsive again again t"
    have "reaches (cemit f zs t) h X" for h
    proof (cases "zs \<noteq> [] \<or> again = Waits")
      case True
      with step(1) u(2) show ?thesis by blast
    next
      case False
      with u(2) have "reaches t h (pending again Yields)"
        by (cases again) (simp_all add: responsive_def)
      with step(2) False show ?thesis by simp
    qed
    then have "\<forall>h. reaches (cemit f zs t) h X" ..
    with u(1) show ?thesis by (simp add: X_def [abs_def])
  qed
qed

lemma responsive_emit:
  assumes "again = Waits \<or> (\<forall>y. f y \<noteq> [])" "responsive again Yields m"
  shows "responsive Yields Yields (cemit f [] m)"
  unfolding responsive_def
proof
  fix h
  from assms(2) have "reaches m h (pending again Yields)" by (simp add: responsive_def)
  then show "reaches (cemit f [] m) h (pending Yields Yields)"
  proof (rule emit_step(2) [OF assms(1), rotated -1])
    show "pending Yields Yields (cemit f [] (Await q k))" if "pending again Yields (Await q k)" for q k
      by (rule pending_cemit [OF assms(1)]) (use that in \<open>unfold emitting_def; blast\<close>)
    show "pending Yields Yields (Yield z (cemit f zs t))" if "responsive again again t" for z zs t
      by (rule pending_cemit [OF assms(1)]) (use that in \<open>unfold emitting_def; blast\<close>)
  qed simp
qed

subsection \<open>Every operation is responsive\<close>

abbreviation prompt :: "('w heap, 'y, 'a) coroutine \<Rightarrow> bool" where
  "prompt \<equiv> responsive Yields Yields"

lemma prompt_bind [progress_rules]: "prompt m \<Longrightarrow> (\<And>a. prompt (f a)) \<Longrightarrow> prompt (cbind m f)"
  by (simp add: responsive_cbind)

lemma prompt_simps [simp]:
  "prompt (Finish a)" "prompt (Await q k) \<longleftrightarrow> (\<forall>a. prompt (k a))" "prompt (Yield y t) \<longleftrightarrow> prompt t"
  by (auto simp: responsive_def)

lemma prompt_finish [progress_rules]: "prompt (Finish a)" "prompt (areturn x)" "prompt (araise e)" "prompt (alift v)"
  by (simp_all add: areturn_def araise_def alift_def)

lemma prompt_steps [progress_rules]: "prompt (cact f)" "prompt (on_client g)" "prompt (aplace put x)"
  by (simp_all add: responsive_def on_client_def aplace_def cact_def)

lemma prompt_abind [progress_rules]: "prompt m \<Longrightarrow> (\<And>x. prompt (f x)) \<Longrightarrow> prompt (abind m f)"
  unfolding abind_def by (intro prompt_bind) (auto split: sum.split)

lemma prompt_await [progress_rules]: "(\<And>a. prompt (k a)) \<Longrightarrow> prompt (Await q k)"
  by simp

lemma prompt_yield [progress_rules]: "prompt t \<Longrightarrow> prompt (Yield y t)" "prompt t \<Longrightarrow> prompt (cyields ys t)"
  by simp (induction ys; simp)

lemma prompt_cases [progress_rules]:
  "(\<And>e. prompt (f e)) \<Longrightarrow> (\<And>x. prompt (g x)) \<Longrightarrow> prompt (case r of Inl e \<Rightarrow> f e | Inr x \<Rightarrow> g x)"
  "prompt t \<Longrightarrow> (\<And>x. prompt (g x)) \<Longrightarrow> prompt (case v of None \<Rightarrow> t | Some x \<Rightarrow> g x)"
  "(\<And>x y. prompt (f2 x y)) \<Longrightarrow> prompt (case p of (x, y) \<Rightarrow> f2 x y)"
  "prompt t \<Longrightarrow> prompt t' \<Longrightarrow> prompt (if b then t else t')"
  by (simp_all split: sum.split option.split prod.split)

lemma prompt_invoke [progress_rules]: "prompt (async_invoke env (asyncio_detailed c) expect)"
  unfolding async_invoke_def asyncio_detailed_def by (intro progress_rules)

lemma prompt_client:
  "prompt (async_liveness env)" "prompt (async_status env)" "prompt (async_capabilities env)"
  "prompt (async_job env job_id)" "prompt (async_shutdown env policy)" "prompt async_close" "prompt async_enter"
  "prompt (async_pause env deadline interval)"
  unfolding async_liveness_def async_status_def async_capabilities_def async_job_def async_shutdown_def
    async_close_def async_enter_def async_pause_def asyncio_defs
  by (intro progress_rules)+

lemma prompt_project:
  "prompt (async_snapshot env)" "prompt (async_settings env)" "prompt (async_pending_edits env)"
  "prompt (async_save env path options)" "prompt (async_reload env discard options)"
  "prompt (async_update_settings env mappings options)" "prompt (async_export_mappings env file options)"
  "prompt (async_import_mappings env file options)" "prompt (async_apply_edits env items options)"
  "prompt (async_rename env t name related options)" "prompt (async_set_comment env t txt options)"
  "prompt (async_rename_parameter env ref i name snapshot options)" "prompt (async_resolve_object env ref)"
  "prompt (async_decompile env t kind strict mode an dl)" "prompt (async_control_flow env t strict options)"
  "prompt (async_references env t ro)"
  unfolding async_project_defs Let_def asyncio_defs by (intro progress_rules)+

lemma prompt_search: "prompt (async_search env query so)" "prompt (async_build_search_index env request)"
  unfolding async_search_def async_build_search_index_def asyncio_defs by (intro progress_rules)+

lemma prompt_job: "prompt (job_at a)" "prompt (async_refresh env a)" "prompt (async_cancel env a)"
  unfolding async_refresh_def async_cancel_def async_fetch_job_def job_at_def asyncio_defs
  by (intro progress_rules)+

lemma prompt_feed: "prompt (async_feed p cs)"
  by (induction cs arbitrary: p) (auto intro!: progress_rules split: sum.split)

lemma prompt_read_chunks: "prompt (async_read_chunks p cs stop)"
proof (induction cs arbitrary: p)
  case (Cons c cs)
  then show ?case unfolding async_read_chunks.simps by (intro progress_rules prompt_feed)
qed (simp add: araise_def)

lemma prompt_accepted: "prompt (async_accepted last_event_id a s)"
  unfolding async_accepted_def by (intro progress_rules prompt_job prompt_read_chunks)

lemma prompt_events: "prompt (async_events env last_event_id a)"
  unfolding async_events_def
  by (intro progress_rules prompt_job)
    (auto intro!: progress_rules prompt_accepted split: stream_outcome.split)

text \<open>The loops: a round sends a request before the next begins, if the client is open, and ends if not.\<close>

lemmas step_defs = on_client_def cact_def job_at_def advance_cursor_def abind_def araise_def alift_def

lemma invoke_reaches:
  "reaches (async_invoke env (asyncio_detailed c) expect) h P \<longleftrightarrow>
     (if closed (heap_client h) then P (Finish (Inl (Transport_Error ''Client is closed'')))
      else P (Await (Sending (call_request c))
        (\<lambda>a. on_client (settle env expect (answered_call c (responded a))))))"
  by (simp add: async_invoke_def asyncio_detailed_def step_defs)

lemma reaches_invoke_then:
  "(\<And>e. P (f (Inl e))) \<Longrightarrow> (\<And>q k. P (Await q k)) \<Longrightarrow> (\<And>e. \<exists>x. f (Inl e) = Finish x) \<Longrightarrow>
     reaches (cbind (async_invoke env (asyncio_detailed c) expect) f) h P"
proof -
  assume f: "\<And>e. P (f (Inl e))" "\<And>q k. P (Await q k)" "\<And>e. \<exists>x. f (Inl e) = Finish x"
  obtain x where "f (Inl (Transport_Error ''Client is closed'')) = Finish x" using f(3) by blast
  with f(1) [of "Transport_Error ''Client is closed''"] f(2) show ?thesis
    by (simp add: async_invoke_def asyncio_detailed_def step_defs)
qed

lemma rounds_suspend:
  "suspends (async_ready_round env deadline interval)" "suspends (async_reference_round env)"
  "suspends (async_poll_round env deadline interval a)"
  unfolding suspends_def
  by (auto simp: async_ready_round_def async_status_def async_reference_round.simps async_poll_round_def
      async_refresh_def async_fetch_job_def asyncio_defs job_at_def cact_def abind_def cbind_assoc
      intro!: reaches_invoke_then)

lemma wait_round_suspends: "suspends (async_wait_round env deadline interval a)"
  unfolding suspends_def
  by (auto simp: async_wait_round_def async_refresh_def async_fetch_job_def asyncio_defs job_at_def cact_def
      abind_def cbind_assoc intro!: reaches_invoke_then split: sum.split)

lemma reaches_cyields: "reaches t h P \<Longrightarrow> (\<And>y v. P (Yield y v)) \<Longrightarrow> reaches (cyields ys t) h P"
  by (induction ys) auto

lemma search_round_suspends: "suspends (async_search_round env a)"
  unfolding suspends_def
  by (auto simp: async_search_round_def advance_cursor_def cact_def asyncio_defs case_prod_unfold
      intro!: reaches_cyields reaches_invoke_then split: sum.split option.split)

text \<open>After a page was yielded, the next page is awaited before it is.\<close>

lemma reaches_on_client:
  "reaches (cbind (on_client g) f) h P =
     reaches (f (fst (g (heap_client h)))) (put_client (snd (g (heap_client h))) h) P"
  by (simp add: on_client_def cact_def case_prod_unfold)

lemma class_page_progress:
  "reaches (case class_advance m n seen page of
      Inl e \<Rightarrow> Finish (Inr (Inl e)) | Inr None \<Rightarrow> Finish (Inr (Inr ())) | Inr (Some c) \<Rightarrow> Finish (Inl (g c)))
    h (pending again again)"
  by (simp split: sum.split option.split)

lemma class_round_reaches:
  "reaches (async_class_round env q m (cursor, pages, seen)) h
      (\<lambda>u. (\<forall>y. u \<noteq> Finish (Inl y)) \<and> pending again again u)"
proof (cases "list_classes_name_domain_of (JStr (query_name_domain q))")
  case (Inl e)
  then show ?thesis
    by (simp add: async_class_round.simps async_fetch_classes_def abind_def alift_def)
next
  case (Inr d)
  show ?thesis
  proof (cases "closed (heap_client h)")
    case True
    with Inr show ?thesis
      by (simp add: async_class_round.simps async_fetch_classes_def abind_def alift_def async_invoke_def
          cbind_assoc reaches_on_client araise_def)
  next
    case False
    with Inr show ?thesis
      by (simp add: async_class_round.simps async_fetch_classes_def abind_def alift_def async_invoke_def
          cbind_assoc reaches_on_client asyncio_defs asyncio_detailed_def class_page_progress split: sum.split)
  qed
qed

lemma class_round_progress:
  "suspends (async_class_round env q m)" "responsive again again (async_class_round env q m x)"
proof -
  note round = class_round_reaches [THEN reaches_weaken]
  show "suspends (async_class_round env q m)"
    unfolding suspends_def by (intro allI, rename_tac x h, case_tac x) (auto intro: round)
  show "responsive again again (async_class_round env q m x)"
    unfolding responsive_def by (cases x) (auto intro: round)
qed

lemma prompt_while: "(\<And>x. prompt (body x)) \<Longrightarrow> suspends body \<Longrightarrow> prompt (cwhile body x)"
  by (rule responsive_while)

lemma prompt_wait_ready: "prompt (async_wait_ready env timeout interval)"
  unfolding async_wait_ready_def
  by (intro progress_rules prompt_while rounds_suspend)
    (unfold async_ready_round_def, intro progress_rules prompt_client)

lemma prompt_job_loops:
  "prompt (async_wait env timeout interval a)" "prompt (async_poll_updates env timeout interval a)"
  unfolding async_wait_def async_poll_updates_def
  by (intro progress_rules prompt_while rounds_suspend wait_round_suspends;
      unfold async_wait_round_def async_poll_round_def; intro progress_rules prompt_client prompt_job)+

lemma prompt_reference_pages: "prompt (async_reference_pages env q)"
proof -
  have "prompt (async_reference_round env x)" for x :: "reference_query \<times> json list"
    by (cases x; simp only: async_reference_round.simps asyncio_defs) (intro progress_rules)
  then show ?thesis
    unfolding async_reference_pages_def by (intro progress_rules prompt_while rounds_suspend)
qed

lemma prompt_search_iter: "prompt (async_search_iter env a)"
  unfolding async_search_iter_def
  by (intro progress_rules prompt_while search_round_suspends)
    (unfold async_search_round_def advance_cursor_def asyncio_defs, intro progress_rules)

lemma responsive_class_pages: "responsive again again (async_class_pages env q m)"
proof -
  have "responsive again again (cwhile (async_class_round env q m) x)" for x
    by (rule responsive_while [OF class_round_progress(2,1)])
  then show ?thesis
    unfolding async_class_pages_def by (simp add: araise_def responsive_def)
qed

lemma prompt_classes: "prompt (async_class_pages env q m)" "prompt (async_classes env q m)"
proof -
  show "prompt (async_class_pages env q m)" by (rule responsive_class_pages)
  show "prompt (async_classes env q m)"
    unfolding async_classes_def
    by (rule responsive_emit [where again = Waits]) (simp, rule responsive_mono [OF responsive_class_pages], simp)
qed

lemma prompt_consumed [progress_rules]: "prompt m \<Longrightarrow> prompt (consumed m)"
  unfolding consumed_def by (rule responsive_emit [where again = Yields]) (auto intro: progress_rules)

lemma prompt_op: "prompt (run_op env op)"
proof (cases op)
  case (Client_Op x)
  show ?thesis unfolding Client_Op run_op.simps
    by (cases x; simp only: run_client_op.simps; intro prompt_consumed prompt_client prompt_wait_ready)
next
  case (Project_Op x)
  show ?thesis unfolding Project_Op run_op.simps
    by (cases x; simp only: run_project_op.simps; intro prompt_consumed prompt_project)
next
  case (Query_Op x)
  show ?thesis unfolding Query_Op run_op.simps
    by (cases x; simp only: run_query_op.simps;
      intro prompt_consumed prompt_project prompt_search prompt_classes prompt_reference_pages prompt_search_iter)
next
  case (Job_Op x)
  show ?thesis unfolding Job_Op run_op.simps
    by (cases x; simp only: run_job_op.simps; intro prompt_consumed prompt_job prompt_job_loops prompt_events)
qed

lemma prompt_program: "prompt (run_program env program)"
proof (induction program)
  case (Make op rest)
  then show ?case
    unfolding run_program.simps by (intro prompt_bind prompt_op) (auto simp: responsive_def)
qed simp

subsection \<open>Pools\<close>

definition waiting_prompt :: "('w heap, 'y, 'a) coroutine \<Rightarrow> bool" where
  "waiting_prompt t \<longleftrightarrow> (\<forall>h t0 h0. resumes t h t0 h0 \<longrightarrow> prompt t0)"

lemma prompt_waiting: "prompt t \<Longrightarrow> waiting_prompt t"
  by (auto simp: waiting_prompt_def elim!: resumes.cases)

lemma pending_waiting: "pending Yields Yields u \<Longrightarrow> waiting_prompt u"
  by (cases u) (auto simp: waiting_prompt_def responsive_def
      elim!: resumes_FinishE resumes_AwaitE resumes_YieldE)

lemma segment_prompt: "segment t h u h' \<Longrightarrow> prompt t \<Longrightarrow> waiting_prompt u"
  unfolding responsive_def reaches_def using segment_unique pending_waiting by metis

interpretation progress: pool_contract waiting_prompt "\<lambda>_ _ _. True"
  by unfold_locales (auto simp: waiting_prompt_def intro: segment_prompt [unfolded waiting_prompt_def, rule_format])

lemma pool_progress:
  assumes "list_all waiting_prompt ts" "i < length ts" "resumes (ts ! i) h t0 h0"
  shows "\<exists>t h'. segment t0 h0 t h' \<and> pool_step ts h (awaited_by t) (ts[i := t]) h'"
proof -
  from assms have "prompt t0" by (auto simp: list_all_length waiting_prompt_def)
  then obtain t h' where "segment t0 h0 t h'" unfolding responsive_def reaches_def by meson
  with assms(2,3) show ?thesis by (blast intro: ran)
qed

lemma programs_prompt: "list_all waiting_prompt (map (run_program env) programs)"
  by (simp add: list_all_iff prompt_waiting [OF prompt_program])

end
