(* ===== verification/Schedules.thy ===== *)
theory Schedules
  imports Scenarios Sdk_Progress
begin

text \<open>
  A schedule of two tasks of one event loop: one asks for the status, the other closes the client
  while the first is waiting for the answer.
\<close>

definition sample_heap :: "script heap" where
  "sample_heap = \<lparr>heap_client = fresh, heap_jobs = (\<lambda>_. done_job),
     heap_cursors = (\<lambda>_. new_cursor first_query sample_hits), heap_next = 0\<rparr>"

definition sample_programs :: "script program list" where
  "sample_programs = [Make (Client_Op Op_Status) (\<lambda>_. Stop), Make (Client_Op Op_Close) (\<lambda>_. Stop)]"

abbreviation sample_tasks :: "(script heap, unit, unit) coroutine list" where
  "sample_tasks \<equiv> map (run_program (answering JNull)) sample_programs"

definition closed_heap :: "script heap" where
  "closed_heap = put_client (fresh\<lparr>closed := True\<rparr>) sample_heap"

lemma started_act: "is_Act t \<Longrightarrow> resumes t h t h"
  by (cases t) (auto intro: started)

lemma status_sent:
  "\<exists>k. pool_step sample_tasks sample_heap [Sending (call_request get_status_call)]
     [Await (Sending (call_request get_status_call)) k, sample_tasks ! 1] sample_heap"
proof -
  have act: "is_Act (sample_tasks ! 0)"
    by (simp add: sample_programs_def consumed_def async_status_def async_invoke_def asyncio_defs
        asyncio_detailed_def on_client_def cact_def)
  obtain k where seg: "segment (sample_tasks ! 0) sample_heap
      (Await (Sending (call_request get_status_call)) k) sample_heap"
    by (simp add: sample_programs_def consumed_def async_status_def async_invoke_def asyncio_defs
        asyncio_detailed_def on_client_def cact_def sample_heap_def fresh_def put_client_def)
  from ran [OF _ started_act [OF act] seg] show ?thesis by (auto simp: sample_programs_def)
qed

lemma client_closed:
  "\<exists>k. pool_step [t, sample_tasks ! 1] sample_heap [Closing] [t, Await Closing k] closed_heap"
proof -
  have act: "is_Act (sample_tasks ! 1)"
    by (simp add: sample_programs_def consumed_def async_close_def on_client_def cact_def)
  obtain k where seg: "segment (sample_tasks ! 1) sample_heap (Await Closing k) closed_heap"
    by (simp add: sample_programs_def consumed_def async_close_def on_client_def cact_def closed_heap_def
        sample_heap_def fresh_def put_client_def)
  from ran [of 1 "[t, sample_tasks ! 1]", OF _ _ seg] started_act [OF act, of sample_heap] show ?thesis by auto
qed

text \<open>The client is closed, and two tasks are suspended: the status has been asked for before.\<close>

lemma sample_schedule:
  "\<exists>k k'. pool_run sample_tasks sample_heap [Sending (call_request get_status_call), Closing]
     [Await (Sending (call_request get_status_call)) k, Await Closing k'] closed_heap"
proof -
  obtain k where k: "pool_step sample_tasks sample_heap [Sending (call_request get_status_call)]
     [Await (Sending (call_request get_status_call)) k, sample_tasks ! 1] sample_heap"
    using status_sent by blast
  obtain k' where k': "pool_step [Await (Sending (call_request get_status_call)) k, sample_tasks ! 1] sample_heap
     [Closing] [Await (Sending (call_request get_status_call)) k, Await Closing k'] closed_heap"
    using client_closed by blast
  from pool_more [OF k pool_more [OF k' pool_done]] show ?thesis by auto
qed

lemma sample_answer: "resumes (Await (Sending r) k) h (k (Responded out)) (on_world (\<lambda>_. w) h)"
  by (rule answered) simp

end
