(* ===== verification/Api_Parsed.thy ===== *)
theory Api_Parsed
  imports Sdk_Async
begin

text \<open>
  The rest of the modules of \<open>_generated/api\<close>, which the SDK does not call but a user of the generated
  package may: \<open>sync\<close> and \<open>asyncio\<close>, which keep only \<open>parsed\<close> of the response, and the operation
  \<open>get_job_events\<close>, which reads a whole stream of events as text.
\<close>

subsection \<open>get_job_events\<close>

definition get_job_events_kwargs :: "uuid \<Rightarrow> string unset \<Rightarrow> http_request" where
  "get_job_events_kwargs job_id last_event_id =
     \<lparr>req_method = ''get'', req_url = ''/jobs/'' @ url_quote (uuid_str job_id) @ ''/events'', req_params = None,
      req_json = None,
      req_headers = Some (case last_event_id of UNSET \<Rightarrow> [] | Given s \<Rightarrow> [(''Last-Event-ID'', s)])\<rparr>"

definition get_job_events_parse :: "string \<Rightarrow> int \<Rightarrow> py_exc + json \<Rightarrow> py_exc + parsed" where
  "get_job_events_parse txt status src =
     (if status = 200 then Inr (Parsed (Text_Body txt))
      else if status \<in> {400, 404, 409, 429} then reads_error src
      else Inr No_Body)"

text \<open>The call, given the text of the answer.\<close>

definition get_job_events_call :: "uuid \<Rightarrow> string unset \<Rightarrow> string \<Rightarrow> api_call" where
  "get_job_events_call job_id last_event_id txt =
     \<lparr>call_request = get_job_events_kwargs job_id last_event_id, call_parse = get_job_events_parse txt\<rparr>"

fun outcome_text :: "http_outcome \<Rightarrow> string" where
  "outcome_text (Answer r) = resp_text r"
| "outcome_text _ = []"

definition get_job_events_sync_detailed ::
  "'w env \<Rightarrow> uuid \<Rightarrow> string unset \<Rightarrow> 'w \<Rightarrow> call_result \<times> 'w" where
  "get_job_events_sync_detailed env job_id last_event_id w =
     (case env_send env (get_job_events_kwargs job_id last_event_id) w of (out, w') \<Rightarrow>
        (answered_call (get_job_events_call job_id last_event_id (outcome_text out)) out, w'))"

definition get_job_events_asyncio_detailed :: "uuid \<Rightarrow> string unset \<Rightarrow> ('s, 'y, call_result) coroutine" where
  "get_job_events_asyncio_detailed job_id last_event_id =
     Await (Sending (get_job_events_kwargs job_id last_event_id)) (\<lambda>a.
       Finish (answered_call (get_job_events_call job_id last_event_id (outcome_text (responded a))) (responded a)))"

subsection \<open>Only what was parsed\<close>

datatype call_failure = Failed_Timeout string | Failed_Http string | Failed_With py_exc

fun parsed_of :: "call_result \<Rightarrow> call_failure + parsed" where
  "parsed_of (Call_Returns r) = Inr (response_parsed r)"
| "parsed_of (Call_Timeout m) = Inl (Failed_Timeout m)"
| "parsed_of (Call_Http_Error m) = Inl (Failed_Http m)"
| "parsed_of (Call_Raises e) = Inl (Failed_With e)"

type_synonym 'w parsed_call = "'w \<Rightarrow> (call_failure + parsed) \<times> 'w"

definition sync_parsed :: "'w env \<Rightarrow> api_call \<Rightarrow> 'w parsed_call" where
  "sync_parsed env c w = map_prod parsed_of id (sync_detailed env c w)"

definition asyncio_parsed :: "('s, 'y, call_result) coroutine \<Rightarrow> ('s, 'y, call_failure + parsed) coroutine" where
  "asyncio_parsed t = cbind t (\<lambda>res. Finish (parsed_of res))"

definition get_job_events_sync :: "'w env \<Rightarrow> uuid \<Rightarrow> string unset \<Rightarrow> 'w parsed_call" where
  "get_job_events_sync env job_id last_event_id w =
     map_prod parsed_of id (get_job_events_sync_detailed env job_id last_event_id w)"

definition get_job_events_asyncio :: "uuid \<Rightarrow> string unset \<Rightarrow> ('s, 'y, call_failure + parsed) coroutine" where
  "get_job_events_asyncio job_id last_event_id =
     asyncio_parsed (get_job_events_asyncio_detailed job_id last_event_id)"

definition cancel_job_sync ::
  "'w env \<Rightarrow> uuid \<Rightarrow> 'w parsed_call" where
  "cancel_job_sync env job_id = sync_parsed env (cancel_job_call job_id)"

definition cancel_job_asyncio_only ::
  "uuid \<Rightarrow> ('s, 'y, call_failure + parsed) coroutine" where
  "cancel_job_asyncio_only job_id = asyncio_parsed (cancel_job_asyncio job_id)"

definition get_capabilities_sync ::
  "'w env \<Rightarrow> 'w parsed_call" where
  "get_capabilities_sync env = sync_parsed env get_capabilities_call"

definition get_capabilities_asyncio_only ::
  "('s, 'y, call_failure + parsed) coroutine" where
  "get_capabilities_asyncio_only = asyncio_parsed get_capabilities_asyncio"

definition get_job_sync ::
  "'w env \<Rightarrow> uuid \<Rightarrow> 'w parsed_call" where
  "get_job_sync env job_id = sync_parsed env (get_job_call job_id)"

definition get_job_asyncio_only ::
  "uuid \<Rightarrow> ('s, 'y, call_failure + parsed) coroutine" where
  "get_job_asyncio_only job_id = asyncio_parsed (get_job_asyncio job_id)"

definition get_liveness_sync ::
  "'w env \<Rightarrow> 'w parsed_call" where
  "get_liveness_sync env = sync_parsed env get_liveness_call"

definition get_liveness_asyncio_only ::
  "('s, 'y, call_failure + parsed) coroutine" where
  "get_liveness_asyncio_only = asyncio_parsed get_liveness_asyncio"

definition get_status_sync ::
  "'w env \<Rightarrow> 'w parsed_call" where
  "get_status_sync env = sync_parsed env get_status_call"

definition get_status_asyncio_only ::
  "('s, 'y, call_failure + parsed) coroutine" where
  "get_status_asyncio_only = asyncio_parsed get_status_asyncio"

definition shutdown_service_sync ::
  "'w env \<Rightarrow> shutdown_request unset \<Rightarrow> 'w parsed_call" where
  "shutdown_service_sync env body = sync_parsed env (shutdown_service_call body)"

definition shutdown_service_asyncio_only ::
  "shutdown_request unset \<Rightarrow> ('s, 'y, call_failure + parsed) coroutine" where
  "shutdown_service_asyncio_only body = asyncio_parsed (shutdown_service_asyncio body)"

definition apply_edit_batch_sync ::
  "'w env \<Rightarrow> edit_batch_request \<Rightarrow> 'w parsed_call" where
  "apply_edit_batch_sync env body = sync_parsed env (apply_edit_batch_call body)"

definition apply_edit_batch_asyncio_only ::
  "edit_batch_request \<Rightarrow> ('s, 'y, call_failure + parsed) coroutine" where
  "apply_edit_batch_asyncio_only body = asyncio_parsed (apply_edit_batch_asyncio body)"

definition export_mappings_sync ::
  "'w env \<Rightarrow> mapping_export_request \<Rightarrow> 'w parsed_call" where
  "export_mappings_sync env body = sync_parsed env (export_mappings_call body)"

definition export_mappings_asyncio_only ::
  "mapping_export_request \<Rightarrow> ('s, 'y, call_failure + parsed) coroutine" where
  "export_mappings_asyncio_only body = asyncio_parsed (export_mappings_asyncio body)"

definition export_pending_edits_sync ::
  "'w env \<Rightarrow> 'w parsed_call" where
  "export_pending_edits_sync env = sync_parsed env export_pending_edits_call"

definition export_pending_edits_asyncio_only ::
  "('s, 'y, call_failure + parsed) coroutine" where
  "export_pending_edits_asyncio_only = asyncio_parsed export_pending_edits_asyncio"

definition get_project_sync ::
  "'w env \<Rightarrow> 'w parsed_call" where
  "get_project_sync env = sync_parsed env get_project_call"

definition get_project_asyncio_only ::
  "('s, 'y, call_failure + parsed) coroutine" where
  "get_project_asyncio_only = asyncio_parsed get_project_asyncio"

definition get_project_settings_sync ::
  "'w env \<Rightarrow> 'w parsed_call" where
  "get_project_settings_sync env = sync_parsed env get_project_settings_call"

definition get_project_settings_asyncio_only ::
  "('s, 'y, call_failure + parsed) coroutine" where
  "get_project_settings_asyncio_only = asyncio_parsed get_project_settings_asyncio"

definition import_mappings_sync ::
  "'w env \<Rightarrow> mapping_import_request \<Rightarrow> 'w parsed_call" where
  "import_mappings_sync env body = sync_parsed env (import_mappings_call body)"

definition import_mappings_asyncio_only ::
  "mapping_import_request \<Rightarrow> ('s, 'y, call_failure + parsed) coroutine" where
  "import_mappings_asyncio_only body = asyncio_parsed (import_mappings_asyncio body)"

definition reload_project_sync ::
  "'w env \<Rightarrow> reload_project_request \<Rightarrow> 'w parsed_call" where
  "reload_project_sync env body = sync_parsed env (reload_project_call body)"

definition reload_project_asyncio_only ::
  "reload_project_request \<Rightarrow> ('s, 'y, call_failure + parsed) coroutine" where
  "reload_project_asyncio_only body = asyncio_parsed (reload_project_asyncio body)"

definition save_project_sync ::
  "'w env \<Rightarrow> save_project_request \<Rightarrow> 'w parsed_call" where
  "save_project_sync env body = sync_parsed env (save_project_call body)"

definition save_project_asyncio_only ::
  "save_project_request \<Rightarrow> ('s, 'y, call_failure + parsed) coroutine" where
  "save_project_asyncio_only body = asyncio_parsed (save_project_asyncio body)"

definition update_project_settings_sync ::
  "'w env \<Rightarrow> update_project_settings_request \<Rightarrow> 'w parsed_call" where
  "update_project_settings_sync env body = sync_parsed env (update_project_settings_call body)"

definition update_project_settings_asyncio_only ::
  "update_project_settings_request \<Rightarrow> ('s, 'y, call_failure + parsed) coroutine" where
  "update_project_settings_asyncio_only body = asyncio_parsed (update_project_settings_asyncio body)"

definition list_classes_sync ::
  "'w env \<Rightarrow> json \<Rightarrow> json unset \<Rightarrow> json unset \<Rightarrow> json unset \<Rightarrow> list_classes_name_domain unset \<Rightarrow> json \<Rightarrow> 'w parsed_call" where
  "list_classes_sync env page_size cursor package_prefix name_contains name_domain include_inner = sync_parsed env (list_classes_call page_size cursor package_prefix name_contains name_domain include_inner)"

definition list_classes_asyncio_only ::
  "json \<Rightarrow> json unset \<Rightarrow> json unset \<Rightarrow> json unset \<Rightarrow> list_classes_name_domain unset \<Rightarrow> json \<Rightarrow> ('s, 'y, call_failure + parsed) coroutine" where
  "list_classes_asyncio_only page_size cursor package_prefix name_contains name_domain include_inner = asyncio_parsed (list_classes_asyncio page_size cursor package_prefix name_contains name_domain include_inner)"

definition query_references_sync ::
  "'w env \<Rightarrow> reference_query \<Rightarrow> 'w parsed_call" where
  "query_references_sync env body = sync_parsed env (query_references_call body)"

definition query_references_asyncio_only ::
  "reference_query \<Rightarrow> ('s, 'y, call_failure + parsed) coroutine" where
  "query_references_asyncio_only body = asyncio_parsed (query_references_asyncio body)"

definition resolve_symbol_sync ::
  "'w env \<Rightarrow> symbol_resolve_request \<Rightarrow> 'w parsed_call" where
  "resolve_symbol_sync env body = sync_parsed env (resolve_symbol_call body)"

definition resolve_symbol_asyncio_only ::
  "symbol_resolve_request \<Rightarrow> ('s, 'y, call_failure + parsed) coroutine" where
  "resolve_symbol_asyncio_only body = asyncio_parsed (resolve_symbol_asyncio body)"

definition build_search_index_sync ::
  "'w env \<Rightarrow> search_build_request \<Rightarrow> 'w parsed_call" where
  "build_search_index_sync env body = sync_parsed env (build_search_index_call body)"

definition build_search_index_asyncio_only ::
  "search_build_request \<Rightarrow> ('s, 'y, call_failure + parsed) coroutine" where
  "build_search_index_asyncio_only body = asyncio_parsed (build_search_index_asyncio body)"

definition decompile_java_sync ::
  "'w env \<Rightarrow> decompile_request \<Rightarrow> 'w parsed_call" where
  "decompile_java_sync env body = sync_parsed env (decompile_java_call body)"

definition decompile_java_asyncio_only ::
  "decompile_request \<Rightarrow> ('s, 'y, call_failure + parsed) coroutine" where
  "decompile_java_asyncio_only body = asyncio_parsed (decompile_java_asyncio body)"

definition get_control_flow_facts_sync ::
  "'w env \<Rightarrow> control_flow_request \<Rightarrow> 'w parsed_call" where
  "get_control_flow_facts_sync env body = sync_parsed env (get_control_flow_facts_call body)"

definition get_control_flow_facts_asyncio_only ::
  "control_flow_request \<Rightarrow> ('s, 'y, call_failure + parsed) coroutine" where
  "get_control_flow_facts_asyncio_only body = asyncio_parsed (get_control_flow_facts_asyncio body)"

definition search_sync ::
  "'w env \<Rightarrow> search_request \<Rightarrow> 'w parsed_call" where
  "search_sync env body = sync_parsed env (search_call body)"

definition search_asyncio_only ::
  "search_request \<Rightarrow> ('s, 'y, call_failure + parsed) coroutine" where
  "search_asyncio_only body = asyncio_parsed (search_asyncio body)"

lemmas parsed_defs =
  cancel_job_sync_def cancel_job_asyncio_only_def
  get_capabilities_sync_def get_capabilities_asyncio_only_def
  get_job_sync_def get_job_asyncio_only_def
  get_liveness_sync_def get_liveness_asyncio_only_def
  get_status_sync_def get_status_asyncio_only_def
  shutdown_service_sync_def shutdown_service_asyncio_only_def
  apply_edit_batch_sync_def apply_edit_batch_asyncio_only_def
  export_mappings_sync_def export_mappings_asyncio_only_def
  export_pending_edits_sync_def export_pending_edits_asyncio_only_def
  get_project_sync_def get_project_asyncio_only_def
  get_project_settings_sync_def get_project_settings_asyncio_only_def
  import_mappings_sync_def import_mappings_asyncio_only_def
  reload_project_sync_def reload_project_asyncio_only_def
  save_project_sync_def save_project_asyncio_only_def
  update_project_settings_sync_def update_project_settings_asyncio_only_def
  list_classes_sync_def list_classes_asyncio_only_def
  query_references_sync_def query_references_asyncio_only_def
  resolve_symbol_sync_def resolve_symbol_asyncio_only_def
  build_search_index_sync_def build_search_index_asyncio_only_def
  decompile_java_sync_def decompile_java_asyncio_only_def
  get_control_flow_facts_sync_def get_control_flow_facts_asyncio_only_def
  search_sync_def search_asyncio_only_def

subsection \<open>Undocumented statuses\<close>

text \<open>
  With \<open>raise_on_unexpected_status\<close> the last branch of \<open>_parse_response\<close>, the only one that reads no
  body, raises \<open>UnexpectedStatus\<close>, which is no \<open>ValueError\<close>.
\<close>

definition unexpected_status_error :: py_exc where
  "unexpected_status_error = OtherErr ''UnexpectedStatus''"

definition strictly :: "bool \<Rightarrow> api_call \<Rightarrow> api_call" where
  "strictly raise_on_unexpected_status c = c\<lparr>call_parse := (\<lambda>status src.
     if raise_on_unexpected_status \<and> call_parse c status src = Inr No_Body then Inl unexpected_status_error
     else call_parse c status src)\<rparr>"

lemma strictly_off: "strictly False c = c"
  by (simp add: strictly_def)

lemma strictly_reads: "build_response (strictly True c) r = Inr x \<Longrightarrow> response_parsed x \<noteq> No_Body"
  by (auto simp: build_response_def strictly_def ebind_eq_Inr split: if_splits)

lemma strictly_raises: "\<not> decode_failure unexpected_status_error"
  by (simp add: unexpected_status_error_def)

subsection \<open>Twins\<close>

definition plain_twin :: "'w env \<Rightarrow> ('w heap, 'y, 'a) coroutine \<Rightarrow> ('w \<Rightarrow> 'a \<times> 'w) \<Rightarrow> bool" where
  "plain_twin env t f \<longleftrightarrow>
     (\<forall>h. alone (perform env) t h =
        Some ([], fst (f (world (heap_client h))), on_world (\<lambda>w. snd (f w)) h))"

lemma detailed_twin: "plain_twin env (asyncio_detailed c) (sync_detailed env c)"
  by (simp add: plain_twin_def asyncio_detailed_def sync_detailed_answered)

lemma parsed_twin: "plain_twin env (asyncio_parsed (asyncio_detailed c)) (sync_parsed env c)"
  by (simp add: plain_twin_def asyncio_parsed_def sync_parsed_def asyncio_detailed_def sync_detailed_answered)

lemma events_detailed_twin:
  "plain_twin env (get_job_events_asyncio_detailed job_id last_event_id)
     (get_job_events_sync_detailed env job_id last_event_id)"
  by (simp add: plain_twin_def get_job_events_asyncio_detailed_def get_job_events_sync_detailed_def case_prod_unfold)

lemma events_twin:
  "plain_twin env (get_job_events_asyncio job_id last_event_id) (get_job_events_sync env job_id last_event_id)"
  by (simp add: plain_twin_def get_job_events_asyncio_def get_job_events_sync_def asyncio_parsed_def
      get_job_events_asyncio_detailed_def get_job_events_sync_detailed_def case_prod_unfold)

end
