(* ===== verification/Sdk_Repr.thy ===== *)
theory Sdk_Repr
  imports Sdk_Search Sdk_Handles
begin

text \<open>
  What handles, results and cursors show of themselves (\<open>__repr__\<close>), and the properties of a cursor.
  \<open>repr\<close> of a JSON value and the name of the class are arguments.
\<close>

subsection \<open>Cursors\<close>

definition cursor_coverage :: "search_cursor \<Rightarrow> search_coverage list" where
  "cursor_coverage cur = search_page_coverage (cursor_raw cur)"

definition cursor_diagnostics :: "search_cursor \<Rightarrow> json" where
  "cursor_diagnostics cur = search_page_diagnostics (cursor_raw cur)"

definition cursor_result_snapshot_id :: "search_cursor \<Rightarrow> json" where
  "cursor_result_snapshot_id cur = search_page_result_snapshot_id (cursor_raw cur)"

definition cursor_cursor :: "search_cursor \<Rightarrow> json" where
  "cursor_cursor cur = search_page_next_cursor (cursor_raw cur)"

definition cursor_repr :: "(json \<Rightarrow> string) \<Rightarrow> string \<Rightarrow> search_cursor \<Rightarrow> string" where
  "cursor_repr repr cls cur =
     cls @ ''(complete='' @ (if coverage_complete cur then ''True'' else ''False'')
       @ '', page_complete='' @ py_str repr (search_page_page_complete (cursor_raw cur)) @ '')''"

subsection \<open>Handles and results\<close>

definition symbol_repr :: "(json \<Rightarrow> string) \<Rightarrow> string \<Rightarrow> handle \<Rightarrow> string" where
  "symbol_repr repr cls h =
     cls @ ''(ref='' @ repr (JObj (symbol_ref_to_dict (handle_ref h)))
       @ '', display_name='' @ repr (handle_display_name h) @ '')''"

definition source_repr :: "(json \<Rightarrow> string) \<Rightarrow> source_result \<Rightarrow> string" where
  "source_repr repr r =
     ''SourceResult(session_id=UUID('' @ [CHR 0x27] @ uuid_str (source_result_session_id r) @ [CHR 0x27]
       @ ''), logical_revision='' @ repr (source_result_logical_revision r) @ '')''"

definition pending_repr :: "(json \<Rightarrow> string) \<Rightarrow> pending_edits_result \<Rightarrow> string" where
  "pending_repr repr r =
     ''PendingEditsResult(session_id='' @ repr (pending_result_session_id r)
       @ '', logical_revision='' @ repr (pending_result_logical_revision r) @ '')''"

text \<open>However large the source, what a result shows depends on its provenance alone.\<close>

lemma source_repr_provenance:
  "source_result_session_id r = source_result_session_id r' \<Longrightarrow>
   source_result_logical_revision r = source_result_logical_revision r' \<Longrightarrow> source_repr repr r = source_repr repr r'"
  by (simp add: source_repr_def)

lemma cursor_repr_provenance:
  "cursor_coverage cur = cursor_coverage cur' \<Longrightarrow>
   search_page_page_complete (cursor_raw cur) = search_page_page_complete (cursor_raw cur') \<Longrightarrow>
     cursor_repr repr cls cur = cursor_repr repr cls cur'"
  by (simp add: cursor_repr_def coverage_complete_def cursor_coverage_def)

end
