(* ===== verification/Wire_Busy.thy ===== *)
theory Wire_Busy
  imports Wire_Service Wire_Project
begin

text \<open>
  Models of the generated package that no operation of the SDK reads or writes: what keeps the service
  from shutting down, and the shared parts of answers.
\<close>

record shutdown_busy_details_operations_item =
  shutdown_busy_details_operations_item_id :: uuid
  shutdown_busy_details_operations_item_category :: json
  shutdown_busy_details_operations_item_key :: json
  shutdown_busy_details_operations_item_extra :: jdict

definition shutdown_busy_details_operations_item_to_dict :: "shutdown_busy_details_operations_item \<Rightarrow> jdict" where
  "shutdown_busy_details_operations_item_to_dict x =
     dict_update (dict_update [] (shutdown_busy_details_operations_item_extra x))
       [(''id'', JStr (uuid_str (shutdown_busy_details_operations_item_id x))),
        (''category'', shutdown_busy_details_operations_item_category x),
        (''key'', shutdown_busy_details_operations_item_key x)]"

definition shutdown_busy_details_operations_item_from_dict :: "json \<Rightarrow> py_exc + shutdown_busy_details_operations_item" where
  "shutdown_busy_details_operations_item_from_dict src = reading src (
     popping ''id'' uuid_new (\<lambda>id.
     popping ''category'' Inr (\<lambda>category.
     popping ''key'' Inr (\<lambda>key.
     (\<lambda>d. Inr \<lparr>shutdown_busy_details_operations_item_id = id,
        shutdown_busy_details_operations_item_category = category,
        shutdown_busy_details_operations_item_key = key,
        shutdown_busy_details_operations_item_extra = d\<rparr>)))))"

definition shutdown_busy_details_operations_item_ok :: "shutdown_busy_details_operations_item \<Rightarrow> bool" where
  "shutdown_busy_details_operations_item_ok x \<longleftrightarrow> extra_ok {''id'', ''category'', ''key''} (shutdown_busy_details_operations_item_extra x)"

interpretation shutdown_busy_details_operations_item_wire: codec "\<lambda>x. JObj (shutdown_busy_details_operations_item_to_dict x)" shutdown_busy_details_operations_item_from_dict shutdown_busy_details_operations_item_ok
  by unfold_locales
    (simp add: shutdown_busy_details_operations_item_to_dict_def shutdown_busy_details_operations_item_from_dict_def shutdown_busy_details_operations_item_ok_def wire_simps cong: wire_cong,
     rule safe_readerI, unfold shutdown_busy_details_operations_item_from_dict_def, intro wire_rules)

datatype shutdown_busy_details_jobs_item_state = ShutdownBusyDetailsJobsItemState_CANCELLING | ShutdownBusyDetailsJobsItemState_QUEUED | ShutdownBusyDetailsJobsItemState_RUNNING

fun shutdown_busy_details_jobs_item_state_value :: "shutdown_busy_details_jobs_item_state \<Rightarrow> string" where
  "shutdown_busy_details_jobs_item_state_value ShutdownBusyDetailsJobsItemState_CANCELLING = ''CANCELLING''"
| "shutdown_busy_details_jobs_item_state_value ShutdownBusyDetailsJobsItemState_QUEUED = ''QUEUED''"
| "shutdown_busy_details_jobs_item_state_value ShutdownBusyDetailsJobsItemState_RUNNING = ''RUNNING''"

definition shutdown_busy_details_jobs_item_state_of :: "json \<Rightarrow> py_exc + shutdown_busy_details_jobs_item_state" where
  "shutdown_busy_details_jobs_item_state_of = enum_of [ShutdownBusyDetailsJobsItemState_CANCELLING, ShutdownBusyDetailsJobsItemState_QUEUED, ShutdownBusyDetailsJobsItemState_RUNNING] shutdown_busy_details_jobs_item_state_value"

interpretation shutdown_busy_details_jobs_item_state_wire: codec "\<lambda>m. JStr (shutdown_busy_details_jobs_item_state_value m)" shutdown_busy_details_jobs_item_state_of "\<lambda>_. True"
proof unfold_locales
  fix m
  show "shutdown_busy_details_jobs_item_state_of (JStr (shutdown_busy_details_jobs_item_state_value m)) = Inr m"
    by (cases m) (simp_all add: shutdown_busy_details_jobs_item_state_of_def enum_of_def)
qed (simp add: shutdown_busy_details_jobs_item_state_of_def safe_enum_of)

record shutdown_busy_details_jobs_item =
  shutdown_busy_details_jobs_item_job_id :: uuid
  shutdown_busy_details_jobs_item_state :: shutdown_busy_details_jobs_item_state
  shutdown_busy_details_jobs_item_type :: json
  shutdown_busy_details_jobs_item_extra :: jdict

definition shutdown_busy_details_jobs_item_to_dict :: "shutdown_busy_details_jobs_item \<Rightarrow> jdict" where
  "shutdown_busy_details_jobs_item_to_dict x =
     dict_update (dict_update [] (shutdown_busy_details_jobs_item_extra x))
       [(''jobId'', JStr (uuid_str (shutdown_busy_details_jobs_item_job_id x))),
        (''state'', JStr (shutdown_busy_details_jobs_item_state_value (shutdown_busy_details_jobs_item_state x))),
        (''type'', shutdown_busy_details_jobs_item_type x)]"

definition shutdown_busy_details_jobs_item_from_dict :: "json \<Rightarrow> py_exc + shutdown_busy_details_jobs_item" where
  "shutdown_busy_details_jobs_item_from_dict src = reading src (
     popping ''jobId'' uuid_new (\<lambda>job_id.
     popping ''state'' shutdown_busy_details_jobs_item_state_of (\<lambda>state.
     popping ''type'' Inr (\<lambda>type.
     (\<lambda>d. Inr \<lparr>shutdown_busy_details_jobs_item_job_id = job_id,
        shutdown_busy_details_jobs_item_state = state,
        shutdown_busy_details_jobs_item_type = type,
        shutdown_busy_details_jobs_item_extra = d\<rparr>)))))"

definition shutdown_busy_details_jobs_item_ok :: "shutdown_busy_details_jobs_item \<Rightarrow> bool" where
  "shutdown_busy_details_jobs_item_ok x \<longleftrightarrow> extra_ok {''jobId'', ''state'', ''type''} (shutdown_busy_details_jobs_item_extra x)"

interpretation shutdown_busy_details_jobs_item_wire: codec "\<lambda>x. JObj (shutdown_busy_details_jobs_item_to_dict x)" shutdown_busy_details_jobs_item_from_dict shutdown_busy_details_jobs_item_ok
  by unfold_locales
    (simp add: shutdown_busy_details_jobs_item_to_dict_def shutdown_busy_details_jobs_item_from_dict_def shutdown_busy_details_jobs_item_ok_def wire_simps cong: wire_cong,
     rule safe_readerI, unfold shutdown_busy_details_jobs_item_from_dict_def, intro wire_rules)

record shutdown_busy_details =
  shutdown_busy_details_active_operation_count :: json
  shutdown_busy_details_operations :: "shutdown_busy_details_operations_item list"
  shutdown_busy_details_active_job_count :: json
  shutdown_busy_details_jobs :: "shutdown_busy_details_jobs_item list"
  shutdown_busy_details_extra :: jdict

definition shutdown_busy_details_to_dict :: "shutdown_busy_details \<Rightarrow> jdict" where
  "shutdown_busy_details_to_dict x =
     dict_update (dict_update [] (shutdown_busy_details_extra x))
       [(''activeOperationCount'', shutdown_busy_details_active_operation_count x),
        (''operations'', JArr (map (\<lambda>x. JObj (shutdown_busy_details_operations_item_to_dict x)) (shutdown_busy_details_operations x))),
        (''activeJobCount'', shutdown_busy_details_active_job_count x),
        (''jobs'', JArr (map (\<lambda>x. JObj (shutdown_busy_details_jobs_item_to_dict x)) (shutdown_busy_details_jobs x)))]"

definition shutdown_busy_details_from_dict :: "json \<Rightarrow> py_exc + shutdown_busy_details" where
  "shutdown_busy_details_from_dict src = reading src (
     popping ''activeOperationCount'' Inr (\<lambda>active_operation_count.
     popping ''operations'' (list_of shutdown_busy_details_operations_item_from_dict) (\<lambda>operations.
     popping ''activeJobCount'' Inr (\<lambda>active_job_count.
     popping ''jobs'' (list_of shutdown_busy_details_jobs_item_from_dict) (\<lambda>jobs.
     (\<lambda>d. Inr \<lparr>shutdown_busy_details_active_operation_count = active_operation_count,
        shutdown_busy_details_operations = operations,
        shutdown_busy_details_active_job_count = active_job_count,
        shutdown_busy_details_jobs = jobs,
        shutdown_busy_details_extra = d\<rparr>))))))"

definition shutdown_busy_details_ok :: "shutdown_busy_details \<Rightarrow> bool" where
  "shutdown_busy_details_ok x \<longleftrightarrow> extra_ok {''activeOperationCount'', ''operations'', ''activeJobCount'', ''jobs''} (shutdown_busy_details_extra x)
     \<and> list_all shutdown_busy_details_operations_item_ok (shutdown_busy_details_operations x)
     \<and> list_all shutdown_busy_details_jobs_item_ok (shutdown_busy_details_jobs x)"

interpretation shutdown_busy_details_wire: codec "\<lambda>x. JObj (shutdown_busy_details_to_dict x)" shutdown_busy_details_from_dict shutdown_busy_details_ok
  by unfold_locales
    (simp add: shutdown_busy_details_to_dict_def shutdown_busy_details_from_dict_def shutdown_busy_details_ok_def wire_simps cong: wire_cong,
     rule safe_readerI, unfold shutdown_busy_details_from_dict_def, intro wire_rules)

datatype item_result_status = ItemResultStatus_APPLIED | ItemResultStatus_FAILED | ItemResultStatus_SKIPPED

fun item_result_status_value :: "item_result_status \<Rightarrow> string" where
  "item_result_status_value ItemResultStatus_APPLIED = ''APPLIED''"
| "item_result_status_value ItemResultStatus_FAILED = ''FAILED''"
| "item_result_status_value ItemResultStatus_SKIPPED = ''SKIPPED''"

definition item_result_status_of :: "json \<Rightarrow> py_exc + item_result_status" where
  "item_result_status_of = enum_of [ItemResultStatus_APPLIED, ItemResultStatus_FAILED, ItemResultStatus_SKIPPED] item_result_status_value"

interpretation item_result_status_wire: codec "\<lambda>m. JStr (item_result_status_value m)" item_result_status_of "\<lambda>_. True"
proof unfold_locales
  fix m
  show "item_result_status_of (JStr (item_result_status_value m)) = Inr m"
    by (cases m) (simp_all add: item_result_status_of_def enum_of_def)
qed (simp add: item_result_status_of_def safe_enum_of)

record item_result =
  item_result_index :: json
  item_result_status :: item_result_status
  item_result_message :: "json unset"
  item_result_extra :: jdict

definition item_result_to_dict :: "item_result \<Rightarrow> jdict" where
  "item_result_to_dict x =
     put_given ''message'' (item_result_message x) (
     dict_update (dict_update [] (item_result_extra x))
       [(''index'', item_result_index x),
        (''status'', JStr (item_result_status_value (item_result_status x)))])"

definition item_result_from_dict :: "json \<Rightarrow> py_exc + item_result" where
  "item_result_from_dict src = reading src (
     popping ''index'' Inr (\<lambda>index.
     popping ''status'' item_result_status_of (\<lambda>status.
     popping_opt ''message'' Inr (\<lambda>message.
     (\<lambda>d. Inr \<lparr>item_result_index = index,
        item_result_status = status,
        item_result_message = message,
        item_result_extra = d\<rparr>)))))"

definition item_result_ok :: "item_result \<Rightarrow> bool" where
  "item_result_ok x \<longleftrightarrow> extra_ok {''index'', ''status'', ''message''} (item_result_extra x)"

interpretation item_result_wire: codec "\<lambda>x. JObj (item_result_to_dict x)" item_result_from_dict item_result_ok
  by unfold_locales
    (simp add: item_result_to_dict_def item_result_from_dict_def item_result_ok_def wire_simps cong: wire_cong,
     rule safe_readerI, unfold item_result_from_dict_def, intro wire_rules)

datatype edit_item_kind = EditItemKind_COMMENT | EditItemKind_RENAME_CLASS | EditItemKind_RENAME_FIELD | EditItemKind_RENAME_METHOD

fun edit_item_kind_value :: "edit_item_kind \<Rightarrow> string" where
  "edit_item_kind_value EditItemKind_COMMENT = ''COMMENT''"
| "edit_item_kind_value EditItemKind_RENAME_CLASS = ''RENAME_CLASS''"
| "edit_item_kind_value EditItemKind_RENAME_FIELD = ''RENAME_FIELD''"
| "edit_item_kind_value EditItemKind_RENAME_METHOD = ''RENAME_METHOD''"

definition edit_item_kind_of :: "json \<Rightarrow> py_exc + edit_item_kind" where
  "edit_item_kind_of = enum_of [EditItemKind_COMMENT, EditItemKind_RENAME_CLASS, EditItemKind_RENAME_FIELD, EditItemKind_RENAME_METHOD] edit_item_kind_value"

interpretation edit_item_kind_wire: codec "\<lambda>m. JStr (edit_item_kind_value m)" edit_item_kind_of "\<lambda>_. True"
proof unfold_locales
  fix m
  show "edit_item_kind_of (JStr (edit_item_kind_value m)) = Inr m"
    by (cases m) (simp_all add: edit_item_kind_of_def enum_of_def)
qed (simp add: edit_item_kind_of_def safe_enum_of)

record edit_item_target =
  edit_item_target_extra :: jdict

definition edit_item_target_to_dict :: "edit_item_target \<Rightarrow> jdict" where
  "edit_item_target_to_dict x =
     dict_update [] (edit_item_target_extra x)"

definition edit_item_target_from_dict :: "json \<Rightarrow> py_exc + edit_item_target" where
  "edit_item_target_from_dict src = reading src (
     (\<lambda>d. Inr \<lparr>edit_item_target_extra = d\<rparr>))"

definition edit_item_target_ok :: "edit_item_target \<Rightarrow> bool" where
  "edit_item_target_ok x \<longleftrightarrow> extra_ok {} (edit_item_target_extra x)"

interpretation edit_item_target_wire: codec "\<lambda>x. JObj (edit_item_target_to_dict x)" edit_item_target_from_dict edit_item_target_ok
  by unfold_locales
    (simp add: edit_item_target_to_dict_def edit_item_target_from_dict_def edit_item_target_ok_def wire_simps cong: wire_cong,
     rule safe_readerI, unfold edit_item_target_from_dict_def, intro wire_rules)

record edit_item =
  edit_item_kind :: edit_item_kind
  edit_item_target :: edit_item_target
  edit_item_value :: json
  edit_item_extra :: jdict

definition edit_item_to_dict :: "edit_item \<Rightarrow> jdict" where
  "edit_item_to_dict x =
     dict_update (dict_update [] (edit_item_extra x))
       [(''kind'', JStr (edit_item_kind_value (edit_item_kind x))),
        (''target'', JObj (edit_item_target_to_dict (edit_item_target x))),
        (''value'', edit_item_value x)]"

definition edit_item_from_dict :: "json \<Rightarrow> py_exc + edit_item" where
  "edit_item_from_dict src = reading src (
     popping ''kind'' edit_item_kind_of (\<lambda>kind.
     popping ''target'' edit_item_target_from_dict (\<lambda>target.
     popping ''value'' Inr (\<lambda>value.
     (\<lambda>d. Inr \<lparr>edit_item_kind = kind,
        edit_item_target = target,
        edit_item_value = value,
        edit_item_extra = d\<rparr>)))))"

definition edit_item_ok :: "edit_item \<Rightarrow> bool" where
  "edit_item_ok x \<longleftrightarrow> extra_ok {''kind'', ''target'', ''value''} (edit_item_extra x)
     \<and> edit_item_target_ok (edit_item_target x)"

interpretation edit_item_wire: codec "\<lambda>x. JObj (edit_item_to_dict x)" edit_item_from_dict edit_item_ok
  by unfold_locales
    (simp add: edit_item_to_dict_def edit_item_from_dict_def edit_item_ok_def wire_simps cong: wire_cong,
     rule safe_readerI, unfold edit_item_from_dict_def, intro wire_rules)

record page =
  page_items :: json
  page_complete :: json
  page_next_cursor :: "json unset"
  page_extra :: jdict

definition page_to_dict :: "page \<Rightarrow> jdict" where
  "page_to_dict x =
     put_given ''nextCursor'' (page_next_cursor x) (
     dict_update (dict_update [] (page_extra x))
       [(''items'', page_items x),
        (''complete'', page_complete x)])"

definition page_from_dict :: "json \<Rightarrow> py_exc + page" where
  "page_from_dict src = reading src (
     popping ''items'' Inr (\<lambda>items.
     popping ''complete'' Inr (\<lambda>complete.
     popping_opt ''nextCursor'' Inr (\<lambda>next_cursor.
     (\<lambda>d. Inr \<lparr>page_items = items,
        page_complete = complete,
        page_next_cursor = next_cursor,
        page_extra = d\<rparr>)))))"

definition page_ok :: "page \<Rightarrow> bool" where
  "page_ok x \<longleftrightarrow> extra_ok {''items'', ''complete'', ''nextCursor''} (page_extra x)"

interpretation page_wire: codec "\<lambda>x. JObj (page_to_dict x)" page_from_dict page_ok
  by unfold_locales
    (simp add: page_to_dict_def page_from_dict_def page_ok_def wire_simps cong: wire_cong,
     rule safe_readerI, unfold page_from_dict_def, intro wire_rules)

datatype result_provenance_completeness = ResultProvenanceCompleteness_COMPLETE | ResultProvenanceCompleteness_PARTIAL

fun result_provenance_completeness_value :: "result_provenance_completeness \<Rightarrow> string" where
  "result_provenance_completeness_value ResultProvenanceCompleteness_COMPLETE = ''COMPLETE''"
| "result_provenance_completeness_value ResultProvenanceCompleteness_PARTIAL = ''PARTIAL''"

definition result_provenance_completeness_of :: "json \<Rightarrow> py_exc + result_provenance_completeness" where
  "result_provenance_completeness_of = enum_of [ResultProvenanceCompleteness_COMPLETE, ResultProvenanceCompleteness_PARTIAL] result_provenance_completeness_value"

interpretation result_provenance_completeness_wire: codec "\<lambda>m. JStr (result_provenance_completeness_value m)" result_provenance_completeness_of "\<lambda>_. True"
proof unfold_locales
  fix m
  show "result_provenance_completeness_of (JStr (result_provenance_completeness_value m)) = Inr m"
    by (cases m) (simp_all add: result_provenance_completeness_of_def enum_of_def)
qed (simp add: result_provenance_completeness_of_def safe_enum_of)

record result_provenance =
  result_provenance_completeness :: result_provenance_completeness
  result_provenance_revisions :: revision_set
  result_provenance_diagnostics :: json
  result_provenance_extra :: jdict

definition result_provenance_to_dict :: "result_provenance \<Rightarrow> jdict" where
  "result_provenance_to_dict x =
     dict_update (dict_update [] (result_provenance_extra x))
       [(''completeness'', JStr (result_provenance_completeness_value (result_provenance_completeness x))),
        (''revisions'', JObj (revision_set_to_dict (result_provenance_revisions x))),
        (''diagnostics'', result_provenance_diagnostics x)]"

definition result_provenance_from_dict :: "json \<Rightarrow> py_exc + result_provenance" where
  "result_provenance_from_dict src = reading src (
     popping ''completeness'' result_provenance_completeness_of (\<lambda>completeness.
     popping ''revisions'' revision_set_from_dict (\<lambda>revisions.
     popping ''diagnostics'' Inr (\<lambda>diagnostics.
     (\<lambda>d. Inr \<lparr>result_provenance_completeness = completeness,
        result_provenance_revisions = revisions,
        result_provenance_diagnostics = diagnostics,
        result_provenance_extra = d\<rparr>)))))"

definition result_provenance_ok :: "result_provenance \<Rightarrow> bool" where
  "result_provenance_ok x \<longleftrightarrow> extra_ok {''completeness'', ''revisions'', ''diagnostics''} (result_provenance_extra x)
     \<and> revision_set_ok (result_provenance_revisions x)"

interpretation result_provenance_wire: codec "\<lambda>x. JObj (result_provenance_to_dict x)" result_provenance_from_dict result_provenance_ok
  by unfold_locales
    (simp add: result_provenance_to_dict_def result_provenance_from_dict_def result_provenance_ok_def wire_simps cong: wire_cong,
     rule safe_readerI, unfold result_provenance_from_dict_def, intro wire_rules)

datatype coverage_status = CoverageStatus_COMPLETE | CoverageStatus_PARTIAL

fun coverage_status_value :: "coverage_status \<Rightarrow> string" where
  "coverage_status_value CoverageStatus_COMPLETE = ''COMPLETE''"
| "coverage_status_value CoverageStatus_PARTIAL = ''PARTIAL''"

definition coverage_status_of :: "json \<Rightarrow> py_exc + coverage_status" where
  "coverage_status_of = enum_of [CoverageStatus_COMPLETE, CoverageStatus_PARTIAL] coverage_status_value"

interpretation coverage_status_wire: codec "\<lambda>m. JStr (coverage_status_value m)" coverage_status_of "\<lambda>_. True"
proof unfold_locales
  fix m
  show "coverage_status_of (JStr (coverage_status_value m)) = Inr m"
    by (cases m) (simp_all add: coverage_status_of_def enum_of_def)
qed (simp add: coverage_status_of_def safe_enum_of)

record coverage =
  coverage_status :: coverage_status
  coverage_indexed :: json
  coverage_total :: json
  coverage_extra :: jdict

definition coverage_to_dict :: "coverage \<Rightarrow> jdict" where
  "coverage_to_dict x =
     dict_update (dict_update [] (coverage_extra x))
       [(''status'', JStr (coverage_status_value (coverage_status x))),
        (''indexed'', coverage_indexed x),
        (''total'', coverage_total x)]"

definition coverage_from_dict :: "json \<Rightarrow> py_exc + coverage" where
  "coverage_from_dict src = reading src (
     popping ''status'' coverage_status_of (\<lambda>status.
     popping ''indexed'' Inr (\<lambda>indexed.
     popping ''total'' Inr (\<lambda>total.
     (\<lambda>d. Inr \<lparr>coverage_status = status,
        coverage_indexed = indexed,
        coverage_total = total,
        coverage_extra = d\<rparr>)))))"

definition coverage_ok :: "coverage \<Rightarrow> bool" where
  "coverage_ok x \<longleftrightarrow> extra_ok {''status'', ''indexed'', ''total''} (coverage_extra x)"

interpretation coverage_wire: codec "\<lambda>x. JObj (coverage_to_dict x)" coverage_from_dict coverage_ok
  by unfold_locales
    (simp add: coverage_to_dict_def coverage_from_dict_def coverage_ok_def wire_simps cong: wire_cong,
     rule safe_readerI, unfold coverage_from_dict_def, intro wire_rules)

end
