(* ===== verification/Wire_Extras.thy ===== *)
theory Wire_Extras
  imports Wire_Codec
begin

text \<open>
  The dictionary of additional properties every generated model has, and the operations of the model
  on it (\<open>additional_keys\<close>, \<open>__getitem__\<close>, \<open>__setitem__\<close>, \<open>__delitem__\<close>, \<open>__contains__\<close>).
\<close>

definition extra_keys :: "jdict \<Rightarrow> string list" where
  "extra_keys d = map fst d"

definition extra_get :: "string \<Rightarrow> jdict \<Rightarrow> py_exc + json" where
  "extra_get k d = (case map_of d k of None \<Rightarrow> Inl KeyErr | Some v \<Rightarrow> Inr v)"

definition extra_set :: "string \<Rightarrow> json \<Rightarrow> jdict \<Rightarrow> jdict" where
  "extra_set k v d = dict_set k v d"

definition extra_del :: "string \<Rightarrow> jdict \<Rightarrow> py_exc + jdict" where
  "extra_del k d = (case dict_pop k d of None \<Rightarrow> Inl KeyErr | Some (v, d') \<Rightarrow> Inr d')"

definition extra_in :: "string \<Rightarrow> jdict \<Rightarrow> bool" where
  "extra_in k d \<longleftrightarrow> map_of d k \<noteq> None"

text \<open>They are those of a dictionary.\<close>

lemma extra_get_set: "extra_get k (extra_set k' v d) = (if k = k' then Inr v else extra_get k d)"
  by (simp add: extra_get_def extra_set_def dict_set_def update_conv)

lemma extra_del_in: "extra_del k d = Inr d' \<Longrightarrow> extra_in k' d' \<longleftrightarrow> k' \<noteq> k \<and> extra_in k' d"
  by (auto simp: extra_del_def dict_pop_def extra_in_def delete_conv split: option.splits if_splits)

lemma extra_del_error: "extra_del k d = Inl e \<longleftrightarrow> e = KeyErr \<and> \<not> extra_in k d"
  by (auto simp: extra_del_def dict_pop_def extra_in_def split: option.splits)

text \<open>A model stays one that survives the round trip when no field is hidden by an additional property.\<close>

lemma extra_set_ok: "extra_ok names d \<Longrightarrow> k \<notin> names \<Longrightarrow> extra_ok names (extra_set k v d)"
  by (auto simp: extra_ok_def extra_set_def dict_set_def dict_ok_def dict_keys_def distinct_update
      dom_update [unfolded dom_map_of_conv_image_fst])

lemma extra_del_ok: "extra_ok names d \<Longrightarrow> extra_del k d = Inr d' \<Longrightarrow> extra_ok names d'"
  by (auto simp: extra_ok_def extra_del_def dict_pop_def dict_ok_def dict_keys_def AList.delete_eq
      distinct_map_filter split: option.splits) (metis IntI empty_iff fst_conv image_eqI)

end
