(* ===== verification/Deviations.thy ===== *)
theory Deviations
  imports Scenarios
begin

text \<open>
  Where the code does something else than it means to, or than its documentation says: each shown on a
  concrete input, or for all of a kind.
\<close>

subsection \<open>Revisions without an order\<close>

text \<open>
  \<open>Client._invoke\<close> compares revisions outside of its \<open>try\<close>: when the service reports a string where it
  reported an integer before, the \<open>TypeError\<close> of \<open>max\<close> reaches the caller.
\<close>

definition renumbered_project :: fixed_project where
  "renumbered_project = sample_project\<lparr>fixed_project_revisions :=
     (fixed_project_revisions sample_project)\<lparr>revision_set_logical_revision := JStr ''4''\<rparr>\<rparr>"

abbreviation renumbered_json :: json where
  "renumbered_json \<equiv> JObj (fixed_project_to_dict renumbered_project)"

definition seen_before :: "script client" where
  "seen_before = fresh\<lparr>revisions := \<lparr>retired = {}, session_id = Some sample_id, logical_revision = JInt 3,
     index_revision = JInt 0\<rparr>\<rparr>"

theorem unordered_revision_escapes:
  "fst (project_snapshot (answering renumbered_json) seen_before) = Inl (Py_Error TypeErr)"
proof -
  have "fixed_project_ok renumbered_project" by code_simp
  then have "call_parse get_project_call 200 (Inr renumbered_json) = Inr (Parsed (Project_Body renumbered_project))"
    by (simp add: get_project_call_def get_project_parse_def read_answer fixed_project_wire.dec_enc)
  from invoke_answering [OF this, of as_project renumbered_project seen_before] show ?thesis
    by (simp add: project_snapshot_def as_project_def seen_before_def fresh_def observe_def observe_values_def
        set_attrs_def getattr_def renumbered_project_def sample_project_def raise_to_def py_max_def py_or_def
        json_less.simps Let_def)
qed

subsection \<open>Exceptions of the wire models\<close>

text \<open>
  A reference to a method without a name or a descriptor makes \<open>rename_parameter\<close> raise \<open>KeyError\<close>; a
  reference of another kind raises \<open>ValueError\<close>.
\<close>

theorem nameless_method_key_error:
  assumes "symbol_ref_kind ref = SymbolRefKind_METHOD"
    and "symbol_ref_original_name ref = UNSET \<or> symbol_ref_original_descriptor ref = UNSET"
  shows "project_rename_parameter env ref i name snapshot options st = (Inl (Py_Error KeyErr), st)"
  using assms
  by (auto simp: project_rename_parameter_def method_symbol_of_ref sbind_def slift_def split: unset.splits)

text \<open>
  A resolved symbol that is not one of the contract is kept as the JSON value it is, and
  \<open>resolve_object\<close> raises \<open>AttributeError\<close> for it.
\<close>

definition broken_resolution :: symbol_resolution where
  "broken_resolution = sample_resolution\<lparr>symbol_resolution_symbol := Given (Untyped (JObj []))\<rparr>"

abbreviation broken_json :: json where
  "broken_json \<equiv> JObj (symbol_resolution_to_dict broken_resolution)"

theorem undecoded_symbol_attribute_error:
  "fst (project_resolve_object (answering broken_json) sample_ref fresh) = Inl (Py_Error AttributeErr)"
proof -
  have "symbol_resolution_from_dict broken_json = Inr broken_resolution" by code_simp
  then have p: "call_parse (resolve_symbol_call k) 200 (Inr broken_json) = Inr (Parsed (Resolution_Body broken_resolution))"
    for k
    by (simp add: resolve_symbol_call_def resolve_symbol_parse_def read_answer)
  have o: "observe sample_str (parsed_attrs (Parsed (Resolution_Body broken_resolution))) new_cache =
    (Inr (), \<lparr>retired = {}, session_id = Some (uuid_str 5), logical_revision = JInt 1, index_revision = JNull\<rparr>)"
    by (simp add: observe_def observe_values_def getattr_def new_cache_def broken_resolution_def
        sample_resolution_def Let_def)
  show ?thesis
    unfolding project_resolve_object_def project_resolve_def sbind_def
    using invoke_answering [OF p, of as_resolution broken_resolution fresh] o
    by (simp add: as_resolution_def fresh_def resolved_of_def broken_resolution_def sample_resolution_def)
qed

subsection \<open>Preconditions of two origins\<close>

text \<open>
  A session that is given without a revision is sent with the revision of the session that was
  observed, although the two must be provided together.
\<close>

theorem session_with_foreign_revision:
  assumes "session_id c = Some s" "logical_revision c \<noteq> JNull" "uuid_of_str s' = Inr u"
  shows "expected c (Given (Some s')) UNSET required = Inr (Given u, Given (logical_revision c))"
  using assms by (simp add: expected_def)

subsection \<open>Derived low-level clients\<close>

text \<open>
  \<open>with_headers\<close> changes the client of \<open>httpx\<close> of the client it derives from, and the derived one does not
  use it.
\<close>

theorem with_headers_changes_parent:
  assumes "gc_client c = Some a" "gc_async_client c = None" "with_headers hx hs c s = (d, s')"
  shows "outside s' = hx_update_headers hx a hs (outside s) \<and> gc_client d = None"
  using assms by (auto simp: with_headers_def for_each_client_def outside_do_def new_dict_def put_dict_def evolved_def)

text \<open>
  The token of an authenticated client is put into every client that shares its dictionary of headers,
  such as one derived from it by \<open>with_timeout\<close>, and one it was derived from.
\<close>

theorem token_shared:
  assumes "client_ok c s" "auth_with_timeout hx t c s = (d, s1)"
    and "auth_get_httpx_client hx d s1 = (Inr a, d', s2)"
  shows "map_of (conf_headers (config_of c s2)) (gc_auth_header_name c) = Some (auth_value c)"
proof -
  from assms(2) have d: "d = (evolved c)\<lparr>gc_timeout := Some t\<rparr>" by (simp add: auth_with_timeout_def with_timeout_def)
  then have same: "gc_headers d = gc_headers c" "gc_client d = None" "gc_auth_header_name d = gc_auth_header_name c"
    "auth_value d = auth_value c" by (simp_all add: evolved_def auth_value_def)
  from with_timeout_derives [OF assms(1), of hx t d s1] assms(2) have "client_ok d s1"
    by (simp add: auth_with_timeout_def)
  from auth_first_use(2) [OF assms(3) same(2) this, of c] same show ?thesis by (simp add: config_of_def)
qed

subsection \<open>Events behind the terminal one\<close>

text \<open>
  \<open>Job.events\<close> looks for the terminal event after a whole chunk. In a chunk of two slices whose first
  ends the job, the second is read all the same: its events are delivered after the terminal one, and
  what is malformed in it raises although the job has ended.
\<close>

lemma two_slices:
  assumes "n < length xs" "length xs \<le> 2 * n"
  shows "slices n xs = [take n xs, drop n xs]"
proof -
  have "(length xs + n - 1) div n = 2" using assms by (intro div_nat_eqI) auto
  then show ?thesis using assms by (simp add: slices_def upt_rec)
qed

lemma drain_stays_terminal:
  "drain (p\<lparr>parser_pending := s\<rparr>) evs = Inr (es, q) \<Longrightarrow> parser_terminal p \<Longrightarrow> parser_terminal q"
proof (induction s arbitrary: p evs rule: lines_induct)
  case (line raw rest)
  then obtain ev r where acc: "accept_line p raw = Inr (ev, r)"
    by (auto simp: drain_line ebind_eq_Inr)
  with line show ?case
    by (auto simp: drain_line accept_line_terminal [OF acc] split: option.splits if_splits)
qed (auto simp: drain_stop)

lemma feed_stays_terminal: "feed p c = Inr (es, q) \<Longrightarrow> parser_terminal p \<Longrightarrow> parser_terminal q"
  using drain_stays_terminal by (auto simp: feed_Inr)

theorem terminal_passed:
  assumes "slice_size < length chunk" "length chunk \<le> 2 * slice_size"
    and "feed p (take slice_size chunk) = Inr (es, q)" "parser_terminal q"
  shows "read_chunks p (chunk # chunks) stop =
    (case feed q (drop slice_size chunk) of Inl e \<Rightarrow> (es, Inl e) | Inr (es', q') \<Rightarrow> (es @ es', Inr ()))"
  using assms by (auto simp: two_slices dest: feed_stays_terminal split: sum.splits prod.splits)

end
