(* ===== verification/Py_Generator.thy ===== *)
theory Py_Generator
  imports Py_Coroutine
begin

text \<open>
  Generators that are consumed one element at a time: \<open>next\<close> runs the code to its next \<open>yield\<close>, and a
  consumer may stop anywhere.
\<close>

lemma Some_prefixed: "Some (zs, x) = prefixed ys r \<longleftrightarrow> (\<exists>ys'. r = Some (ys', x) \<and> zs = ys @ ys')"
  using prefixed_Some [of ys r zs x] by (metis (no_types))

subsection \<open>Pulling\<close>

text \<open>
  A pull gives an element and what is left of the generator, or its result. A consumer that has
  taken the elements \<open>xs\<close>, one after the other:
\<close>

inductive takes :: "('g \<Rightarrow> 's \<Rightarrow> (('x \<times> 'g + 'r) \<times> 's) option) \<Rightarrow> 'g \<Rightarrow> 's \<Rightarrow> 'x list \<Rightarrow> 'g \<Rightarrow> 's \<Rightarrow> bool"
  for pull where
  took_none: "takes pull g s [] g s"
| took_one: "pull g s = Some (Inl (x, g'), s') \<Longrightarrow> takes pull g' s' xs g'' s'' \<Longrightarrow> takes pull g s (x # xs) g'' s''"

inductive_cases takes_ConsE: "takes pull g s (x # xs) g' s'"

text \<open>
  The contract of a generator: \<open>whole\<close>, what it yields when it is run to its end, is what the pulls
  give one by one.
\<close>

locale pull_source =
  fixes pull :: "'g \<Rightarrow> 's \<Rightarrow> (('x \<times> 'g + 'r) \<times> 's) option"
    and whole :: "'g \<Rightarrow> 's \<Rightarrow> ('x list \<times> 'r \<times> 's) option"
  assumes unfold: "whole g s =
      (case pull g s of
         None \<Rightarrow> None
       | Some (Inl (x, g'), s') \<Rightarrow> prefixed [x] (whole g' s')
       | Some (Inr r, s') \<Rightarrow> Some ([], r, s'))"
begin

text \<open>A consumer that stops early has a prefix of the elements; what is left yields the rest.\<close>

lemma takes_prefix: "takes pull g s xs g' s' \<Longrightarrow> whole g s = prefixed xs (whole g' s')"
proof (induction rule: takes.induct)
  case (took_one g s x g' s' xs g'' s'')
  with unfold [of g s] show ?case by simp
qed simp

lemma takes_all:
  "whole g s = Some (xs, r, s') \<Longrightarrow> \<exists>g' s''. takes pull g s xs g' s'' \<and> pull g' s'' = Some (Inr r, s')"
proof (induction xs arbitrary: g s)
  case Nil
  then have "pull g s = Some (Inr r, s')"
    unfolding unfold [of g s] by (auto simp: prefixed_Some split: option.splits prod.splits sum.splits)
  then show ?case by (blast intro: took_none)
next
  case (Cons x xs)
  with unfold [of g s] obtain g' s1 where p: "pull g s = Some (Inl (x, g'), s1)" "whole g' s1 = Some (xs, r, s')"
    by (auto simp: Some_prefixed split: option.splits prod.splits sum.splits)
  with Cons.IH [OF p(2)] show ?case by (blast intro: took_one)
qed

lemma takes_end:
  "takes pull g s xs g' s' \<Longrightarrow> pull g' s' = Some (Inr r, s'') \<Longrightarrow> whole g s = Some (xs, r, s'')"
  using takes_prefix [of g s xs g' s'] unfold [of g' s'] by simp

end

subsection \<open>Coroutines as generators\<close>

text \<open>\<open>next\<close> of a generator with no other task: it runs to the next \<open>yield\<close>, and what it awaits comes.\<close>

partial_function (option) run_to_yield ::
  "(suspension \<Rightarrow> 's \<Rightarrow> answer \<times> 's) \<Rightarrow> ('s, 'y, 'a) coroutine \<Rightarrow> 's
     \<Rightarrow> (('y \<times> ('s, 'y, 'a) coroutine + 'a) \<times> 's) option" where
  "run_to_yield perform t s =
     (case t of
        Finish a \<Rightarrow> Some (Inr a, s)
      | Act g \<Rightarrow> run_to_yield perform (fst (g s)) (snd (g s))
      | Await q k \<Rightarrow> run_to_yield perform (k (fst (perform q s))) (snd (perform q s))
      | Yield y t' \<Rightarrow> Some (Inl (y, t'), s))"

lemma run_to_yield_simps [simp]:
  "run_to_yield perform (Finish a) s = Some (Inr a, s)"
  "run_to_yield perform (Act g) s = run_to_yield perform (fst (g s)) (snd (g s))"
  "run_to_yield perform (Await q k) s = run_to_yield perform (k (fst (perform q s))) (snd (perform q s))"
  "run_to_yield perform (Yield y t) s = Some (Inl (y, t), s)"
  by (simp_all add: run_to_yield.simps [of perform "Finish a"] run_to_yield.simps [of perform "Act g"]
      run_to_yield.simps [of perform "Await q k"] run_to_yield.simps [of perform "Yield y t"])

lemma alone_run_to_yield:
  "alone perform t s = Some r \<Longrightarrow> \<exists>p. run_to_yield perform t s = Some p"
proof (induction rule: alone.raw_induct [rotated, consumes 1])
  case (1 alone' perform t s r)
  show ?case
  proof (cases t)
    case (Act g)
    with 1(2) have "alone' perform (fst (g s)) (snd (g s)) = Some r" by simp
    from 1(1) [OF this] Act show ?thesis by simp
  next
    case (Await q k)
    with 1(2) have "alone' perform (k (fst (perform q s))) (snd (perform q s)) = Some r" by simp
    from 1(1) [OF this] Await show ?thesis by simp
  qed simp_all
qed

lemma run_to_yield_alone:
  "run_to_yield perform t s = Some p \<Longrightarrow> alone perform t s =
     (case p of
        (Inl (x, t'), s') \<Rightarrow> prefixed [x] (alone perform t' s')
      | (Inr r, s') \<Rightarrow> Some ([], r, s'))"
proof (induction rule: run_to_yield.raw_induct [rotated, consumes 1])
  case (1 run perform t s p)
  show ?case
  proof (cases t)
    case (Act g)
    with 1(2) have "run perform (fst (g s)) (snd (g s)) = Some p" by simp
    from 1(1) [OF this] Act show ?thesis by simp
  next
    case (Await q k)
    with 1(2) have "run perform (k (fst (perform q s))) (snd (perform q s)) = Some p" by simp
    from 1(1) [OF this] Await show ?thesis by simp
  qed (use 1(2) in auto)
qed

interpretation lazily: pull_source "run_to_yield perform" "alone perform" for perform
proof unfold_locales
  fix t s
  show "alone perform t s =
    (case run_to_yield perform t s of
       None \<Rightarrow> None
     | Some (Inl (x, t'), s') \<Rightarrow> prefixed [x] (alone perform t' s')
     | Some (Inr r, s') \<Rightarrow> Some ([], r, s'))"
    using alone_run_to_yield [of perform t s] run_to_yield_alone [of perform t s]
    by (cases "run_to_yield perform t s"; cases "alone perform t s") auto
qed

text \<open>Sequencing and loops.\<close>

lemma run_to_yield_cbind_ends:
  "run_to_yield perform t s = Some p \<Longrightarrow> t = cbind m f \<Longrightarrow> \<exists>q. run_to_yield perform m s = Some q"
proof (induction arbitrary: m rule: run_to_yield.raw_induct [rotated, consumes 1])
  case (1 run perform t s p)
  show ?case
  proof (cases m)
    case (Act g)
    with 1(2,3) have "run perform (cbind (fst (g s)) f) (snd (g s)) = Some p" by simp
    from 1(1) [OF this refl] Act show ?thesis by simp
  next
    case (Await q k)
    with 1(2,3) have "run perform (cbind (k (fst (perform q s))) f) (snd (perform q s)) = Some p" by simp
    from 1(1) [OF this refl] Await show ?thesis by simp
  qed simp_all
qed

lemma run_to_yield_cbind_goes_on:
  "run_to_yield perform m s = Some p \<Longrightarrow> run_to_yield perform (cbind m f) s =
     (case p of (Inl (y, t), s') \<Rightarrow> Some (Inl (y, cbind t f), s') | (Inr a, s') \<Rightarrow> run_to_yield perform (f a) s')"
proof (induction rule: run_to_yield.raw_induct [rotated, consumes 1])
  case (1 run perform m s p)
  show ?case
  proof (cases m)
    case (Act g)
    with 1(2) have "run perform (fst (g s)) (snd (g s)) = Some p" by simp
    from 1(1) [OF this] Act show ?thesis by simp
  next
    case (Await q k)
    with 1(2) have "run perform (k (fst (perform q s))) (snd (perform q s)) = Some p" by simp
    from 1(1) [OF this] Await show ?thesis by simp
  qed (use 1(2) in auto)
qed

lemma run_to_yield_cbind:
  "run_to_yield perform (cbind m f) s =
     (case run_to_yield perform m s of
        None \<Rightarrow> None
      | Some (Inl (y, t), s') \<Rightarrow> Some (Inl (y, cbind t f), s')
      | Some (Inr a, s') \<Rightarrow> run_to_yield perform (f a) s')"
  using run_to_yield_cbind_goes_on [of perform m s _ f] run_to_yield_cbind_ends [OF _ refl, of perform m f s]
  by (cases "run_to_yield perform (cbind m f) s"; cases "run_to_yield perform m s"; force)

lemma run_to_yield_cloop_ends:
  "run_to_yield perform t s = Some p \<Longrightarrow> t = cloop body m \<Longrightarrow> \<exists>q. run_to_yield perform m s = Some q"
proof (induction arbitrary: m rule: run_to_yield.raw_induct [rotated, consumes 1])
  case (1 run perform t s p)
  show ?case
  proof (cases m)
    case (Act g)
    with 1(2,3) have "run perform (cloop body (fst (g s))) (snd (g s)) = Some p" by simp
    from 1(1) [OF this refl] Act show ?thesis by simp
  next
    case (Await q k)
    with 1(2,3) have "run perform (cloop body (k (fst (perform q s)))) (snd (perform q s)) = Some p" by simp
    from 1(1) [OF this refl] Await show ?thesis by simp
  qed simp_all
qed

lemma run_to_yield_cloop_goes_on:
  "run_to_yield perform m s = Some p \<Longrightarrow> run_to_yield perform (cloop body m) s =
     (case p of
        (Inl (y, t), s') \<Rightarrow> Some (Inl (y, cloop body t), s')
      | (Inr (Inl x), s') \<Rightarrow> run_to_yield perform (cwhile body x) s'
      | (Inr (Inr a), s') \<Rightarrow> Some (Inr a, s'))"
proof (induction rule: run_to_yield.raw_induct [rotated, consumes 1])
  case (1 run perform m s p)
  show ?case
  proof (cases m)
    case (Finish r)
    with 1(2) show ?thesis by (cases r) auto
  next
    case (Act g)
    with 1(2) have "run perform (fst (g s)) (snd (g s)) = Some p" by simp
    from 1(1) [OF this] Act show ?thesis by simp
  next
    case (Await q k)
    with 1(2) have "run perform (k (fst (perform q s))) (snd (perform q s)) = Some p" by simp
    from 1(1) [OF this] Await show ?thesis by simp
  qed (use 1(2) in auto)
qed

lemma run_to_yield_cloop:
  "run_to_yield perform (cloop body m) s =
     (case run_to_yield perform m s of
        None \<Rightarrow> None
      | Some (Inl (y, t), s') \<Rightarrow> Some (Inl (y, cloop body t), s')
      | Some (Inr (Inl x), s') \<Rightarrow> run_to_yield perform (cwhile body x) s'
      | Some (Inr (Inr a), s') \<Rightarrow> Some (Inr a, s'))"
  using run_to_yield_cloop_goes_on [of perform m s _ body] run_to_yield_cloop_ends [OF _ refl, of perform body m s]
  by (cases "run_to_yield perform (cloop body m) s"; cases "run_to_yield perform m s"; force)

text \<open>What yields nothing runs to its end.\<close>

lemma run_to_yield_end:
  assumes "alone perform m s = Some ([], a, s')"
  shows "run_to_yield perform m s = Some (Inr a, s')"
proof -
  from alone_run_to_yield [OF assms] obtain p where p: "run_to_yield perform m s = Some p" by blast
  from run_to_yield_alone [OF p] assms p show ?thesis
    by (auto simp: Some_prefixed split: prod.splits sum.splits)
qed

subsection \<open>Loops that ask once for each element\<close>

text \<open>
  After the \<open>yield\<close> of its element a round comes to its end and asks nothing. \<open>counted\<close> is what has
  to hold of the outside world for \<open>cost\<close> to count what is asked of it.
\<close>

definition quiet :: "(suspension \<Rightarrow> 's \<Rightarrow> answer \<times> 's) \<Rightarrow> ('s \<Rightarrow> nat) \<Rightarrow> ('s, 'y, 'a) coroutine \<Rightarrow> bool" where
  "quiet perform cost t \<longleftrightarrow>
     (\<forall>s p s'. run_to_yield perform t s = Some (p, s') \<longrightarrow> (\<exists>r. p = Inr r) \<and> cost s' \<le> cost s)"

locale one_request_each =
  fixes perform :: "suspension \<Rightarrow> 's \<Rightarrow> answer \<times> 's"
    and body :: "'x \<Rightarrow> ('s, 'y, 'x + 'a) coroutine"
    and cost :: "'s \<Rightarrow> nat"
    and counted :: bool
  assumes asks: "counted \<Longrightarrow> run_to_yield perform (body x) s = Some (p, s') \<Longrightarrow>
      cost s' \<le> Suc (cost s) \<and> (\<forall>z. p \<noteq> Inr (Inl z)) \<and> (\<forall>y t. p = Inl (y, t) \<longrightarrow> quiet perform cost t)"
begin

lemma loop_asks:
  "counted \<Longrightarrow> run_to_yield perform (cwhile body x) s = Some (Inl (y, g), s') \<Longrightarrow>
     cost s' \<le> Suc (cost s) \<and> (\<exists>t. g = cloop body t \<and> quiet perform cost t)"
  using asks [of x s] unfolding cwhile_def
  by (auto simp: run_to_yield_cloop split: option.splits prod.splits sum.splits)

lemma rest_asks:
  assumes counted "run_to_yield perform (cloop body t) s = Some (Inl (y, g), s')" "quiet perform cost t"
  shows "cost s' \<le> Suc (cost s) \<and> (\<exists>t. g = cloop body t \<and> quiet perform cost t)"
proof -
  from assms(2,3) obtain x s1 where run: "run_to_yield perform t s = Some (Inr (Inl x), s1)"
    and loop: "run_to_yield perform (cwhile body x) s1 = Some (Inl (y, g), s')"
    by (fastforce simp: quiet_def run_to_yield_cloop split: option.splits prod.splits sum.splits)
  from assms(3) run have "cost s1 \<le> cost s" unfolding quiet_def by blast
  with loop_asks [OF assms(1) loop] show ?thesis by auto
qed

lemma rest_cost:
  "takes (run_to_yield perform) g s ys g' s' \<Longrightarrow> counted \<Longrightarrow> g = cloop body t \<Longrightarrow> quiet perform cost t \<Longrightarrow>
     cost s' \<le> cost s + length ys"
proof (induction arbitrary: t rule: takes.induct)
  case (took_one g s y g1 s1 ys g' s')
  from took_one.hyps(1) have "run_to_yield perform (cloop body t) s = Some (Inl (y, g1), s1)"
    unfolding took_one.prems(2) .
  from rest_asks [OF took_one.prems(1) this took_one.prems(3)] took_one.IH took_one.prems(1)
  show ?case by fastforce
qed simp

theorem takes_cost:
  assumes counted "takes (run_to_yield perform) (cwhile body x) s ys g s'"
  shows "cost s' \<le> cost s + length ys"
  using assms(2)
proof (cases ys)
  case (Cons y ys')
  with assms(2) obtain g1 s1 where first: "run_to_yield perform (cwhile body x) s = Some (Inl (y, g1), s1)"
    and rest: "takes (run_to_yield perform) g1 s1 ys' g s'"
    by (auto elim: takes_ConsE)
  from loop_asks [OF assms(1) first] rest_cost [OF rest assms(1)] Cons show ?thesis by fastforce
qed (auto elim: takes.cases)

end

end
