(* ===== verification/Sdk_Lazy.thy ===== *)
theory Sdk_Lazy
  imports Py_Generator Sdk_Async_Jobs Sdk_Async_Pages
begin

text \<open>
  The generators of the SDK are lazy: nothing is asked of the service before the consumer asks for
  the next element, and an element costs at most one request.
\<close>

subsection \<open>What operations ask\<close>

text \<open>\<open>sent\<close> counts the requests the world has seen.\<close>

definition counts_requests :: "'w env \<Rightarrow> ('w \<Rightarrow> nat) \<Rightarrow> bool" where
  "counts_requests env sent \<longleftrightarrow>
     (\<forall>r w. sent (snd (env_send env r w)) = Suc (sent w)) \<and> (\<forall>d w. sent (env_sleep env d w) = sent w)
     \<and> (\<forall>w. sent (snd (env_monotonic env w)) = sent w)"

definition asked :: "('w \<Rightarrow> nat) \<Rightarrow> 'w heap \<Rightarrow> nat" where
  "asked sent h = sent (world (heap_client h))"

lemma invoke_asks:
  assumes "counts_requests env sent" "invoke env c expect st = (res, st')"
  shows "sent (world st') \<le> Suc (sent (world st))"
proof (cases "closed st")
  case False
  have w: "world (snd (settle env expect r st1)) = world st1" for r st1
    by (auto simp: settle_def split: call_result.splits sum.splits prod.splits)
  from assms(2) have "world st' = snd (sync_detailed env c (world st))"
    using w [of "fst (sync_detailed env c (world st))" "st\<lparr>world := snd (sync_detailed env c (world st))\<rparr>"]
    unfolding invoke_settle [OF False] by simp
  with assms(1) show ?thesis by (simp add: sync_detailed_answered counts_requests_def)
qed (use assms in \<open>auto simp: invoke_closed\<close>)

lemma fetch_asks:
  assumes "counts_requests env sent" "fetch_classes env q k st = (res, st')"
  shows "sent (world st') \<le> Suc (sent (world st))"
proof (cases "list_classes_name_domain_of (JStr (query_name_domain q))")
  case (Inr d)
  with assms(2) show ?thesis
    by (auto simp: fetch_classes_def sbind_def slift_def dest: invoke_asks [OF assms(1)])
qed (use assms(2) in \<open>auto simp: fetch_classes_def sbind_def slift_def\<close>)

lemma refresh_asks:
  assumes "counts_requests env sent" "job_refresh env raw st = (res, raw', st')"
  shows "sent (world st') \<le> Suc (sent (world st))"
  using assms(2)
  by (auto simp: job_refresh_def fetch_job_def split: prod.splits sum.splits dest: invoke_asks [OF assms(1)])

lemma pause_asks:
  "counts_requests env sent \<Longrightarrow> pause env deadline interval st = (go, st') \<Longrightarrow> sent (world st') = sent (world st)"
  by (auto simp: counts_requests_def pause_def Let_def split: option.splits prod.splits if_splits) (metis snd_conv)+

subsection \<open>The generators\<close>

lemma run_past:
  assumes "alone (perform env) m h = Some ([], a, h')"
  shows "run_to_yield (perform env) (cbind m f) h = run_to_yield (perform env) (f a) h'"
  using run_to_yield_end [OF assms] by (simp add: run_to_yield_cbind)

lemma quiet_finish [simp]: "quiet P cost (Finish a)"
  by (auto simp: quiet_def)

lemma class_round_asks:
  assumes "counts_requests env sent" "run_to_yield (perform env) (async_class_round env q m x) h = Some (p, h')"
  shows "asked sent h' \<le> Suc (asked sent h) \<and> (\<forall>z. p \<noteq> Inr (Inl z))
    \<and> (\<forall>y t. p = Inl (y, t) \<longrightarrow> quiet (perform env) (asked sent) t)"
proof -
  obtain k n seen where x: "x = (k, n, seen)" by (cases x)
  obtain res st' where f: "fetch_classes env q k (heap_client h) = (res, st')" by fastforce
  from alone_twin [OF fetch_classes_twin, of env q k h] f
  have a: "alone (perform env) (async_fetch_classes env q k) h = Some ([], res, put_client st' h)" by simp
  from assms(2) fetch_asks [OF assms(1) f] show ?thesis
    unfolding x async_class_round.simps run_past [OF a]
    by (cases res) (auto simp: asked_def split: sum.splits option.splits)
qed

lemma reference_round_asks:
  assumes "counts_requests env sent" "run_to_yield (perform env) (async_reference_round env x) h = Some (p, h')"
  shows "asked sent h' \<le> Suc (asked sent h) \<and> (\<forall>z. p \<noteq> Inr (Inl z))
    \<and> (\<forall>y t. p = Inl (y, t) \<longrightarrow> quiet (perform env) (asked sent) t)"
proof -
  obtain k seen where x: "x = (k, seen)" by (cases x)
  obtain res st' where f: "invoke env (query_references_call k) as_references (heap_client h) = (res, st')"
    by fastforce
  from alone_twin [OF runs_as_invoke, of env "query_references_call k" as_references h] f
  have a: "alone (perform env) (async_invoke env (query_references_asyncio k) as_references) h =
      Some ([], res, put_client st' h)" by (simp add: query_references_asyncio_def)
  from assms(2) invoke_asks [OF assms(1) f] show ?thesis
    unfolding x async_reference_round.simps run_past [OF a]
    by (cases res) (auto simp: asked_def split: sum.splits option.splits)
qed

lemma quiet_pause:
  fixes env :: "'w env"
  assumes "counts_requests env sent"
  shows "quiet (perform env) (asked sent) (cbind (job_at a) (\<lambda>raw.
    if job_ended raw then Finish (Inr x) else cbind (async_pause env deadline interval) (\<lambda>go. Finish (f go))))"
  unfolding quiet_def
proof (intro allI impI)
  fix h h' :: "'w heap" and p
  assume "run_to_yield (perform env) (cbind (job_at a) (\<lambda>raw.
    if job_ended raw then Finish (Inr x)
    else cbind (async_pause env deadline interval) (\<lambda>go. Finish (f go)))) h = Some (p, h')"
  with pause_asks [OF assms surjective_pairing, of deadline interval "heap_client h"]
  show "(\<exists>r. p = Inr r) \<and> asked sent h' \<le> asked sent h"
    by (auto simp: asked_def run_past [OF alone_job_at] run_past [OF alone_pause] split: if_splits)
qed

lemma poll_round_asks:
  assumes "counts_requests env sent"
    and "run_to_yield (perform env) (async_poll_round env deadline interval a x) h = Some (p, h')"
  shows "asked sent h' \<le> Suc (asked sent h) \<and> (\<forall>z. p \<noteq> Inr (Inl z))
    \<and> (\<forall>y t. p = Inl (y, t) \<longrightarrow> quiet (perform env) (asked sent) t)"
proof -
  obtain res raw' st' where r: "job_refresh env (heap_jobs h a) (heap_client h) = (res, raw', st')"
    by (cases "job_refresh env (heap_jobs h a) (heap_client h)")
  from assms(2) refresh_asks [OF assms(1) r] quiet_pause [OF assms(1)] show ?thesis
    unfolding async_poll_round_def run_past [OF alone_refresh [OF r]]
    by (cases res) (auto simp: asked_def)
qed

interpretation lazy_classes:
  one_request_each "perform env" "async_class_round env q m" "asked sent" "counts_requests env sent"
  for env :: "'w env" and q m sent
  using class_round_asks by unfold_locales

interpretation lazy_references:
  one_request_each "perform env" "async_reference_round env" "asked sent" "counts_requests env sent"
  for env :: "'w env" and sent
  using reference_round_asks by unfold_locales

interpretation lazy_updates:
  one_request_each "perform env" "async_poll_round env deadline interval a" "asked sent" "counts_requests env sent"
  for env :: "'w env" and deadline interval a sent
  using poll_round_asks by unfold_locales

text \<open>The code before the loop asks nothing, and yields nothing.\<close>

lemma takes_past:
  assumes "takes (run_to_yield P) g h xs g' h'" "xs \<noteq> []" "run_to_yield P g h = run_to_yield P f h1"
  shows "takes (run_to_yield P) f h1 xs g' h'"
  using assms by (cases xs) (simp, metis takes_ConsE took_one)

lemma takes_nothing: "takes pull g h [] g' h' \<Longrightarrow> g' = g \<and> h' = h"
  by (auto elim: takes.cases)

lemma takes_ended: "takes (run_to_yield P) (Finish a) h xs g h' \<Longrightarrow> xs = []"
  by (cases xs) (auto elim!: takes_ConsE)

lemma classes_cost:
  assumes "counts_requests env sent" "takes (run_to_yield (perform env)) (async_class_pages env q m) h ps g h'"
  shows "asked sent h' \<le> asked sent h + length ps"
proof (cases "case m of None \<Rightarrow> False | Some k \<Rightarrow> k < 1")
  case True
  with assms(2) have "ps = []" by (auto simp: async_class_pages_def araise_def dest: takes_ended)
  with assms(2) show ?thesis by (auto dest: takes_nothing)
next
  case False
  with assms show ?thesis by (auto simp: async_class_pages_def dest: lazy_classes.takes_cost)
qed

lemma references_cost:
  assumes "counts_requests env sent" "takes (run_to_yield (perform env)) (async_reference_pages env q) h ps g h'"
  shows "asked sent h' \<le> asked sent h + length ps"
proof (cases "reference_query_from_dict (JObj (reference_query_to_dict q))")
  case (Inl e)
  with assms(2) have "ps = []"
    by (auto simp: async_reference_pages_def abind_def alift_def dest: takes_ended)
  with assms(2) show ?thesis by (auto dest: takes_nothing)
next
  case (Inr r)
  with assms show ?thesis
    by (auto simp: async_reference_pages_def abind_def alift_def dest: lazy_references.takes_cost)
qed

lemma updates_cost:
  assumes "counts_requests env sent"
    and "takes (run_to_yield (perform env)) (async_poll_updates env timeout interval a) h js g h'"
  shows "asked sent h' \<le> asked sent h + length js"
proof (cases js)
  case Nil
  with assms(2) show ?thesis by (auto dest: takes_nothing)
next
  case (Cons j js')
  show ?thesis
  proof (cases "polling timeout interval")
    case (Inl e)
    with assms(2) Cons show ?thesis
      by (auto simp: async_poll_updates_def abind_def alift_def dest: takes_ended)
  next
    case (Inr u)
    obtain d st' where d: "start_deadline env timeout (heap_client h) = (d, st')" by fastforce
    let ?h = "put_client st' h"
    have "alone (perform env) (on_client (start_deadline env timeout)) h = Some ([] :: job list, d, ?h)"
      using d by simp
    from run_past [OF this] Inr have "run_to_yield (perform env) (async_poll_updates env timeout interval a) h =
        run_to_yield (perform env) (cwhile (async_poll_round env d interval a) ()) ?h"
      by (simp add: async_poll_updates_def abind_def alift_def)
    from takes_past [OF assms(2) _ this] Cons
    have "takes (run_to_yield (perform env)) (cwhile (async_poll_round env d interval a) ()) ?h js g h'" by simp
    from lazy_updates.takes_cost [OF assms(1) this] show ?thesis
      using d assms(1) by (auto simp: asked_def start_deadline_def counts_requests_def split: option.splits prod.splits)
        (metis snd_conv)
  qed
qed

end
