(* ===== verification/Sdk_Stream.thy ===== *)
theory Sdk_Stream
  imports Sdk_Events Py_Generator
begin

text \<open>
  \<open>Job.events\<close> as its consumer sees it: a generator that is asked for one event at a time and may be
  closed before its end (\<open>close\<close>, or the end of a \<open>for\<close> by \<open>break\<close> or an exception). What is counted is
  how often the \<open>with\<close> statement of the stream was entered and left.
\<close>

subsection \<open>The generator\<close>

text \<open>
  Where it is: not started; at its \<open>yield\<close>, with the events, slices and chunks still to come; or over.
\<close>

datatype stage =
    Unstarted
  | At_Yield parser "job_event list" "string list" "string list" stream_stop
  | Over

record 'w consumer =
  stage :: stage
  on :: "'w client"
  entered :: nat
  left :: nat

text \<open>The loops from one \<open>yield\<close> to the next.\<close>

function to_yield :: "parser \<Rightarrow> job_event list \<Rightarrow> string list \<Rightarrow> string list \<Rightarrow> stream_stop
    \<Rightarrow> (job_event \<times> stage) + (sdk_error + unit)" where
  "to_yield p (e # es) parts chunks stop = Inl (e, At_Yield p es parts chunks stop)"
| "to_yield p [] (c # parts) chunks stop =
     (case feed p c of
        Inl e \<Rightarrow> Inr (Inl e)
      | Inr (es, q) \<Rightarrow> to_yield q es parts chunks stop)"
| "to_yield p [] [] chunks stop =
     (if parser_terminal p then Inr (Inr ())
      else (case chunks of
              [] \<Rightarrow> Inr (Inl (stop_error stop))
            | c # chunks' \<Rightarrow> to_yield p [] (slices slice_size c) chunks' stop))"
  by pat_completeness auto

termination
  by (relation "measures [\<lambda>(p, es, parts, chunks, stop). length chunks, \<lambda>(p, es, parts, chunks, stop). length parts]")
    auto

text \<open>At its end, however it comes, the generator leaves the \<open>with\<close> statement.\<close>

definition resumed :: "(job_event \<times> stage) + (sdk_error + unit) \<Rightarrow> 'w consumer
    \<Rightarrow> (job_event \<times> 'w consumer) + ((sdk_error + unit) \<times> 'w consumer)" where
  "resumed r g =
     (case r of
        Inl (e, st) \<Rightarrow> Inl (e, g\<lparr>stage := st\<rparr>)
      | Inr res \<Rightarrow> Inr (res, g\<lparr>stage := Over, left := Suc (left g)\<rparr>))"

definition start_events :: "'w env \<Rightarrow> string option \<Rightarrow> job \<Rightarrow> 'w consumer
    \<Rightarrow> (job_event \<times> 'w consumer) + ((sdk_error + unit) \<times> 'w consumer)" where
  "start_events env last_event_id raw g =
     (if closed (on g) then Inr (Inl (Transport_Error ''Client is closed''), g\<lparr>stage := Over\<rparr>)
      else case env_stream env (events_url raw) (case last_event_id of None \<Rightarrow> [] | Some s \<Rightarrow> [(''Last-Event-ID'', s)])
                  (event_timeout (env_pool_timeout env)) (world (on g)) of
        (opened, w) \<Rightarrow>
          let g = g\<lparr>on := (on g)\<lparr>world := w\<rparr>\<rparr>
          in (case opened of
                Open_Timeout m \<Rightarrow> Inr (Inl (Request_Timeout_Error m), g\<lparr>stage := Over\<rparr>)
              | Open_Http_Error m \<Rightarrow> Inr (Inl (Transport_Error m), g\<lparr>stage := Over\<rparr>)
              | Opened s \<Rightarrow>
                  resumed
                    (if resp_status (stream_response s) \<noteq> 200 \<and> stream_read s \<noteq> Stream_End
                     then Inr (Inl (stop_error (stream_read s)))
                     else (case stream_status (stream_response s) of
                        Inl e \<Rightarrow> Inr (Inl e)
                      | Inr _ \<Rightarrow>
                          (case new_parser (job_job_id raw) last_event_id of
                             Inl e \<Rightarrow> Inr (Inl (Py_Error e))
                           | Inr p \<Rightarrow> to_yield p [] [] (stream_chunks s) (stream_end s))))
                    (g\<lparr>entered := Suc (entered g)\<rparr>)))"

definition next_event :: "'w env \<Rightarrow> string option \<Rightarrow> job \<Rightarrow> 'w consumer
    \<Rightarrow> (job_event \<times> 'w consumer) + ((sdk_error + unit) \<times> 'w consumer)" where
  "next_event env last_event_id raw g =
     (case stage g of
        Unstarted \<Rightarrow> start_events env last_event_id raw g
      | At_Yield p es parts chunks stop \<Rightarrow> resumed (to_yield p es parts chunks stop) g
      | Over \<Rightarrow> Inr (Inr (), g))"

definition close_events :: "'w consumer \<Rightarrow> 'w consumer" where
  "close_events g =
     (case stage g of
        At_Yield _ _ _ _ _ \<Rightarrow> g\<lparr>stage := Over, left := Suc (left g)\<rparr>
      | _ \<Rightarrow> g\<lparr>stage := Over\<rparr>)"

text \<open>\<open>job.events(...)\<close> itself runs nothing.\<close>

definition new_events :: "'w client \<Rightarrow> 'w consumer" where
  "new_events st = \<lparr>stage = Unstarted, on = st, entered = 0, left = 0\<rparr>"

subsection \<open>The whole of it\<close>

text \<open>What is still to come from a \<open>yield\<close> on, as \<open>read_chunks\<close> reads it.\<close>

definition chunks_to_come :: "parser \<Rightarrow> string list \<Rightarrow> stream_stop \<Rightarrow> job_event list \<times> (sdk_error + unit)" where
  "chunks_to_come p chunks stop = (if parser_terminal p then ([], Inr ()) else read_chunks p chunks stop)"

definition to_come :: "parser \<Rightarrow> job_event list \<Rightarrow> string list \<Rightarrow> string list \<Rightarrow> stream_stop
    \<Rightarrow> job_event list \<times> (sdk_error + unit)" where
  "to_come p es parts chunks stop =
     (case feed_slices p parts of
        (es1, Inl e) \<Rightarrow> (es @ es1, Inl e)
      | (es1, Inr q) \<Rightarrow> (case chunks_to_come q chunks stop of (es2, res) \<Rightarrow> (es @ es1 @ es2, res)))"

lemma to_come_simps:
  "to_come p (e # es) parts chunks stop = apfst ((#) e) (to_come p es parts chunks stop)"
  "to_come p [] (c # parts) chunks stop =
     (case feed p c of Inl e \<Rightarrow> ([], Inl e) | Inr (es, q) \<Rightarrow> to_come q es parts chunks stop)"
  "to_come p [] [] chunks stop = chunks_to_come p chunks stop"
  by (auto simp: to_come_def split: prod.splits sum.splits)

lemma chunks_to_come_simps:
  "parser_terminal p \<Longrightarrow> chunks_to_come p chunks stop = ([], Inr ())"
  "\<not> parser_terminal p \<Longrightarrow> chunks_to_come p [] stop = ([], Inl (stop_error stop))"
  "\<not> parser_terminal p \<Longrightarrow> chunks_to_come p (c # chunks) stop = to_come p [] (slices slice_size c) chunks stop"
  by (auto simp: chunks_to_come_def to_come_def split: prod.splits sum.splits)

lemma to_yield_to_come:
  "to_come p es parts chunks stop =
     (case to_yield p es parts chunks stop of
        Inl (e, At_Yield p' es' parts' chunks' stop') \<Rightarrow> apfst ((#) e) (to_come p' es' parts' chunks' stop')
      | Inl (e, _) \<Rightarrow> ([], Inr ())
      | Inr res \<Rightarrow> ([], res))"
proof (induction p es parts chunks stop rule: to_yield.induct)
  case (1 p e es parts chunks stop)
  then show ?case by (simp add: to_come_simps)
next
  case (2 p c parts chunks stop)
  then show ?case by (auto simp: to_come_simps split: sum.splits)
next
  case (3 p chunks stop)
  then show ?case by (cases chunks) (auto simp: to_come_simps chunks_to_come_simps)
qed

declare to_yield.simps [simp del]

lemma to_yield_suspends:
  "to_yield p es parts chunks stop = Inl (e, st) \<Longrightarrow> \<exists>p es parts chunks stop. st = At_Yield p es parts chunks stop"
  by (induction p es parts chunks stop rule: to_yield.induct)
    (auto simp: to_yield.simps split: sum.splits if_splits list.splits)

text \<open>The events and the end still to come, and the state then.\<close>

definition opens :: "'w env \<Rightarrow> string option \<Rightarrow> job \<Rightarrow> 'w client \<Rightarrow> bool" where
  "opens env last_event_id raw st \<longleftrightarrow>
     \<not> closed st
     \<and> (case fst (env_stream env (events_url raw)
             (case last_event_id of None \<Rightarrow> [] | Some s \<Rightarrow> [(''Last-Event-ID'', s)])
             (event_timeout (env_pool_timeout env)) (world st)) of
          Opened _ \<Rightarrow> True
        | _ \<Rightarrow> False)"

definition events_left :: "'w env \<Rightarrow> string option \<Rightarrow> job \<Rightarrow> 'w consumer
    \<Rightarrow> job_event list \<times> (sdk_error + unit) \<times> 'w consumer" where
  "events_left env last_event_id raw g =
     (case stage g of
        Unstarted \<Rightarrow>
          (case job_events env last_event_id raw (on g) of (es, res, st) \<Rightarrow>
             let n = (if opens env last_event_id raw (on g) then 1 else 0)
             in (es, res, g\<lparr>stage := Over, on := st, entered := entered g + n, left := left g + n\<rparr>))
      | At_Yield p es parts chunks stop \<Rightarrow>
          (case to_come p es parts chunks stop of (es, res) \<Rightarrow>
             (es, res, g\<lparr>stage := Over, left := Suc (left g)\<rparr>))
      | Over \<Rightarrow> ([], Inr (), g))"

definition pull_event :: "'w env \<Rightarrow> string option \<Rightarrow> job \<Rightarrow> 'w consumer \<Rightarrow> unit
    \<Rightarrow> ((job_event \<times> 'w consumer + (sdk_error + unit) \<times> 'w consumer) \<times> unit) option" where
  "pull_event env last_event_id raw g u = Some (next_event env last_event_id raw g, ())"

lemma resumed_left:
  "(case resumed (to_yield p es parts chunks stop) g of
      Inl (e, g') \<Rightarrow> (case events_left env last_event_id raw g' of (es, res, g'') \<Rightarrow> (e # es, res, g''))
    | Inr (res, g') \<Rightarrow> ([], res, g')) =
   (case to_come p es parts chunks stop of (es, res) \<Rightarrow> (es, res, g\<lparr>stage := Over, left := Suc (left g)\<rparr>))"
  using to_yield_suspends [of p es parts chunks stop]
  by (subst to_yield_to_come) (fastforce simp: resumed_def events_left_def split: sum.splits prod.splits)

lemma events_left_unfold:
  "events_left env last_event_id raw g =
     (case next_event env last_event_id raw g of
        Inl (e, g') \<Rightarrow> (case events_left env last_event_id raw g' of (es, res, g'') \<Rightarrow> (e # es, res, g''))
      | Inr (res, g') \<Rightarrow> ([], res, g'))"
proof (cases "stage g")
  case (At_Yield p es parts chunks stop)
  then show ?thesis
    unfolding next_event_def by (simp add: resumed_left) (simp add: events_left_def)
next
  case Over
  then show ?thesis by (simp add: events_left_def next_event_def)
next
  case Unstarted
  show ?thesis
  proof (cases "closed (on g)")
    case True
    with Unstarted show ?thesis
      by (simp add: events_left_def next_event_def start_events_def job_events_def opens_def)
  next
    case False
    obtain opened w where o: "env_stream env (events_url raw)
        (case last_event_id of None \<Rightarrow> [] | Some s \<Rightarrow> [(''Last-Event-ID'', s)])
        (event_timeout (env_pool_timeout env)) (world (on g)) = (opened, w)" by fastforce
    let ?g = "g\<lparr>on := (on g)\<lparr>world := w\<rparr>\<rparr>"
    show ?thesis
    proof (cases opened)
      case (Opened s)
      show ?thesis
      proof (cases "resp_status (stream_response s) \<noteq> 200 \<and> stream_read s \<noteq> Stream_End")
        case True
        with False Unstarted o Opened show ?thesis
          by (simp add: events_left_def next_event_def start_events_def job_events_def opens_def resumed_def)
      next
        case read: False
        show ?thesis
        proof (cases "ebind (stream_status (stream_response s)) (\<lambda>_. map_error Py_Error (new_parser (job_job_id raw) last_event_id))")
          case (Inl e)
          with read False Unstarted o Opened show ?thesis
            by (auto simp: events_left_def next_event_def start_events_def job_events_def opens_def resumed_def
                ebind_eq_Inl map_error_def Let_def split: sum.splits)
        next
          case (Inr p)
          then have ok: "stream_status (stream_response s) = Inr ()" and p: "new_parser (job_job_id raw) last_event_id = Inr p"
            by (auto simp: ebind_eq_Inr)
          from p have "\<not> parser_terminal p" by (auto simp: new_parser_def ebind_eq_Inr)
          then have rc: "read_chunks p cs stop = to_come p [] [] cs stop" for cs stop
            by (simp add: to_come_simps chunks_to_come_def)
          have "next_event env last_event_id raw g =
              resumed (to_yield p [] [] (stream_chunks s) (stream_end s)) (?g\<lparr>entered := Suc (entered g)\<rparr>)"
            using read False Unstarted o Opened ok p by (auto simp: next_event_def start_events_def Let_def)
          note run = this resumed_left [where p = p and es = "[]" and parts = "[]"]
          from read False Unstarted o Opened ok p show ?thesis
            unfolding run by (auto simp: events_left_def job_events_def opens_def rc Let_def split: prod.split)
        qed
      qed
    qed (use False Unstarted o in \<open>simp_all add: events_left_def next_event_def start_events_def job_events_def opens_def\<close>)
  qed
qed

text \<open>Run to its end, the generator gives what \<open>job_events\<close> gives.\<close>

definition all_events :: "'w env \<Rightarrow> string option \<Rightarrow> job \<Rightarrow> 'w consumer \<Rightarrow> unit
    \<Rightarrow> (job_event list \<times> ((sdk_error + unit) \<times> 'w consumer) \<times> unit) option" where
  "all_events env last_event_id raw g u =
     (case events_left env last_event_id raw g of (es, res, g') \<Rightarrow> Some (es, (res, g'), ()))"

interpretation streamed: pull_source "pull_event env raw_id raw" "all_events env raw_id raw" for env raw_id raw
proof unfold_locales
  fix g :: "'a consumer" and u
  show "all_events env raw_id raw g u =
    (case pull_event env raw_id raw g u of
       None \<Rightarrow> None
     | Some (Inl (x, g'), s') \<Rightarrow> prefixed [x] (all_events env raw_id raw g' s')
     | Some (Inr r, s') \<Rightarrow> Some ([], r, s'))"
    unfolding all_events_def
    by (subst events_left_unfold) (auto simp: pull_event_def split: sum.splits prod.splits)
qed

subsection \<open>Any consumer\<close>

text \<open>A consumer asks for the next event and closes the generator as it likes.\<close>

datatype request = Ask_Next | Ask_Close

fun serve :: "'w env \<Rightarrow> string option \<Rightarrow> job \<Rightarrow> request list \<Rightarrow> 'w consumer \<Rightarrow> job_event list \<times> 'w consumer" where
  "serve env last_event_id raw [] g = ([], g)"
| "serve env last_event_id raw (Ask_Next # rs) g =
     (case next_event env last_event_id raw g of
        Inl (e, g') \<Rightarrow> apfst ((#) e) (serve env last_event_id raw rs g')
      | Inr (res, g') \<Rightarrow> serve env last_event_id raw rs g')"
| "serve env last_event_id raw (Ask_Close # rs) g = serve env last_event_id raw rs (close_events g)"

text \<open>The stream is held exactly while the generator is at a \<open>yield\<close>.\<close>

definition balanced :: "'w consumer \<Rightarrow> bool" where
  "balanced g \<longleftrightarrow>
     (case stage g of
        Unstarted \<Rightarrow> entered g = 0 \<and> left g = 0
      | At_Yield _ _ _ _ _ \<Rightarrow> entered g = 1 \<and> left g = 0
      | Over \<Rightarrow> entered g = left g \<and> left g \<le> 1)"

lemma balanced_stages:
  "stage g = Unstarted \<Longrightarrow> balanced g \<longleftrightarrow> entered g = 0 \<and> left g = 0"
  "stage g = At_Yield p es parts chunks stop \<Longrightarrow> balanced g \<longleftrightarrow> entered g = 1 \<and> left g = 0"
  "stage g = Over \<Longrightarrow> balanced g \<longleftrightarrow> entered g = left g \<and> left g \<le> 1"
  by (simp_all add: balanced_def)

lemma resumed_balanced:
  "resumed (to_yield p es parts chunks stop) g = Inl (e, g') \<Longrightarrow> entered g = Suc 0 \<Longrightarrow> left g = 0 \<Longrightarrow> balanced g'"
  "resumed (to_yield p es parts chunks stop) g = Inr (res, g') \<Longrightarrow> entered g = Suc 0 \<Longrightarrow> left g = 0 \<Longrightarrow> balanced g'"
  using to_yield_suspends [of p es parts chunks stop]
  by (fastforce simp: resumed_def balanced_def split: sum.splits prod.splits)+

lemma next_balanced:
  assumes "balanced g"
  shows "next_event env last_event_id raw g = Inl (e, g') \<Longrightarrow> balanced g'"
    and "next_event env last_event_id raw g = Inr (res, g') \<Longrightarrow> balanced g'"
proof -
  have "next_event env last_event_id raw g = Inl (e, g') \<or> next_event env last_event_id raw g = Inr (res, g') \<Longrightarrow>
    balanced g'"
  proof (cases "stage g")
    case Unstarted
    with assms have zero: "entered g = 0" "left g = 0" by (simp_all add: balanced_stages)
    show "next_event env last_event_id raw g = Inl (e, g')
        \<or> next_event env last_event_id raw g = Inr (res, g') \<Longrightarrow> balanced g'"
      using zero by (auto dest: resumed_balanced simp: Unstarted next_event_def start_events_def Let_def balanced_stages resumed_def [of "Inr _"]
          split: prod.splits stream_outcome.splits sum.splits if_splits)
  next
    case (At_Yield p es parts chunks stop)
    with assms show "next_event env last_event_id raw g = Inl (e, g')
        \<or> next_event env last_event_id raw g = Inr (res, g') \<Longrightarrow> balanced g'"
      by (auto dest: resumed_balanced simp: next_event_def balanced_stages)
  qed (use assms in \<open>auto simp: next_event_def\<close>)
  then show "next_event env last_event_id raw g = Inl (e, g') \<Longrightarrow> balanced g'"
    and "next_event env last_event_id raw g = Inr (res, g') \<Longrightarrow> balanced g'" by blast+
qed

lemma close_balanced: "balanced g \<Longrightarrow> balanced (close_events g) \<and> stage (close_events g) = Over"
  by (auto simp: balanced_def close_events_def split: stage.splits)

lemma serve_balanced: "serve env last_event_id raw rs g = (es, g') \<Longrightarrow> balanced g \<Longrightarrow> balanced g'"
proof (induction env last_event_id raw rs g arbitrary: es rule: serve.induct)
  case (2 env last_event_id raw rs g)
  with next_balanced [OF 2(4), of env last_event_id raw] show ?case
    by (fastforce split: sum.splits prod.splits simp: apfst_def map_prod_def)
next
  case (3 env last_event_id raw rs g)
  with close_balanced show ?case by auto
qed simp

lemma close_over: "stage g = Over \<Longrightarrow> close_events g = g"
  by (cases g) (simp add: close_events_def)

lemma serve_over: "stage g = Over \<Longrightarrow> serve env last_event_id raw rs g = ([], g)"
proof (induction rs)
  case (Cons a rs)
  then show ?case by (cases a) (simp_all add: next_event_def close_over)
qed simp

lemma next_over: "next_event env last_event_id raw g = Inr (res, g') \<Longrightarrow> stage g' = Over"
  by (auto simp: next_event_def start_events_def resumed_def Let_def
      split: stage.splits prod.splits stream_outcome.splits sum.splits if_splits)

lemma serve_prefix:
  "serve env last_event_id raw rs g = (es, g') \<Longrightarrow>
     \<exists>more. fst (events_left env last_event_id raw g) = es @ more"
proof (induction env last_event_id raw rs g arbitrary: es rule: serve.induct)
  case (2 env last_event_id raw rs g)
  show ?case
  proof (cases "next_event env last_event_id raw g")
    case (Inl p)
    with 2 show ?thesis
      by (subst events_left_unfold) (fastforce simp: apfst_def map_prod_def split: prod.splits)
  next
    case (Inr p)
    obtain res g1 where "p = (res, g1)" by fastforce
    with Inr 2(3) next_over [of env last_event_id raw g] serve_over [of g1] show ?thesis by simp
  qed
next
  case (3 env last_event_id raw rs g)
  with serve_over [of "close_events g"] show ?case by (auto simp: close_events_def split: stage.splits)
qed simp

text \<open>Closed it is over; asked for all its events, it ends as it does when it is run to its end.\<close>

lemma serve_closed: "Ask_Close \<in> set rs \<Longrightarrow> stage (snd (serve env last_event_id raw rs g)) = Over"
proof (induction env last_event_id raw rs g rule: serve.induct)
  case (2 env last_event_id raw rs g)
  from 2(3) have "Ask_Close \<in> set rs" by simp
  with 2(1,2) show ?case by (simp split: sum.split prod.split)
next
  case (3 env last_event_id raw rs g)
  have "stage (close_events g) = Over" by (simp add: close_events_def split: stage.split)
  from serve_over [OF this] this show ?case by simp
qed simp

lemma takes_serve:
  "takes (pull_event env last_event_id raw) g u es g' u' \<Longrightarrow>
     serve env last_event_id raw (replicate (length es) Ask_Next @ rs) g = apfst ((@) es) (serve env last_event_id raw rs g')"
  by (induction rule: takes.induct) (auto simp: pull_event_def apfst_def map_prod_def split: prod.split)

lemma serve_all:
  assumes "events_left env last_event_id raw g = (es, res, g')"
  shows "\<exists>g1. serve env last_event_id raw (replicate (length es) Ask_Next) g = (es, g1)
    \<and> next_event env last_event_id raw g1 = Inr (res, g')"
proof -
  from assms have "all_events env last_event_id raw g () = Some (es, (res, g'), ())" by (simp add: all_events_def)
  from streamed.takes_all [OF this] obtain g1 u where
    t: "takes (pull_event env last_event_id raw) g () es g1 u"
    and e: "next_event env last_event_id raw g1 = Inr (res, g')"
    by (auto simp: pull_event_def)
  from takes_serve [OF t, of "[]"] e show ?thesis by simp
qed

lemma new_events_left:
  assumes "job_events env last_event_id raw st = (es, res, st')"
  shows "\<exists>g'. events_left env last_event_id raw (new_events st) = (es, res, g') \<and> on g' = st'"
  using assms by (simp add: events_left_def new_events_def Let_def)

lemma all_of_new_events: "fst (events_left env last_event_id raw (new_events st)) = fst (job_events env last_event_id raw st)"
  using new_events_left [of env last_event_id raw st] by (cases "job_events env last_event_id raw st") auto

lemma new_balanced: "balanced (new_events st)"
  by (simp add: balanced_def new_events_def)

text \<open>The first event, and a consumer that stops there.\<close>

lemma next_yields:
  "next_event env last_event_id raw g = Inl (e, g') \<Longrightarrow> \<exists>p es parts chunks stop. stage g' = At_Yield p es parts chunks stop"
  by (auto simp: next_event_def start_events_def resumed_def Let_def dest!: to_yield_suspends
      split: stage.splits prod.splits stream_outcome.splits sum.splits if_splits)

lemma serve_first:
  assumes "fst (job_events env last_event_id raw st) = e # es"
  shows "\<exists>g. serve env last_event_id raw (Ask_Next # Ask_Close # rs) (new_events st) = ([e], g) \<and> entered g = 1"
proof -
  from assms obtain g1 where g1: "next_event env last_event_id raw (new_events st) = Inl (e, g1)"
    using all_of_new_events [of env last_event_id raw st] events_left_unfold [of env last_event_id raw "new_events st"]
    by (auto split: sum.splits prod.splits)
  from next_yields [OF g1] next_balanced(1) [OF new_balanced g1]
  have "entered g1 = 1" "stage (close_events g1) = Over" "entered (close_events g1) = entered g1"
    by (auto simp: balanced_stages close_events_def)
  with g1 serve_over [of "close_events g1"] show ?thesis by simp
qed

end
