(* ===== verification/Release_Scripts.thy ===== *)
theory Release_Scripts
  imports Py_Json "HOL-Library.Char_ord" "HOL-Library.List_Lexorder" "HOL-Library.Multiset"
begin

text \<open>
  The release scripts (\<open>scripts/artifact_manifest.py\<close>, \<open>scripts/check_generated.py\<close>): the fingerprint of
  the generated package, the check that it has not drifted, and the manifest of the archives. What is
  on the disk and in the archives is an argument, the SHA-256 of \<open>hashlib\<close> is a parameter.
\<close>

subsection \<open>Paths\<close>

text \<open>A relative path of \<open>pathlib\<close>; paths are ordered by their parts.\<close>

datatype path = Path (parts: "string list")

instantiation path :: linorder
begin

definition less_eq_path :: "path \<Rightarrow> path \<Rightarrow> bool" where
  "less_eq_path p q \<longleftrightarrow> parts p \<le> parts q"

definition less_path :: "path \<Rightarrow> path \<Rightarrow> bool" where
  "less_path p q \<longleftrightarrow> parts p < parts q"

instance
  by standard (auto simp: less_eq_path_def less_path_def intro: path.expand)

end

fun joined :: "string list \<Rightarrow> string" where
  "joined [] = []"
| "joined [x] = x"
| "joined (x # y # xs) = x @ CHR ''/'' # joined (y # xs)"

definition path_str :: "path \<Rightarrow> string" where
  "path_str p = (if parts p = [] then ''.'' else joined (parts p))"

text \<open>What \<open>rglob\<close> finds under a folder: each path once, in any order.\<close>

datatype entry = Regular string | Folder

datatype script_error =
    Is_A_Directory
  | Not_Found string
  | Key_Missing string
  | No_Metadata
  | Not_Utf8
  | Assertion_Failed
  | Drift "string list"

fun read_bytes :: "entry \<Rightarrow> script_error + string" where
  "read_bytes (Regular b) = Inr b"
| "read_bytes Folder = Inl Is_A_Directory"

definition ends_with :: "string \<Rightarrow> string \<Rightarrow> bool" where
  "ends_with s x \<longleftrightarrow> drop (length s - length x) s = x"

subsection \<open>The fingerprint of the generated package\<close>

definition python_source :: "path \<Rightarrow> bool" where
  "python_source p \<longleftrightarrow> parts p \<noteq> [] \<and> ends_with (last (parts p)) ''.py''"

definition fingerprint_part :: "path \<Rightarrow> string \<Rightarrow> string" where
  "fingerprint_part p b = path_str p @ [CHR 0x00] @ b @ [CHR 0x00]"

definition generated_fingerprint :: "(string \<Rightarrow> string) \<Rightarrow> (path \<times> entry) list \<Rightarrow> script_error + string" where
  "generated_fingerprint sha found =
     ebind (emap (\<lambda>(p, e). ebind (read_bytes e) (\<lambda>b. Inr (fingerprint_part p b)))
         (sort_key fst (filter (\<lambda>(p, e). python_source p) found)))
       (\<lambda>updates. Inr (sha (concat updates)))"

subsection \<open>Drift\<close>

definition tree :: "string list \<Rightarrow> (path \<times> entry) list \<Rightarrow> (string \<times> string) list" where
  "tree base found = concat (map (\<lambda>(p, e). case e of
       Regular b \<Rightarrow> if ''__pycache__'' \<in> set (base @ parts p) then [] else [(path_str p, b)]
     | Folder \<Rightarrow> []) found)"

definition changed :: "(string \<times> string) list \<Rightarrow> (string \<times> string) list \<Rightarrow> string list" where
  "changed expected actual =
     filter (\<lambda>k. map_of expected k \<noteq> map_of actual k)
       (sorted_list_of_set (set (map fst expected) \<union> set (map fst actual)))"

definition check_generated :: "(string \<times> string) list \<Rightarrow> (string \<times> string) list \<Rightarrow> script_error + nat" where
  "check_generated expected actual =
     (if changed expected actual \<noteq> [] then Inl (Drift (changed expected actual)) else Inr (length actual))"

subsection \<open>The manifest\<close>

definition assert_that :: "bool \<Rightarrow> script_error + unit" where
  "assert_that b = (if b then Inr () else Inl Assertion_Failed)"

fun contains :: "string \<Rightarrow> string \<Rightarrow> bool" where
  "contains s [] \<longleftrightarrow> s = []"
| "contains s (c # t) \<longleftrightarrow> take (length s) (c # t) = s \<or> contains s t"

text \<open>\<open>str.splitlines\<close>: the length of the line boundary a text starts with.\<close>

definition boundary :: "string \<Rightarrow> nat" where
  "boundary s =
     (if take 2 s = [CHR 0x0D, CHR 0x0A] \<or> take 2 s = [CHR 0xC2, CHR 0x85] then 2
      else if take 3 s = [CHR 0xE2, CHR 0x80, CHR 0xA8] \<or> take 3 s = [CHR 0xE2, CHR 0x80, CHR 0xA9] then 3
      else if take 1 s \<in> (\<lambda>c. [c]) ` {CHR 0x0A, CHR 0x0B, CHR 0x0C, CHR 0x0D, CHR 0x1C, CHR 0x1D, CHR 0x1E} then 1
      else 0)"

function split_from :: "string \<Rightarrow> string \<Rightarrow> string list" where
  "split_from line [] = (if line = [] then [] else [line])"
| "split_from line (c # s) =
     (if boundary (c # s) = 0 then split_from (line @ [c]) s
      else line # split_from [] (drop (boundary (c # s)) (c # s)))"
  by pat_completeness auto

termination
  by (relation "measure (\<lambda>(line, s). length s)") auto

definition splitlines :: "string \<Rightarrow> string list" where
  "splitlines s = split_from [] s"

definition decoded :: "string \<Rightarrow> script_error + string" where
  "decoded b = (if utf8_ok b then Inr b else Inl Not_Utf8)"

definition member :: "(string \<times> 'a) list \<Rightarrow> string \<Rightarrow> script_error + 'a" where
  "member archive name = (case map_of (rev archive) name of None \<Rightarrow> Inl (Key_Missing name) | Some x \<Rightarrow> Inr x)"

definition licences :: "string list" where
  "licences = [''LICENSE'', ''OPENAPI-PYTHON-CLIENT-LICENSE'', ''THIRD_PARTY.md'']"

definition licences_kept :: "(string \<Rightarrow> script_error + string) \<Rightarrow> (string \<Rightarrow> script_error + string)
    \<Rightarrow> script_error + unit list" where
  "licences_kept disk read =
     emap (\<lambda>name. ebind (read name) (\<lambda>b. ebind (disk name) (\<lambda>b'. assert_that (b = b')))) licences"

definition wheel_member_ok :: "string \<Rightarrow> bool" where
  "wheel_member_ok p \<longleftrightarrow> \<not> ends_with p ''.jar'' \<and> \<not> ends_with p ''.class'' \<and> \<not> ends_with p ''.pyc'' \<and> \<not> contains ''/tests/'' p"

text \<open>Outside of ASCII, \<open>lower\<close> makes no letter of this word.\<close>

definition foreign :: "string \<Rightarrow> bool" where
  "foreign p \<longleftrightarrow> contains ''libghidra'' (lower_ascii p)"

definition licence_folder :: "string \<Rightarrow> string" where
  "licence_folder metadata_path = take (length metadata_path - length ''METADATA'') metadata_path @ ''licenses/''"

definition inspect_wheel :: "(string \<Rightarrow> script_error + string) \<Rightarrow> (string \<times> string) list
    \<Rightarrow> script_error + string list \<times> string list" where
  "inspect_wheel disk wheel =
     (let files = sort (map fst wheel) in
      ebind (assert_that (''libjadx/py.typed'' \<in> set files)) (\<lambda>_.
      ebind (assert_that (list_all wheel_member_ok files)) (\<lambda>_.
      ebind (case find (\<lambda>p. ends_with p ''/METADATA'') files of None \<Rightarrow> Inl No_Metadata | Some p \<Rightarrow> Inr p) (\<lambda>metadata_path.
      ebind (ebind (member wheel metadata_path) decoded) (\<lambda>metadata.
      let runtime = filter (\<lambda>line. take 14 line = ''Requires-Dist:'') (splitlines metadata) in
      ebind (assert_that (length runtime = 3)) (\<lambda>_.
      ebind (assert_that (''License-Expression: Apache-2.0'' \<in> set (splitlines metadata))) (\<lambda>_.
      ebind (assert_that (\<not> list_ex foreign (files @ runtime))) (\<lambda>_.
      ebind (licences_kept disk (\<lambda>name. member wheel (licence_folder metadata_path @ name))) (\<lambda>_.
      Inr (files, runtime))))))))))"

definition inspect_sdist :: "(string \<Rightarrow> script_error + string) \<Rightarrow> (string \<times> entry) list
    \<Rightarrow> script_error + string list" where
  "inspect_sdist disk sdist =
     (let files = sort (map fst (filter (\<lambda>(name, e). e \<noteq> Folder) sdist)) in
      ebind (assert_that (\<not> list_ex foreign files)) (\<lambda>_.
      ebind (licences_kept disk (\<lambda>name. ebind (member sdist (''libjadx-0.1.0a1/'' @ name)) (\<lambda>e.
          case e of Folder \<Rightarrow> Inl Assertion_Failed | Regular b \<Rightarrow> Inr b))) (\<lambda>_.
      Inr files)))"

text \<open>The entries of the manifest that are not constants.\<close>

record manifest =
  license_sha256 :: string
  openapi_sha256 :: string
  generator_config_sha256 :: string
  lockfile_sha256 :: string
  generated_tree_sha256 :: string
  wheel_sha256 :: string
  wheel_files :: "string list"
  wheel_runtime :: "string list"
  sdist_sha256 :: string
  sdist_files :: "string list"

definition sha256 :: "(string \<Rightarrow> string) \<Rightarrow> (string \<Rightarrow> script_error + string) \<Rightarrow> string \<Rightarrow> script_error + string" where
  "sha256 sha disk path = ebind (disk path) (\<lambda>b. Inr (sha b))"

definition release_manifest :: "(string \<Rightarrow> string) \<Rightarrow> (string \<Rightarrow> script_error + string) \<Rightarrow> (string \<times> string) list
    \<Rightarrow> (string \<times> entry) list \<Rightarrow> (path \<times> entry) list \<Rightarrow> script_error + manifest" where
  "release_manifest sha disk wheel sdist generated =
     ebind (inspect_wheel disk wheel) (\<lambda>(w_files, runtime).
     ebind (inspect_sdist disk sdist) (\<lambda>s_files.
     ebind (sha256 sha disk ''LICENSE'') (\<lambda>licence.
     ebind (sha256 sha disk ''../openapi/openapi.yaml'') (\<lambda>openapi.
     ebind (sha256 sha disk ''generator.yaml'') (\<lambda>config.
     ebind (sha256 sha disk ''uv.lock'') (\<lambda>lock.
     ebind (generated_fingerprint sha generated) (\<lambda>fingerprint.
     ebind (sha256 sha disk ''dist/libjadx-0.1.0a1-py3-none-any.whl'') (\<lambda>w_sha.
     ebind (sha256 sha disk ''dist/libjadx-0.1.0a1.tar.gz'') (\<lambda>s_sha.
     Inr \<lparr>license_sha256 = licence, openapi_sha256 = openapi, generator_config_sha256 = config, lockfile_sha256 = lock,
       generated_tree_sha256 = fingerprint, wheel_sha256 = w_sha, wheel_files = w_files, wheel_runtime = runtime,
       sdist_sha256 = s_sha, sdist_files = s_files\<rparr>)))))))))"

subsection \<open>What the scripts show\<close>

text \<open>There is no drift exactly when the two trees are the same.\<close>

lemma changed_none: "changed expected actual = [] \<longleftrightarrow> map_of expected = map_of actual"
proof
  assume none: "changed expected actual = []"
  show "map_of expected = map_of actual"
  proof
    fix k
    show "map_of expected k = map_of actual k"
    proof (cases "k \<in> set (map fst expected) \<union> set (map fst actual)")
      case True
      with none show ?thesis by (auto simp: changed_def filter_empty_conv)
    next
      case False
      then show ?thesis by (auto simp: map_of_eq_None_iff [THEN iffD2])
    qed
  qed
qed (simp add: changed_def)

theorem no_drift: "(\<exists>n. check_generated expected actual = Inr n) \<longleftrightarrow> map_of expected = map_of actual"
  by (simp add: check_generated_def changed_none)

text \<open>The order in which the folder is read does not matter.\<close>

lemma sorted_found:
  assumes "mset found = mset found'" "distinct (map fst found)"
  shows "sort_key fst (filter P found) = sort_key fst (filter P found')"
proof (rule sort_key_inj_key_eq)
  show "mset (filter P found) = mset (sort_key fst (filter P found'))"
    using assms(1) by simp
  show "inj_on fst (set (filter P found))"
    using assms(2) by (auto simp: distinct_map intro: inj_on_subset)
qed simp

theorem fingerprint_order:
  assumes "mset found = mset found'" "distinct (map fst found)"
  shows "generated_fingerprint sha found = generated_fingerprint sha found'"
  unfolding generated_fingerprint_def sorted_found [OF assms] ..

text \<open>
  The text that is hashed determines the sources: paths and sources hold no \<open>NUL\<close>, and no part of a path
  is empty or holds a slash.
\<close>

definition plain_path :: "path \<Rightarrow> bool" where
  "plain_path p \<longleftrightarrow> parts p \<noteq> [] \<and> list_all (\<lambda>x. x \<noteq> [] \<and> CHR ''/'' \<notin> set x \<and> CHR 0x00 \<notin> set x) (parts p)"

lemma cut_unique: "c \<notin> set a \<Longrightarrow> c \<notin> set b \<Longrightarrow> a @ c # s = b @ c # t \<longleftrightarrow> a = b \<and> s = t"
  by (induction a arbitrary: b) (case_tac b; auto)+

lemma joined_inj:
  "list_all (\<lambda>x. x \<noteq> [] \<and> CHR ''/'' \<notin> set x) xs \<Longrightarrow> list_all (\<lambda>x. x \<noteq> [] \<and> CHR ''/'' \<notin> set x) ys \<Longrightarrow>
     joined xs = joined ys \<longleftrightarrow> xs = ys"
proof (induction xs arbitrary: ys rule: joined.induct)
  case 1
  then show ?case by (cases ys rule: joined.cases) auto
next
  case (2 x)
  then show ?case by (cases ys rule: joined.cases) auto
next
  case (3 x y xs)
  then show ?case by (cases ys rule: joined.cases) (auto simp: cut_unique)
qed

lemma joined_plain: "CHR 0x00 \<in> set (joined xs) \<Longrightarrow> \<exists>x \<in> set xs. CHR 0x00 \<in> set x"
  by (induction xs rule: joined.induct) auto

lemma path_str_inj: "plain_path p \<Longrightarrow> plain_path q \<Longrightarrow> path_str p = path_str q \<longleftrightarrow> p = q"
  using joined_inj [of "parts p" "parts q"]
  by (cases p; cases q) (auto simp: plain_path_def path_str_def list_all_iff)

lemma path_str_plain: "plain_path p \<Longrightarrow> CHR 0x00 \<notin> set (path_str p)"
  using joined_plain [of "parts p"] by (auto simp: plain_path_def path_str_def list_all_iff)

lemma parts_inj:
  assumes "\<forall>(p, b) \<in> set xs. plain_path p \<and> CHR 0x00 \<notin> set b" "\<forall>(p, b) \<in> set ys. plain_path p \<and> CHR 0x00 \<notin> set b"
    and "concat (map (\<lambda>(p, b). fingerprint_part p b) xs) = concat (map (\<lambda>(p, b). fingerprint_part p b) ys)"
  shows "xs = ys"
  using assms
proof (induction xs arbitrary: ys)
  case Nil
  then show ?case by (cases ys) (auto simp: fingerprint_part_def)
next
  case (Cons x xs)
  then obtain y ys' where ys: "ys = y # ys'" by (cases ys) (auto simp: fingerprint_part_def split: prod.splits)
  obtain p b q c where pairs: "x = (p, b)" "y = (q, c)" by (cases x; cases y)
  from Cons.prems pairs ys have plain: "plain_path p" "plain_path q" "CHR 0x00 \<notin> set b" "CHR 0x00 \<notin> set c"
    and whole: "path_str p @ CHR 0x00 # b @ CHR 0x00 # concat (map (\<lambda>(p, b). fingerprint_part p b) xs)
      = path_str q @ CHR 0x00 # c @ CHR 0x00 # concat (map (\<lambda>(p, b). fingerprint_part p b) ys')"
    by (auto simp: fingerprint_part_def)
  from whole have "p = q" "b = c" "concat (map (\<lambda>(p, b). fingerprint_part p b) xs)
      = concat (map (\<lambda>(p, b). fingerprint_part p b) ys')"
    using plain by (simp_all add: cut_unique path_str_plain path_str_inj)
  with Cons.IH [of ys'] Cons.prems(1,2) pairs ys show ?case by simp
qed

text \<open>The sources of a folder, in the order of their paths; and what is hashed of them.\<close>

definition sources :: "(path \<times> string) list \<Rightarrow> (path \<times> string) list" where
  "sources found = sort_key fst (filter (\<lambda>(p, b). python_source p) found)"

lemma insort_map: "(\<And>x. fst (h x) = fst x) \<Longrightarrow> insort_key fst (h x) (map h xs) = map h (insort_key fst x xs)"
  by (induction xs) auto

lemma sort_map: "(\<And>x. fst (h x) = fst x) \<Longrightarrow> sort_key fst (map h xs) = map h (sort_key fst xs)"
  by (induction xs) (simp_all add: insort_map)

lemma fingerprint_sources:
  "generated_fingerprint sha (map (\<lambda>(p, b). (p, Regular b)) found) =
     Inr (sha (concat (map (\<lambda>(p, b). fingerprint_part p b) (sources found))))"
proof -
  have "sort_key fst (filter (\<lambda>(p, e). python_source p) (map (\<lambda>(p, b). (p, Regular b)) found)) =
      map (\<lambda>(p, b). (p, Regular b)) (sources found)"
    unfolding sources_def by (simp add: filter_map comp_def case_prod_unfold sort_map)
  then show ?thesis
    unfolding generated_fingerprint_def
    by (simp add: emap_map case_prod_unfold emap_all_Inr [where g = "\<lambda>x. fingerprint_part (fst x) (snd x)"])
qed

theorem fingerprint_determines:
  assumes "\<forall>(p, b) \<in> set xs \<union> set ys. plain_path p \<and> CHR 0x00 \<notin> set b"
    and "\<forall>sha. generated_fingerprint sha (map (\<lambda>(p, b). (p, Regular b)) xs)
      = generated_fingerprint sha (map (\<lambda>(p, b). (p, Regular b)) ys)"
  shows "sources xs = sources ys"
proof (rule parts_inj)
  show "concat (map (\<lambda>(p, b). fingerprint_part p b) (sources xs)) = concat (map (\<lambda>(p, b). fingerprint_part p b) (sources ys))"
    using assms(2) [THEN spec, of "\<lambda>x. x"] by (simp add: fingerprint_sources)
qed (use assms(1) in \<open>auto simp: sources_def\<close>)

text \<open>A manifest is made only of archives that hold the licences of the repository, and nothing foreign.\<close>

lemma assert_that_Inr [simp]: "assert_that b = Inr u \<longleftrightarrow> b"
  by (simp add: assert_that_def)

lemma emap_Inr_all: "emap f xs = Inr ys \<Longrightarrow> x \<in> set xs \<Longrightarrow> \<exists>y. f x = Inr y"
  by (induction xs arbitrary: ys) (auto simp: ebind_eq_Inr)

lemma ends_with_append [simp]: "ends_with (s @ x) x"
  by (simp add: ends_with_def)

lemma licences_kept_Inr:
  assumes "licences_kept disk read = Inr us" "name \<in> set licences"
  shows "\<exists>b. disk name = Inr b \<and> read name = Inr b"
  using emap_Inr_all [OF assms(1) [unfolded licences_kept_def] assms(2)] by (auto simp: ebind_eq_Inr)

lemma wheel_inspected:
  assumes "inspect_wheel disk wheel = Inr (files, runtime)" "name \<in> set licences"
  shows "length runtime = 3 \<and> \<not> list_ex foreign files \<and> list_all wheel_member_ok files
    \<and> (\<exists>b path. disk name = Inr b \<and> member wheel path = Inr b \<and> ends_with path name)"
proof -
  from assms(1) have "length runtime = 3 \<and> \<not> list_ex foreign files \<and> list_all wheel_member_ok files
    \<and> (\<exists>folder us. licences_kept disk (\<lambda>name. member wheel (folder @ name)) = Inr us)"
    unfolding inspect_wheel_def Let_def by (auto simp: ebind_eq_Inr)
  then obtain folder us where "length runtime = 3 \<and> \<not> list_ex foreign files \<and> list_all wheel_member_ok files"
    "licences_kept disk (\<lambda>name. member wheel (folder @ name)) = Inr us" by blast
  with licences_kept_Inr [OF this(2) assms(2)] show ?thesis by (metis ends_with_append)
qed

lemma regular_Inr [simp]: "(case e of Regular b \<Rightarrow> Inr b | Folder \<Rightarrow> Inl x) = Inr b' \<longleftrightarrow> e = Regular b'"
  by (cases e) auto

lemma sdist_inspected:
  assumes "inspect_sdist disk sdist = Inr files" "name \<in> set licences"
  shows "\<not> list_ex foreign files
    \<and> (\<exists>b. disk name = Inr b \<and> member sdist (''libjadx-0.1.0a1/'' @ name) = Inr (Regular b))"
proof -
  let ?read = "\<lambda>name. ebind (member sdist (''libjadx-0.1.0a1/'' @ name)) (\<lambda>e.
      case e of Folder \<Rightarrow> Inl Assertion_Failed | Regular b \<Rightarrow> Inr b)"
  from assms(1) obtain us where "\<not> list_ex foreign files" "licences_kept disk ?read = Inr us"
    unfolding inspect_sdist_def Let_def by (auto simp: ebind_eq_Inr)
  with licences_kept_Inr [OF this(2) assms(2)] show ?thesis by (auto simp: ebind_eq_Inr)
qed

theorem manifest_licensed:
  assumes "release_manifest sha disk wheel sdist generated = Inr m" "name \<in> set licences"
  shows "length (wheel_runtime m) = 3 \<and> \<not> list_ex foreign (wheel_files m) \<and> \<not> list_ex foreign (sdist_files m)
    \<and> (\<exists>b path. disk name = Inr b \<and> member wheel path = Inr b \<and> ends_with path name
        \<and> member sdist (''libjadx-0.1.0a1/'' @ name) = Inr (Regular b))"
proof -
  from assms(1) obtain files runtime files' where "inspect_wheel disk wheel = Inr (files, runtime)"
    "inspect_sdist disk sdist = Inr files'" "wheel_files m = files" "wheel_runtime m = runtime" "sdist_files m = files'"
    by (auto simp: release_manifest_def ebind_eq_Inr)
  with wheel_inspected [OF this(1) assms(2)] sdist_inspected [OF this(2) assms(2)] show ?thesis by auto
qed

end
