(* ===== verification/Spec2Isabelle.thy ===== *)
theory Spec2Isabelle
  imports Schedules Api_Parsed Sdk_Repr Wire_Busy Wire_Extras Deviations Sdk_Lazy Sdk_Stream Release_Scripts
begin

text \<open>
  The Python SDK of LibJadx (\<open>src/python/src/libjadx\<close>): a client for the HTTP service of the
  decompiler. A program makes a \<open>Client\<close>, asks it for the project, jobs and searches, and gets typed
  models; underneath, a generated package turns models into requests and answers into models.

  How the parts interact. An operation of \<open>Client\<close>, \<open>Project\<close>, \<open>Job\<close> or a cursor builds a request
  model and calls \<open>Client._invoke\<close>. That refuses when the client is closed, sends the request through
  the generated module, which prints the model (\<open>to_dict\<close>) and decodes the answer (\<open>from_dict\<close>),
  turns the exceptions of \<open>httpx\<close> and of decoding into those of \<open>errors.py\<close>, checks the status and
  the type (\<open>unwrap\<close>), and shows the result to the cache of revisions, from which later requests take
  their preconditions. Jobs are polled on a clock, or followed as a stream of events that
  \<open>_sse.py\<close> parses; listings and searches follow cursors.

  Theories, from the ground up.
  \<^item> \<open>Sdk_Prelude\<close>: results of fallible code (a sum), optional fields (\<open>UNSET\<close>), dictionaries, and the
    collections of rules the other theories fill.
  \<^item> \<open>Py_Value\<close>, \<open>Py_Uuid\<close>, \<open>Py_Time\<close>, \<open>Py_Json\<close>: what the code uses of Python: decoded JSON values,
    truth, equality and order, sets, strings (as UTF-8), \<open>UUID\<close>, \<open>datetime.fromisoformat\<close>, \<open>json.loads\<close>.
  \<^item> \<open>Wire_Codec\<close> and the \<open>Wire_\<close> theories: the combinators of the generated models and, for every
    model of \<open>_generated/models\<close>, its record, \<open>to_dict\<close>, \<open>from_dict\<close> and the
    interpretation of the locale \<open>codec\<close>: printing is inverted by reading, and reading raises only
    decoding failures. \<open>Wire_Extras\<close>: the additional properties all of them have.
  \<^item> \<open>Sdk_Errors\<close> (\<open>errors.py\<close>), \<open>Sdk_Sse\<close> (\<open>_sse.py\<close>), \<open>Sdk_Common\<close> (\<open>_common.py\<close>).
  \<^item> \<open>Sdk_Transport\<close>: the world outside, the state of a client, one call (\<open>Client._invoke\<close>).
    \<open>Api_Calls\<close>: the modules of \<open>_generated/api\<close>, one group of definitions per operation.
  \<^item> \<open>Sdk_Clock\<close>: deadlines, and the locale \<open>deadline_loop\<close> every polling loop is an instance of.
    \<open>Sdk_Jobs\<close> and \<open>Sdk_Events\<close> (\<open>jobs.py\<close>), \<open>Sdk_Client\<close> (\<open>client.py\<close>).
  \<^item> \<open>Sdk_Symbols\<close> and \<open>Sdk_Handles\<close> (\<open>symbols.py\<close>, \<open>results.py\<close>), \<open>Sdk_Repr\<close> (\<open>__repr__\<close>),
    \<open>Sdk_Project\<close> (the operations of \<open>project.py\<close> that send one request).
  \<^item> \<open>Sdk_Paging\<close>: the runs of a loop that follows cursors and the locale \<open>pager\<close>, interpreted by the two
    loops of \<open>Sdk_Pages\<close> (\<open>project.py\<close>) and the iterator of \<open>Sdk_Search\<close> (\<open>search.py\<close>).
  \<^item> \<open>Sdk_Lifecycle\<close>: the client as a state machine; every operation is a run of its steps.
  \<^item> \<open>Api_Client\<close>: the low-level client (\<open>_generated/client.py\<close>) and \<open>connection\<close>. \<open>Api_Parsed\<close>: the rest of
    \<open>_generated/api\<close>.
  \<^item> \<open>Py_Coroutine\<close>: coroutines and asynchronous generators, run alone, and the locale \<open>loop_twin\<close> of a
    loop and its synchronous twin. \<open>Api_Async\<close>, \<open>Sdk_Async\<close> (\<open>async_client.py\<close>), \<open>Sdk_Async_Jobs\<close>,
    \<open>Sdk_Async_Project\<close>, \<open>Sdk_Async_Pages\<close> (the \<open>Async\<close> classes of \<open>jobs.py\<close>, \<open>project.py\<close>, \<open>symbols.py\<close>,
    \<open>search.py\<close>): the asynchronous operations, each beside its twin.
  \<^item> \<open>Sdk_Order\<close>: what every piece of code between two suspensions keeps. \<open>Sdk_Tasks\<close>: the event loop
    and the locale \<open>pool_contract\<close>, by which what each task keeps is kept by all of them together.
    \<open>Sdk_Progress\<close>: every piece of code comes to its next suspension.
  \<^item> \<open>Py_Generator\<close>: generators whose consumer may stop anywhere, the locale \<open>pull_source\<close>, and the locale
    \<open>one_request_each\<close> of the loops that ask once for each element. \<open>Sdk_Stream\<close>: the events of a job, one
    at a time. \<open>Sdk_Lazy\<close>: what the listings and the updates of a job ask for each element.
  \<^item> \<open>Release_Scripts\<close> (\<open>scripts/artifact_manifest.py\<close>, \<open>scripts/check_generated.py\<close>).
  \<^item> \<open>Examples\<close>, \<open>Scenarios\<close> and \<open>Schedules\<close>: the concrete inputs, the scripted service and the schedule
    of tasks of the witnesses. \<open>Deviations\<close>: where the code does something else than it means to.

  State and effects. The state of a client is a record: whether it is closed, the cache of revisions,
  and the world. An operation is a function from that state to a result or an exception and the next
  state. What \<open>httpx\<close>, the clock and the printing of arbitrary values by \<open>repr\<close> do is given by the
  record \<open>env\<close>, a parameter of every operation; where a property needs their documented behaviour it
  is a named hypothesis: \<open>proper_http\<close> and \<open>proper_stream\<close> (a request raises what \<open>httpx\<close>
  documents, \<open>response.json()\<close> returns a value or raises \<open>ValueError\<close>), \<open>int_service\<close> (revisions are
  integers, as the contract says), \<open>steady_clock\<close> (the clock is monotonic, sleeping takes at least the
  time asked for), \<open>counts_requests\<close> (a number read off the world grows by one with every request, and
  only with requests). \<open>base_url\<close> has \<open>ipaddress\<close> and Unicode normalisation as parameters.

  Concurrency. A coroutine is a tree (a codatatype) of pieces of code and suspensions: the answer to a
  request, the opening of a stream, its next bytes, \<open>asyncio.sleep\<close>, the end of \<open>aclose\<close>, and the \<open>yield\<close>
  of a generator. At each the loop may run any other task, cancel one, and the world may change; the
  client, the job handles and the search cursors are in a heap the tasks share. What is awaited is
  answered in any way of its kind.

  Loops. Loops that the service can keep going forever are \<open>partial_function (option)\<close>: \<open>None\<close> is
  not returning, and that they do return is proved (C22, C25, C27, C31, C32, C34). Loops of coroutines may go on forever, but
  not without a suspension (C9). The other loops are structural or have a termination proof; no fuel
  is used.

  Generators. The synchronous ones are functions that give the list of what is yielded and how it ends;
  the asynchronous ones suspend at every element. A consumer that takes elements one at a time and may
  stop is the subject of the locale \<open>pull_source\<close>: what the pulls give one by one is what the whole run
  gives. It is interpreted by the coroutines and by the events of a job, where the consumer may also
  close the generator at any point.

  What the groups of properties show. C1 to C6 and C28, C29: the event stream, against a reading of the
  whole text; C12: its consumers. C7 and C10: the wire models. C8: the low-level client. C11: the error
  classes. C13, C14 and C17: the cache. C16, C18 to C20: calls and the life of a client. C21 to C27:
  waiting. C30 to C34: listings and searches; C15: their consumers. C35 to C38: the project. C9, C39, C40:
  the asynchronous client, by itself and under every interleaving.

  Not modelled. The lock of the cache: each of its operations is one step. What \<open>httpx\<close> awaits to release
  the connection of an asynchronous stream that is closed early or cancelled. The script that runs the
  external generator, tests and re-exports.
\<close>

section \<open>The job event stream\<close>

text \<open>
  C1. How the transport cuts the event stream into chunks does not matter: a parser that reads a
  stream in one partition reads the same events, and stops at the same terminal event or not, in
  any other partition into chunks of at most a megabyte.
\<close>

theorem stream_chunking:
  assumes "parser_ready p" "concat cs = concat ds"
    and "\<forall>c \<in> set cs. length c \<le> max_line" "\<forall>d \<in> set ds. length d \<le> max_line"
  shows "(\<exists>q. feed_all p cs = Inr (evs, q) \<and> parser_terminal q = t)
    \<longleftrightarrow> (\<exists>q. feed_all p ds = Inr (evs, q) \<and> parser_terminal q = t)"
  using feed_all_recut [OF assms(1,2,4)] feed_all_recut [OF assms(1) assms(2) [symmetric] assms(3)]
    feed_all_bounds [OF assms(1)]
  by blast

theorem stream_chunking_witness:
  "\<exists>q. feed_all sample_parser (chop_fuel 60 7 sample_stream) = Inr ([sample_started, sample_completed], q)
    \<and> parser_terminal q"
  using stream_chunking [of sample_parser "[sample_stream]" "chop_fuel 60 7 sample_stream"
      "[sample_started, sample_completed]" True]
    sample_ready sample_feed_all sample_size sample_short concat_chop
  by (simp add: max_frame_def max_line_def del: feed_all.simps)

text \<open>
  C2. The parser implements the reading of the stream as a whole: within the size limits, and
  however the stream is cut, the events are exactly those of the blank-line separated frames, up
  to the first terminal one; and when a frame is malformed there are none.
\<close>

theorem stream_frames:
  assumes "new_parser job last_event_id = Inr p"
    and "length (concat cs) \<le> max_frame" "list_all utf8_ok (complete_lines (concat cs))"
  shows "(\<exists>q. feed_all p cs = Inr (evs, q))
    \<longleftrightarrow> read_stream job (parser_last_id p) (concat cs) = Inr evs"
proof -
  from assms(1) have "parser_pending p = []" "parser_lines p = []" "parser_frame_bytes p = 0"
    "\<not> parser_terminal p" "parser_job_id p = job"
    by (auto simp: new_parser_def ebind_eq_Inr)
  with feed_all_frames [of p cs evs] assms show ?thesis by simp
qed

theorem stream_frames_witness:
  "\<exists>q. feed_all sample_parser [sample_stream] = Inr ([sample_started, sample_completed], q)"
  using stream_frames [of 1 None sample_parser "[sample_stream]"] sample_new sample_size sample_lines sample_read
  by (auto simp: sample_parser_def)

text \<open>
  C3. The events of a stream belong to the job, and their sequence numbers strictly increase from
  the last event id the parser knew; the number of the last event is what it knows afterwards.
\<close>

theorem stream_order:
  assumes "feed_all p cs = Inr (evs, q)"
  shows "\<exists>ns. list_all2 (\<lambda>e n. json_eq (job_event_sequence e) (JInt n)
        \<and> job_event_job_id e = parser_job_id p) evs ns
    \<and> sorted_wrt (<) (parser_last_id p # ns) \<and> last (parser_last_id p # ns) = parser_last_id q"
  using event_chain_sorted [OF feed_all_chain [OF assms]] unfolding numbered_def .

theorem stream_order_witness:
  "\<exists>q ns. feed_all sample_parser [sample_stream] = Inr ([sample_started, sample_completed], q)
    \<and> list_all2 (\<lambda>e n. json_eq (job_event_sequence e) (JInt n)
        \<and> job_event_job_id e = parser_job_id sample_parser) [sample_started, sample_completed] ns
    \<and> sorted_wrt (<) (parser_last_id sample_parser # ns)
    \<and> last (parser_last_id sample_parser # ns) = parser_last_id q"
proof -
  obtain q where q: "feed_all sample_parser [sample_stream] = Inr ([sample_started, sample_completed], q)"
    using sample_feed_all by blast
  from stream_order [OF q] q show ?thesis by blast
qed



text \<open>
  C5. Between two calls the parser never holds more than a megabyte: the unfinished line and the
  lines of the unfinished frame together are bounded, whatever the server sends.
\<close>

theorem parser_bounded:
  assumes "lines_accounted p" "feed p chunk = Inr (evs, q)"
  shows "lines_accounted q
    \<and> sum_list (map length (parser_lines q)) + length (parser_pending q) \<le> 1024 * 1024"
  using feed_accounted [OF assms(2,1)] by (simp add: buffered_def max_frame_def)

theorem parser_bounded_witness:
  "\<exists>q. feed sample_parser sample_stream = Inr ([sample_started, sample_completed], q)
    \<and> sum_list (map length (parser_lines q)) + length (parser_pending q) \<le> 1024 * 1024"
  using sample_feed parser_bounded [of sample_parser sample_stream]
  by (auto simp: lines_accounted_def sample_parser_def)



section \<open>Wire models\<close>

text \<open>
  C7. Jobs, errors with all their nested causes, and batches of edits survive being written to their
  dictionaries and read back: the times are ones \<open>isoformat\<close> and \<open>fromisoformat\<close> agree on, extra keys
  are no names of fields, and of the kinds of edit that share one format each is read as what it was.
\<close>

theorem wire_roundtrip:
  assumes "job_ok x" "api_error_ok e" "edit_batch_request_ok b"
  shows "job_from_dict (JObj (job_to_dict x)) = Inr x
    \<and> api_error_from_dict (JObj (api_error_to_dict e)) = Inr e
    \<and> edit_batch_request_from_dict (JObj (edit_batch_request_to_dict b)) = Inr b"
  using job_wire.dec_enc [OF assms(1)] api_error_wire.dec_enc [OF assms(2)]
    edit_batch_request_wire.dec_enc [OF assms(3)] by simp

theorem wire_roundtrip_witness:
  "job_from_dict (JObj (job_to_dict sample_job)) = Inr sample_job
    \<and> api_error_from_dict (JObj (api_error_to_dict sample_error)) = Inr sample_error
    \<and> edit_batch_request_from_dict (JObj (edit_batch_request_to_dict sample_batch)) = Inr sample_batch"
proof (rule wire_roundtrip)
  show "job_ok sample_job" by (rule sample_job_ok)
  show "api_error_ok sample_error" by code_simp
  show "edit_batch_request_ok sample_batch" by code_simp
qed

text \<open>
  C10. Reading a response never raises anything the client does not catch: for any JSON value at
  all, a reader returns or raises one of the four decoding exceptions.
\<close>

theorem readers_safe:
  "(job_from_dict v = Inl e \<longrightarrow> decode_failure e)
   \<and> (job_event_from_dict v = Inl e \<longrightarrow> decode_failure e)
   \<and> (error_envelope_from_dict v = Inl e \<longrightarrow> decode_failure e)
   \<and> (service_status_from_dict v = Inl e \<longrightarrow> decode_failure e)
   \<and> (search_page_from_dict v = Inl e \<longrightarrow> decode_failure e)
   \<and> (reference_page_from_dict v = Inl e \<longrightarrow> decode_failure e)
   \<and> (decompile_result_from_dict v = Inl e \<longrightarrow> decode_failure e)
   \<and> (control_flow_result_from_dict v = Inl e \<longrightarrow> decode_failure e)
   \<and> (edit_batch_request_from_dict v = Inl e \<longrightarrow> decode_failure e)"
  by (intro conjI impI; erule safe_readerD [rotated]; intro wire_rules)

theorem readers_safe_witness: "job_from_dict (JObj []) = Inl KeyErr \<and> decode_failure KeyErr"
  using readers_safe [of "JObj []" KeyErr]
  by (simp add: job_from_dict_def reading_obj popping_def dict_pop_def)

section \<open>Errors\<close>

text \<open>
  C11. The error classes and the codes of the contract correspond one to one: every code has a
  class of its own, none falls back to the base class, and no class is without a code.
\<close>

theorem error_classes:
  "bij_betw (\<lambda>c. api_error_class (api_error_code_value c)) UNIV (- {ApiError})"
proof (unfold bij_betw_def inj_def, intro conjI allI impI)
  show "range (\<lambda>c. api_error_class (api_error_code_value c)) = - {ApiError}"
    using error_class_range by (metis (mono_tags, lifting) ComplD ComplI rangeE rangeI
        singletonD singletonI subsetI subset_antisym)
qed (rule error_class_inj)

section \<open>Common helpers\<close>

text \<open>
  Normalising a service URL is idempotent: what \<open>base_url\<close> returns it accepts and keeps.
\<close>

theorem base_url_idempotent:
  assumes "base_url ip_literal nfkc url = Inr b"
  shows "base_url ip_literal nfkc b = Inr b"
  using assms by (rule base_url_normal)

theorem base_url_idempotent_witness:
  "base_url (\<lambda>_. False) (\<lambda>s. s) ''http://localhost:8080/api/v1'' = Inr ''http://localhost:8080/api/v1''"
  by (rule base_url_idempotent [where url = "'' HTTP://localhost:8080/''"]) code_simp

text \<open>
  C13. The revision cache implements the reading of the whole history: after any sequence of
  observations, in any order, the session is the one that appeared last for the first time,
  the earlier ones are retired, and the revisions are the greatest reported for that session.
\<close>

theorem cache_history:
  assumes "list_all2 (reports repr) as rs" "list_all proper_index rs"
  shows "observe_all repr as new_cache = (Inr (), cache_of rs)"
  using assms by (rule observe_all_history)

theorem cache_history_witness:
  "observe_all sample_str (map sample_report [(''a'', 3, Some 1), (''a'', 2, Some 4), (''b'', 1, None), (''a'', 9, None)]) new_cache
    = (Inr (), \<lparr>retired = {''a''}, session_id = Some ''b'', logical_revision = JInt 1, index_revision = JNull\<rparr>)"
  using cache_history [OF sample_reports, of "[(''a'', 3, Some 1), (''a'', 2, Some 4), (''b'', 1, None), (''a'', 9, None)]"]
  by (simp add: proper_index_def sample_cache_of)

text \<open>
  C14. The cache only goes forward, whatever values the service reports and in whatever order, even
  when comparing them raises: a retired session never comes back, a session that is left is
  retired, and within a session no revision decreases.
\<close>

theorem retired_forever:
  assumes "cache_current c"
  shows "retired c \<subseteq> retired (snd (observe repr a c)) \<and> cache_current (snd (observe repr a c))
    \<and> cache_ahead c (snd (observe repr a c))"
  using assms observe_goes_forward [of c repr a] by (auto simp: goes_forward_def cache_ahead_def)

theorem retired_forever_witness:
  "retired new_cache \<subseteq> retired (snd (observe sample_str (sample_report (''a'', 3, None)) new_cache))"
  using retired_forever [of new_cache sample_str "sample_report (''a'', 3, None)"]
  by (simp add: new_cache_def cache_current_def)

text \<open>
  The preconditions of a request are both given or both left out, and given when required;
  otherwise the call is refused with \<open>ValueError\<close> before anything is sent.
\<close>

theorem expected_pair:
  "case expected c session revision required of
     Inl e \<Rightarrow> \<exists>m. e = ValueErr m
   | Inr (u, r) \<Rightarrow> u = UNSET \<and> r = UNSET \<and> \<not> required
       \<or> (\<exists>x v. u = Given x \<and> r = Given v \<and> v \<noteq> JNull)"
  using expected_cases [of c session revision required] expected_error [of c session revision required]
  by (auto split: sum.splits)

section \<open>Calls\<close>

text \<open>
  C16. If \<open>httpx\<close> behaves as documented and the service reports integer revisions, a call raises
  nothing but errors of the SDK: no exception of the transport, of the decoder or of the cache
  escapes.
\<close>

theorem invoke_errors:
  assumes "proper_http env" "safe_call c" "int_service env c" "int_cache (revisions st)"
    and "invoke env c expect st = (Inl e, st')"
  shows "is_lib_error e"
  using invoke_lib_error [OF assms] by simp

theorem invoke_errors_witness:
  "\<exists>st'. invoke (served (\<lambda>_. Timeout_Exception ''slow'') no_stream) get_status_call as_status fresh
      = (Inl (Request_Timeout_Error ''slow''), st') \<and> is_lib_error (Request_Timeout_Error ''slow'')"
proof -
  let ?env = "served (\<lambda>_. Timeout_Exception ''slow'') no_stream"
  have http: "proper_http ?env" by (simp add: proper_http_def proper_outcome_def served_def)
  have safe: "safe_call get_status_call" by (rule calls_safe)
  have ints: "int_service ?env get_status_call" by (simp add: int_service_def sync_detailed_def served_def)
  have cache: "int_cache (revisions fresh)" by (simp add: fresh_def new_cache_def int_cache_def int_or_null_def)
  obtain st' where i: "invoke ?env get_status_call as_status fresh = (Inl (Request_Timeout_Error ''slow''), st')"
    by (simp add: invoke_def sync_detailed_def served_def fresh_def)
  from invoke_errors [OF http safe ints cache i] i show ?thesis by blast
qed

text \<open>
  C17. The revisions of the cache stay what they are declared to be, an integer or nothing, through
  every call to a service that reports integers, whether the call returns or raises.
\<close>

theorem cache_type:
  assumes "int_service env c" "int_cache (revisions st)" "invoke env c expect st = (res, st')"
  shows "int_cache (revisions st')"
  using assms by (rule invoke_int_cache)

theorem cache_type_witness:
  "int_cache (revisions (snd (invoke (served (\<lambda>_. Http_Error ''down'') no_stream) get_status_call as_status fresh)))"
proof (rule cache_type [OF _ _ surjective_pairing])
  show "int_service (served (\<lambda>_. Http_Error ''down'') no_stream) get_status_call"
    by (simp add: int_service_def sync_detailed_def served_def)
  show "int_cache (revisions fresh)"
    by (simp add: fresh_def new_cache_def int_cache_def int_or_null_def)
qed



text \<open>
  C19. Whatever operations are made in whatever order, retired sessions stay retired, the current
  session is not a retired one, and a closed client stays closed.
\<close>

theorem session_kept:
  assumes "client_run env st st'" "session_current st"
  shows "retired (revisions st) \<subseteq> retired (revisions st') \<and> session_current st' \<and> (closed st \<longrightarrow> closed st')"
  using run_session [OF assms(1)] assms(2) by blast

theorem session_kept_witness:
  "session_current (snd (client_status (answering status_json) fresh))"
proof -
  have run: "client_run (answering status_json) fresh (snd (client_status (answering status_json) fresh))"
    using client_ops_live(2) by (auto simp: lives_def)
  have "session_current fresh" by (simp add: session_current_def fresh_def new_cache_def)
  from session_kept [OF run this] show ?thesis by blast
qed



section \<open>Jobs\<close>

text \<open>
  C21. What \<open>Job.wait\<close> reports is the state of the job it read last: it returns the job exactly when
  it succeeded, raises \<open>JobFailed\<close> or \<open>JobCancelled\<close> for that job, gives up only with a timeout and
  on a job that has not ended, and otherwise passes on the error of a call.
\<close>

theorem wait_outcome:
  assumes "job_wait env timeout interval raw st = Some (res, raw', st')"
  shows "case res of
      Inr j \<Rightarrow> j = raw' \<and> job_state raw' = JobState_SUCCEEDED
    | Inl (Job_Failed j e) \<Rightarrow> j = raw' \<and> job_state raw' = JobState_FAILED \<and> e = job_sdk_error raw'
    | Inl (Job_Cancelled j) \<Rightarrow> j = raw' \<and> job_state raw' = JobState_CANCELLED
    | Inl Job_Wait_Timeout \<Rightarrow> timeout \<noteq> None \<and> \<not> job_ended raw'
    | Inl e \<Rightarrow> call_error e"
  using job_wait_result [OF assms] unfolding wait_result_def by simp

theorem wait_outcome_witness:
  "\<exists>st'. job_wait (answering (job_json done_job)) (Some 5) 1 sample_job fresh = Some (Inr done_job, done_job, st')
    \<and> job_state done_job = JobState_SUCCEEDED"
proof -
  obtain st' where w: "job_wait (answering (job_json done_job)) (Some 5) 1 sample_job fresh
      = Some (Inr done_job, done_job, st')"
    using sample_wait by blast
  from wait_outcome [OF w] w show ?thesis by simp
qed

text \<open>
  C22. With a timeout, \<open>wait\<close> always returns or raises, whatever the service answers: it cannot hang
  on a job that never ends.
\<close>

theorem wait_terminates:
  assumes "steady_clock env now"
  shows "\<exists>res raw' st'. job_wait env (Some t) interval raw st = Some (res, raw', st')"
  using job_wait_ends [OF assms, of t interval raw st] by (simp add: split_paired_Ex)

theorem wait_terminates_witness:
  "\<exists>res raw' st'. job_wait (answering (job_json sample_job)) (Some 5) (1/5) sample_job fresh = Some (res, raw', st')"
  by (rule wait_terminates) (unfold answering_def, rule served_clock)

text \<open>
  C23. Waiting never acts on the job: all it sends is \<open>GET\<close> for the job, so anything those requests
  and the clock keep true of the world, waiting keeps true.
\<close>

theorem wait_reads_only:
  assumes "\<forall>w. P w \<longrightarrow> P (snd (env_monotonic env w)) \<and> (\<forall>d. P (env_sleep env d w))
      \<and> (\<forall>job_id. P (snd (env_send env (get_job_kwargs job_id) w)))"
    and "P (world st)" "job_wait env timeout interval raw st = Some (res, raw', st')"
  shows "P (world st')"
  using job_wait_reads_only [of env P st timeout interval raw "(res, raw', st')"] assms
  by (simp add: reads_only_def)

theorem wait_reads_only_witness:
  "\<exists>res raw' st'. job_wait (answering (job_json sample_job)) (Some 5) 1 sample_job fresh = Some (res, raw', st')
    \<and> only_reads (world st')"
proof -
  have "steady_clock (answering (job_json sample_job)) script_clock"
    unfolding answering_def by (rule served_clock)
  from job_wait_ends [OF this, of 5 1 sample_job fresh] obtain res raw' st' where
    w: "job_wait (answering (job_json sample_job)) (Some 5) 1 sample_job fresh = Some (res, raw', st')"
    by (auto simp: split_paired_Ex)
  have "only_reads (world fresh)" by (simp add: only_reads_def fresh_def)
  moreover have "reads_only (answering (job_json sample_job)) only_reads"
    unfolding answering_def by (rule served_reads_only)
  ultimately have "only_reads (world st')"
    using wait_reads_only [of only_reads "answering (job_json sample_job)", OF _ _ w] by (simp add: reads_only_def)
  with w show ?thesis by blast
qed

text \<open>
  C24. \<open>poll_updates\<close> yields the jobs it reads and stops at the first one that has ended: it returns
  exactly after such a job, and when it raises, none of the jobs yielded had ended.
\<close>

theorem poll_outcome:
  assumes "poll_updates env timeout interval raw st = Some (js, res, raw', st')"
  shows "case res of
      Inr _ \<Rightarrow> js \<noteq> [] \<and> last js = raw' \<and> job_ended raw' \<and> list_all (\<lambda>j. \<not> job_ended j) (butlast js)
    | Inl e \<Rightarrow> list_all (\<lambda>j. \<not> job_ended j) js
        \<and> (if e = Job_Wait_Timeout then timeout \<noteq> None \<and> js \<noteq> [] \<and> last js = raw' else call_error e)"
  using poll_updates_result [OF assms] unfolding poll_result_def by simp

theorem poll_outcome_witness:
  "\<exists>st'. poll_updates (answering (job_json done_job)) (Some 5) 1 sample_job fresh
     = Some ([done_job], Inr (), done_job, st') \<and> job_ended done_job"
proof -
  obtain st' where w: "poll_updates (answering (job_json done_job)) (Some 5) 1 sample_job fresh
      = Some ([done_job], Inr (), done_job, st')"
    using sample_poll by blast
  from poll_outcome [OF w] w show ?thesis by simp
qed

text \<open>
  C25. With a timeout, \<open>poll_updates\<close> ends, after yielding at most one job for each interval of the
  timeout and one more.
\<close>

theorem poll_terminates:
  assumes "steady_clock env now"
  shows "\<exists>js res raw' st'. poll_updates env (Some t) interval raw st = Some (js, res, raw', st')
    \<and> length js \<le> nat \<lceil>t / interval\<rceil> + 1"
  using poll_updates_ends [OF assms, of t interval raw st] by (auto simp: split_paired_Ex)

theorem poll_terminates_witness:
  "\<exists>js res raw' st'. poll_updates (answering (job_json sample_job)) (Some 5) 1 sample_job fresh
     = Some (js, res, raw', st') \<and> length js \<le> 6"
proof -
  have "steady_clock (answering (job_json sample_job)) script_clock"
    unfolding answering_def by (rule served_clock)
  from poll_terminates [OF this, of 5 1 sample_job fresh] show ?thesis by simp
qed

section \<open>The service\<close>

text \<open>
  C26. \<open>wait_ready\<close> returns only a status that is \<open>READY\<close>, raises \<open>ServiceLoadFailed\<close> only for one that
  is \<open>FAILED\<close>, with the error it carries, and otherwise times out or passes on the error of a call.
\<close>

theorem ready_outcome:
  assumes "wait_ready env timeout interval st = Some (res, st')"
  shows "case res of
      Inr s \<Rightarrow> service_status_state s = ServiceStatusState_READY
    | Inl (Service_Load_Failed s e) \<Rightarrow>
        service_status_state s = ServiceStatusState_FAILED \<and> e = status_sdk_error s
    | Inl e \<Rightarrow> e = Wait_Ready_Timeout \<or> call_error e"
  using wait_ready_result [OF assms] unfolding ready_result_def by simp

theorem ready_outcome_witness:
  "\<exists>st'. wait_ready (answering status_json) 30 1 fresh = Some (Inr ready_status, st')
    \<and> service_status_state ready_status = ServiceStatusState_READY"
proof -
  obtain st' where w: "wait_ready (answering status_json) 30 1 fresh = Some (Inr ready_status, st')"
    using sample_wait_ready by blast
  from ready_outcome [OF w] w show ?thesis by simp
qed

text \<open>
  C27. \<open>wait_ready\<close> always returns or raises, whatever the service answers.
\<close>

theorem ready_terminates:
  assumes "steady_clock env now"
  shows "\<exists>res st'. wait_ready env timeout interval st = Some (res, st')"
  using wait_ready_ends [OF assms, of timeout interval st] by (simp add: split_paired_Ex)

theorem ready_terminates_witness:
  "\<exists>res st'. wait_ready (answering (job_json sample_job)) 30 1 fresh = Some (res, st')"
  by (rule ready_terminates) (unfold answering_def, rule served_clock)

section \<open>Event streams of a job\<close>





text \<open>
  C12. However a program consumes the events of a job, stopping where it likes: the stream is opened at
  most once, and left as often as it was opened once the generator is closed or over; what it has got are
  the first events of the stream, and asking on gives all of them, then ends as \<open>job_events\<close> does and
  leaves the stream.
\<close>

theorem stream_released:
  assumes "serve env resume raw requests (new_events st) = (got, g)"
    and "job_events env resume raw st = (all, res, st')"
  shows "entered g \<le> 1 \<and> left g \<le> entered g \<and> (stage g = Over \<longrightarrow> left g = entered g)
    \<and> (Ask_Close \<in> set requests \<longrightarrow> stage g = Over) \<and> (\<exists>more. all = got @ more)
    \<and> (\<exists>g1 g2. serve env resume raw (replicate (length all) Ask_Next) (new_events st) = (all, g1)
        \<and> next_event env resume raw g1 = Inr (res, g2) \<and> on g2 = st' \<and> stage g2 = Over)"
proof (intro conjI impI)
  from serve_balanced [OF assms(1) new_balanced] have b: "balanced g" .
  then show "entered g \<le> 1" "left g \<le> entered g" by (auto simp: balanced_def split: stage.splits)
  from b show "stage g = Over \<Longrightarrow> left g = entered g" by (simp add: balanced_stages)
  from serve_closed assms(1) show "Ask_Close \<in> set requests \<Longrightarrow> stage g = Over" by (metis snd_conv)
  from serve_prefix [OF assms(1)] assms(2) show "\<exists>more. all = got @ more" by (simp add: all_of_new_events)
  from new_events_left [OF assms(2)] serve_all next_over
  show "\<exists>g1 g2. serve env resume raw (replicate (length all) Ask_Next) (new_events st) = (all, g1)
      \<and> next_event env resume raw g1 = Inr (res, g2) \<and> on g2 = st' \<and> stage g2 = Over" by metis
qed

theorem stream_released_witness:
  "\<exists>g. serve (served (\<lambda>_. Http_Error ''down'') (event_stream [sample_stream])) None sample_job
      [Ask_Next, Ask_Close, Ask_Next] (new_events fresh) = ([sample_started], g) \<and> entered g = 1 \<and> left g = 1"
proof -
  let ?env = "served (\<lambda>_. Http_Error ''down'') (event_stream [sample_stream])"
  obtain st' where all: "job_events ?env None sample_job fresh = ([sample_started, sample_completed], Inr (), st')"
    using sample_events by blast
  then have "fst (job_events ?env None sample_job fresh) = [sample_started, sample_completed]" by simp
  from serve_first [OF this] obtain g where
    s: "serve ?env None sample_job [Ask_Next, Ask_Close, Ask_Next] (new_events fresh) = ([sample_started], g)"
    and e: "entered g = 1" by blast
  from stream_released [OF s all] s e show ?thesis by simp
qed

section \<open>Listings\<close>

text \<open>
  C30. No listing asks for the same page twice: the cursors it follows are all different, however the
  service answers.
\<close>

theorem pages_fresh:
  assumes "class_pages env q max_pages st = Some (ps, res, st')"
    and "reference_pages env r st = Some (rs, res', st'')"
  shows "fresh_cursors (map class_page_next_cursor (butlast ps))
    \<and> fresh_cursors (map reference_page_next_cursor (butlast rs))"
  using class_pages_fresh [OF assms(1)] reference_pages_fresh [OF assms(2)] by blast

theorem pages_fresh_witness:
  "fresh_cursors (map class_page_next_cursor (butlast [sample_classes, sample_classes]))"
proof -
  obtain st' where c: "class_pages (answering classes_json) sample_class_query (Some 5) fresh =
     Some ([sample_classes, sample_classes], Inl (Unexpected_Response_Error ''Server repeated a class cursor''), st')"
    using sample_class_pages by blast
  obtain rs res' st'' where r: "reference_pages (answering classes_json) sample_query fresh = Some (rs, res', st'')"
    using sample_refused by blast
  from pages_fresh [OF c r] show ?thesis by simp
qed

text \<open>
  C31. With \<open>max_pages\<close> the listing of classes always ends, after at most so many pages.
\<close>

theorem class_pages_bounded:
  assumes "0 < m"
  shows "\<exists>ps res st'. class_pages env q (Some m) st = Some (ps, res, st') \<and> length ps \<le> nat m"
  using assms by (rule class_pages_limited)

theorem class_pages_bounded_witness:
  "\<exists>ps res st'. class_pages (answering classes_json) sample_class_query (Some 1) fresh = Some (ps, res, st')
    \<and> length ps \<le> 1"
  using class_pages_bounded [of 1] by simp

text \<open>
  C32. If the service has finitely many cursors to give, the listing of references ends, and with at
  most one page for each of them and one more: a service that loops is detected, not followed.
\<close>

theorem references_terminate:
  assumes "finite C"
    and "\<forall>k st p st'. invoke env (query_references_call k) as_references st = (Inr p, st') \<longrightarrow>
      reference_page_next_cursor p = JNull \<or> (\<exists>c \<in> C. reference_page_next_cursor p = JStr c)"
  shows "\<exists>ps res st'. reference_pages env q st = Some (ps, res, st') \<and> length ps \<le> card C + 1"
  using reference_pages_end [OF assms(1), of env q st] assms(2) by fastforce

theorem references_terminate_witness:
  "\<exists>ps res st'. reference_pages (answering references_json) sample_query fresh = Some (ps, res, st')
    \<and> length ps \<le> 2"
proof -
  have "\<forall>k st p st'. invoke (answering references_json) (query_references_call k) as_references st = (Inr p, st') \<longrightarrow>
      reference_page_next_cursor p = JNull \<or> (\<exists>c \<in> {''c''}. reference_page_next_cursor p = JStr c)"
    using references_answered by (fastforce simp: sample_references_def)
  from references_terminate [OF _ this, of sample_query fresh] show ?thesis
    by (simp add: numeral_2_eq_2)
qed

text \<open>
  C33. Iterating a search yields the hits of the pages of a run that starts with the page in hand and
  follows different cursors, in order, with nothing left out or repeated between the pages.
\<close>

theorem search_hits:
  assumes "search_iter env (new_cursor q raw) st = Some (hs, res, cur', st')"
  shows "\<exists>ps. page_run (fetch_hits env (search_request_to_dict q)) (\<lambda>_. search_advance) (\<lambda>_. Some) None 0 []
      (raw, st) ps res (cursor_raw cur', st')
    \<and> hs = concat (map search_page_hits ps) \<and> fresh_cursors (map search_page_next_cursor (butlast ps))"
  using assms by (rule search_iter_hits)

theorem search_hits_witness:
  "\<exists>hs res cur' st' ps. search_iter (answering hits_json) (new_cursor first_query sample_hits) fresh = Some (hs, res, cur', st')
    \<and> hs = concat (map search_page_hits (ps :: search_page list))"
proof -
  obtain hs res cur' st' where s: "search_iter (answering hits_json) (new_cursor first_query sample_hits) fresh
      = Some (hs, res, cur', st')"
    using sample_search by blast
  from search_hits [OF s] obtain ps :: "search_page list" where "hs = concat (map search_page_hits ps)"
    by blast
  with s show ?thesis by (intro exI conjI)
qed

text \<open>
  C34. With finitely many cursors the iteration of a search ends, and the cursor cannot be iterated
  again.
\<close>

theorem search_terminates:
  assumes "finite C" "search_page_next_cursor raw = JNull \<or> (\<exists>c \<in> C. search_page_next_cursor raw = JStr c)"
    and "\<forall>r st p st'. invoke env (search_call r) as_search st = (Inr p, st') \<longrightarrow>
      search_page_next_cursor p = JNull \<or> (\<exists>c \<in> C. search_page_next_cursor p = JStr c)"
  shows "\<exists>hs res cur' st'. search_iter env (new_cursor q raw) st = Some (hs, res, cur', st')
    \<and> (\<forall>st''. search_iter env cur' st'' =
          Some ([], Inl (Py_Error (ValueErr ''Search cursor is a single-use iterator'')), cur', st''))"
proof -
  have "\<exists>hs res cur' st'. search_iter env (new_cursor q raw) st = Some (hs, res, cur', st')"
    by (rule search_iter_ends [OF assms(1)]) (use assms(2,3) in fastforce)+
  then obtain hs res cur' st' where s: "search_iter env (new_cursor q raw) st = Some (hs, res, cur', st')"
    by blast
  from search_iter_started [OF s] s show ?thesis by (auto simp: search_iter_def)
qed

theorem search_terminates_witness:
  "\<exists>hs res cur' st'. search_iter (answering hits_json) (new_cursor first_query sample_hits) fresh = Some (hs, res, cur', st')
    \<and> search_iter (answering hits_json) cur' st' =
          Some ([], Inl (Py_Error (ValueErr ''Search cursor is a single-use iterator'')), cur', st')"
proof -
  have "\<forall>r st p st'. invoke (answering hits_json) (search_call r) as_search st = (Inr p, st') \<longrightarrow>
      search_page_next_cursor p = JNull \<or> (\<exists>c \<in> {''c''}. search_page_next_cursor p = JStr c)"
    using hits_answered by (fastforce simp: sample_hits_def)
  from search_terminates [OF _ _ this, of sample_hits first_query fresh] show ?thesis
    by (auto simp: sample_hits_def)
qed

text \<open>
  C15. The generators are lazy: a program that takes elements from the asynchronous listings of classes
  and references and from the updates of a job, and stops where it likes, has asked the service at most
  once for each element it got, and what it got are the first pages of the whole listing.
\<close>

theorem generators_lazy:
  assumes "counts_requests env sent"
  shows "(takes (run_to_yield (perform env)) (async_class_pages env q m) h pages g h' \<longrightarrow>
        asked sent h' \<le> asked sent h + length pages
        \<and> (\<forall>all res st. class_pages env q m (heap_client h) = Some (all, res, st) \<longrightarrow> (\<exists>more. all = pages @ more)))
    \<and> (takes (run_to_yield (perform env)) (async_reference_pages env r) h refs g' h' \<longrightarrow>
        asked sent h' \<le> asked sent h + length refs
        \<and> (\<forall>all res st. reference_pages env r (heap_client h) = Some (all, res, st) \<longrightarrow> (\<exists>more. all = refs @ more)))
    \<and> (takes (run_to_yield (perform env)) (async_poll_updates env timeout interval a) h jobs g'' h' \<longrightarrow>
        asked sent h' \<le> asked sent h + length jobs)"
proof -
  have first: "\<exists>more. all = xs @ more"
    if "takes (run_to_yield (perform env)) t h xs t' h'" "alone (perform env) t h = listing_on loop h"
      "loop (heap_client h) = Some (all, res, st)" for t t' loop and xs all :: "'x list" and res st
    using lazily.takes_prefix [OF that(1)] that(2,3) by (auto simp: listing_on_def Some_prefixed)
  show ?thesis
    by (intro conjI impI allI) (erule classes_cost [OF assms] references_cost [OF assms] updates_cost [OF assms]
      | erule (1) first [OF _ async_class_pages_alone] first [OF _ async_reference_pages_alone])+
qed

theorem generators_lazy_witness:
  "\<exists>g h'. takes (run_to_yield (perform (answering classes_json))) (async_class_pages (answering classes_json) sample_class_query (Some 5))
      sample_heap [sample_classes, sample_classes] g h' \<and> length (script_sent (world (heap_client h'))) \<le> 2"
proof -
  let ?env = "answering classes_json"
  have counts: "counts_requests ?env (\<lambda>w. length (script_sent w))"
    by (simp add: counts_requests_def answering_def served_def)
  obtain st' where "class_pages ?env sample_class_query (Some 5) fresh =
      Some ([sample_classes, sample_classes], Inl (Unexpected_Response_Error ''Server repeated a class cursor''), st')"
    using sample_class_pages by blast
  then have "alone (perform ?env) (async_class_pages ?env sample_class_query (Some 5)) sample_heap =
      Some ([sample_classes, sample_classes], Inl (Unexpected_Response_Error ''Server repeated a class cursor''),
        put_client st' sample_heap)"
    by (simp add: async_class_pages_alone listing_on_def sample_heap_def)
  from lazily.takes_all [OF this] obtain g h' where t: "takes (run_to_yield (perform ?env))
      (async_class_pages ?env sample_class_query (Some 5)) sample_heap [sample_classes, sample_classes] g h'" by blast
  with generators_lazy [OF counts] have "asked (\<lambda>w. length (script_sent w)) h' \<le>
      asked (\<lambda>w. length (script_sent w)) sample_heap + length [sample_classes, sample_classes]" by blast
  then have "length (script_sent (world (heap_client h'))) \<le> 2"
    by (simp add: asked_def sample_heap_def fresh_def)
  with t show ?thesis by blast
qed

section \<open>Projects\<close>

text \<open>
  C35. Before anything was observed of the project, the operations that change it without leaving the
  choice to the caller are refused, with nothing sent.
\<close>

theorem preconditions_required:
  assumes "session_id (revisions st) = None" "logical_revision (revisions st) = JNull"
  shows "project_reload env discard no_preconditions st = (Inl missing_preconditions, st)
    \<and> project_update_settings env mappings no_preconditions st = (Inl missing_preconditions, st)
    \<and> project_export_mappings env file no_preconditions st = (Inl missing_preconditions, st)
    \<and> project_import_mappings env file no_preconditions st = (Inl missing_preconditions, st)
    \<and> (list_ex needs_preconditions items \<longrightarrow>
         project_apply_edits env items no_preconditions st = (Inl missing_preconditions, st))"
proof -
  have "unobserved st" using assms by (simp add: unobserved_def)
  from required_of_unobserved [OF this] expected_of_unobserved [OF this] show ?thesis
    by (simp add: project_reload_def project_update_settings_def project_export_mappings_def
        project_import_mappings_def project_apply_edits_def sbind_def)
qed

theorem preconditions_required_witness:
  "project_reload (answering project_json) True no_preconditions fresh = (Inl missing_preconditions, fresh)"
  using preconditions_required [of fresh] by (simp add: fresh_def new_cache_def)

text \<open>
  C36. After a first snapshot, the operations send the session and the logical revision the snapshot
  reported: the client reads, remembers and sends back the same state of the project.
\<close>

theorem snapshot_preconditions:
  assumes "revisions st = new_cache" "project_snapshot env st = (Inr x, st')"
    and "revision_set_session_id (fixed_project_revisions x) = JStr s"
    and "revision_set_logical_revision (fixed_project_revisions x) = JInt n"
    and "uuid_of_str s = Inr u"
  shows "project_reload env discard no_preconditions st' = invoke env (reload_project_call
      \<lparr>reload_project_request_discard_unsaved = JBool discard, reload_project_request_expected_session_id = u,
       reload_project_request_expected_logical_revision = JInt n, reload_project_request_extra = []\<rparr>) as_project st'
    \<and> project_apply_edits env items no_preconditions st' = invoke env (apply_edit_batch_call
      \<lparr>edit_batch_request_items = items, edit_batch_request_expected_session_id = Given u,
       edit_batch_request_expected_logical_revision = Given (JInt n)\<rparr>) as_edits st'"
proof -
  from snapshot_observed [OF assms(1-4)]
  have o: "session_id (revisions st') = Some s" "logical_revision (revisions st') = JInt n" by auto
  from required_of_observed [OF o assms(5)] expected_of_observed [OF o assms(5)] show ?thesis
    by (simp add: project_reload_def project_apply_edits_def sbind_def)
qed

theorem snapshot_preconditions_witness:
  "\<exists>st'. project_snapshot (answering project_json) fresh = (Inr sample_project, st')
    \<and> project_reload (answering project_json) True no_preconditions st' =
        invoke (answering project_json) (reload_project_call
          \<lparr>reload_project_request_discard_unsaved = JBool True, reload_project_request_expected_session_id = 1,
           reload_project_request_expected_logical_revision = JInt 3, reload_project_request_extra = []\<rparr>) as_project st'"
proof -
  obtain st' where s: "project_snapshot (answering project_json) fresh = (Inr sample_project, st')"
    using sample_snapshot by blast
  from snapshot_preconditions [OF _ s _ _ sample_uuid, of 3 True "[]"] s show ?thesis
    by (auto simp: sample_project_def fresh_def)
qed

text \<open>
  C37. An edit that reaches beyond its target is never sent unguarded: a propagated rename of anything
  but a method is refused, and a propagated rename or a parameter rename without a session and a
  revision raises and changes nothing.
\<close>

theorem guarded_edits:
  "(symbol_ref_kind (reference t) \<noteq> SymbolRefKind_METHOD \<longrightarrow>
      (\<exists>m. project_rename env t name True options st = (Inl (Py_Error (ValueErr m)), st)))
   \<and> ((\<nexists>s r. expected_of options True st = (Inr (Given s, Given r), st)) \<longrightarrow>
      (\<exists>e. project_rename env t name True options st = (Inl (Py_Error e), st))
      \<and> (\<exists>e. project_rename_parameter env ref i name snapshot options st = (Inl (Py_Error e), st)))"
proof (intro conjI impI)
  assume none: "\<nexists>s r. expected_of options True st = (Inr (Given s, Given r), st)"
  have edits: "\<exists>e. project_apply_edits env items options st = (Inl (Py_Error e), st)"
    if "list_ex needs_preconditions items" for items
    using apply_edits_preconditions [OF that _ none, of env]
    by (cases "project_apply_edits env items options st") auto
  show "\<exists>e. project_rename env t name True options st = (Inl (Py_Error e), st)"
    using edits by (simp add: project_rename_def Let_def sdk_simps)
  show "\<exists>e. project_rename_parameter env ref i name snapshot options st = (Inl (Py_Error e), st)"
    using edits by (cases "method_symbol_ref_from_dict (JObj (symbol_ref_to_dict ref))")
      (simp_all add: project_rename_parameter_def sdk_simps sbind_def)
qed (simp add: project_rename_def Let_def sdk_simps)

theorem guarded_edits_witness:
  "\<exists>e. project_rename (answering project_json) (Wire_Ref sample_ref) ''n'' True no_preconditions fresh
    = (Inl (Py_Error e), fresh)"
proof -
  have "\<nexists>s r. expected_of no_preconditions True fresh = (Inr (Given s, Given r), fresh)"
    by (simp add: expected_of_unobserved unobserved_def fresh_def new_cache_def)
  then show ?thesis
    using guarded_edits [of "Wire_Ref sample_ref" "answering project_json" "''n''" no_preconditions fresh] by blast
qed

text \<open>
  C38. \<open>resolve_object\<close> gives a handle only for a resolution that succeeded: it is of the class the
  asked reference is of, and it refers to the symbol the service found.
\<close>

theorem resolve_handles:
  assumes "project_resolve_object env ref st = (Inr (Resolved h), st')"
  shows "handle_class h = kind_class (symbol_ref_kind ref)
    \<and> (\<exists>r s. project_resolve env ref st = (Inr r, st')
        \<and> symbol_resolution_outcome r = SymbolResolutionOutcome_RESOLVED
        \<and> symbol_resolution_symbol r = Given (Typed s) \<and> handle_ref h = symbol_info_ref s)"
proof -
  from assms obtain r where r: "project_resolve env ref st = (Inr r, st')" "resolved_of ref r = Inr (Resolved h)"
    by (auto simp: project_resolve_object_def sbind_def split: prod.splits sum.splits)
  from resolved_handle [OF r(2)] r(1) show ?thesis by blast
qed

theorem resolve_handles_witness:
  "handle_class (new_handle Java_Method (Symbol_Raw sample_symbol)) = kind_class (symbol_ref_kind sample_ref)"
proof -
  obtain st' where "project_resolve_object (answering resolution_json) sample_ref fresh =
     (Inr (Resolved (new_handle Java_Method (Symbol_Raw sample_symbol))), st')"
    using sample_resolve by blast
  from resolve_handles [OF this] show ?thesis by blast
qed

section \<open>The asynchronous client\<close>

text \<open>
  C39. With no other task, every operation of the asynchronous client, its project, jobs and cursors
  is the synchronous one: it sends the same requests in the same order, yields, returns or raises
  the same, leaves the client and the handle the same, and runs on forever when the other does. The
  same holds for every operation of the generated package.
\<close>

theorem async_equals_sync:
  "runs_as env (async_liveness env) (client_liveness env) \<and> runs_as env (async_status env) (client_status env)
    \<and> runs_as env (async_capabilities env) (client_capabilities env)
    \<and> runs_as env (async_shutdown env policy) (client_shutdown env policy)
    \<and> runs_as env async_enter client_enter \<and> runs_as env async_exit (client_exit env)
    \<and> alone (perform env) (async_job env jid) h = Some ([], placed new_job (client_job env jid (heap_client h)) h)
    \<and> alone (perform env) (async_wait_ready env limit interval) h = client_loop (wait_ready env limit interval) h
    \<and> runs_as env (async_snapshot env) (project_snapshot env) \<and> runs_as env (async_settings env) (project_settings_of env)
    \<and> runs_as env (async_pending_edits env) (project_pending_edits env)
    \<and> runs_as env (async_save env path options) (project_save env path options)
    \<and> runs_as env (async_reload env discard options) (project_reload env discard options)
    \<and> runs_as env (async_update_settings env mappings options) (project_update_settings env mappings options)
    \<and> runs_as env (async_export_mappings env file options) (project_export_mappings env file options)
    \<and> runs_as env (async_import_mappings env file options) (project_import_mappings env file options)
    \<and> runs_as env (async_apply_edits env items options) (project_apply_edits env items options)
    \<and> runs_as env (async_rename env t name related options) (project_rename env t name related options)
    \<and> runs_as env (async_set_comment env t txt options) (project_set_comment env t txt options)
    \<and> runs_as env (async_rename_parameter env ref i name snapshot options)
        (project_rename_parameter env ref i name snapshot options)
    \<and> runs_as env (async_resolve_object env ref) (project_resolve_object env ref)
    \<and> runs_as env (async_decompile env t kind strict mode an dl) (project_decompile env t kind strict mode an dl)
    \<and> runs_as env (async_control_flow env t strict options) (project_control_flow env t strict options)
    \<and> runs_as env (async_references env t ro) (project_references env t ro)
    \<and> alone (perform env) (async_search env query so) h =
        Some ([], placed put_found (project_search env query so (heap_client h)) h)
    \<and> alone (perform env) (async_build_search_index env request) h =
        Some ([], placed put_index (project_build_search_index env request (heap_client h)) h)
    \<and> alone (perform env) (async_class_pages env cq m) h = listing_on (class_pages env cq m) h
    \<and> alone (perform env) (async_classes env cq m) h = listing_on (project_classes env cq m) h
    \<and> alone (perform env) (async_reference_pages env rq) h = listing_on (reference_pages env rq) h
    \<and> alone (perform env) (async_search_iter env a) h = search_on (search_iter env) a h
    \<and> (case job_refresh env (heap_jobs h a) (heap_client h) of (res, raw, st) \<Rightarrow>
         alone (perform env) (async_refresh env a) h = Some ([], res, put_job a raw (put_client st h)))
    \<and> (case job_cancel env (heap_jobs h a) (heap_client h) of (res, raw, st) \<Rightarrow>
         alone (perform env) (async_cancel env a) h = Some ([], res, put_job a raw (put_client st h)))
    \<and> alone (perform env) (async_wait env timeout interval a) h = job_loop (job_wait env timeout interval) a h
    \<and> alone (perform env) (async_poll_updates env timeout interval a) h
        = poll_loop_on (poll_updates env timeout interval) a h
    \<and> alone (perform env) (async_events env resume a) h =
        (case job_events env resume (heap_jobs h a) (heap_client h) of (es, res, st) \<Rightarrow> Some (es, res, put_client st h))
    \<and> plain_twin env (asyncio_detailed c) (sync_detailed env c)
    \<and> plain_twin env (asyncio_parsed (asyncio_detailed c)) (sync_parsed env c)
    \<and> plain_twin env (get_job_events_asyncio jid' last_event_id) (get_job_events_sync env jid' last_event_id)"
  by (intro conjI detailed_twin parsed_twin events_twin client_twins client_exit_twins project_twins async_job_alone async_wait_ready_alone
      async_search_alone async_build_search_index_alone async_class_pages_alone async_classes_alone
      async_reference_pages_alone async_search_iter_alone async_wait_alone async_poll_alone async_events_alone)
    (auto intro: alone_refresh alone_cancel split: prod.split)

text \<open>
  C40. However the tasks of an event loop that share a client are interleaved, and wherever they are
  cancelled: the current session is never a retired one, within a session no revision decreases, a
  session that was left stays retired, and once the client is closed no task starts a request.
\<close>

theorem interleaving_safe:
  assumes "pool_run (map (run_program env) programs) h0 qs0 ts h" "pool_run ts h qs ts' h'"
    and "cache_current (revisions (heap_client h0))"
  shows "cache_current (revisions (heap_client h'))
    \<and> cache_ahead (revisions (heap_client h)) (revisions (heap_client h'))
    \<and> (closed (heap_client h) \<longrightarrow> closed (heap_client h') \<and> \<not> list_ex sends qs)"
proof -
  from order.run [OF assms(1) programs_waiting]
  have ts: "list_all waiting_orderly ts" and "moves_orderly h0 qs0 h" by auto
  with assms(3) have "cache_current (revisions (heap_client h))"
    by (simp add: moves_orderly_def client_forward_def goes_forward_def)
  moreover from order.run [OF assms(2) ts] have "moves_orderly h qs h'" by simp
  ultimately show ?thesis by (auto simp: moves_orderly_def client_forward_def goes_forward_def)
qed

theorem interleaving_safe_witness:
  "\<exists>qs ts h. pool_run sample_tasks sample_heap qs ts h \<and> closed (heap_client h)
    \<and> (\<forall>qs' ts' h'. pool_run ts h qs' ts' h' \<longrightarrow> \<not> list_ex sends qs')"
proof -
  obtain qs ts where run: "pool_run sample_tasks sample_heap qs ts closed_heap"
    using sample_schedule by blast
  have "cache_current (revisions (heap_client sample_heap))"
    by (simp add: sample_heap_def fresh_def new_cache_def cache_current_def)
  from interleaving_safe [OF run _ this]
  have "\<forall>qs' ts' h'. pool_run ts closed_heap qs' ts' h' \<longrightarrow> \<not> list_ex sends qs'"
    by (simp add: closed_heap_def)
  with run show ?thesis by (intro exI [of _ qs] exI [of _ ts] exI [of _ closed_heap]) (simp add: closed_heap_def)
qed



section \<open>The low-level client\<close>



end
